(* ===== verification/Prelude.thy ===== *)
theory Prelude
  imports Main "HOL-Library.Word" "HOL-Library.Multiset"
begin

text \<open>
  Shared vocabulary of the development: the machine integer types of the code, the
  little-endian view of memory that the packed structs and the ciphers use, the shift
  instructions of the target, a block-wise loop over a byte buffer, and the list lemmas
  that several components need.
\<close>

unbundle bit_operations_syntax

section \<open>Machine integers and bytes\<close>

type_synonym u8 = "8 word"
type_synonym u16 = "16 word"
type_synonym u32 = "32 word"
type_synonym u64 = "64 word"

type_synonym bytes = "u8 list"

text \<open>The bytes of a string literal.\<close>

definition ascii :: "string \<Rightarrow> bytes" where
  "ascii str = map (\<lambda>ch. of_nat (of_char ch)) str"

text \<open>A number in decimal.\<close>

fun digits :: "nat \<Rightarrow> bytes" where
  "digits n = (if n < 10 then [] else digits (n div 10)) @ [of_nat (48 + n mod 10)]"

declare digits.simps [simp del]

text \<open>
  A read past the end of an object is undefined behaviour in the code; the model returns
  it as an error value, so that no theorem can rest on what such a read yields.
\<close>

datatype mem_error = OutOfBounds

text \<open>
  The collection \<open>codec\<close> holds the round trips of encoders and decoders.
\<close>

named_theorems codec

text \<open>The collection \<open>inv_intros\<close> holds the preservation lemmas of the invariants.\<close>

named_theorems inv_intros

subsection \<open>Shift instructions\<close>

text \<open>
  A shift of a 32-bit operand. The count is taken modulo 32, as the shift instructions of
  the x86-64 target do; in C++ a count of 32 is undefined.
\<close>

definition shl32 :: "u32 \<Rightarrow> nat \<Rightarrow> u32" where
  "shl32 x n = push_bit (n mod 32) x"

definition shr32 :: "u32 \<Rightarrow> nat \<Rightarrow> u32" where
  "shr32 x n = drop_bit (n mod 32) x"

subsection \<open>Little-endian loads and stores\<close>

primrec le_load :: "bytes \<Rightarrow> 'a::len word" where
  "le_load [] = 0"
| "le_load (b # bs) = ucast b OR push_bit 8 (le_load bs)"

primrec le_store :: "nat \<Rightarrow> 'a::len word \<Rightarrow> bytes" where
  "le_store 0 w = []"
| "le_store (Suc n) w = ucast w # le_store n (drop_bit 8 w)"

lemma length_le_store [simp]: "length (le_store n w) = n"
  by (induction n arbitrary: w) auto

lemma bit_le_load:
  "bit (le_load bs :: 'a::len word) i \<longleftrightarrow>
     i < LENGTH('a) \<and> i div 8 < length bs \<and> bit (bs ! (i div 8)) (i mod 8)"
proof (induction bs arbitrary: i)
  case Nil
  then show ?case by simp
next
  case (Cons b bs)
  show ?case
  proof (cases "i < 8")
    case True
    then show ?thesis
      by (auto simp: bit_or_iff bit_unsigned_iff bit_push_bit_iff dest: bit_imp_le_length)
  next
    case False
    then have "i div 8 = Suc ((i - 8) div 8)" "i mod 8 = (i - 8) mod 8"
      by (simp_all add: le_div_geq le_mod_geq)
    moreover have "\<not> bit b i"
      using False bit_imp_le_length [of b i] by auto
    ultimately show ?thesis
      using False Cons.IH [of "i - 8"]
      by (auto simp: bit_or_iff bit_unsigned_iff bit_push_bit_iff dest: bit_imp_le_length)
  qed
qed

lemma nth_le_store:
  "k < n \<Longrightarrow> le_store n w ! k = ucast (drop_bit (8 * k) w)"
proof (induction n arbitrary: w k)
  case 0
  then show ?case by simp
next
  case (Suc n)
  then show ?case
    by (cases k) (simp_all add: drop_bit_drop_bit add.commute)
qed

lemma le_load_store [codec, simp]:
  assumes "LENGTH('a) \<le> 8 * n"
  shows "le_load (le_store n w) = (w :: 'a::len word)"
proof (rule bit_word_eqI)
  fix i assume i: "i < LENGTH('a)"
  with assms have "i < n * 8" by simp
  then have "i div 8 < n" by (rule less_mult_imp_div_less)
  with i show "bit (le_load (le_store n w) :: 'a word) i = bit w i"
    by (simp add: bit_le_load nth_le_store bit_unsigned_iff bit_drop_bit_eq)
qed

lemma le_store_load [codec, simp]:
  assumes "length bs = n" and "8 * n \<le> LENGTH('a)"
  shows "le_store n (le_load bs :: 'a::len word) = bs"
proof (rule nth_equalityI)
  show "length (le_store n (le_load bs :: 'a word)) = length bs" using assms by simp
next
  fix k assume "k < length (le_store n (le_load bs :: 'a word))"
  then have k: "k < n" by simp
  show "le_store n (le_load bs :: 'a word) ! k = bs ! k"
  proof (rule bit_word_eqI)
    fix j assume j: "j < LENGTH(8)"
    have "8 * k + j < LENGTH('a)" "(8 * k + j) div 8 = k" "(8 * k + j) mod 8 = j"
      using k j assms by simp_all
    then show "bit (le_store n (le_load bs :: 'a word) ! k) j = bit (bs ! k) j"
      using k j assms
      by (simp add: nth_le_store bit_unsigned_iff bit_drop_bit_eq bit_le_load)
  qed
qed

section \<open>A loop over the blocks of a buffer\<close>

text \<open>
  The ciphers walk over a buffer in blocks of \<open>n\<close> bytes and leave what is shorter than a
  block to another routine: \<open>for (j = size / n; j > 0; j--) \<dots>; tail(size % n)\<close>.
\<close>

function blockwise :: "nat \<Rightarrow> (bytes \<Rightarrow> bytes) \<Rightarrow> (bytes \<Rightarrow> bytes) \<Rightarrow> bytes \<Rightarrow> bytes" where
  "blockwise n f g bs =
     (if 0 < n \<and> n \<le> length bs then f (take n bs) @ blockwise n f g (drop n bs) else g bs)"
  by pat_completeness auto
termination
  by (relation "measure (\<lambda>(n, f, g, bs). length bs)") auto

declare blockwise.simps [simp del]

lemma length_blockwise:
  assumes "\<And>xs. length xs = n \<Longrightarrow> length (f xs) = n" and "\<And>xs. length (g xs) = length xs"
  shows "length (blockwise n f g bs) = length bs"
  using assms
proof (induction n f g bs rule: blockwise.induct)
  case (1 n f g bs)
  then show ?case by (subst blockwise.simps) auto
qed

text \<open>
  If the block function and the tail function have left inverses, so has the loop: the
  block boundaries of the output are those of the input.
\<close>

lemma blockwise_inverse [codec]:
  assumes "\<And>xs. length xs = n \<Longrightarrow> length (f xs) = n"
    and "\<And>xs. length (g xs) = length xs"
    and "\<And>xs. length xs = n \<Longrightarrow> f' (f xs) = xs"
    and "\<And>xs. length xs < n \<Longrightarrow> g' (g xs) = xs" and "0 < n"
  shows "blockwise n f' g' (blockwise n f g bs) = bs"
  using assms
proof (induction n f g bs rule: blockwise.induct)
  case (1 n f g bs)
  show ?case
  proof (cases "n \<le> length bs")
    case True
    with 1 have "blockwise n f g bs = f (take n bs) @ blockwise n f g (drop n bs)"
      by (subst blockwise.simps) simp
    moreover have "blockwise n f' g' (blockwise n f g (drop n bs)) = drop n bs"
      using 1 True by blast
    ultimately show ?thesis
      using 1 True by (subst blockwise.simps) simp
  next
    case False
    with "1.prems" have "blockwise n f g bs = g bs"
      by (subst blockwise.simps) simp
    with False "1.prems" show ?thesis
      by (subst blockwise.simps) simp
  qed
qed

section \<open>Lists\<close>

text \<open>\<open>std::find_if\<close> as the index of the first match; \<open>None\<close> is the end iterator.\<close>

primrec find_index :: "('a \<Rightarrow> bool) \<Rightarrow> 'a list \<Rightarrow> nat option" where
  "find_index P [] = None"
| "find_index P (x # xs) = (if P x then Some 0 else map_option Suc (find_index P xs))"

lemma find_index_Some:
  "find_index P xs = Some i \<Longrightarrow> i < length xs \<and> P (xs ! i) \<and> (\<forall>j < i. \<not> P (xs ! j))"
proof (induction xs arbitrary: i)
  case Nil
  then show ?case by simp
next
  case (Cons x xs)
  then show ?case
    by (auto split: if_splits simp: less_Suc_eq_0_disj)
qed

lemma find_index_None: "find_index P xs = None \<longleftrightarrow> (\<forall>x \<in> set xs. \<not> P x)"
  by (induction xs) auto

text \<open>\<open>vector::erase\<close> of one position.\<close>

definition erase_at :: "nat \<Rightarrow> 'a list \<Rightarrow> 'a list" where
  "erase_at i xs = take i xs @ drop (Suc i) xs"

lemma length_erase_at [simp]: "i < length xs \<Longrightarrow> length (erase_at i xs) = length xs - 1"
  by (auto simp: erase_at_def)

lemma set_erase_at_subset: "set (erase_at i xs) \<subseteq> set xs"
  by (auto simp: erase_at_def dest: in_set_takeD in_set_dropD)

lemma mset_erase_at: "i < length xs \<Longrightarrow> mset xs = add_mset (xs ! i) (mset (erase_at i xs))"
  using id_take_nth_drop [of i xs] by (simp add: erase_at_def) (metis mset.simps(2) mset_append union_mset_add_mset_right)

text \<open>\<open>std::swap\<close> of two positions.\<close>

definition swap_at :: "nat \<Rightarrow> nat \<Rightarrow> 'a list \<Rightarrow> 'a list" where
  "swap_at i j xs = xs[i := xs ! j, j := xs ! i]"

lemma length_swap_at [simp]: "length (swap_at i j xs) = length xs"
  by (simp add: swap_at_def)

lemma mset_swap_at: "i < length xs \<Longrightarrow> j < length xs \<Longrightarrow> mset (swap_at i j xs) = mset xs"
  by (simp add: swap_at_def mset_swap)

text \<open>A loop run backwards with inverse bodies undoes the loop.\<close>

lemma fold_inverse:
  assumes "\<And>x s. x \<in> set xs \<Longrightarrow> g x (f x s) = s"
  shows "fold g (rev xs) (fold f xs s) = s"
  using assms by (induction xs arbitrary: s) auto

section \<open>Lists sent in pieces\<close>

text \<open>Pieces of \<open>k + 1\<close> elements, the last one with what is left.\<close>

fun pieces :: "nat \<Rightarrow> 'a list \<Rightarrow> 'a list list" where
  "pieces k [] = []"
| "pieces k (x # xs) = (x # take k xs) # pieces k (drop k xs)"

lemma concat_pieces: "concat (pieces k xs) = xs"
  by (induction k xs rule: pieces.induct) simp_all

lemma pieces_length: "p \<in> set (pieces k xs) \<Longrightarrow> 0 < length p \<and> length p \<le> k + 1"
  by (induction k xs rule: pieces.induct) auto

section \<open>Steps that may fail\<close>

primrec and_then :: "'e + 'a \<Rightarrow> ('a \<Rightarrow> 'e + 'b) \<Rightarrow> 'e + 'b" where
  "and_then (Inl e) f = Inl e"
| "and_then (Inr x) f = f x"

primrec for_each :: "('a \<Rightarrow> 's \<Rightarrow> 'e + 's) \<Rightarrow> 'a list \<Rightarrow> 's \<Rightarrow> 'e + 's" where
  "for_each f [] s = Inr s"
| "for_each f (x # xs) s = and_then (f x s) (for_each f xs)"

lemma and_then_Inr: "and_then x f = Inr y \<longleftrightarrow> (\<exists>z. x = Inr z \<and> f z = Inr y)"
  by (cases x) auto

end
