(* ===== verification/Crypt.thy ===== *)
theory Crypt
  imports Prelude
begin

text \<open>
  The ciphers of \<open>Common/src/Cryptography/Crypt.cpp\<close> and the rotation macros of
  \<open>Common/include/Cryptography/Crypt.h\<close>: the RC5 and RC6 key schedules, the RC5 block
  routines on 32-bit and 64-bit blocks and the RC6 routine on 128-bit blocks, each of
  which hands the bytes that do not fill a block to the next smaller one. A buffer is a
  byte list; the routines are called in place or with disjoint buffers, and in both cases
  the destination is a function of the source bytes.
\<close>

section \<open>Rotations\<close>

text \<open>
  The macros with the promotions written out: a 16-bit operand is shifted as a 32-bit
  integer and the result truncated.
\<close>

definition ROTL16 :: "u16 \<Rightarrow> u16 \<Rightarrow> u16" where
  "ROTL16 x y = ucast (shl32 (ucast x) (unat (y AND 15)) OR shr32 (ucast x) (16 - unat (y AND 15)))"

definition ROTR16 :: "u16 \<Rightarrow> u16 \<Rightarrow> u16" where
  "ROTR16 x y = ucast (shr32 (ucast x) (unat (y AND 15)) OR shl32 (ucast x) (16 - unat (y AND 15)))"

definition ROTL32 :: "u32 \<Rightarrow> u32 \<Rightarrow> u32" where
  "ROTL32 x y = shl32 x (unat (y AND 31)) OR shr32 x (32 - unat (y AND 31))"

definition ROTR32 :: "u32 \<Rightarrow> u32 \<Rightarrow> u32" where
  "ROTR32 x y = shr32 x (unat (y AND 31)) OR shl32 x (32 - unat (y AND 31))"

lemma unat_and_15: "unat (y AND 15 :: u16) < 16"
proof -
  have "y AND 15 = take_bit 4 y" by (simp add: take_bit_eq_mask mask_numeral)
  then show ?thesis by (simp add: unsigned_take_bit_eq take_bit_nat_less_exp [of 4, simplified])
qed

lemma unat_and_31: "unat (y AND 31 :: u32) < 32"
proof -
  have "y AND 31 = take_bit 5 y" by (simp add: take_bit_eq_mask mask_numeral)
  then show ?thesis by (simp add: unsigned_take_bit_eq take_bit_nat_less_exp [of 5, simplified])
qed

lemma word_rot_zero [simp]: "word_rotr 0 x = x" "word_rotl 0 x = x"
  by (rule bit_word_eqI, simp add: bit_word_rotr_iff bit_word_rotl_iff)+

lemma rotl_as_shifts:
  fixes x :: "'a::len word"
  assumes "n < LENGTH('a)"
  shows "push_bit n x OR drop_bit (LENGTH('a) - n) x = word_rotl n x"
proof (rule bit_word_eqI)
  fix i assume i: "i < LENGTH('a)"
  show "bit (push_bit n x OR drop_bit (LENGTH('a) - n) x) i = bit (word_rotl n x) i"
  proof (cases "i < n")
    case True
    then have "(i + (LENGTH('a) - n mod LENGTH('a))) mod LENGTH('a) = LENGTH('a) - n + i"
      using i assms by simp
    with True i assms show ?thesis
      by (simp add: bit_or_iff bit_push_bit_iff bit_drop_bit_eq bit_word_rotl_iff)
  next
    case False
    then have "(i + (LENGTH('a) - n mod LENGTH('a))) mod LENGTH('a) = i - n"
      using i assms by (simp add: mod_if)
    moreover have "\<not> bit x (LENGTH('a) - n + i)"
      using False assms bit_imp_le_length by force
    ultimately show ?thesis
      using False i assms
      by (simp add: bit_or_iff bit_push_bit_iff bit_drop_bit_eq bit_word_rotl_iff)
  qed
qed

lemma rotr_as_shifts:
  fixes x :: "'a::len word"
  assumes "n < LENGTH('a)"
  shows "drop_bit n x OR push_bit (LENGTH('a) - n) x = word_rotr n x"
proof (cases "n = 0")
  case False
  then have "push_bit (LENGTH('a) - n) x OR drop_bit n x = word_rotl (LENGTH('a) - n) x"
    using rotl_as_shifts [of "LENGTH('a) - n" x] assms by simp
  also have "\<dots> = word_rotr n x"
    using False assms by (simp add: word_rotl_eq_word_rotr)
  finally show ?thesis by (simp add: or.commute)
qed (use assms in simp)

lemma ucast_shl32: "n < 32 \<Longrightarrow> ucast (shl32 (ucast (x :: u16)) n) = push_bit n x"
  by (rule bit_word_eqI) (auto simp: shl32_def bit_unsigned_iff bit_push_bit_iff dest: bit_imp_le_length)

lemma ucast_shr32: "n < 32 \<Longrightarrow> ucast (shr32 (ucast (x :: u16)) n) = drop_bit n x"
  by (rule bit_word_eqI) (auto simp: shr32_def bit_unsigned_iff bit_drop_bit_eq dest: bit_imp_le_length)

lemma ucast_or: "ucast (x OR y) = ucast x OR (ucast y :: 'a::len word)"
  by (rule bit_word_eqI) (simp add: bit_unsigned_iff bit_or_iff)

lemma ucast_xor: "ucast (x XOR y) = ucast x XOR (ucast y :: 'a::len word)"
  by (rule bit_word_eqI) (simp add: bit_unsigned_iff bit_xor_iff)

lemma ROTL16_word_rotl: "ROTL16 x y = word_rotl (unat (y AND 15)) x"
  using unat_and_15 [of y] rotl_as_shifts [of "unat (y AND 15)" x]
  by (simp add: ROTL16_def ucast_or ucast_shl32 ucast_shr32)

lemma ROTR16_word_rotr: "ROTR16 x y = word_rotr (unat (y AND 15)) x"
  using unat_and_15 [of y] rotr_as_shifts [of "unat (y AND 15)" x]
  by (simp add: ROTR16_def ucast_or ucast_shl32 ucast_shr32)

text \<open>A count of 0 makes the other shift a shift by 32, which the target's mask turns into 0.\<close>

lemma ROTL32_word_rotl: "ROTL32 x y = word_rotl (unat (y AND 31)) x"
proof (cases "unat (y AND 31) = 0")
  case True
  then show ?thesis by (simp add: ROTL32_def shl32_def shr32_def)
next
  case False
  then show ?thesis
    using unat_and_31 [of y] rotl_as_shifts [of "unat (y AND 31)" x]
    by (simp add: ROTL32_def shl32_def shr32_def)
qed

lemma ROTR32_word_rotr: "ROTR32 x y = word_rotr (unat (y AND 31)) x"
proof (cases "unat (y AND 31) = 0")
  case True
  then show ?thesis by (simp add: ROTR32_def shl32_def shr32_def)
next
  case False
  then show ?thesis
    using unat_and_31 [of y] rotr_as_shifts [of "unat (y AND 31)" x]
    by (simp add: ROTR32_def shl32_def shr32_def)
qed

lemma ROTR16_ROTL16 [codec, simp]: "ROTR16 (ROTL16 x y) y = x"
  by (simp add: ROTL16_word_rotl ROTR16_word_rotr)

lemma ROTL16_ROTR16 [codec, simp]: "ROTL16 (ROTR16 x y) y = x"
  by (simp add: ROTL16_word_rotl ROTR16_word_rotr)

lemma ROTR32_ROTL32 [codec, simp]: "ROTR32 (ROTL32 x y) y = x"
  by (simp add: ROTL32_word_rotl ROTR32_word_rotr)

lemma ROTL32_ROTR32 [codec, simp]: "ROTL32 (ROTR32 x y) y = x"
  by (simp add: ROTL32_word_rotl ROTR32_word_rotr)

section \<open>The state of a cipher object\<close>

record crypt =
  RC5S :: "u32 list"
  RC6S :: "u32 list"
  UserKey :: u32
  isUsed :: bool

text \<open>\<open>Crypt() = default\<close> leaves the round key arrays as they are in memory.\<close>

definition Crypt_new :: "u32 list \<Rightarrow> u32 list \<Rightarrow> crypt" where
  "Crypt_new r5 r6 = \<lparr>RC5S = r5, RC6S = r6, UserKey = 0, isUsed = True\<rparr>"

definition crypt_wf :: "crypt \<Rightarrow> bool" where
  "crypt_wf c \<longleftrightarrow> length (RC5S c) = 26 \<and> length (RC6S c) = 84"

definition KEY16 :: "u8 list" where
  "KEY16 = [0x3d, 0x63, 0xc5, 0xa3, 0x6d, 0x9a, 0xdb, 0xa5, 0xd1, 0xb2, 0x7a, 0x17, 0xb6, 0x56, 0x2c, 0xba]"

definition KEY32 :: "u8 list" where
  "KEY32 = [0x76, 0xb7, 0x4b, 0x98, 0x4c, 0x5b, 0xd5, 0xe3, 0xc1, 0x92, 0x33, 0x6a, 0x7b, 0xe6, 0xcc, 0xeb,
            0x17, 0x9a, 0x77, 0xbc, 0x31, 0x5d, 0xe7, 0x39, 0xa9, 0x32, 0x54, 0x88, 0x66, 0xd3, 0xce, 0x43]"

section \<open>Key schedules\<close>

text \<open>
  The four bytes of the user key as \<open>char\<close>, which is signed on the target: adding one to
  a 32-bit word sign-extends it.
\<close>

definition UserKeyBytes :: "u32 \<Rightarrow> u8 list" where
  "UserKeyBytes k = [ucast (k AND 0xFF), ucast (drop_bit 8 k AND 0xFF),
                     ucast (drop_bit 16 k AND 0xFF), ucast (drop_bit 24 k AND 0xFF)]"

text \<open>
  The loop \<open>for (i = n - 1; i >= 0; i--)\<close> that folds the master key \<open>K\<close> and the user
  key into \<open>L\<close>; \<open>l\<close> walks through the user key bytes.
\<close>

definition key_bytes_step :: "u8 list \<Rightarrow> u8 list \<Rightarrow> nat \<Rightarrow> u32 list \<times> nat \<Rightarrow> u32 list \<times> nat" where
  "key_bytes_step K ukb i = (\<lambda>(L, l).
     (L[i div 4 := shl32 (L ! (i div 4)) 8 + ucast (K ! i) + scast (ukb ! l)],
      if l + 1 > 3 then 0 else l + 1))"

definition key_bytes :: "u8 list \<Rightarrow> u8 list \<Rightarrow> u32 list \<Rightarrow> u32 list" where
  "key_bytes K ukb L = fst (fold (key_bytes_step K ukb) (rev [0..<length K]) (L, 0))"

text \<open>The arithmetic progression that initialises the round keys.\<close>

definition round_keys_init :: "nat \<Rightarrow> u32 \<Rightarrow> u32 \<Rightarrow> u32 list \<Rightarrow> u32 list" where
  "round_keys_init n p q S = fold (\<lambda>i S. S[i := S ! (i - 1) + q]) [1..<n] (S[0 := p])"

text \<open>
  The mixing loop: \<open>A\<close>, \<open>B\<close>, the indices into \<open>S\<close> and \<open>L\<close>, and the two arrays.
  \<open>step\<close> is what the code adds to \<open>i\<close> in each round (26 / 2 for RC5, 1 for RC6).
\<close>

type_synonym mix_state = "u32 \<times> u32 \<times> nat \<times> nat \<times> u32 list \<times> u32 list"

definition mix_step :: "nat \<Rightarrow> nat \<Rightarrow> nat \<Rightarrow> nat \<Rightarrow> mix_state \<Rightarrow> mix_state" where
  "mix_step n step m k = (\<lambda>(A, B, i, j, S, L).
     let A' = ROTL32 (S ! i + (A + B)) 3;
         B' = ROTL32 (L ! j + (A' + B)) (A' + B)
     in (A', B', (i + step) mod n, (j + 1) mod m, S[i := A'], L[j := B']))"

definition mix_keys :: "nat \<Rightarrow> nat \<Rightarrow> nat \<Rightarrow> u32 list \<Rightarrow> u32 list \<Rightarrow> u32 list" where
  "mix_keys n step m S L =
     (case fold (mix_step n step m) [0..<n * 3] (0, 0, 0, 0, S, L) of
        (A, B, i, j, S', L') \<Rightarrow> S')"

text \<open>
  \<open>L\<close> is a local array of which only the last element is initialised; its other elements
  are a parameter of the schedule.
\<close>

definition RC5KeySetup_from :: "u32 list \<Rightarrow> crypt \<Rightarrow> crypt" where
  "RC5KeySetup_from L c =
     (let L' = key_bytes KEY16 (UserKeyBytes (UserKey c)) (L[3 := 0]);
          S = round_keys_init 26 0x5163 0x79b9 (RC5S c)
      in c\<lparr>RC5S := mix_keys 26 (26 div 2) 4 S L'\<rparr>)"

definition RC6KeySetup_from :: "u32 list \<Rightarrow> crypt \<Rightarrow> crypt" where
  "RC6KeySetup_from L c =
     (let L' = key_bytes KEY32 (UserKeyBytes (UserKey c)) (L[7 := 0]);
          S = round_keys_init 84 0xb7e15163 0x9e3779b9 (RC6S c)
      in c\<lparr>RC6S := mix_keys 84 1 8 S L'\<rparr>)"

text \<open>
  The schedules do not depend on those elements (proved below), so the rest of the model
  runs them from zeros.
\<close>

definition RC5KeySetup :: "crypt \<Rightarrow> crypt" where
  "RC5KeySetup c = RC5KeySetup_from (replicate 4 0) c"

definition RC6KeySetup :: "crypt \<Rightarrow> crypt" where
  "RC6KeySetup c = RC6KeySetup_from (replicate 8 0) c"

definition KeySetup :: "u32 \<Rightarrow> crypt \<Rightarrow> crypt" where
  "KeySetup key c = RC6KeySetup (RC5KeySetup (c\<lparr>UserKey := key\<rparr>))"

section \<open>Block routines\<close>

subsection \<open>RC5 on two 16-bit words\<close>

text \<open>
  The variables are \<open>uint16_t\<close>, the round keys and the user key \<open>uint32_t\<close>: every sum is
  computed at 32 bits and truncated by the assignment.
\<close>

definition rc5_round16 :: "crypt \<Rightarrow> nat \<Rightarrow> u16 \<times> u16 \<Rightarrow> u16 \<times> u16" where
  "rc5_round16 c i = (\<lambda>(A, B).
     let A' = ucast (ucast (ROTL16 (A XOR B) B) + RC5S c ! (2 * i));
         B' = ucast (ucast (ROTL16 (B XOR A') A') + RC5S c ! (2 * i + 1))
     in (A', B'))"

definition rc5_unround16 :: "crypt \<Rightarrow> nat \<Rightarrow> u16 \<times> u16 \<Rightarrow> u16 \<times> u16" where
  "rc5_unround16 c i = (\<lambda>(A, B).
     let B' = ROTR16 (ucast (ucast B - RC5S c ! (2 * i + 1))) A XOR A;
         A' = ROTR16 (ucast (ucast A - RC5S c ! (2 * i))) B' XOR B'
     in (A', B'))"

definition rc5_block16 :: "crypt \<Rightarrow> u16 \<times> u16 \<Rightarrow> u16 \<times> u16" where
  "rc5_block16 c = (\<lambda>(s0, s1).
     let A = ucast (ucast s0 + RC5S c ! 0);
         B = ucast (ucast s1 + RC5S c ! 1)
     in case fold (rc5_round16 c) [1..<13] (A, B) of (A, B) \<Rightarrow>
          (ucast (ucast A XOR UserKey c), ucast (ucast B XOR UserKey c)))"

definition rc5_unblock16 :: "crypt \<Rightarrow> u16 \<times> u16 \<Rightarrow> u16 \<times> u16" where
  "rc5_unblock16 c = (\<lambda>(s0, s1).
     let A = ucast (ucast s0 XOR UserKey c);
         B = ucast (ucast s1 XOR UserKey c)
     in case fold (rc5_unround16 c) (rev [1..<13]) (A, B) of (A, B) \<Rightarrow>
          (ucast (ucast A - RC5S c ! 0), ucast (ucast B - RC5S c ! 1)))"

subsection \<open>RC5 on two 32-bit words\<close>

definition rc5_round32 :: "crypt \<Rightarrow> nat \<Rightarrow> u32 \<times> u32 \<Rightarrow> u32 \<times> u32" where
  "rc5_round32 c i = (\<lambda>(A, B).
     let A' = ROTL32 (A XOR B) B + RC5S c ! (2 * i);
         B' = ROTL32 (B XOR A') A' + RC5S c ! (2 * i + 1)
     in (A', B'))"

definition rc5_unround32 :: "crypt \<Rightarrow> nat \<Rightarrow> u32 \<times> u32 \<Rightarrow> u32 \<times> u32" where
  "rc5_unround32 c i = (\<lambda>(A, B).
     let B' = ROTR32 (B - RC5S c ! (2 * i + 1)) A XOR A;
         A' = ROTR32 (A - RC5S c ! (2 * i)) B' XOR B'
     in (A', B'))"

definition rc5_block32 :: "crypt \<Rightarrow> u32 \<times> u32 \<Rightarrow> u32 \<times> u32" where
  "rc5_block32 c = (\<lambda>(s0, s1).
     case fold (rc5_round32 c) [1..<13] (s0 + RC5S c ! 0, s1 + RC5S c ! 1) of (A, B) \<Rightarrow>
       (A XOR UserKey c, B XOR UserKey c))"

definition rc5_unblock32 :: "crypt \<Rightarrow> u32 \<times> u32 \<Rightarrow> u32 \<times> u32" where
  "rc5_unblock32 c = (\<lambda>(s0, s1).
     case fold (rc5_unround32 c) (rev [1..<13]) (s0 XOR UserKey c, s1 XOR UserKey c) of (A, B) \<Rightarrow>
       (A - RC5S c ! 0, B - RC5S c ! 1))"

subsection \<open>RC6 on four 32-bit words\<close>

text \<open>The loop index takes the values \<open>2, 4, \<dots>, 80\<close>; \<open>k\<close> counts the iterations.\<close>

definition rc6_round :: "crypt \<Rightarrow> nat \<Rightarrow> u32 \<times> u32 \<times> u32 \<times> u32 \<Rightarrow> u32 \<times> u32 \<times> u32 \<times> u32" where
  "rc6_round c k = (\<lambda>(A, B, C, D).
     let i = 2 * k;
         t = ROTL32 (B * (2 * B + 1)) 5;
         u = ROTL32 (D * (2 * D + 1)) 5;
         A' = ROTL32 (A XOR t) u + RC6S c ! i;
         C' = ROTL32 (C XOR u) t + RC6S c ! (i + 1)
     in (B, C', D, A'))"

definition rc6_unround :: "crypt \<Rightarrow> nat \<Rightarrow> u32 \<times> u32 \<times> u32 \<times> u32 \<Rightarrow> u32 \<times> u32 \<times> u32 \<times> u32" where
  "rc6_unround c k = (\<lambda>(A0, B0, C0, D0).
     let i = 2 * k; A = D0; B = A0; C = B0; D = C0;
         u = ROTL32 (D * (2 * D + 1)) 5;
         t = ROTL32 (B * (2 * B + 1)) 5;
         C' = ROTR32 (C - RC6S c ! (i + 1)) t XOR u;
         A' = ROTR32 (A - RC6S c ! i) u XOR t
     in (A', B, C', D))"

definition rc6_block :: "crypt \<Rightarrow> u32 \<times> u32 \<times> u32 \<times> u32 \<Rightarrow> u32 \<times> u32 \<times> u32 \<times> u32" where
  "rc6_block c = (\<lambda>(s0, s1, s2, s3).
     case fold (rc6_round c) [1..<41] (s0, s1 + RC6S c ! 0, s2, s3 + RC6S c ! 1) of (A, B, C, D) \<Rightarrow>
       ((A + RC6S c ! (2 * 40 + 2)) XOR UserKey c, B XOR UserKey c,
        (C + RC6S c ! (2 * 40 + 3)) XOR UserKey c, D XOR UserKey c))"

definition rc6_unblock :: "crypt \<Rightarrow> u32 \<times> u32 \<times> u32 \<times> u32 \<Rightarrow> u32 \<times> u32 \<times> u32 \<times> u32" where
  "rc6_unblock c = (\<lambda>(s0, s1, s2, s3).
     case fold (rc6_unround c) (rev [1..<41])
       ((s0 XOR UserKey c) - RC6S c ! (2 * 40 + 2), s1 XOR UserKey c,
        (s2 XOR UserKey c) - RC6S c ! (2 * 40 + 3), s3 XOR UserKey c) of (A, B, C, D) \<Rightarrow>
       (A, B - RC6S c ! 0, C, D - RC6S c ! 1))"

subsection \<open>Each block routine and its inverse\<close>

lemma ucast16_plus: "(ucast (x + y :: u32) :: u16) = ucast x + ucast y"
proof transfer
  fix x y :: int
  have "take_bit 16 (take_bit 32 x + take_bit 32 y) = take_bit 16 (x + y)"
    by (subst take_bit_add [symmetric]) (simp add: take_bit_add)
  then show "take_bit LENGTH(16) (take_bit LENGTH(32) (x + y)) =
      take_bit LENGTH(16) (take_bit LENGTH(32) x + take_bit LENGTH(32) y)"
    by simp
qed

lemma ucast16_minus: "(ucast (x - y :: u32) :: u16) = ucast x - ucast y"
  using ucast16_plus [of "x - y" y] by (simp add: algebra_simps)

lemma ucast16_ucast: "(ucast (ucast (x :: u16) :: u32) :: u16) = x"
  by (rule bit_word_eqI) (auto simp: bit_unsigned_iff)

lemmas ucast16 = ucast16_plus ucast16_minus ucast16_ucast ucast_xor

lemma xor_cancel_right [simp]: "(x XOR y) XOR y = (x :: 'a::len word)"
  by (simp add: xor.assoc)

lemma rc5_unround16_round16 [codec]: "rc5_unround16 c i (rc5_round16 c i s) = s"
  by (cases s) (simp add: rc5_unround16_def rc5_round16_def Let_def ucast16)

lemma rc5_round16_unround16 [codec]: "rc5_round16 c i (rc5_unround16 c i s) = s"
  by (cases s) (simp add: rc5_unround16_def rc5_round16_def Let_def ucast16)

lemma rc5_unround32_round32 [codec]: "rc5_unround32 c i (rc5_round32 c i s) = s"
  by (cases s) (simp add: rc5_unround32_def rc5_round32_def Let_def)

lemma rc5_round32_unround32 [codec]: "rc5_round32 c i (rc5_unround32 c i s) = s"
  by (cases s) (simp add: rc5_unround32_def rc5_round32_def Let_def)

lemma rc6_unround_round [codec]: "rc6_unround c i (rc6_round c i s) = s"
  by (cases s) (simp add: rc6_unround_def rc6_round_def Let_def)

lemma rc6_round_unround [codec]: "rc6_round c i (rc6_unround c i s) = s"
  by (cases s) (simp add: rc6_unround_def rc6_round_def Let_def)

text \<open>
  A block routine adds keys, runs the rounds forwards and masks the result; the inverse
  unmasks, runs them backwards and subtracts the keys.
\<close>

lemma rc5_rounds16_inverse:
  "fold (rc5_round16 c) is s = t \<Longrightarrow> fold (rc5_unround16 c) (rev is) t = s"
  using fold_inverse [of "is" "rc5_unround16 c" "rc5_round16 c" s] by (simp add: codec)

lemma rc5_rounds32_inverse:
  "fold (rc5_round32 c) is s = t \<Longrightarrow> fold (rc5_unround32 c) (rev is) t = s"
  using fold_inverse [of "is" "rc5_unround32 c" "rc5_round32 c" s] by (simp add: codec)

lemma rc6_rounds_inverse:
  "fold (rc6_round c) is s = t \<Longrightarrow> fold (rc6_unround c) (rev is) t = s"
  using fold_inverse [of "is" "rc6_unround c" "rc6_round c" s] by (simp add: codec)

lemma rc5_unblock16_block16 [codec]: "rc5_unblock16 c (rc5_block16 c s) = s"
  unfolding rc5_unblock16_def rc5_block16_def
  by (cases s) (auto simp: ucast16 Let_def simp del: upt_rec_numeral
      split: prod.splits dest!: rc5_rounds16_inverse)

lemma rc5_unblock32_block32 [codec]: "rc5_unblock32 c (rc5_block32 c s) = s"
  unfolding rc5_unblock32_def rc5_block32_def
  by (cases s) (auto simp del: upt_rec_numeral split: prod.splits dest!: rc5_rounds32_inverse)

lemma rc6_unblock_block [codec]: "rc6_unblock c (rc6_block c s) = s"
  unfolding rc6_unblock_def rc6_block_def
  by (cases s) (auto simp del: upt_rec_numeral split: prod.splits dest!: rc6_rounds_inverse)

section \<open>Buffer routines\<close>

text \<open>Two or four little-endian words of a block, and back.\<close>

definition on_words2 :: "nat \<Rightarrow> ('a::len word \<times> 'a word \<Rightarrow> 'a word \<times> 'a word) \<Rightarrow> bytes \<Rightarrow> bytes" where
  "on_words2 w f bs =
     (case f (le_load (take w bs), le_load (drop w bs)) of (a, b) \<Rightarrow> le_store w a @ le_store w b)"

definition on_words4 :: "(u32 \<times> u32 \<times> u32 \<times> u32 \<Rightarrow> u32 \<times> u32 \<times> u32 \<times> u32) \<Rightarrow> bytes \<Rightarrow> bytes" where
  "on_words4 f bs =
     (case f (le_load (take 4 bs), le_load (take 4 (drop 4 bs)),
              le_load (take 4 (drop 8 bs)), le_load (drop 12 bs)) of
        (a, b, c, d) \<Rightarrow> le_store 4 a @ le_store 4 b @ le_store 4 c @ le_store 4 d)"

definition RC5Encrypt32 :: "crypt \<Rightarrow> bytes \<Rightarrow> bytes" where
  "RC5Encrypt32 c = blockwise 4 (on_words2 2 (rc5_block16 c)) (\<lambda>bs. bs)"

definition RC5Decrypt32 :: "crypt \<Rightarrow> bytes \<Rightarrow> bytes" where
  "RC5Decrypt32 c = blockwise 4 (on_words2 2 (rc5_unblock16 c)) (\<lambda>bs. bs)"

definition RC5Encrypt64 :: "crypt \<Rightarrow> bytes \<Rightarrow> bytes" where
  "RC5Encrypt64 c = blockwise 8 (on_words2 4 (rc5_block32 c)) (RC5Encrypt32 c)"

definition RC5Decrypt64 :: "crypt \<Rightarrow> bytes \<Rightarrow> bytes" where
  "RC5Decrypt64 c = blockwise 8 (on_words2 4 (rc5_unblock32 c)) (RC5Decrypt32 c)"

definition RC6Encrypt128 :: "crypt \<Rightarrow> bytes \<Rightarrow> bytes" where
  "RC6Encrypt128 c = blockwise 16 (on_words4 (rc6_block c)) (RC5Encrypt64 c)"

definition RC6Decrypt128 :: "crypt \<Rightarrow> bytes \<Rightarrow> bytes" where
  "RC6Decrypt128 c = blockwise 16 (on_words4 (rc6_unblock c)) (RC5Decrypt64 c)"

lemma length_on_words2 [simp]: "length (on_words2 w f bs) = 2 * w"
  by (simp add: on_words2_def split: prod.split)

lemma length_on_words4 [simp]: "length (on_words4 f bs) = 16"
  by (simp add: on_words4_def split: prod.split)

lemma on_words2_inverse [codec]:
  fixes f g :: "'a::len word \<times> 'a word \<Rightarrow> 'a word \<times> 'a word"
  assumes "\<And>s. g (f s) = s" and "length bs = 2 * w" and "8 * w = LENGTH('a)"
  shows "on_words2 w g (on_words2 w f bs) = bs"
proof -
  obtain a b where ab: "f (le_load (take w bs), le_load (drop w bs)) = (a, b)" by fastforce
  then have "g (a, b) = (le_load (take w bs), le_load (drop w bs))"
    using assms(1) by metis
  with ab assms(2,3) show ?thesis by (simp add: on_words2_def)
qed

lemma on_words4_inverse [codec]:
  assumes "\<And>s. g (f s) = s" and "length bs = 16"
  shows "on_words4 g (on_words4 f bs) = bs"
proof -
  let ?s = "(le_load (take 4 bs), le_load (take 4 (drop 4 bs)),
             le_load (take 4 (drop 8 bs)), le_load (drop 12 bs)) :: u32 \<times> u32 \<times> u32 \<times> u32"
  obtain a b c d where abcd: "f ?s = (a, b, c, d)" by (metis prod_cases4)
  then have "g (a, b, c, d) = ?s" using assms(1) by metis
  moreover have "bs = take 4 bs @ take 4 (drop 4 bs) @ take 4 (drop 8 bs) @ drop 12 bs"
    using append_take_drop_id [of 4 bs] append_take_drop_id [of 4 "drop 4 bs"]
      append_take_drop_id [of 4 "drop 8 bs"] by simp
  ultimately show ?thesis
    using abcd assms(2) by (simp add: on_words4_def)
qed

subsection \<open>Sizes and round trips\<close>

lemma length_RC5_32 [simp]:
  "length (RC5Encrypt32 c bs) = length bs" "length (RC5Decrypt32 c bs) = length bs"
  by (simp_all add: RC5Encrypt32_def RC5Decrypt32_def length_blockwise)

lemma length_RC5_64 [simp]:
  "length (RC5Encrypt64 c bs) = length bs" "length (RC5Decrypt64 c bs) = length bs"
  by (simp_all add: RC5Encrypt64_def RC5Decrypt64_def length_blockwise)

lemma length_RC6_128 [simp]:
  "length (RC6Encrypt128 c bs) = length bs" "length (RC6Decrypt128 c bs) = length bs"
  by (simp_all add: RC6Encrypt128_def RC6Decrypt128_def length_blockwise)

lemma RC5Decrypt32_Encrypt32 [codec, simp]: "RC5Decrypt32 c (RC5Encrypt32 c bs) = bs"
  unfolding RC5Decrypt32_def RC5Encrypt32_def
  by (rule blockwise_inverse) (simp_all add: codec)

lemma RC5Decrypt64_Encrypt64 [codec, simp]: "RC5Decrypt64 c (RC5Encrypt64 c bs) = bs"
  unfolding RC5Decrypt64_def RC5Encrypt64_def
  by (rule blockwise_inverse) (simp_all add: codec)

lemma RC6Decrypt128_Encrypt128 [codec, simp]: "RC6Decrypt128 c (RC6Encrypt128 c bs) = bs"
  unfolding RC6Decrypt128_def RC6Encrypt128_def
  by (rule blockwise_inverse) (simp_all add: codec)

text \<open>
  The other direction: what the packet dump of \<open>Parser::parse\<close> relies on when it decrypts
  a buffer in place and encrypts it back.
\<close>

lemma fold_inverse_rev:
  assumes "\<And>x s. f x (g x s) = s"
  shows "fold f xs (fold g (rev xs) s) = s"
  using fold_inverse [of "rev xs" f g s] assms by simp

lemma rc5_rounds16_inverse_rev:
  "fold (rc5_unround16 c) (rev is) s = t \<Longrightarrow> fold (rc5_round16 c) is t = s"
  using fold_inverse_rev [of "rc5_round16 c" "rc5_unround16 c" "is" s] by (simp add: codec)

lemma rc5_rounds32_inverse_rev:
  "fold (rc5_unround32 c) (rev is) s = t \<Longrightarrow> fold (rc5_round32 c) is t = s"
  using fold_inverse_rev [of "rc5_round32 c" "rc5_unround32 c" "is" s] by (simp add: codec)

lemma rc6_rounds_inverse_rev:
  "fold (rc6_unround c) (rev is) s = t \<Longrightarrow> fold (rc6_round c) is t = s"
  using fold_inverse_rev [of "rc6_round c" "rc6_unround c" "is" s] by (simp add: codec)

lemma rc5_block16_unblock16 [codec]: "rc5_block16 c (rc5_unblock16 c s) = s"
  unfolding rc5_unblock16_def rc5_block16_def
  by (cases s) (auto simp: ucast16 Let_def simp del: upt_rec_numeral
      split: prod.splits dest!: rc5_rounds16_inverse_rev)

lemma rc5_block32_unblock32 [codec]: "rc5_block32 c (rc5_unblock32 c s) = s"
  unfolding rc5_unblock32_def rc5_block32_def
  by (cases s) (auto simp del: upt_rec_numeral split: prod.splits dest!: rc5_rounds32_inverse_rev)

lemma rc6_block_unblock [codec]: "rc6_block c (rc6_unblock c s) = s"
  unfolding rc6_unblock_def rc6_block_def
  by (cases s) (auto simp del: upt_rec_numeral split: prod.splits dest!: rc6_rounds_inverse_rev)

lemma RC5Encrypt32_Decrypt32 [codec, simp]: "RC5Encrypt32 c (RC5Decrypt32 c bs) = bs"
  unfolding RC5Decrypt32_def RC5Encrypt32_def
  by (rule blockwise_inverse) (simp_all add: codec)

lemma RC5Encrypt64_Decrypt64 [codec, simp]: "RC5Encrypt64 c (RC5Decrypt64 c bs) = bs"
  unfolding RC5Decrypt64_def RC5Encrypt64_def
  by (rule blockwise_inverse) (simp_all add: codec)

lemma RC6Encrypt128_Decrypt128 [codec, simp]: "RC6Encrypt128 c (RC6Decrypt128 c bs) = bs"
  unfolding RC6Decrypt128_def RC6Encrypt128_def
  by (rule blockwise_inverse) (simp_all add: codec)

section \<open>Facts about the key schedules\<close>

lemma shl32_8: "shl32 x 8 = push_bit 8 x"
  by (simp add: shl32_def)

lemma take_bit_add_cong:
  fixes a b k :: "'a::len word"
  assumes "take_bit n a = take_bit n b"
  shows "take_bit n (a + k) = take_bit n (b + k)"
  using assms
proof transfer
  fix n and a b k :: int
  assume "take_bit LENGTH('a) (take_bit n a) = take_bit LENGTH('a) (take_bit n b)"
  then have "take_bit (min LENGTH('a) n) a = take_bit (min LENGTH('a) n) b"
    by simp
  then have "take_bit (min LENGTH('a) n) (a + k) = take_bit (min LENGTH('a) n) (b + k)"
    using take_bit_add [of "min LENGTH('a) n" a k] take_bit_add [of "min LENGTH('a) n" b k] by simp
  then show "take_bit LENGTH('a) (take_bit n (a + k)) = take_bit LENGTH('a) (take_bit n (b + k))"
    by simp
qed

lemma take_bit_shift_cong:
  fixes a b k :: u32
  assumes "take_bit n a = take_bit n b"
  shows "take_bit (n + 8) (push_bit 8 a + k) = take_bit (n + 8) (push_bit 8 b + k)"
proof -
  have "take_bit (n + 8) (push_bit 8 a) = take_bit (n + 8) (push_bit 8 b)"
    using assms by (simp add: take_bit_push_bit)
  then show ?thesis by (rule take_bit_add_cong)
qed

text \<open>After the bytes \<open>m, \<dots>\<close> have been folded in, the words agree on the bits shifted in so far.\<close>

definition agree :: "nat \<Rightarrow> nat \<Rightarrow> u32 list \<Rightarrow> u32 list \<Rightarrow> bool" where
  "agree n m L L' \<longleftrightarrow> length L = n \<and> length L' = n \<and>
     (\<forall>q < n. take_bit (8 * (4 * q + 4 - max m (4 * q))) (L ! q) = take_bit (8 * (4 * q + 4 - max m (4 * q))) (L' ! q))"

lemma agree_step:
  assumes "agree n (Suc m) L L'" and "m < 4 * n"
  shows "agree n m (fst (key_bytes_step K ukb m (L, l))) (fst (key_bytes_step K ukb m (L', l)))
    \<and> snd (key_bytes_step K ukb m (L, l)) = snd (key_bytes_step K ukb m (L', l))"
proof -
  let ?q = "m div 4"
  have q: "?q < n" using assms(2) by (simp add: less_mult_imp_div_less mult.commute)
  have other: "4 * p + 4 - max m (4 * p) = 4 * p + 4 - max (Suc m) (4 * p)" if "p \<noteq> ?q" for p
    using that by arith
  have e: "8 * (4 * ?q + 4 - m) = 8 * (4 * ?q + 4 - max (Suc m) (4 * ?q)) + 8"
    by arith
  have "take_bit (8 * (4 * ?q + 4 - m)) (push_bit 8 (L ! ?q) + k) =
        take_bit (8 * (4 * ?q + 4 - m)) (push_bit 8 (L' ! ?q) + k)" for k
    unfolding e by (rule take_bit_shift_cong) (use assms(1) q in \<open>unfold agree_def, blast\<close>)
  then show ?thesis
    using assms q other
    by (auto simp: agree_def key_bytes_step_def nth_list_update shl32_8 add.assoc)
qed

lemma agree_loop:
  assumes "agree n k L L'" and "k \<le> 4 * n"
  shows "agree n 0 (fst (fold (key_bytes_step K ukb) (rev [0..<k]) (L, l)))
                   (fst (fold (key_bytes_step K ukb) (rev [0..<k]) (L', l)))"
  using assms
proof (induction k arbitrary: L L' l)
  case 0
  then show ?case by simp
next
  case (Suc k)
  obtain L1 l1 where s1: "key_bytes_step K ukb k (L, l) = (L1, l1)" by fastforce
  obtain L1' where s1': "key_bytes_step K ukb k (L', l) = (L1', l1)" "agree n k L1 L1'"
    using agree_step [OF Suc.prems(1), of K ukb l] Suc.prems(2) s1 by (metis Suc_le_lessD fst_conv prod.collapse snd_conv)
  then show ?case using Suc.IH [OF s1'(2)] Suc.prems(2) s1 by simp
qed

lemma key_bytes_indep:
  assumes "length K = 4 * n" "length L = n" "length L' = n"
  shows "key_bytes K ukb L = key_bytes K ukb L'"
proof -
  have "agree n 0 (key_bytes K ukb L) (key_bytes K ukb L')"
    unfolding key_bytes_def assms(1) by (rule agree_loop) (use assms in \<open>auto simp: agree_def\<close>)
  then show ?thesis
    by (auto simp: agree_def take_bit_word_eq_self intro!: nth_equalityI)
qed


lemma round_keys_init_loop:
  assumes "1 \<le> m" "m \<le> length S"
  shows "length (fold (\<lambda>i S. S[i := S ! (i - 1) + q]) [1..<m] (S[0 := p])) = length S \<and>
    (\<forall>i < m. fold (\<lambda>i S. S[i := S ! (i - 1) + q]) [1..<m] (S[0 := p]) ! i = p + of_nat i * q)"
  using assms
proof (induction m rule: dec_induct)
  case base
  then have "S \<noteq> []" by auto
  then show ?case by simp
next
  case (step m)
  then show ?case by (cases m) (auto simp: less_Suc_eq nth_list_update algebra_simps)
qed

lemma round_keys_init_nth:
  "0 < n \<Longrightarrow> n \<le> length S \<Longrightarrow> i < n \<Longrightarrow> round_keys_init n p q S ! i = p + of_nat i * q"
  using round_keys_init_loop [of n S q p] by (simp add: round_keys_init_def)

lemma length_round_keys_init [simp]: "length (round_keys_init n p q S) = length S"
  unfolding round_keys_init_def by (rule fold_invariant [where Q = "\<lambda>_. True"]) auto

lemma mix_RC5_fixed:
  assumes "fold (mix_step 26 13 4) ks (A, B, i, j, S, L) = (A', B', i', j', S', L')" and "i = 0 \<or> i = 13"
  shows "length S' = length S \<and> (\<forall>k. k \<noteq> 0 \<and> k \<noteq> 13 \<longrightarrow> S' ! k = S ! k)"
  using assms
proof (induction ks arbitrary: A B i j S L)
  case Nil
  then show ?case by simp
next
  case (Cons k ks)
  obtain A2 B2 i2 j2 S2 L2 where s: "mix_step 26 13 4 k (A, B, i, j, S, L) = (A2, B2, i2, j2, S2, L2)"
    by (metis prod_cases6)
  then have "i2 = 0 \<or> i2 = 13" "length S2 = length S" "\<forall>k. k \<noteq> 0 \<and> k \<noteq> 13 \<longrightarrow> S2 ! k = S ! k"
    using Cons.prems(2) by (auto simp: mix_step_def Let_def)
  then show ?case using Cons.IH [of A2 B2 i2 j2 S2 L2] Cons.prems(1) s by auto
qed

lemma length_mix_keys [simp]: "length (mix_keys n step m S L) = length S"
proof -
  have "case fold (mix_step n step m) [0..<n * 3] (0, 0, 0, 0, S, L) of
      (A, B, i, j, S', L') \<Rightarrow> length S' = length S"
    by (rule fold_invariant [where Q = "\<lambda>_. True"]) (auto simp: mix_step_def Let_def)
  then show ?thesis by (auto simp: mix_keys_def split: prod.splits)
qed

lemma round_keys_init_indep:
  assumes "length S = n" "length S' = n" "0 < n"
  shows "round_keys_init n p q S = round_keys_init n p q S'"
  by (rule nth_equalityI) (use assms in \<open>simp_all add: round_keys_init_nth\<close>)

lemma KeySetup_wf [inv_intros, simp]: "crypt_wf c \<Longrightarrow> crypt_wf (KeySetup key c)"
  by (simp add: crypt_wf_def KeySetup_def RC5KeySetup_def RC6KeySetup_def RC5KeySetup_from_def
      RC6KeySetup_from_def Let_def)

lemma KeySetup_UserKey [simp]: "UserKey (KeySetup key c) = key" "isUsed (KeySetup key c) = isUsed c"
  by (simp_all add: KeySetup_def RC5KeySetup_def RC6KeySetup_def RC5KeySetup_from_def
      RC6KeySetup_from_def Let_def)

lemma RC5S_setup_indep:
  assumes "length (RC5S c) = 26" "length (RC5S c') = 26" "length L = 4" "length L' = 4" "UserKey c = UserKey c'"
  shows "RC5S (RC5KeySetup_from L c) = RC5S (RC5KeySetup_from L' c')"
  using key_bytes_indep [of KEY16 4 "L[3 := 0]" "L'[3 := 0]" "UserKeyBytes (UserKey c')"]
    round_keys_init_indep [of "RC5S c" 26 "RC5S c'" "0x5163" "0x79b9"] assms
  by (simp add: RC5KeySetup_from_def KEY16_def)

lemma RC6S_setup_indep:
  assumes "length (RC6S c) = 84" "length (RC6S c') = 84" "length L = 8" "length L' = 8" "UserKey c = UserKey c'"
  shows "RC6S (RC6KeySetup_from L c) = RC6S (RC6KeySetup_from L' c')"
  using key_bytes_indep [of KEY32 8 "L[7 := 0]" "L'[7 := 0]" "UserKeyBytes (UserKey c')"]
    round_keys_init_indep [of "RC6S c" 84 "RC6S c'" "0xb7e15163" "0x9e3779b9"] assms
  by (simp add: RC6KeySetup_from_def KEY32_def)

lemma KeySetup_indep:
  assumes "crypt_wf c" "crypt_wf c'" "isUsed c = isUsed c'"
  shows "KeySetup key c = KeySetup key c'"
proof -
  have "RC5S (KeySetup key c) = RC5S (KeySetup key c')"
    using RC5S_setup_indep [of "c\<lparr>UserKey := key\<rparr>" "c'\<lparr>UserKey := key\<rparr>" "replicate 4 0" "replicate 4 0"] assms
    by (simp add: crypt_wf_def KeySetup_def RC6KeySetup_def RC6KeySetup_from_def RC5KeySetup_def Let_def)
  moreover have "RC6S (KeySetup key c) = RC6S (KeySetup key c')"
    using RC6S_setup_indep [of "RC5KeySetup (c\<lparr>UserKey := key\<rparr>)" "RC5KeySetup (c'\<lparr>UserKey := key\<rparr>)"
        "replicate 8 0" "replicate 8 0"] assms
    by (simp add: crypt_wf_def KeySetup_def RC6KeySetup_def RC5KeySetup_def RC5KeySetup_from_def Let_def)
  ultimately show ?thesis using assms(3) by (intro crypt.equality) simp_all
qed

section \<open>The interface the packet layer uses\<close>

text \<open>
  What the packet layer relies on: a pair of length-preserving routines that undo each
  other on every buffer, whatever its length.
\<close>

locale buffer_cipher =
  fixes enc dec :: "bytes \<Rightarrow> bytes"
  assumes dec_enc: "dec (enc bs) = bs"
    and enc_dec: "enc (dec bs) = bs"
    and length_enc: "length (enc bs) = length bs"
begin

lemma length_dec: "length (dec bs) = length bs"
  using length_enc [of "dec bs"] by (simp add: enc_dec)

lemma enc_bij: "bij enc"
  by (rule o_bij [of dec]) (simp_all add: fun_eq_iff dec_enc enc_dec)

lemma enc_image: "enc ` {bs. length bs = n} = {bs. length bs = n}"
proof (intro equalityI subsetI)
  fix bs :: bytes assume "bs \<in> {bs. length bs = n}"
  then have "enc (dec bs) = bs" "dec bs \<in> {bs. length bs = n}"
    by (simp_all add: enc_dec length_dec)
  then show "bs \<in> enc ` {bs. length bs = n}" by (metis imageI)
qed (auto simp: length_enc)

lemma dec_of_sealed: "dec (take (length bs) (enc bs @ rest)) = bs"
  by (simp add: length_enc dec_enc)

end

interpretation rc5_32: buffer_cipher "RC5Encrypt32 c" "RC5Decrypt32 c" for c
  by unfold_locales simp_all

interpretation rc5_64: buffer_cipher "RC5Encrypt64 c" "RC5Decrypt64 c" for c
  by unfold_locales simp_all

interpretation rc6_128: buffer_cipher "RC6Encrypt128 c" "RC6Decrypt128 c" for c
  by unfold_locales simp_all

section \<open>Properties\<close>

text \<open>C9: Decryption undoes encryption and encryption undoes decryption, for the RC6
  routine with its RC5 tails, on buffers of every length, for every content of the round
  key arrays and every user key.\<close>

theorem RC6_roundtrip:
  "RC6Decrypt128 c (RC6Encrypt128 c bs) = bs \<and> RC6Encrypt128 c (RC6Decrypt128 c bs) = bs \<and>
   RC5Decrypt64 c (RC5Encrypt64 c bs) = bs \<and> RC5Encrypt64 c (RC5Decrypt64 c bs) = bs \<and>
   RC5Decrypt32 c (RC5Encrypt32 c bs) = bs \<and> RC5Encrypt32 c (RC5Decrypt32 c bs) = bs"
  by (simp add: rc6_128.dec_enc rc6_128.enc_dec rc5_64.dec_enc rc5_64.enc_dec rc5_32.dec_enc rc5_32.enc_dec)

text \<open>On the buffers of a given length each of the three encryptions is a permutation:
  no two plaintexts share a ciphertext and every buffer is a ciphertext.\<close>

theorem encryption_permutes_buffers:
  "RC5Encrypt32 c ` {bs. length bs = n} = {bs. length bs = n} \<and> inj (RC5Encrypt32 c) \<and>
   RC5Encrypt64 c ` {bs. length bs = n} = {bs. length bs = n} \<and> inj (RC5Encrypt64 c) \<and>
   RC6Encrypt128 c ` {bs. length bs = n} = {bs. length bs = n} \<and> inj (RC6Encrypt128 c)"
  using rc5_32.enc_image rc5_64.enc_image rc6_128.enc_image
    rc5_32.enc_bij rc5_64.enc_bij rc6_128.enc_bij
  by (simp add: bij_is_inj)

text \<open>The rotation macros, with their integer promotions, are the rotations of machine
  words by the low bits of the count.\<close>

theorem rotation_macros:
  "ROTL16 x n = word_rotl (unat n mod 16) x \<and> ROTR16 x n = word_rotr (unat n mod 16) x \<and>
   ROTL32 y m = word_rotl (unat m mod 32) y \<and> ROTR32 y m = word_rotr (unat m mod 32) y"
proof -
  have "n AND 15 = take_bit 4 n" "m AND 31 = take_bit 5 m"
    by (simp_all add: take_bit_eq_mask mask_numeral)
  then have "unat (n AND 15) = unat n mod 16" "unat (m AND 31) = unat m mod 32"
    by (simp_all add: unsigned_take_bit_eq take_bit_eq_mod unat_mod_distrib)
  then show ?thesis
    by (simp add: ROTL16_word_rotl ROTR16_word_rotr ROTL32_word_rotl ROTR32_word_rotr)
qed

text \<open>C34: The key set-up depends on the user key alone: neither what the local array \<open>L\<close>
  nor what the round key arrays held before it can be seen in the schedule.\<close>

theorem key_setup_deterministic:
  assumes "crypt_wf c" "crypt_wf c'" "isUsed c = isUsed c'" "length L5 = 4" "length L6 = 8"
  shows "RC6KeySetup_from L6 (RC5KeySetup_from L5 (c\<lparr>UserKey := key\<rparr>)) = KeySetup key c'"
proof -
  let ?c = "c\<lparr>UserKey := key\<rparr>"
  have "RC5S (RC5KeySetup_from L5 ?c) = RC5S (RC5KeySetup ?c)"
    unfolding RC5KeySetup_def by (rule RC5S_setup_indep) (use assms in \<open>simp_all add: crypt_wf_def\<close>)
  then have "RC5KeySetup_from L5 ?c = RC5KeySetup ?c"
    by (intro crypt.equality) (simp_all add: RC5KeySetup_def RC5KeySetup_from_def Let_def)
  moreover have "RC6S (RC6KeySetup_from L6 (RC5KeySetup ?c)) = RC6S (RC6KeySetup (RC5KeySetup ?c))"
    unfolding RC6KeySetup_def
    by (rule RC6S_setup_indep)
      (use assms in \<open>simp_all add: crypt_wf_def RC5KeySetup_def RC5KeySetup_from_def Let_def\<close>)
  then have "RC6KeySetup_from L6 (RC5KeySetup ?c) = KeySetup key c"
    unfolding KeySetup_def
    by (intro crypt.equality) (simp_all add: RC6KeySetup_def RC6KeySetup_from_def Let_def)
  ultimately show ?thesis using KeySetup_indep [OF assms(1-3)] by simp
qed

theorem key_setup_deterministic_witness:
  "RC6KeySetup_from [1, 2, 3, 4, 5, 6, 7, 8] (RC5KeySetup_from [9, 8, 7, 6]
     (Crypt_new (replicate 26 5) (replicate 84 7)\<lparr>UserKey := 0xDEADBEEF\<rparr>)) =
   KeySetup 0xDEADBEEF (Crypt_new (replicate 26 0) (replicate 84 0))"
  by (rule key_setup_deterministic) (simp_all add: crypt_wf_def Crypt_new_def)

text \<open>The RC5 schedule advances its index by 13 modulo 26, so it mixes the entries 0 and
  13 only: the other 24 round keys are the fixed progression, whatever the user key.\<close>

theorem RC5_schedule_fixed_entries:
  assumes "crypt_wf c" "i < 26" "i \<noteq> 0" "i \<noteq> 13"
  shows "RC5S (KeySetup key c) ! i = 0x5163 + of_nat i * 0x79b9"
proof -
  let ?S = "round_keys_init 26 0x5163 0x79b9 (RC5S c)"
  let ?L = "key_bytes KEY16 (UserKeyBytes key) ((replicate 4 0)[3 := 0])"
  obtain A B i' j S L where m: "fold (mix_step 26 13 4) [0..<26 * 3] (0, 0, 0, 0, ?S, ?L) = (A, B, i', j, S, L)"
    by (metis prod_cases6)
  then have "S ! i = ?S ! i" using mix_RC5_fixed [OF m] assms by blast
  moreover have "RC5S (KeySetup key c) = mix_keys 26 13 4 ?S ?L"
    by (simp add: KeySetup_def RC6KeySetup_def RC6KeySetup_from_def RC5KeySetup_def RC5KeySetup_from_def Let_def)
  ultimately show ?thesis
    using m assms by (simp add: mix_keys_def round_keys_init_nth crypt_wf_def del: upt_rec_numeral)
qed

theorem RC5_schedule_fixed_entries_witness:
  "RC5S (KeySetup 0x12345678 (Crypt_new (replicate 26 0) (replicate 84 0))) ! 25 = 0x5163 + of_nat 25 * 0x79b9"
  by (rule RC5_schedule_fixed_entries) (simp_all add: crypt_wf_def Crypt_new_def)

end
