(* ===== verification/Protocol.thy ===== *)
theory Protocol
  imports Prelude
begin

text \<open>
  The two packet headers, \<open>Common/include/Protocol\<close> and \<open>Common/src/Protocol\<close>: packed
  32-bit bit-fields, with the masks of the constructors and setters and the shifts of
  \<open>getData\<close>. A bit-field of width \<open>w\<close> is a \<open>w\<close>-bit word. The compilers of the target
  lay a packed bit-field out from its least significant bit, so the four bytes of a header
  in memory (\<open>memcpy(&m_header, \<dots>)\<close>) are the little-endian bytes of \<open>getData\<close>.
\<close>

section \<open>The TCP header\<close>

record TcpHeader =
  tcp_bogus :: "4 word"
  tcp_sessionId :: "14 word"
  tcp_size :: "11 word"
  tcp_crypt :: "3 word"

definition TcpHeader_default :: TcpHeader where
  "TcpHeader_default = \<lparr>tcp_bogus = 0, tcp_sessionId = 0, tcp_size = 0, tcp_crypt = 0\<rparr>"

definition TcpHeader_of_data :: "u32 \<Rightarrow> TcpHeader" where
  "TcpHeader_of_data d =
     \<lparr>tcp_bogus = ucast (d AND 0xF),
      tcp_sessionId = ucast (drop_bit 4 d AND 0x3FFF),
      tcp_size = ucast (drop_bit 18 d AND 0x7FF),
      tcp_crypt = ucast (drop_bit 29 d AND 0x7)\<rparr>"

definition tcp_setBogus :: "u32 \<Rightarrow> TcpHeader \<Rightarrow> TcpHeader" where
  "tcp_setBogus p h = h\<lparr>tcp_bogus := ucast (p AND 0xF)\<rparr>"

definition tcp_setSessionId :: "u32 \<Rightarrow> TcpHeader \<Rightarrow> TcpHeader" where
  "tcp_setSessionId s h = h\<lparr>tcp_sessionId := ucast (s AND 0x3FFF)\<rparr>"

definition tcp_setSize :: "u32 \<Rightarrow> TcpHeader \<Rightarrow> TcpHeader" where
  "tcp_setSize s h = h\<lparr>tcp_size := ucast (s AND 0x7FF)\<rparr>"

definition tcp_setCrypt :: "u32 \<Rightarrow> TcpHeader \<Rightarrow> TcpHeader" where
  "tcp_setCrypt c h = h\<lparr>tcp_crypt := ucast (c AND 0x7)\<rparr>"

definition tcp_initialize :: "u32 \<Rightarrow> u32 \<Rightarrow> u32 \<Rightarrow> TcpHeader \<Rightarrow> TcpHeader" where
  "tcp_initialize sessionId cr sz h =
     tcp_setSize sz (tcp_setCrypt cr (tcp_setSessionId sessionId (tcp_setBogus 0 h)))"

definition tcp_getData :: "TcpHeader \<Rightarrow> u32" where
  "tcp_getData h =
     ucast (tcp_bogus h) OR push_bit 4 (ucast (tcp_sessionId h)) OR
     push_bit 18 (ucast (tcp_size h)) OR push_bit 29 (ucast (tcp_crypt h))"

definition tcp_getBogus :: "TcpHeader \<Rightarrow> u32" where "tcp_getBogus h = ucast (tcp_bogus h)"
definition tcp_getSessionId :: "TcpHeader \<Rightarrow> u32" where "tcp_getSessionId h = ucast (tcp_sessionId h)"
definition tcp_getSize :: "TcpHeader \<Rightarrow> u32" where "tcp_getSize h = ucast (tcp_size h)"
definition tcp_getCrypt :: "TcpHeader \<Rightarrow> u32" where "tcp_getCrypt h = ucast (tcp_crypt h)"

section \<open>The command header\<close>

record CommandHeader =
  cmd_bogus :: "4 word"
  cmd_mission :: "2 word"
  cmd_order :: "10 word"
  cmd_extra :: "8 word"
  cmd_option :: "8 word"

definition CommandHeader_default :: CommandHeader where
  "CommandHeader_default = \<lparr>cmd_bogus = 0, cmd_mission = 0, cmd_order = 0, cmd_extra = 0, cmd_option = 0\<rparr>"

definition CommandHeader_of_data :: "u32 \<Rightarrow> CommandHeader" where
  "CommandHeader_of_data d =
     \<lparr>cmd_bogus = ucast (d AND 0xF),
      cmd_mission = ucast (drop_bit 4 d AND 0x3),
      cmd_order = ucast (drop_bit 6 d AND 0x3FF),
      cmd_extra = ucast (drop_bit 16 d AND 0xFF),
      cmd_option = ucast (drop_bit 24 d AND 0xFF)\<rparr>"

definition cmd_setBogus :: "u32 \<Rightarrow> CommandHeader \<Rightarrow> CommandHeader" where
  "cmd_setBogus p h = h\<lparr>cmd_bogus := ucast (p AND 0xF)\<rparr>"

definition cmd_setMission :: "u32 \<Rightarrow> CommandHeader \<Rightarrow> CommandHeader" where
  "cmd_setMission m h = h\<lparr>cmd_mission := ucast (m AND 0x3)\<rparr>"

definition cmd_setOrder :: "u32 \<Rightarrow> CommandHeader \<Rightarrow> CommandHeader" where
  "cmd_setOrder p h = h\<lparr>cmd_order := ucast (p AND 0x3FF)\<rparr>"

definition cmd_setExtra :: "u32 \<Rightarrow> CommandHeader \<Rightarrow> CommandHeader" where
  "cmd_setExtra e h = h\<lparr>cmd_extra := ucast (e AND 0xFF)\<rparr>"

definition cmd_setOption :: "u32 \<Rightarrow> CommandHeader \<Rightarrow> CommandHeader" where
  "cmd_setOption p h = h\<lparr>cmd_option := ucast (p AND 0xFF)\<rparr>"

definition CommandHeader_of_fields :: "u32 \<Rightarrow> u32 \<Rightarrow> u32 \<Rightarrow> u32 \<Rightarrow> u32 \<Rightarrow> CommandHeader" where
  "CommandHeader_of_fields mission order extra opt bogus =
     cmd_setOption opt (cmd_setExtra extra (cmd_setOrder order
       (cmd_setMission mission (cmd_setBogus bogus CommandHeader_default))))"

definition cmd_initialize :: "u32 \<Rightarrow> u32 \<Rightarrow> u32 \<Rightarrow> u32 \<Rightarrow> CommandHeader \<Rightarrow> CommandHeader" where
  "cmd_initialize order opt extra mission h =
     cmd_setBogus 0 (cmd_setMission mission (cmd_setExtra extra (cmd_setOption opt (cmd_setOrder order h))))"

definition cmd_getData :: "CommandHeader \<Rightarrow> u32" where
  "cmd_getData h =
     ucast (cmd_bogus h) OR push_bit 4 (ucast (cmd_mission h)) OR push_bit 6 (ucast (cmd_order h)) OR
     push_bit 16 (ucast (cmd_extra h)) OR push_bit 24 (ucast (cmd_option h))"

definition cmd_getBogus :: "CommandHeader \<Rightarrow> u32" where "cmd_getBogus h = ucast (cmd_bogus h)"
definition cmd_getMission :: "CommandHeader \<Rightarrow> u32" where "cmd_getMission h = ucast (cmd_mission h)"
definition cmd_getOrder :: "CommandHeader \<Rightarrow> u32" where "cmd_getOrder h = ucast (cmd_order h)"
definition cmd_getExtra :: "CommandHeader \<Rightarrow> u32" where "cmd_getExtra h = ucast (cmd_extra h)"
definition cmd_getOption :: "CommandHeader \<Rightarrow> u32" where "cmd_getOption h = ucast (cmd_option h)"

section \<open>Masks and fields\<close>

text \<open>A mask as wide as the bit-field changes nothing: the assignment truncates anyway.\<close>

lemma ucast_and_mask:
  "LENGTH('b) \<le> n \<Longrightarrow> ucast (x AND mask n) = (ucast x :: 'b::len word)"
  by (rule bit_word_eqI) (auto simp: bit_unsigned_iff bit_and_iff bit_mask_iff dest: bit_imp_le_length)

lemma field_masks:
  "ucast (x AND 0xF) = (ucast x :: 4 word)" "ucast (x AND 0x3FFF) = (ucast x :: 14 word)"
  "ucast (x AND 0x7FF) = (ucast x :: 11 word)" "ucast (x AND 0x7) = (ucast x :: 3 word)"
  "ucast (x AND 0x3) = (ucast x :: 2 word)" "ucast (x AND 0x3FF) = (ucast x :: 10 word)"
  "ucast (x AND 0xFF) = (ucast x :: 8 word)"
  using ucast_and_mask [of 4 x, where 'b = 4] ucast_and_mask [of 14 x, where 'b = 14]
    ucast_and_mask [of 11 x, where 'b = 11] ucast_and_mask [of 3 x, where 'b = 3]
    ucast_and_mask [of 2 x, where 'b = 2] ucast_and_mask [of 10 x, where 'b = 10]
    ucast_and_mask [of 8 x, where 'b = 8]
  by (simp_all add: mask_numeral)


lemmas tcp_sets = tcp_setBogus_def tcp_setSessionId_def tcp_setSize_def tcp_setCrypt_def
lemmas tcp_gets = tcp_getBogus_def tcp_getSessionId_def tcp_getSize_def tcp_getCrypt_def
lemmas cmd_sets = cmd_setBogus_def cmd_setMission_def cmd_setOrder_def cmd_setExtra_def cmd_setOption_def
lemmas cmd_gets = cmd_getBogus_def cmd_getMission_def cmd_getOrder_def cmd_getExtra_def cmd_getOption_def

text \<open>The bits of a field of width \<open>w\<close> at offset \<open>k\<close> of a header word.\<close>

lemma field_bit:
  "bit (push_bit k (ucast (x :: 'b::len word) :: u32)) i \<longleftrightarrow>
     k \<le> i \<and> i < 32 \<and> i - k < LENGTH('b) \<and> bit x (i - k)"
  by (auto simp: bit_simps dest: bit_imp_le_length)

lemma field_bit_0:
  "bit (ucast (x :: 'b::len word) :: u32) i \<longleftrightarrow> i < 32 \<and> i < LENGTH('b) \<and> bit x i"
  by (auto simp: bit_simps dest: bit_imp_le_length)

section \<open>Round trips of the headers\<close>

lemma tcp_of_getData [codec, simp]: "TcpHeader_of_data (tcp_getData h) = h"
proof (rule TcpHeader.equality)
  show "tcp_bogus (TcpHeader_of_data (tcp_getData h)) = tcp_bogus h"
    "tcp_sessionId (TcpHeader_of_data (tcp_getData h)) = tcp_sessionId h"
    "tcp_size (TcpHeader_of_data (tcp_getData h)) = tcp_size h"
    "tcp_crypt (TcpHeader_of_data (tcp_getData h)) = tcp_crypt h"
    by (rule bit_word_eqI; auto simp: TcpHeader_of_data_def tcp_getData_def field_masks
        bit_unsigned_iff bit_drop_bit_eq bit_or_iff field_bit bit_simps dest: bit_imp_le_length)+
qed simp

lemma tcp_getData_of [codec, simp]: "tcp_getData (TcpHeader_of_data d) = d"
proof (rule bit_word_eqI)
  fix i assume "i < LENGTH(32)"
  moreover have "i < 4 \<or> 4 \<le> i \<and> i < 18 \<or> 18 \<le> i \<and> i < 29 \<or> 29 \<le> i" by linarith
  ultimately show "bit (tcp_getData (TcpHeader_of_data d)) i = bit d i"
    by (elim disjE; auto simp: TcpHeader_of_data_def tcp_getData_def field_masks bit_or_iff field_bit field_bit_0
        bit_simps dest: bit_imp_le_length)
qed

lemma cmd_of_getData [codec, simp]: "CommandHeader_of_data (cmd_getData h) = h"
proof (rule CommandHeader.equality)
  show "cmd_bogus (CommandHeader_of_data (cmd_getData h)) = cmd_bogus h"
    "cmd_mission (CommandHeader_of_data (cmd_getData h)) = cmd_mission h"
    "cmd_order (CommandHeader_of_data (cmd_getData h)) = cmd_order h"
    "cmd_extra (CommandHeader_of_data (cmd_getData h)) = cmd_extra h"
    "cmd_option (CommandHeader_of_data (cmd_getData h)) = cmd_option h"
    by (rule bit_word_eqI; auto simp: CommandHeader_of_data_def cmd_getData_def field_masks
        bit_unsigned_iff bit_drop_bit_eq bit_or_iff field_bit bit_simps dest: bit_imp_le_length)+
qed simp

lemma cmd_getData_of [codec, simp]: "cmd_getData (CommandHeader_of_data d) = d"
proof (rule bit_word_eqI)
  fix i assume "i < LENGTH(32)"
  moreover have "i < 4 \<or> 4 \<le> i \<and> i < 6 \<or> 6 \<le> i \<and> i < 16 \<or> 16 \<le> i \<and> i < 24 \<or> 24 \<le> i" by linarith
  ultimately show "bit (cmd_getData (CommandHeader_of_data d)) i = bit d i"
    by (elim disjE; auto simp: CommandHeader_of_data_def cmd_getData_def field_masks bit_or_iff field_bit field_bit_0
        bit_simps dest: bit_imp_le_length)
qed


section \<open>The headers in memory\<close>

text \<open>\<open>memcpy\<close> from and to a header object of four bytes.\<close>

definition tcp_bytes :: "TcpHeader \<Rightarrow> bytes" where
  "tcp_bytes h = le_store 4 (tcp_getData h)"

definition tcp_of_bytes :: "bytes \<Rightarrow> TcpHeader" where
  "tcp_of_bytes bs = TcpHeader_of_data (le_load (take 4 bs))"

definition cmd_bytes :: "CommandHeader \<Rightarrow> bytes" where
  "cmd_bytes h = le_store 4 (cmd_getData h)"

definition cmd_of_bytes :: "bytes \<Rightarrow> CommandHeader" where
  "cmd_of_bytes bs = CommandHeader_of_data (le_load (take 4 bs))"

lemma length_header_bytes [simp]: "length (tcp_bytes h) = 4" "length (cmd_bytes c) = 4"
  by (simp_all add: tcp_bytes_def cmd_bytes_def)

lemma tcp_of_bytes_append [codec, simp]: "tcp_of_bytes (tcp_bytes h @ rest) = h"
  by (simp add: tcp_of_bytes_def tcp_bytes_def)

lemma cmd_of_bytes_append [codec, simp]: "cmd_of_bytes (cmd_bytes c @ rest) = c"
  by (simp add: cmd_of_bytes_def cmd_bytes_def)

lemma header_of_bytes [codec, simp]: "tcp_of_bytes (tcp_bytes h) = h" "cmd_of_bytes (cmd_bytes c) = c"
  using tcp_of_bytes_append [of h "[]"] cmd_of_bytes_append [of c "[]"] by simp_all

lemma tcp_bytes_of [codec]: "length bs = 4 \<Longrightarrow> tcp_bytes (tcp_of_bytes bs) = bs"
  by (simp add: tcp_of_bytes_def tcp_bytes_def)

lemma cmd_bytes_of [codec]: "length bs = 4 \<Longrightarrow> cmd_bytes (cmd_of_bytes bs) = bs"
  by (simp add: cmd_of_bytes_def cmd_bytes_def)

section \<open>Setters and getters\<close>

lemma field_value: "ucast (ucast x :: 'b::len word) = (x :: u32) mod 2 ^ LENGTH('b)"
proof -
  have "ucast (ucast x :: 'b word) = take_bit LENGTH('b) x"
    by (rule bit_word_eqI) (auto simp: bit_simps)
  then show ?thesis by (simp add: take_bit_eq_mod)
qed

lemma tcp_get_set [simp]:
  "tcp_getSize (tcp_setSize s h) = s mod 2048"
  "tcp_getSessionId (tcp_setSessionId s h) = s mod 16384"
  "tcp_getCrypt (tcp_setCrypt s h) = s mod 8"
  "tcp_getBogus (tcp_setBogus s h) = s mod 16"
  by (simp_all add: tcp_sets tcp_gets field_masks field_value)

lemma cmd_get_set [simp]:
  "cmd_getOrder (cmd_setOrder s c) = s mod 1024"
  "cmd_getOption (cmd_setOption s c) = s mod 256"
  "cmd_getExtra (cmd_setExtra s c) = s mod 256"
  "cmd_getMission (cmd_setMission s c) = s mod 4"
  "cmd_getBogus (cmd_setBogus s c) = s mod 16"
  by (simp_all add: cmd_sets cmd_gets field_masks field_value)

lemma tcp_get_set_other [simp]:
  "tcp_getSessionId (tcp_setSize s h) = tcp_getSessionId h"
  "tcp_getCrypt (tcp_setSize s h) = tcp_getCrypt h"
  "tcp_getBogus (tcp_setSize s h) = tcp_getBogus h"
  "tcp_getSize (tcp_setCrypt s h) = tcp_getSize h"
  "tcp_getSessionId (tcp_setCrypt s h) = tcp_getSessionId h"
  "tcp_getBogus (tcp_setCrypt s h) = tcp_getBogus h"
  "tcp_getSize (tcp_setSessionId s h) = tcp_getSize h"
  "tcp_getCrypt (tcp_setSessionId s h) = tcp_getCrypt h"
  "tcp_getBogus (tcp_setSessionId s h) = tcp_getBogus h"
  by (simp_all add: tcp_sets tcp_gets)

lemma cmd_get_set_other [simp]:
  "cmd_getOrder (cmd_setOption s c) = cmd_getOrder c" "cmd_getOrder (cmd_setExtra s c) = cmd_getOrder c"
  "cmd_getOrder (cmd_setMission s c) = cmd_getOrder c" "cmd_getOrder (cmd_setBogus s c) = cmd_getOrder c"
  "cmd_getOption (cmd_setOrder s c) = cmd_getOption c" "cmd_getOption (cmd_setExtra s c) = cmd_getOption c"
  "cmd_getOption (cmd_setMission s c) = cmd_getOption c" "cmd_getOption (cmd_setBogus s c) = cmd_getOption c"
  "cmd_getExtra (cmd_setOrder s c) = cmd_getExtra c" "cmd_getExtra (cmd_setOption s c) = cmd_getExtra c"
  "cmd_getExtra (cmd_setMission s c) = cmd_getExtra c" "cmd_getExtra (cmd_setBogus s c) = cmd_getExtra c"
  "cmd_getMission (cmd_setOrder s c) = cmd_getMission c" "cmd_getMission (cmd_setOption s c) = cmd_getMission c"
  "cmd_getMission (cmd_setExtra s c) = cmd_getMission c" "cmd_getMission (cmd_setBogus s c) = cmd_getMission c"
  by (simp_all add: cmd_sets cmd_gets)

text \<open>C27: The two headers are lossless 32-bit encodings. Every header is recovered from the
  four bytes it occupies in memory, every four bytes are the image of exactly one header, and
  the bytes are those of \<open>getData\<close>, so the \<open>memcpy\<close> of the packet code and the explicit
  constructor agree.\<close>

theorem headers_lossless:
  "bij_betw tcp_bytes UNIV {bs. length bs = 4} \<and> bij_betw cmd_bytes UNIV {bs. length bs = 4} \<and>
   (\<forall>h c rest. tcp_of_bytes (tcp_bytes h @ rest) = h \<and> cmd_of_bytes (cmd_bytes c @ rest) = c \<and>
     TcpHeader_of_data (tcp_getData h) = h \<and> CommandHeader_of_data (cmd_getData c) = c)"
proof (intro conjI allI)
  show "bij_betw tcp_bytes UNIV {bs. length bs = 4}"
    by (rule bij_betw_byWitness [where f' = tcp_of_bytes])
      (auto simp: tcp_bytes_of)
  show "bij_betw cmd_bytes UNIV {bs. length bs = 4}"
    by (rule bij_betw_byWitness [where f' = cmd_of_bytes])
      (auto simp: cmd_bytes_of)
qed simp_all

text \<open>C0: After \<open>initialize\<close> every field of a header reads back the argument reduced to the
  width of the field, whatever the header held before: the TCP size modulo 2048, the session
  number modulo 16384, the encryption type modulo 8; and for the command header the order
  modulo 1024, option and extra modulo 256, mission modulo 4. The padding is cleared.\<close>

theorem initialize_fields:
  "let h' = tcp_initialize sid cr sz h; c' = cmd_initialize order opt extra mission c in
     tcp_getSessionId h' = sid mod 16384 \<and> tcp_getCrypt h' = cr mod 8 \<and>
     tcp_getSize h' = sz mod 2048 \<and> tcp_getBogus h' = 0 \<and>
     cmd_getOrder c' = order mod 1024 \<and> cmd_getOption c' = opt mod 256 \<and>
     cmd_getExtra c' = extra mod 256 \<and> cmd_getMission c' = mission mod 4 \<and> cmd_getBogus c' = 0"
  by (simp add: tcp_initialize_def cmd_initialize_def Let_def)

end
