(* ===== verification/Packet.thy ===== *)
theory Packet
  imports Crypt Protocol
begin

text \<open>
  Packets, \<open>Common/include/Network/Packet.h\<close>: the in-memory packet, its serialisation with
  an encrypted header and a payload encrypted as the header says, the parser of a received
  buffer, and the plain variant used between the servers. A read past the end of the received
  buffer or of the decrypted copy is \<open>Inl OutOfBounds\<close>.
\<close>

datatype EncryptionType =
  NO_ENCRYPTION | DEFAULT_ENCRYPTION | USER_ENCRYPTION | DEFAULT_LARGE_ENCRYPTION
| USER_LARGE_ENCRYPTION | AC_ENCRYPTION

definition EncryptionType_of :: "u32 \<Rightarrow> EncryptionType option" where
  "EncryptionType_of n =
     (if n = 0 then Some NO_ENCRYPTION
      else if n = 1 then Some DEFAULT_ENCRYPTION
      else if n = 2 then Some USER_ENCRYPTION
      else if n = 3 then Some DEFAULT_LARGE_ENCRYPTION
      else if n = 4 then Some USER_LARGE_ENCRYPTION
      else if n = 7 then Some AC_ENCRYPTION else None)"

record packet =
  m_header :: TcpHeader
  m_command :: CommandHeader
  m_data :: bytes

definition packet_new :: packet where
  "packet_new = \<lparr>m_header = TcpHeader_default, m_command = CommandHeader_default, m_data = []\<rparr>"

definition setCommand :: "u16 \<Rightarrow> u8 \<Rightarrow> u8 \<Rightarrow> u8 \<Rightarrow> packet \<Rightarrow> packet" where
  "setCommand order mission extra opt p =
     p\<lparr>m_command := CommandHeader_of_fields (ucast mission) (ucast order) (ucast extra) (ucast opt) 0\<rparr>"

definition setTcpHeader :: "u32 \<Rightarrow> u32 \<Rightarrow> packet \<Rightarrow> packet" where
  "setTcpHeader sessionId cr p =
     p\<lparr>m_header := tcp_initialize sessionId cr (of_nat (4 + 4 + length (m_data p))) (m_header p)\<rparr>"

definition setTcpHeader_plain :: "u32 \<Rightarrow> packet \<Rightarrow> packet" where
  "setTcpHeader_plain sessionId p =
     p\<lparr>m_header := tcp_initialize sessionId 0 (of_nat (4 + 4 + length (m_data p))) (m_header p)\<rparr>"

definition packet_setSession :: "u16 \<Rightarrow> packet \<Rightarrow> packet" where
  "packet_setSession s p = p\<lparr>m_header := tcp_setSessionId (ucast s) (m_header p)\<rparr>"

definition packet_setMission :: "u8 \<Rightarrow> packet \<Rightarrow> packet" where
  "packet_setMission n p = p\<lparr>m_command := cmd_setMission (ucast n) (m_command p)\<rparr>"

definition packet_setOrder :: "u16 \<Rightarrow> packet \<Rightarrow> packet" where
  "packet_setOrder n p = p\<lparr>m_command := cmd_setOrder (ucast n) (m_command p)\<rparr>"

text \<open>The size field can also be set directly; no server does.\<close>

definition packet_setSize :: "u32 \<Rightarrow> packet \<Rightarrow> packet" where
  "packet_setSize n p = p\<lparr>m_header := tcp_setSize n (m_header p)\<rparr>"

definition packet_setExtra :: "u8 \<Rightarrow> packet \<Rightarrow> packet" where
  "packet_setExtra n p = p\<lparr>m_command := cmd_setExtra (ucast n) (m_command p)\<rparr>"

definition packet_setOption :: "u8 \<Rightarrow> packet \<Rightarrow> packet" where
  "packet_setOption n p = p\<lparr>m_command := cmd_setOption (ucast n) (m_command p)\<rparr>"

definition setData :: "bytes \<Rightarrow> packet \<Rightarrow> packet" where
  "setData bs p =
     p\<lparr>m_data := bs, m_header := tcp_setSize (of_nat (8 + length bs)) (m_header p)\<rparr>"

definition getFullSize :: "packet \<Rightarrow> u32" where
  "getFullSize p = of_nat (4 + 4 + length (m_data p))"

section \<open>The payload ciphers\<close>

text \<open>The \<open>switch\<close> of the receiver: every branch sets the keys up anew.\<close>

definition decrypt_payload :: "crypt \<Rightarrow> u32 \<Rightarrow> u32 \<Rightarrow> bytes \<Rightarrow> bytes option" where
  "decrypt_payload c key t bs =
     (case EncryptionType_of t of
        Some NO_ENCRYPTION \<Rightarrow> Some bs
      | Some DEFAULT_ENCRYPTION \<Rightarrow> Some (RC5Decrypt64 (KeySetup 0 c) bs)
      | Some DEFAULT_LARGE_ENCRYPTION \<Rightarrow> Some (RC6Decrypt128 (KeySetup 0 c) bs)
      | Some USER_ENCRYPTION \<Rightarrow> Some (RC5Decrypt64 (KeySetup key c) bs)
      | Some USER_LARGE_ENCRYPTION \<Rightarrow> Some (RC6Decrypt128 (KeySetup key c) bs)
      | _ \<Rightarrow> None)"

text \<open>
  The \<open>switch\<close> of the sender: the default types use the cipher object as the header
  encryption left it, an unknown type leaves the payload in clear.
\<close>

definition encrypt_payload :: "crypt \<Rightarrow> u32 \<Rightarrow> u32 \<Rightarrow> bytes \<Rightarrow> bytes" where
  "encrypt_payload c key t bs =
     (case EncryptionType_of t of
        Some DEFAULT_ENCRYPTION \<Rightarrow> RC5Encrypt64 c bs
      | Some DEFAULT_LARGE_ENCRYPTION \<Rightarrow> RC6Encrypt128 c bs
      | Some USER_ENCRYPTION \<Rightarrow> RC5Encrypt64 (KeySetup key c) bs
      | Some USER_LARGE_ENCRYPTION \<Rightarrow> RC6Encrypt128 (KeySetup key c) bs
      | _ \<Rightarrow> bs)"

section \<open>Parsing and serialising\<close>

text \<open>The common end of both parsers: the command, then what follows it.\<close>

definition packet_of_payload :: "nat \<Rightarrow> bytes \<Rightarrow> packet \<Rightarrow> mem_error + packet" where
  "packet_of_payload messageSize bs p =
     (if length bs < 4 then Inl OutOfBounds
      else let p = p\<lparr>m_command := cmd_of_bytes bs\<rparr>
           in if messageSize > 4
              then (if length bs < messageSize then Inl OutOfBounds
                    else Inr (setData (take (messageSize - 4) (drop 4 bs)) p))
              else Inr (setData [] p))"

text \<open>
  \<open>processIncomingPacket\<close> of an encrypted packet. \<open>data\<close> is the received buffer, \<open>sz\<close> the
  size argument, \<open>c\<close> the local cipher object before its first key set-up.
\<close>

definition processIncomingPacket :: "crypt \<Rightarrow> bytes \<Rightarrow> u16 \<Rightarrow> u32 \<Rightarrow> packet \<Rightarrow> mem_error + packet" where
  "processIncomingPacket c data sz key p =
     (if unat sz < 4 then Inr p
      else if length data < 4 then Inl OutOfBounds
      else let c0 = KeySetup 0 c;
               h = tcp_of_bytes (RC5Decrypt32 c0 (take 4 data));
               p = p\<lparr>m_header := h\<rparr>;
               messageSize = unat (ucast (tcp_getSize h) - 4 :: u16)
           in if messageSize \<le> 0 then Inr p
              else if length data < 4 + messageSize then Inl OutOfBounds
              else case decrypt_payload c0 key (tcp_getCrypt h) (take messageSize (drop 4 data)) of
                     None \<Rightarrow> Inr p
                   | Some bs \<Rightarrow> packet_of_payload messageSize bs p)"

definition processIncomingPacket_plain :: "bytes \<Rightarrow> u16 \<Rightarrow> packet \<Rightarrow> mem_error + packet" where
  "processIncomingPacket_plain data sz p =
     (if unat sz < 4 then Inr p
      else if length data < 4 then Inl OutOfBounds
      else let h = tcp_of_bytes (take 4 data);
               p = p\<lparr>m_header := h\<rparr>;
               messageSize = unat (ucast (tcp_getSize h) - 4 :: u16)
           in if messageSize \<le> 0 \<or> messageSize > 1450 then Inr p
              else packet_of_payload messageSize (drop 4 data) p)"

definition generateOutgoingPacket :: "crypt \<Rightarrow> u32 \<Rightarrow> bool \<Rightarrow> packet \<Rightarrow> bytes" where
  "generateOutgoingPacket c key isCryptUsed p =
     (let header = tcp_bytes (m_header p);
          payload = cmd_bytes (m_command p) @ m_data p;
          c = (if isCryptUsed then KeySetup 0 c else c);
          header = (if isCryptUsed then RC5Encrypt32 c header else header)
      in header @ encrypt_payload c key (tcp_getCrypt (m_header p)) payload)"

definition generateOutgoingPacket_plain :: "packet \<Rightarrow> bytes" where
  "generateOutgoingPacket_plain p = tcp_bytes (m_header p) @ cmd_bytes (m_command p) @ m_data p"

section \<open>Lemmas\<close>

lemma length_encrypt_payload [simp]: "length (encrypt_payload c key t bs) = length bs"
  by (simp add: encrypt_payload_def split: option.split EncryptionType.split)

lemma length_decrypt_payload: "decrypt_payload c key t bs = Some bs' \<Longrightarrow> length bs' = length bs"
  by (auto simp: decrypt_payload_def split: option.splits EncryptionType.splits)

text \<open>The payload ciphers of both ends cancel for the five types that are in use.\<close>

lemma decrypt_encrypt_payload [codec]:
  assumes "t \<le> 4" "crypt_wf c" "crypt_wf c'" "isUsed c = isUsed c'"
  shows "decrypt_payload (KeySetup 0 c) key t (encrypt_payload (KeySetup 0 c') key t bs) = Some bs"
proof -
  have "t = 0 \<or> t = 1 \<or> t = 2 \<or> t = 3 \<or> t = 4"
    using assms(1) by (simp add: word_le_nat_alt unat_arith_simps) arith
  moreover have "KeySetup k (KeySetup 0 c) = KeySetup k c'" "KeySetup k (KeySetup 0 c') = KeySetup k c'" for k
    using assms by (auto intro!: KeySetup_indep)
  ultimately show ?thesis
    by (auto simp: decrypt_payload_def encrypt_payload_def EncryptionType_of_def rc5_64.dec_enc rc6_128.dec_enc)
qed

lemma getSize_bound: "unat (tcp_getSize h) < 2048"
  using unsigned_less [of "tcp_size h", where 'a = nat]
  by (simp add: tcp_getSize_def unsigned_ucast_eq take_bit_nat_eq_self)

text \<open>The 16-bit message size of a header whose size field is \<open>s\<close>: \<open>s - 4\<close>, wrapped below 4.\<close>

lemma messageSize_unat:
  "unat (ucast (tcp_getSize h) - 4 :: u16) =
     (if unat (tcp_getSize h) < 4 then unat (tcp_getSize h) + 65532 else unat (tcp_getSize h) - 4)"
proof -
  have u: "unat (ucast (tcp_getSize h) :: u16) = unat (tcp_getSize h)"
    using getSize_bound [of h] by (simp add: unsigned_ucast_eq take_bit_nat_eq_self)
  show ?thesis
    using getSize_bound [of h] by (auto simp: unat_sub_if' word_le_nat_alt u)
qed

lemma tcp_setSize_getSize [simp]: "tcp_setSize (tcp_getSize h) h = h"
proof -
  have "(ucast (ucast (tcp_size h) :: u32) :: 11 word) = tcp_size h"
    by (rule bit_word_eqI) (auto simp: bit_simps)
  then show ?thesis by (simp add: tcp_setSize_def tcp_getSize_def field_masks)
qed

lemma unat_of_nat_small: "n < 4096 \<Longrightarrow> unat (of_nat n :: u32) = n"
  by (simp add: unsigned_of_nat take_bit_nat_eq_self)

text \<open>The size field says how long the packet is.\<close>

definition sized :: "packet \<Rightarrow> bool" where
  "sized p \<longleftrightarrow> unat (tcp_getSize (m_header p)) = 8 + length (m_data p)"

lemma sized_setTcpHeader: "length (m_data p) \<le> 2039 \<Longrightarrow> sized (setTcpHeader sid cr p)"
  using unat_of_nat_small [of "8 + length (m_data p)"]
  by (simp add: sized_def setTcpHeader_def tcp_initialize_def unat_mod_distrib)

lemma sized_setData: "length bs \<le> 2039 \<Longrightarrow> sized (setData bs p)"
  using unat_of_nat_small [of "8 + length bs"]
  by (simp add: sized_def setData_def unat_mod_distrib)

text \<open>
  How the servers assemble a packet: the header or the payload first, then the setters in any order,
  every payload with at most 2039 bytes. A packet without header and payload, and one whose size is
  set by \<open>setSize\<close> last, is not assembled.
\<close>

inductive assembled :: "packet \<Rightarrow> bool" where
  header: "length (m_data p) \<le> 2039 \<Longrightarrow> assembled (setTcpHeader sid cr p)"
| header_plain: "length (m_data p) \<le> 2039 \<Longrightarrow> assembled (setTcpHeader_plain sid p)"
| payload: "length bs \<le> 2039 \<Longrightarrow> assembled (setData bs p)"
| command: "assembled p \<Longrightarrow> assembled (setCommand order mission extra opt p)"
| session: "assembled p \<Longrightarrow> assembled (packet_setSession s p)"
| mission: "assembled p \<Longrightarrow> assembled (packet_setMission m p)"
| order: "assembled p \<Longrightarrow> assembled (packet_setOrder k p)"
| extra: "assembled p \<Longrightarrow> assembled (packet_setExtra x p)"
| option: "assembled p \<Longrightarrow> assembled (packet_setOption n p)"

lemma setData_sized: "sized p \<Longrightarrow> setData (m_data p) p = p"
proof -
  assume "sized p"
  then have "of_nat (8 + length (m_data p)) = tcp_getSize (m_header p)"
    using getSize_bound [of "m_header p"]
    by (intro word_unat_eq_iff [THEN iffD2]) (simp only: sized_def unat_of_nat_small)
  then show ?thesis by (simp add: setData_def)
qed

text \<open>What both parsers do with a complete payload.\<close>

lemma packet_of_payload_complete:
  assumes "sized p" "m_header q = m_header p"
  shows "packet_of_payload (4 + length (m_data p)) (cmd_bytes (m_command p) @ m_data p @ rest) q = Inr p"
proof -
  have "q\<lparr>m_command := m_command p, m_data := m_data p, m_header := m_header p\<rparr> = p"
    by (intro packet.equality) simp_all
  then show ?thesis
    using setData_sized [OF assms(1)] assms(2)
    by (auto simp: packet_of_payload_def Let_def setData_def intro!: packet.equality dest!: arg_cong [where f = m_header])
qed

lemma length_generated [simp]:
  "length (generateOutgoingPacket c key b p) = 8 + length (m_data p)"
  "length (generateOutgoingPacket_plain p) = 8 + length (m_data p)"
  by (simp_all add: generateOutgoingPacket_def generateOutgoingPacket_plain_def Let_def)

lemma process_generated:
  assumes "sized p" "tcp_getCrypt (m_header p) \<le> 4" "4 \<le> unat sz"
    and "crypt_wf c" "crypt_wf c'" "isUsed c = isUsed c'"
  shows "processIncomingPacket c (generateOutgoingPacket c' key True p @ rest) sz key q = Inr p"
proof -
  let ?K = "KeySetup 0 c" and ?pay = "cmd_bytes (m_command p) @ m_data p"
  have K: "KeySetup 0 c' = ?K" using assms by (metis KeySetup_indep)
  let ?e = "encrypt_payload ?K key (tcp_getCrypt (m_header p)) ?pay"
  have gen: "generateOutgoingPacket c' key True p = RC5Encrypt32 ?K (tcp_bytes (m_header p)) @ ?e"
    by (simp add: generateOutgoingPacket_def Let_def K)
  have ms: "unat (ucast (tcp_getSize (m_header p)) - 4 :: u16) = 4 + length (m_data p)"
    using assms(1) by (simp add: messageSize_unat sized_def)
  have dec: "decrypt_payload ?K key (tcp_getCrypt (m_header p)) ?e = Some ?pay"
    using decrypt_encrypt_payload [OF assms(2,4,5,6), of key ?pay] K by simp
  show ?thesis
    using assms(3) dec packet_of_payload_complete [of p "q\<lparr>m_header := m_header p\<rparr>" "[]"] assms(1)
    by (simp add: processIncomingPacket_def gen Let_def ms del: length_0_conv)
qed

lemma process_generated_plain:
  assumes "sized p" "length (m_data p) \<le> 1446" "4 \<le> unat sz"
  shows "processIncomingPacket_plain (generateOutgoingPacket_plain p @ rest) sz q = Inr p"
proof -
  have "unat (ucast (tcp_getSize (m_header p)) - 4 :: u16) = 4 + length (m_data p)"
    using assms(1) by (simp add: messageSize_unat sized_def)
  then show ?thesis
    using assms packet_of_payload_complete [of p "q\<lparr>m_header := m_header p\<rparr>" rest]
    by (simp add: processIncomingPacket_plain_def generateOutgoingPacket_plain_def Let_def)
qed

section \<open>Properties\<close>

text \<open>C31: A packet that got a header or a payload, each time with a payload of at most 2039 bytes, and
  then went through the setters of the command and of the session in any order and any number of
  times says its own length: the size field equals the number of bytes that are sent, for the
  encrypted and the plain form. The setter \<open>setSize\<close>, which no server calls, keeps this only when it
  is given that number.\<close>

theorem assembled_says_length:
  assumes "assembled p"
  shows "sized p \<and> unat (tcp_getSize (m_header p)) = length (generateOutgoingPacket c key b p) \<and>
    unat (tcp_getSize (m_header p)) = length (generateOutgoingPacket_plain p) \<and>
    (sized (packet_setSize n p) \<longleftrightarrow> unat (n mod 2048) = length (generateOutgoingPacket_plain p))"
proof -
  have "sized p"
    using assms
  proof induction
    case (header_plain p sid)
    then show ?case using sized_setTcpHeader [of p sid 0] by (simp add: setTcpHeader_plain_def setTcpHeader_def)
  qed (simp_all add: sized_setTcpHeader sized_setData, simp_all add: sized_def setCommand_def packet_setSession_def
      packet_setMission_def packet_setOrder_def packet_setExtra_def packet_setOption_def)
  then show ?thesis by (auto simp: sized_def packet_setSize_def)
qed

theorem assembled_says_length_witness:
  "let p = packet_setOption 3 (setData [1, 2, 3] (setCommand 114 0 0 1 (setTcpHeader 7 2 packet_new))) in
    unat (tcp_getSize (m_header p)) = 11"
proof -
  let ?p = "packet_setOption 3 (setData [1, 2, 3] (setCommand 114 0 0 1 (setTcpHeader 7 2 packet_new)))"
  have "assembled ?p" by (intro assembled.intros) simp
  from assembled_says_length [OF this, where c = "Crypt_new [] []" and key = 0 and b = False]
  have "unat (tcp_getSize (m_header ?p)) = 8 + length (m_data ?p)" by simp
  also have "m_data ?p = [1, 2, 3]" by (simp add: packet_setOption_def setData_def)
  finally show ?thesis by (simp add: Let_def)
qed

text \<open>C10: What one end sends the other end reads: a packet whose header was set with one of
  the five encryption types in use, serialised with the connection's key, is parsed back to
  itself - header, command and payload - by the receiver with that key. Neither the bytes that
  follow it in the buffer, nor the packet object it is parsed into, nor what the two cipher
  objects held before matter. The payload may have up to 2039 bytes, what the 11-bit size
  field can say.\<close>

theorem packet_roundtrip:
  assumes "crypt_wf c" "crypt_wf c'" "isUsed c = isUsed c'"
    and "cr \<le> 4" "length (m_data p) \<le> 2039" "4 \<le> unat sz"
  shows "let p = setTcpHeader sid cr p in
    processIncomingPacket c (generateOutgoingPacket c' key True p @ rest) sz key q = Inr p"
proof -
  have "cr mod 8 = cr" using assms(4) by (simp add: word_mod_less_divisor mod_word_less word_le_nat_alt word_less_nat_alt)
  then have "tcp_getCrypt (m_header (setTcpHeader sid cr p)) \<le> 4"
    using assms(4) by (simp add: setTcpHeader_def tcp_initialize_def)
  then show ?thesis
    unfolding Let_def by (rule process_generated [OF sized_setTcpHeader [OF assms(5)] _ assms(6) assms(1-3)])
qed

theorem packet_roundtrip_witness:
  "let p = setTcpHeader 7 4 (packet_new\<lparr>m_data := [1, 2, 3, 4, 5]\<rparr>) in
   processIncomingPacket (Crypt_new (replicate 26 1) (replicate 84 2))
     (generateOutgoingPacket (Crypt_new (replicate 26 3) (replicate 84 4)) 0xCAFE True p @ [9, 9])
     15 0xCAFE packet_new = Inr p"
  by (rule packet_roundtrip) (simp_all add: crypt_wf_def Crypt_new_def packet_new_def)

text \<open>The plain packets between the servers round-trip as well, up to the 1446 payload
  bytes that the parser accepts; a longer one that was framed correctly is dropped with only
  its header read.\<close>

theorem plain_packet_roundtrip:
  assumes "length (m_data p) \<le> 2039" "4 \<le> unat sz"
  shows "let p = setTcpHeader_plain sid p in
    processIncomingPacket_plain (generateOutgoingPacket_plain p @ rest) sz q =
      Inr (if length (m_data p) \<le> 1446 then p else q\<lparr>m_header := m_header p\<rparr>)"
proof -
  let ?p = "setTcpHeader_plain sid p"
  have eq: "?p = setTcpHeader sid 0 p" by (simp add: setTcpHeader_plain_def setTcpHeader_def)
  have s: "sized ?p" "m_data ?p = m_data p"
    using sized_setTcpHeader [OF assms(1)] by (simp_all add: eq) (simp add: setTcpHeader_def)
  then have "unat (ucast (tcp_getSize (m_header ?p)) - 4 :: u16) = 4 + length (m_data p)"
    by (simp add: messageSize_unat sized_def)
  then have "processIncomingPacket_plain (generateOutgoingPacket_plain ?p @ rest) sz q = Inr (q\<lparr>m_header := m_header ?p\<rparr>)"
    if "1446 < length (m_data p)"
    using that assms(2) by (simp add: processIncomingPacket_plain_def generateOutgoingPacket_plain_def Let_def)
  then show ?thesis
    using process_generated_plain [OF s(1) _ assms(2)] s(2) by (auto simp: Let_def)
qed

theorem plain_packet_roundtrip_witness:
  "let p = setTcpHeader_plain 3 (packet_new\<lparr>m_data := [1, 2, 3]\<rparr>) in
   processIncomingPacket_plain (generateOutgoingPacket_plain p @ [0]) 11 packet_new =
     Inr (if length (m_data p) \<le> 1446 then p else packet_new\<lparr>m_header := m_header p\<rparr>)"
  by (rule plain_packet_roundtrip) (simp_all add: packet_new_def)

text \<open>On a frame as the stream reassembly cuts it (exactly as many bytes as its header
  announces) the parser reads out of bounds for the announced sizes 5, 6 and 7 with an
  encryption type in use, and for no other frame: those frames are long enough to have a
  payload but too short for the four-byte command that is copied from it.\<close>

theorem frame_overread:
  assumes "crypt_wf c" "length data = unat (tcp_getSize h)" "unat sz = length data"
    and "4 \<le> length data \<longrightarrow> h = tcp_of_bytes (RC5Decrypt32 (KeySetup 0 c) (take 4 data))"
  shows "processIncomingPacket c data sz key q = Inl OutOfBounds \<longleftrightarrow>
    length data \<in> {5, 6, 7} \<and> EncryptionType_of (tcp_getCrypt h) \<notin> {None, Some AC_ENCRYPTION}"
proof (cases "4 \<le> length data")
  case False
  then have "processIncomingPacket c data sz key q = Inr q"
    using assms(3) by (simp add: processIncomingPacket_def)
  with False show ?thesis by auto
next
  case True
  have h: "tcp_of_bytes (RC5Decrypt32 (KeySetup 0 c) (take 4 data)) = h"
    using mp [OF assms(4) True] by (rule sym)
  then have h4: "length data = 4 \<Longrightarrow> tcp_of_bytes (RC5Decrypt32 (KeySetup 0 c) data) = h"
    by simp
  have ms: "unat (ucast (tcp_getSize h) - 4 :: u16) = length data - 4"
    using True assms(2) by (simp add: messageSize_unat)
  have d: "decrypt_payload C key t bs = None \<longleftrightarrow> EncryptionType_of t \<in> {None, Some AC_ENCRYPTION}" for C t bs
    by (simp add: decrypt_payload_def split: option.split EncryptionType.split)
  let ?d = "decrypt_payload (KeySetup 0 c) key (tcp_getCrypt h) (drop 4 data)"
  show ?thesis
  proof (cases ?d)
    case None
    then have "EncryptionType_of (tcp_getCrypt h) \<in> {None, Some AC_ENCRYPTION}" using d by blast
    moreover have "processIncomingPacket c data sz key q = Inr (q\<lparr>m_header := h\<rparr>)"
      using True assms(3) None by (simp add: processIncomingPacket_def Let_def h h4 ms)
    ultimately show ?thesis by auto
  next
    case (Some bs)
    then have bs: "length bs = length data - 4" by (simp add: length_decrypt_payload)
    have "EncryptionType_of (tcp_getCrypt h) \<notin> {None, Some AC_ENCRYPTION}"
      using Some d by (metis option.distinct(1))
    moreover have "processIncomingPacket c data sz key q =
        (if length data = 4 then Inr (q\<lparr>m_header := h\<rparr>)
         else packet_of_payload (length data - 4) bs (q\<lparr>m_header := h\<rparr>))"
      using True assms(3) Some by (auto simp: processIncomingPacket_def Let_def h h4 ms)
    moreover have "packet_of_payload (length data - 4) bs q' = Inl OutOfBounds \<longleftrightarrow> length data < 8" for q'
      using True bs by (auto simp: packet_of_payload_def Let_def)
    moreover have "length data \<in> {5, 6, 7} \<longleftrightarrow> length data \<noteq> 4 \<and> length data < 8"
      using True by auto
    ultimately show ?thesis by simp
  qed
qed

theorem frame_overread_witness:
  "let c = Crypt_new (replicate 26 0) (replicate 84 0);
       h = tcp_initialize 1 0 6 TcpHeader_default;
       data = RC5Encrypt32 (KeySetup 0 c) (tcp_bytes h) @ [0, 0]
   in processIncomingPacket c data 6 0 packet_new = Inl OutOfBounds \<longleftrightarrow>
     length data \<in> {5, 6, 7} \<and> EncryptionType_of (tcp_getCrypt h) \<notin> {None, Some AC_ENCRYPTION}"
  unfolding Let_def
  by (rule frame_overread) (simp_all add: crypt_wf_def Crypt_new_def tcp_initialize_def)

end
