(* ===== verification/SessionIds.thy ===== *)
theory SessionIds
  imports Prelude
begin

text \<open>
  Session numbers, \<open>Common/include/Network/SessionIdManager.h\<close>, and the contract of an
  allocator of numbers, which the room numbers of the main server have as well.
\<close>

section \<open>The contract of an allocator\<close>

text \<open>
  \<open>Acquire\<close> and \<open>Release\<close> as their clients issue them. The ghost set holds the numbers
  that are out with a client; a client gives back only a number it holds.
\<close>

inductive id_run :: "('s \<Rightarrow> ('i \<times> 's) option) \<Rightarrow> ('i \<Rightarrow> 's \<Rightarrow> 's) \<Rightarrow> 's \<Rightarrow> 's \<Rightarrow> 'i set \<Rightarrow> bool"
  for acq rel s0 where
  id_start: "id_run acq rel s0 s0 {}"
| id_acquire: "id_run acq rel s0 s held \<Longrightarrow> acq s = Some (i, s') \<Longrightarrow> id_run acq rel s0 s' (insert i held)"
| id_release: "id_run acq rel s0 s held \<Longrightarrow> i \<in> held \<Longrightarrow> id_run acq rel s0 (rel i s) (held - {i})"

locale id_allocator =
  fixes acq :: "'s \<Rightarrow> ('i \<times> 's) option"
    and rel :: "'i \<Rightarrow> 's \<Rightarrow> 's"
    and live :: "'s \<Rightarrow> 'i set"
    and pool :: "'i set"
    and inv :: "'s \<Rightarrow> bool"
  assumes acq_None: "inv s \<Longrightarrow> acq s = None \<longleftrightarrow> live s = pool"
    and acq_fresh: "inv s \<Longrightarrow> acq s = Some (i, s') \<Longrightarrow> i \<in> pool - live s"
    and acq_live: "inv s \<Longrightarrow> acq s = Some (i, s') \<Longrightarrow> inv s' \<and> live s' = insert i (live s)"
    and rel_live: "inv s \<Longrightarrow> i \<in> live s \<Longrightarrow> inv (rel i s) \<and> live (rel i s) = live s - {i}"
    and live_pool: "inv s \<Longrightarrow> live s \<subseteq> pool"
begin

text \<open>The allocator's bookkeeping agrees with its clients on every run.\<close>

lemma run_agrees:
  assumes "id_run acq rel s0 s held" and "inv s0" and "live s0 = {}"
  shows "inv s \<and> live s = held"
  using assms
proof (induction rule: id_run.induct)
  case (id_acquire s held i s')
  then show ?case using acq_live by auto
next
  case (id_release s held i)
  then show ?case using rel_live by auto
qed simp

text \<open>So a number is never with two clients, and none is refused while one is free.\<close>

lemma run_safe:
  assumes "id_run acq rel s0 s held" and "inv s0" and "live s0 = {}"
  shows "held \<subseteq> pool" "acq s = Some (i, s') \<Longrightarrow> i \<in> pool - held" "acq s = None \<longleftrightarrow> held = pool"
  using run_agrees [OF assms] live_pool [of s] acq_fresh [of s i s'] acq_None [of s] by auto

lemma acquire_after_release:
  assumes "inv s" "i \<in> live s"
  shows "acq (rel i s) \<noteq> None"
  using rel_live [OF assms] live_pool [OF assms(1)] acq_None [of "rel i s"] assms(2) by blast

end

section \<open>The session number manager\<close>

text \<open>The stack is a list whose head is the top.\<close>

record SessionIdManager =
  m_availableIDs :: "nat list"
  m_usedIDs :: "nat set"
  m_maxSessionIDs :: nat

definition SessionIdManager_new :: "nat \<Rightarrow> SessionIdManager" where
  "SessionIdManager_new maxIDs =
     \<lparr>m_availableIDs = fold (\<lambda>i st. i # st) [1..<maxIDs + 1] [], m_usedIDs = {}, m_maxSessionIDs = maxIDs\<rparr>"

fun getNewSessionID :: "SessionIdManager \<Rightarrow> (nat \<times> SessionIdManager) option" where
  "getNewSessionID s =
     (case m_availableIDs s of
        [] \<Rightarrow> None
      | newID # rest \<Rightarrow>
          Some (newID, s\<lparr>m_availableIDs := rest, m_usedIDs := insert newID (m_usedIDs s)\<rparr>))"

definition releaseSessionID :: "nat \<Rightarrow> SessionIdManager \<Rightarrow> SessionIdManager" where
  "releaseSessionID i s =
     (if i \<in> m_usedIDs s
      then s\<lparr>m_usedIDs := m_usedIDs s - {i}, m_availableIDs := i # m_availableIDs s\<rparr>
      else s)"

definition ids_inv :: "nat \<Rightarrow> SessionIdManager \<Rightarrow> bool" where
  "ids_inv n s \<longleftrightarrow> distinct (m_availableIDs s) \<and> set (m_availableIDs s) \<inter> m_usedIDs s = {} \<and>
     set (m_availableIDs s) \<union> m_usedIDs s = {1..n}"

lemma SessionIdManager_new_avail: "m_availableIDs (SessionIdManager_new n) = rev [1..<n + 1]"
  by (simp add: SessionIdManager_new_def fold_Cons_rev flip: foldr_conv_fold)

lemma ids_inv_new [inv_intros]: "ids_inv n (SessionIdManager_new n)" "m_usedIDs (SessionIdManager_new n) = {}"
  by (auto simp: ids_inv_def SessionIdManager_new_avail simp del: upt_Suc) (auto simp: SessionIdManager_new_def)

interpretation session_ids: id_allocator getNewSessionID releaseSessionID m_usedIDs "{1..n}" "ids_inv n" for n
proof unfold_locales
  fix s assume i: "ids_inv n s"
  show "(getNewSessionID s = None) = (m_usedIDs s = {1..n})"
    using i by (cases "m_availableIDs s") (auto simp: ids_inv_def)
  show "m_usedIDs s \<subseteq> {1..n}"
    using i by (auto simp: ids_inv_def)
  fix k show "k \<in> m_usedIDs s \<Longrightarrow>
    ids_inv n (releaseSessionID k s) \<and> m_usedIDs (releaseSessionID k s) = m_usedIDs s - {k}"
    using i by (auto simp: ids_inv_def releaseSessionID_def)
  fix s' assume a: "getNewSessionID s = Some (k, s')"
  show "k \<in> {1..n} - m_usedIDs s"
    using a i by (auto simp: ids_inv_def split: list.splits)
  show "ids_inv n s' \<and> m_usedIDs s' = insert k (m_usedIDs s)"
    using a i by (auto simp: ids_inv_def split: list.splits)
qed

section \<open>Numbers and sessions\<close>

text \<open>
  What happens to the manager: a new session takes a number (\<open>Session::Session\<close>), and the end of a
  session gives back the number it carries then (\<open>Session::~Session\<close>). That can be any number, for
  \<open>setSessionId\<close> changes it: the cast server gives its sessions the numbers of the main server. The
  ghost set holds the numbers that were handed out and not given back since.
\<close>

inductive id_events :: "nat \<Rightarrow> SessionIdManager \<Rightarrow> nat set \<Rightarrow> bool" for n where
  ids_start: "id_events n (SessionIdManager_new n) {}"
| ids_new: "id_events n s out \<Longrightarrow> getNewSessionID s = Some (i, s') \<Longrightarrow> id_events n s' (insert i out)"
| ids_refused: "id_events n s out \<Longrightarrow> getNewSessionID s = None \<Longrightarrow> id_events n s out"
| ids_end: "id_events n s out \<Longrightarrow> id_events n (releaseSessionID i s) (out - {i})"

lemma release_other: "i \<notin> m_usedIDs s \<Longrightarrow> releaseSessionID i s = s"
  by (simp add: releaseSessionID_def)

lemma id_events_agree: "id_events n s out \<Longrightarrow> ids_inv n s \<and> m_usedIDs s = out"
proof (induction rule: id_events.induct)
  case (ids_new s out i s')
  then show ?case using session_ids.acq_live by blast
next
  case (ids_end s out i)
  then show ?case using session_ids.rel_live [of n s i] by (cases "i \<in> m_usedIDs s") (auto simp: release_other)
qed (simp_all add: ids_inv_new)

section \<open>Properties\<close>

text \<open>C13: On every run of new sessions and ends of sessions, whatever number a session carries when
  it ends, a new session gets a number between 1 and the maximum that is not out; none is given
  exactly when all are out; a number that is given back is the next to be handed out; and giving
  back a number that is not out changes nothing, so no number is ever available twice.\<close>

theorem session_numbers_unique:
  assumes "id_events n s out"
  shows "out \<subseteq> {1..n} \<and>
    (case getNewSessionID s of
       None \<Rightarrow> out = {1..n}
     | Some (i, s') \<Rightarrow> i \<in> {1..n} - out \<and> m_usedIDs s' = insert i out) \<and>
    (\<forall>i \<in> out. \<exists>s'. getNewSessionID (releaseSessionID i s) = Some (i, s')) \<and>
    (\<forall>i. i \<notin> out \<longrightarrow> releaseSessionID i s = s) \<and>
    distinct (m_availableIDs s) \<and> set (m_availableIDs s) = {1..n} - out"
proof -
  have r: "ids_inv n s" "m_usedIDs s = out" using id_events_agree [OF assms] by simp_all
  have "out \<subseteq> {1..n}" "distinct (m_availableIDs s)" "set (m_availableIDs s) = {1..n} - out"
    using r by (auto simp: ids_inv_def)
  moreover have "i \<in> {1..n} - out \<and> m_usedIDs s' = insert i out" if "getNewSessionID s = Some (i, s')" for i s'
    using session_ids.acq_fresh [OF r(1) that] session_ids.acq_live [OF r(1) that] r(2) by simp
  moreover have "out = {1..n}" if "getNewSessionID s = None"
    using session_ids.acq_None [OF r(1)] that r(2) by simp
  moreover have "\<exists>s'. getNewSessionID (releaseSessionID i s) = Some (i, s')" if "i \<in> out" for i
    using that r(2) by (simp add: releaseSessionID_def)
  moreover have "releaseSessionID i s = s" if "i \<notin> out" for i
    using that r(2) by (simp add: release_other)
  ultimately show ?thesis by (auto split: option.split)
qed

theorem session_numbers_unique_witness:
  "let s = \<lparr>m_availableIDs = [1], m_usedIDs = {2}, m_maxSessionIDs = 2\<rparr> in
    (\<exists>s'. getNewSessionID (releaseSessionID 2 s) = Some (2, s')) \<and> releaseSessionID 7 s = s \<and> distinct (m_availableIDs s)"
proof -
  let ?s = "\<lparr>m_availableIDs = [1], m_usedIDs = {2}, m_maxSessionIDs = 2 :: nat\<rparr>"
  have "getNewSessionID (SessionIdManager_new 2) = Some (2, ?s)"
    by (simp add: SessionIdManager_new_def numeral_2_eq_2)
  from ids_new [OF ids_start this] have "id_events 2 ?s {2}" .
  from session_numbers_unique [OF ids_end [OF this, of 9, simplified release_other]]
    session_numbers_unique [OF this]
  show ?thesis by (simp add: Let_def)
qed

end
