(* ===== verification/SessionStream.thy ===== *)
theory SessionStream
  imports Packet SessionIds
begin

text \<open>
  A connection, \<open>Common/include/Network/Session.h\<close> and \<open>Common/src/Network/Session.cpp\<close>: the
  receive buffer and the loop that cuts it into packets, the admission check of the first
  read, closing, the greeting of a new connection, and the dispatch of a packet to its
  callback (the default one, and the override of \<open>CastServer/src/Network/CastSession.cpp\<close>).
  The socket is its open flag and the list of what has been written to it. What the subclass
  and the rest of the server hold is the polymorphic component \<open>sess_app\<close>.
\<close>

section \<open>State\<close>

record 'a session =
  m_reader :: bytes
  m_crypt :: crypt
  m_id :: nat
  m_ip :: bytes
  m_isOpen :: bool
  m_checkValidSession :: bool
  m_isValidSession :: bool
  m_isFirstRead :: bool
  m_written :: "bytes list"
  sess_app :: 'a

type_synonym 'a on_close = "(nat \<Rightarrow> 'a session \<Rightarrow> 'a session) option"
type_synonym 'a on_packet = "bytes \<Rightarrow> 'a session \<Rightarrow> mem_error + 'a session"

text \<open>The constructor; \<open>newID\<close> is what the session number manager returned.\<close>

definition closeSocket :: "'a on_close \<Rightarrow> 'a session \<Rightarrow> 'a session" where
  "closeSocket cb s =
     (if \<not> m_isOpen s then s
      else (case cb of
              None \<Rightarrow> s
            | Some f \<Rightarrow> if \<not> m_checkValidSession s \<or> m_isValidSession s then f (m_id s) s else s)
           \<lparr>m_isOpen := False\<rparr>)"

definition Session_new :: "crypt \<Rightarrow> bytes \<Rightarrow> 'a on_close \<Rightarrow> 'a \<Rightarrow> SessionIdManager \<Rightarrow> 'a session \<times> SessionIdManager" where
  "Session_new c ip cb app ids =
     (let s = \<lparr>m_reader = [], m_crypt = c, m_id = 0, m_ip = ip, m_isOpen = True,
               m_checkValidSession = True, m_isValidSession = False, m_isFirstRead = True,
               m_written = [], sess_app = app\<rparr>
      in case getNewSessionID ids of
           Some (newID, ids') \<Rightarrow> (s\<lparr>m_id := newID\<rparr>, ids')
         | None \<Rightarrow> (closeSocket cb s, ids))"

definition Session_destroy :: "'a on_close \<Rightarrow> 'a session \<Rightarrow> SessionIdManager \<Rightarrow> 'a session \<times> SessionIdManager" where
  "Session_destroy cb s ids =
     (let s = closeSocket cb s in (s, releaseSessionID (m_id s) ids))"

section \<open>Writing\<close>

definition asyncWrite :: "crypt \<Rightarrow> packet \<Rightarrow> 'a session \<Rightarrow> bool \<times> 'a session" where
  "asyncWrite c p s =
     (if \<not> m_isOpen s then (False, s)
      else (True, s\<lparr>m_written := m_written s @
              [take (unat (getFullSize p)) (generateOutgoingPacket c (UserKey (m_crypt s)) (isUsed (m_crypt s)) p)]\<rparr>))"

definition asyncWrite_plain :: "packet \<Rightarrow> 'a session \<Rightarrow> bool \<times> 'a session" where
  "asyncWrite_plain p s =
     (if \<not> m_isOpen s then (False, s)
      else (True, s\<lparr>m_written := m_written s @ [take (unat (getFullSize p)) (generateOutgoingPacket_plain p)]\<rparr>))"

definition sendMessage :: "crypt \<Rightarrow> bytes \<Rightarrow> u32 \<Rightarrow> 'a session \<Rightarrow> 'a session" where
  "sendMessage c msg extra s =
     (let completeMessage = replicate 16 0x30 @ msg;
          p = setTcpHeader (of_nat (m_id s)) 0 packet_new;
          p = setCommand 316 0 (ucast extra) (of_nat (length completeMessage)) p;
          p = setData completeMessage p
      in snd (asyncWrite c p s))"

section \<open>Reading\<close>

text \<open>The header at the front of the buffer, decrypted when the connection is encrypted.\<close>

definition front_header :: "crypt \<Rightarrow> bool \<Rightarrow> bytes \<Rightarrow> TcpHeader" where
  "front_header cryptography used bs =
     (if used then tcp_of_bytes (RC5Decrypt32 cryptography (take 4 bs)) else tcp_of_bytes (take 4 bs))"

text \<open>
  The loop of \<open>onRead\<close>. \<open>None\<close> is a loop that never ends. The handler may replace the
  buffer; when it leaves less than the packet just handled, the unsigned difference wraps and
  \<open>memmove\<close> runs out of bounds.
\<close>

partial_function (option) read_loop ::
  "crypt \<Rightarrow> 'a on_packet \<Rightarrow> 'a on_close \<Rightarrow> 'a session \<Rightarrow> (mem_error + 'a session) option" where
  "read_loop K onPacket cb s =
     (if length (m_reader s) < 4 then Some (Inr s)
      else let n = unat (tcp_getSize (front_header K (isUsed (m_crypt s)) (m_reader s)))
           in if 1450 \<le> n then Some (Inr (closeSocket cb s))
              else if length (m_reader s) < n then Some (Inr s)
              else case onPacket (take n (m_reader s)) s of
                     Inl e \<Rightarrow> Some (Inl e)
                   | Inr s' \<Rightarrow>
                       if m_reader s' = [] then Some (Inr s')
                       else if length (m_reader s') < n then Some (Inl OutOfBounds)
                       else read_loop K onPacket cb (s'\<lparr>m_reader := drop n (m_reader s')\<rparr>))"

definition onRead ::
  "crypt \<Rightarrow> 'a on_packet \<Rightarrow> 'a on_close \<Rightarrow> bool \<Rightarrow> bytes \<Rightarrow> 'a session \<Rightarrow> (mem_error + 'a session) option" where
  "onRead c onPacket cb error transferred s =
     (if \<not> error
      then read_loop (KeySetup 0 c) onPacket cb (s\<lparr>m_reader := m_reader s @ transferred\<rparr>)
      else Some (Inr (closeSocket cb s)))"

text \<open>
  The chunks the socket delivers one after another to a connection that has passed the admission
  test of its first \<open>asyncRead\<close>, as long as the loop returns and the connection stays open; later calls
  of \<open>asyncRead\<close> test nothing but that.
\<close>

fun onReads ::
  "crypt \<Rightarrow> 'a on_packet \<Rightarrow> 'a on_close \<Rightarrow> bytes list \<Rightarrow> 'a session \<Rightarrow> (mem_error + 'a session) option" where
  "onReads c onPacket cb [] s = Some (Inr s)"
| "onReads c onPacket cb (b # bs) s =
     (case onRead c onPacket cb False b s of
        None \<Rightarrow> None
      | Some (Inl e) \<Rightarrow> Some (Inl e)
      | Some (Inr s') \<Rightarrow> if m_isOpen s' then onReads c onPacket cb bs s' else Some (Inr s'))"

section \<open>Dispatch\<close>

type_synonym 'a callbacks = "u16 \<Rightarrow> (packet \<Rightarrow> 'a session \<Rightarrow> 'a session) option"

definition packet_getOrder :: "packet \<Rightarrow> u16" where
  "packet_getOrder p = ucast (cmd_getOrder (m_command p))"

text \<open>The default \<open>onPacket\<close>, used for the connections between the servers.\<close>

definition ipc_onPacket :: "'a callbacks \<Rightarrow> 'a on_packet" where
  "ipc_onPacket callbacks data s =
     (case processIncomingPacket_plain data (of_nat (length data)) packet_new of
        Inl e \<Rightarrow> Inl e
      | Inr p \<Rightarrow> (case callbacks (packet_getOrder p) of
                    None \<Rightarrow> Inr s
                  | Some f \<Rightarrow> Inr (f p s)))"

text \<open>The cast server drops everything received when it does not know the order.\<close>

definition cast_onPacket :: "'a callbacks \<Rightarrow> 'a on_packet" where
  "cast_onPacket callbacks data s =
     (case processIncomingPacket_plain data (of_nat (length data)) packet_new of
        Inl e \<Rightarrow> Inl e
      | Inr p \<Rightarrow> (case callbacks (packet_getOrder p) of
                    None \<Rightarrow> Inr (s\<lparr>m_reader := []\<rparr>)
                  | Some f \<Rightarrow> Inr (f p s)))"

text \<open>The auth server drops everything received, too; the packets are encrypted.\<close>

definition auth_onPacket :: "crypt \<Rightarrow> 'a callbacks \<Rightarrow> 'a on_packet" where
  "auth_onPacket c callbacks data s =
     (case processIncomingPacket c data (of_nat (length data)) (UserKey (m_crypt s)) packet_new of
        Inl e \<Rightarrow> Inl e
      | Inr p \<Rightarrow> (case callbacks (packet_getOrder p) of
                    None \<Rightarrow> Inr (s\<lparr>m_reader := []\<rparr>)
                  | Some f \<Rightarrow> Inr (f p s)))"

section \<open>Admission\<close>

text \<open>
  \<open>s_loggedIps\<close> and \<open>ipQueue\<close> are shared by all connections. \<open>asyncRead\<close> also returns
  whether a read has been posted.
\<close>

record ip_table =
  s_loggedIps :: "bytes set"
  ipQueue :: "bytes list"

definition asyncRead :: "'a on_close \<Rightarrow> 'a session \<times> ip_table \<Rightarrow> bool \<times> 'a session \<times> ip_table" where
  "asyncRead cb = (\<lambda>(s, t).
     let (s, t) =
       (if m_checkValidSession s \<and> m_isFirstRead s
        then let s = s\<lparr>m_isFirstRead := False\<rparr>
             in if m_ip s \<in> s_loggedIps t
                then (s\<lparr>m_isValidSession := True\<rparr>, t\<lparr>s_loggedIps := s_loggedIps t - {m_ip s}\<rparr>)
                else (s, t)
        else (s, t))
     in if m_checkValidSession s \<and> \<not> m_isValidSession s then (False, closeSocket cb s, t)
        else if \<not> m_isOpen s then (False, s, t)
        else (True, s, t))"

section \<open>The greeting of a new connection\<close>

datatype ServerType = AUTH_SERVER | MAIN_SERVER | CAST_SERVER | IPC_SERVER

text \<open>
  \<open>rnd\<close> is the result of \<open>rand()\<close>, \<open>now\<close> that of \<open>std::time\<close>. The structures that are
  sent are the little-endian bytes of their fields; \<open>UniqueId\<close> packs the session number and
  the server number 1 into 32 bits.
\<close>

definition main_unique_id :: "nat \<Rightarrow> u32" where
  "main_unique_id i = (of_nat i AND 0xFFFF) OR push_bit 16 1"

definition greeting :: "crypt \<Rightarrow> ServerType \<Rightarrow> u32 \<Rightarrow> u32 \<Rightarrow> 'a session \<Rightarrow> 'a session" where
  "greeting c serverType rnd now s =
     (let connectionAck = setTcpHeader (of_nat (m_id s)) 0 packet_new; key = rnd + 1
      in case serverType of
           AUTH_SERVER \<Rightarrow>
             (let s = s\<lparr>m_crypt := KeySetup key (m_crypt s)\<rparr>;
                  p = setData (le_store 4 key @ le_store 4 now) connectionAck;
                  p = setCommand 401 0 34 0 p
              in snd (asyncWrite c p s))
         | MAIN_SERVER \<Rightarrow>
             (let s = s\<lparr>m_crypt := KeySetup key (m_crypt s)\<rparr>;
                  p = setData (le_store 4 key @ le_store 4 (main_unique_id (m_id s))) connectionAck;
                  p = setCommand 401 0 0 1 p
              in snd (asyncWrite c p s))
         | CAST_SERVER \<Rightarrow>
             (let s = s\<lparr>m_crypt := m_crypt s\<lparr>isUsed := False\<rparr>\<rparr>;
                  p = setData (le_store 4 key) connectionAck;
                  p = setCommand 401 0 54 0 p
              in snd (asyncWrite c p s))
         | IPC_SERVER \<Rightarrow> s\<lparr>m_crypt := m_crypt s\<lparr>isUsed := False\<rparr>\<rparr>)"

definition sendConnectionACK ::
  "crypt \<Rightarrow> ServerType \<Rightarrow> u32 \<Rightarrow> u32 \<Rightarrow> 'a on_close \<Rightarrow> 'a session \<times> ip_table \<Rightarrow> bool \<times> 'a session \<times> ip_table" where
  "sendConnectionACK c serverType rnd now cb = (\<lambda>(s, t).
     asyncRead cb (greeting c serverType rnd now s, t))"

section \<open>The addresses announced by the auth server\<close>

text \<open>A zero-terminated string at the start of the payload.\<close>

definition c_string :: "bytes \<Rightarrow> mem_error + bytes" where
  "c_string bs = (if 0 \<in> set bs then Inr (takeWhile (\<lambda>b. b \<noteq> 0) bs) else Inl OutOfBounds)"

text \<open>The part of \<open>handleIpReq\<close> that changes the table.\<close>

definition announce_ip :: "packet \<Rightarrow> ip_table \<Rightarrow> mem_error + ip_table" where
  "announce_ip request t =
     (case c_string (m_data request) of
        Inl e \<Rightarrow> Inl e
      | Inr ip \<Rightarrow>
          if ip \<notin> s_loggedIps t
          then if card (s_loggedIps t) \<ge> 500 * 4
               then case ipQueue t of
                      [] \<Rightarrow> Inl OutOfBounds
                    | oldestIp # rest \<Rightarrow>
                        Inr \<lparr>s_loggedIps = insert ip (s_loggedIps t - {oldestIp}), ipQueue = rest @ [ip]\<rparr>
               else Inr \<lparr>s_loggedIps = insert ip (s_loggedIps t), ipQueue = ipQueue t @ [ip]\<rparr>
          else Inr t)"

text \<open>The whole handler, which sends the request back to the server it came from.\<close>

definition handleIpReq :: "packet \<Rightarrow> 'a session \<times> ip_table \<Rightarrow> mem_error + 'a session \<times> ip_table" where
  "handleIpReq request = (\<lambda>(session, t).
     case announce_ip request t of
       Inl e \<Rightarrow> Inl e
     | Inr t \<Rightarrow> Inr (snd (asyncWrite_plain request session), t))"

section \<open>Cutting a byte stream into packets\<close>

text \<open>
  What the loop should do, as a function of the bytes alone: the packets that are complete,
  the bytes that remain, and why it stops. It waits for more, or an announced size is too
  large, or the announced size is 0 and nothing is consumed any more.
\<close>

datatype cut_end = Waits | Oversized | Stalls

function cut :: "crypt \<Rightarrow> bool \<Rightarrow> bytes \<Rightarrow> bytes list \<times> bytes \<times> cut_end" where
  "cut K used bs =
     (if length bs < 4 then ([], bs, Waits)
      else let n = unat (tcp_getSize (front_header K used bs))
           in if 1450 \<le> n then ([], bs, Oversized)
              else if length bs < n then ([], bs, Waits)
              else if n = 0 then ([], bs, Stalls)
              else case cut K used (drop n bs) of (fs, r, e) \<Rightarrow> (take n bs # fs, r, e))"
  by pat_completeness auto
termination
  by (relation "measure (\<lambda>(K, used, bs). length bs)") auto

declare cut.simps [simp del]

lemma cut_sound:
  "cut K used bs = (fs, r, e) \<Longrightarrow> concat fs @ r = bs \<and> (\<forall>f \<in> set fs. 0 < length f \<and> length f < 1450)"
proof (induction K used bs arbitrary: fs r e rule: cut.induct)
  case (1 K used bs)
  define n where "n = unat (tcp_getSize (front_header K used bs))"
  show ?case
  proof (cases "4 \<le> length bs \<and> n < 1450 \<and> n \<le> length bs \<and> n \<noteq> 0")
    case True
    obtain fs' r' e' where c: "cut K used (drop n bs) = (fs', r', e')" by (metis prod_cases3)
    have "concat fs' @ r' = drop n bs \<and> (\<forall>f \<in> set fs'. 0 < length f \<and> length f < 1450)"
      using 1(1) [OF _ n_def _ _ _ c] True by simp
    moreover have "fs = take n bs # fs'" "r = r'"
      using "1.prems" True c by (subst (asm) cut.simps, simp add: Let_def flip: n_def)+
    ultimately show ?thesis using True by auto
  next
    case False
    then have "fs = []" "r = bs"
      using "1.prems" by (subst (asm) cut.simps, auto simp: Let_def split: if_splits simp flip: n_def)+
    then show ?thesis by simp
  qed
qed

text \<open>
  A handler that neither looks at nor changes the receive buffer and the encryption flag;
  all callbacks of the servers are of this kind.
\<close>

definition buffer_blind :: "(bytes \<Rightarrow> 'a session \<Rightarrow> 'a session) \<Rightarrow> bool" where
  "buffer_blind h \<longleftrightarrow> (\<forall>d s r. h d (s\<lparr>m_reader := r\<rparr>) = (h d s)\<lparr>m_reader := r\<rparr>) \<and>
     (\<forall>d s. isUsed (m_crypt (h d s)) = isUsed (m_crypt s))"

lemma buffer_blind_reader: "buffer_blind h \<Longrightarrow> m_reader (h d s) = m_reader s"
proof -
  assume b: "buffer_blind h"
  then have "m_reader (h d (s\<lparr>m_reader := r\<rparr>)) = r" for r
    by (simp add: buffer_blind_def)
  from this [of "m_reader s"] show ?thesis by simp
qed

lemma buffer_blind_fold:
  assumes "buffer_blind h"
  shows "fold h fs (s\<lparr>m_reader := r\<rparr>) = (fold h fs s)\<lparr>m_reader := r\<rparr>"
    and "isUsed (m_crypt (fold h fs s)) = isUsed (m_crypt s)"
    and "m_reader (fold h fs s) = m_reader s"
proof -
  show "fold h fs (s\<lparr>m_reader := r\<rparr>) = (fold h fs s)\<lparr>m_reader := r\<rparr>"
    by (induction fs arbitrary: s) (use assms in \<open>simp_all add: buffer_blind_def\<close>)
  show "isUsed (m_crypt (fold h fs s)) = isUsed (m_crypt s)"
    by (induction fs arbitrary: s) (use assms in \<open>simp_all add: buffer_blind_def\<close>)
  show "m_reader (fold h fs s) = m_reader s"
    by (induction fs arbitrary: s) (use assms in \<open>simp_all add: buffer_blind_reader\<close>)
qed

text \<open>The loop on a state whose buffer announces a complete packet of \<open>n > 0\<close> bytes.\<close>

lemma read_loop_packet:
  assumes "buffer_blind h" "n = unat (tcp_getSize (front_header K (isUsed (m_crypt s)) (m_reader s)))"
    and "4 \<le> length (m_reader s)" "n < 1450" "n \<le> length (m_reader s)"
    and "onPacket (take n (m_reader s)) s = Inr (h (take n (m_reader s)) s)"
  shows "read_loop K onPacket cb s =
    read_loop K onPacket cb ((h (take n (m_reader s)) s)\<lparr>m_reader := drop n (m_reader s)\<rparr>)"
  using assms buffer_blind_reader [OF assms(1), of "take n (m_reader s)" s]
  by (subst read_loop.simps) (auto simp: Let_def)

lemma read_loop_stop:
  assumes "cut K (isUsed (m_crypt s)) (m_reader s) = ([], r, e)" "e \<noteq> Stalls"
  shows "read_loop K on cb s = Some (Inr (if e = Oversized then closeSocket cb s else s))"
  using assms by (subst read_loop.simps) (subst (asm) cut.simps, auto simp: Let_def split: if_splits prod.splits)

text \<open>A buffer that announces a packet of size 0 is never left.\<close>

lemma read_loop_stalls:
  assumes "buffer_blind h" "\<And>s. onPacket [] s = Inr (h [] s)"
    and "cut K (isUsed (m_crypt s)) (m_reader s) = ([], r, Stalls)"
  shows "read_loop K onPacket cb s = None"
proof -
  define Z where "Z K s \<longleftrightarrow> 4 \<le> length (m_reader s) \<and>
      unat (tcp_getSize (front_header K (isUsed (m_crypt s)) (m_reader s))) = 0"
    for K and s :: "'a session"
  have Z: "Z K s" using assms(3)
    by (subst (asm) cut.simps) (auto simp: Z_def Let_def split: if_splits prod.splits)
  let ?P = "\<lambda>K on cb s y. on = onPacket \<longrightarrow> \<not> Z K s"
  have "?P K on cb s y" if "read_loop K on cb s = Some y" for on y
    using that
  proof (rule read_loop.raw_induct [where P = ?P, rotated])
    fix rl K on cb and s :: "'a session" and y
    assume IH: "\<And>K on cb s y. rl K on cb s = Some y \<Longrightarrow> ?P K on cb s y"
      and body: "(if length (m_reader s) < 4 then Some (Inr s)
        else let n = unat (tcp_getSize (front_header K (isUsed (m_crypt s)) (m_reader s)))
             in if 1450 \<le> n then Some (Inr (closeSocket cb s))
                else if length (m_reader s) < n then Some (Inr s)
                else case on (take n (m_reader s)) s of
                       Inl e \<Rightarrow> Some (Inl e)
                     | Inr s' \<Rightarrow>
                         if m_reader s' = [] then Some (Inr s')
                         else if length (m_reader s') < n then Some (Inl OutOfBounds)
                         else rl K on cb (s'\<lparr>m_reader := drop n (m_reader s')\<rparr>)) = Some y"
    show "?P K on cb s y"
    proof (intro impI notI)
      assume on: "on = onPacket" and z: "Z K s"
      let ?s' = "h [] s\<lparr>m_reader := m_reader s\<rparr>"
      have "m_reader s \<noteq> []" using z by (auto simp: Z_def)
      then have "rl K on cb ?s' = Some y"
        using body z buffer_blind_reader [OF assms(1), of "[]" s] on assms(2) by (auto simp: Z_def Let_def)
      moreover have "Z K ?s'"
        using z assms(1) by (simp add: Z_def buffer_blind_def)
      ultimately show False using IH on by blast
    qed
  qed
  then show ?thesis using Z by (metis not_None_eq)
qed

lemma cut_step:
  assumes "n = unat (tcp_getSize (front_header K used bs))"
    and "4 \<le> length bs" "n < 1450" "n \<le> length bs" "n \<noteq> 0"
  shows "cut K used bs = (case cut K used (drop n bs) of (fs, r, e) \<Rightarrow> (take n bs # fs, r, e))"
  using assms by (subst cut.simps) (simp add: Let_def)

lemma read_loop_cut:
  assumes "buffer_blind h" "cut K (isUsed (m_crypt s)) (m_reader s) = (fs, r, e)"
    and "\<And>d s. d \<in> set fs \<Longrightarrow> I s \<Longrightarrow> onPacket d s = Inr (h d s)"
    and "\<And>d s r. d \<in> set fs \<Longrightarrow> I s \<Longrightarrow> I (h d s\<lparr>m_reader := r\<rparr>)" and "I s"
    and "\<And>s. e = Stalls \<Longrightarrow> onPacket [] s = Inr (h [] s)"
  shows "read_loop K onPacket cb s =
    (case e of
       Waits \<Rightarrow> Some (Inr (fold h fs s\<lparr>m_reader := r\<rparr>))
     | Oversized \<Rightarrow> Some (Inr (closeSocket cb (fold h fs s\<lparr>m_reader := r\<rparr>)))
     | Stalls \<Rightarrow> None)"
  using assms(2-5)
proof (induction K "isUsed (m_crypt s)" "m_reader s" arbitrary: s fs rule: cut.induct)
  case (1 K s)
  define n where "n = unat (tcp_getSize (front_header K (isUsed (m_crypt s)) (m_reader s)))"
  show ?case
  proof (cases "4 \<le> length (m_reader s) \<and> n < 1450 \<and> n \<le> length (m_reader s) \<and> n \<noteq> 0")
    case True
    let ?s = "h (take n (m_reader s)) s\<lparr>m_reader := drop n (m_reader s)\<rparr>"
    have u: "isUsed (m_crypt ?s) = isUsed (m_crypt s)" using assms(1) by (simp add: buffer_blind_def)
    have "cut K (isUsed (m_crypt s)) (m_reader s) =
        (case cut K (isUsed (m_crypt ?s)) (m_reader ?s) of (fs, r, e) \<Rightarrow> (take n (m_reader s) # fs, r, e))"
      unfolding u using cut_step [OF n_def] True by simp
    then obtain fs' where c: "cut K (isUsed (m_crypt ?s)) (m_reader ?s) = (fs', r, e)" "fs = take n (m_reader s) # fs'"
      using "1.prems"(1) by (auto split: prod.splits)
    show ?thesis
      using read_loop_packet [OF assms(1) n_def, of onPacket cb] 1(1) [OF _ n_def, of ?s fs'] True c u "1.prems"(2-4)
      by (cases e) (simp_all add: buffer_blind_fold(1) [OF assms(1)])
  next
    case False
    then have f: "fs = []" "r = m_reader s"
      using "1.prems"(1) by (subst (asm) cut.simps, auto simp: Let_def split: if_splits simp flip: n_def)+
    then show ?thesis
      using "1.prems"(1) read_loop_stop [of K s r e] read_loop_stalls [OF assms(1), of onPacket K s r] assms(6)
      by (cases e) auto
  qed
qed

subsection \<open>Packets that arrive whole or in pieces\<close>

definition whole_packet :: "crypt \<Rightarrow> bool \<Rightarrow> bytes \<Rightarrow> bool" where
  "whole_packet K used f \<longleftrightarrow> 4 \<le> length f \<and> length f < 1450 \<and>
     unat (tcp_getSize (front_header K used f)) = length f"

definition unfinished :: "crypt \<Rightarrow> bool \<Rightarrow> bytes \<Rightarrow> bool" where
  "unfinished K used r \<longleftrightarrow> length r < 4 \<or>
     length r < unat (tcp_getSize (front_header K used r)) \<and> unat (tcp_getSize (front_header K used r)) < 1450"

lemma front_header_append: "4 \<le> length f \<Longrightarrow> front_header K used (f @ g) = front_header K used f"
  by (simp add: front_header_def)

lemma cut_unfinished: "unfinished K used r \<Longrightarrow> cut K used r = ([], r, Waits)"
  by (subst cut.simps) (auto simp: unfinished_def Let_def)

lemma cut_packets:
  assumes "\<forall>f \<in> set fs. whole_packet K used f" "unfinished K used r"
  shows "cut K used (concat fs @ r) = (fs, r, Waits)"
  using assms(1)
proof (induction fs)
  case Nil
  then show ?case using cut_unfinished [OF assms(2)] by simp
next
  case (Cons f fs)
  then show ?case by (subst cut.simps) (auto simp: Let_def whole_packet_def front_header_append)
qed

text \<open>Every prefix of a stream of packets is some packets and an unfinished one.\<close>

lemma unfinished_prefix: "unfinished K used (p @ q) \<Longrightarrow> unfinished K used p"
  by (auto simp: unfinished_def front_header_append not_less)

lemma unfinished_part:
  assumes "whole_packet K used (p @ q)" "q \<noteq> []"
  shows "unfinished K used p"
proof (cases "4 \<le> length p")
  case True
  then have "length p < length (p @ q)" "unat (tcp_getSize (front_header K used p)) = length (p @ q)" "length (p @ q) < 1450"
    using assms by (simp_all add: whole_packet_def front_header_append)
  then show ?thesis by (simp add: unfinished_def)
qed (simp add: unfinished_def)

lemma prefix_of_packets:
  assumes "p @ q = concat fs @ r" "\<forall>f \<in> set fs. whole_packet K used f" "unfinished K used r"
  shows "\<exists>fs1 fs2 r1. fs = fs1 @ fs2 \<and> p = concat fs1 @ r1 \<and> unfinished K used r1 \<and> r1 @ q = concat fs2 @ r"
  using assms(1,2)
proof (induction fs arbitrary: p)
  case Nil
  then have "unfinished K used p" using unfinished_prefix [of K used p q] assms(3) by simp
  with Nil show ?case by auto
next
  case (Cons f fs)
  then obtain us where "p = f @ us \<and> us @ q = concat fs @ r \<or> p @ us = f \<and> q = us @ concat fs @ r"
    using append_eq_append_conv2 [of p q f "concat fs @ r"] by auto
  then consider (within) "f = p @ us" "us \<noteq> []" | (beyond) p2 where "p = f @ p2" "p2 @ q = concat fs @ r"
    by fastforce
  then show ?case
  proof cases
    case within
    then have "unfinished K used p" using unfinished_part [of K used p us] Cons.prems(2) by simp
    with Cons.prems show ?thesis by (intro exI [of _ "[]"] exI [of _ "f # fs"] exI [of _ p]) simp
  next
    case beyond
    from Cons.IH [OF beyond(2)] Cons.prems(2) obtain fs1 fs2 r1
      where "fs = fs1 @ fs2" "p2 = concat fs1 @ r1" "unfinished K used r1" "r1 @ q = concat fs2 @ r" by auto
    with beyond show ?thesis by (intro exI [of _ "f # fs1"] exI [of _ fs2] exI [of _ r1]) simp
  qed
qed

lemma reads_whole_packets:
  assumes "buffer_blind h" "\<And>d s. m_isOpen (h d s) = m_isOpen s"
    and "\<And>d s. d \<in> set fs \<Longrightarrow> I s \<Longrightarrow> onPacket d s = Inr (h d s)"
    and "\<And>d s r. d \<in> set fs \<Longrightarrow> I s \<Longrightarrow> I (h d s\<lparr>m_reader := r\<rparr>)"
    and "\<And>s r. I s \<Longrightarrow> I (s\<lparr>m_reader := r\<rparr>)" and "I s" and "m_isOpen s"
    and "\<forall>f \<in> set fs. whole_packet (KeySetup 0 c) (isUsed (m_crypt s)) f"
    and "unfinished (KeySetup 0 c) (isUsed (m_crypt s)) r" "unfinished (KeySetup 0 c) (isUsed (m_crypt s)) (m_reader s)"
    and "m_reader s @ concat chunks = concat fs @ r"
  shows "onReads c onPacket cb chunks s = Some (Inr (fold h fs s\<lparr>m_reader := r\<rparr>))"
  using assms(3,4,6-)
proof (induction chunks arbitrary: s fs)
  case Nil
  then have "cut (KeySetup 0 c) (isUsed (m_crypt s)) (m_reader s) = (fs, r, Waits)"
    using cut_packets [OF Nil.prems(5,6)] by simp
  then have "fs = []" "m_reader s = r"
    using cut_unfinished [OF Nil.prems(7)] by simp_all
  then show ?case by auto
next
  case (Cons b bs)
  let ?K = "KeySetup 0 c" and ?u = "isUsed (m_crypt s)"
  obtain fs1 fs2 r1 where f: "fs = fs1 @ fs2" "m_reader s @ b = concat fs1 @ r1"
      "unfinished ?K ?u r1" "r1 @ concat bs = concat fs2 @ r"
    using prefix_of_packets [of "m_reader s @ b" "concat bs" fs r ?K ?u] Cons.prems by auto
  let ?s1 = "fold h fs1 s\<lparr>m_reader := r1\<rparr>"
  have "onRead c onPacket cb False b s = Some (Inr ?s1)"
    using read_loop_cut [OF assms(1), of ?K "s\<lparr>m_reader := m_reader s @ b\<rparr>" fs1 r1 Waits I onPacket cb]
      cut_packets [of fs1 ?K ?u r1] f Cons.prems(1,2,3,5) assms(5)
    by (simp add: onRead_def buffer_blind_fold(1) [OF assms(1)])
  moreover have "m_isOpen (fold h fs1 s)"
    using Cons.prems(4) assms(2) by (induction fs1 arbitrary: s) simp_all
  moreover have "I ?s1"
  proof -
    have step: "I (h d t)" if "d \<in> set fs" "I t" for d t
      using Cons.prems(2) [OF that, of "m_reader (h d t)"] by simp
    have "I (fold h xs t)" if "I t" "set xs \<subseteq> set fs" for xs t
      using that by (induction xs arbitrary: t) (simp_all add: step)
    then show ?thesis using Cons.prems(3) f(1) assms(5) by auto
  qed
  moreover have "isUsed (m_crypt ?s1) = ?u"
    by (simp add: buffer_blind_fold(2) [OF assms(1)])
  ultimately show ?case
    using Cons.IH [of fs2 ?s1] f Cons.prems by (simp add: buffer_blind_fold(1) [OF assms(1)])
qed

text \<open>Writing on an open connection puts the whole serialised packet on the wire.\<close>

lemma asyncWrite_open:
  "m_isOpen s \<Longrightarrow> length (m_data p) \<le> 2039 \<Longrightarrow>
    asyncWrite c p s = (True, s\<lparr>m_written := m_written s @
      [generateOutgoingPacket c (UserKey (m_crypt s)) (isUsed (m_crypt s)) p]\<rparr>)"
  using unat_of_nat_small [of "8 + length (m_data p)"] by (simp add: asyncWrite_def getFullSize_def)

lemma generate_unencrypted:
  "tcp_getCrypt (m_header p) = 0 \<Longrightarrow> generateOutgoingPacket c key False p = generateOutgoingPacket_plain p"
  by (simp add: generateOutgoingPacket_def generateOutgoingPacket_plain_def encrypt_payload_def EncryptionType_of_def)

lemma generate_no_encryption:
  "tcp_getCrypt (m_header p) = 0 \<Longrightarrow> generateOutgoingPacket c key b p = generateOutgoingPacket c key' b p"
  by (simp add: generateOutgoingPacket_def encrypt_payload_def EncryptionType_of_def)

lemma sized_command_data: "length d \<le> 2039 \<Longrightarrow> sized (setCommand ord mis ext opt (setData d p))"
  using unat_of_nat_small [of "8 + length d"]
  by (simp add: sized_def setCommand_def setData_def unat_mod_distrib)

section \<open>Runs of the address table\<close>

text \<open>The table is changed by announcements and by the first reads of connections.\<close>

inductive ip_run :: "ip_table \<Rightarrow> bool" where
  ip_start: "ip_run \<lparr>s_loggedIps = {}, ipQueue = []\<rparr>"
| ip_announce: "ip_run t \<Longrightarrow> announce_ip request t = Inr t' \<Longrightarrow> ip_run t'"
| ip_read: "ip_run t \<Longrightarrow> asyncRead None (s :: unit session, t) = (posted, s', t') \<Longrightarrow> ip_run t'"

lemma asyncRead_table:
  "asyncRead cb (s, t) = (posted, s', t') \<Longrightarrow>
    ipQueue t' = ipQueue t \<and> s_loggedIps t' \<subseteq> s_loggedIps t"
  by (auto simp: asyncRead_def Let_def split: if_splits)

lemma announce_ip_cases:
  assumes "announce_ip request t = Inr t'"
  obtains ip where "c_string (m_data request) = Inr ip" "ip \<in> s_loggedIps t" "t' = t"
  | ip where "c_string (m_data request) = Inr ip" "ip \<notin> s_loggedIps t" "card (s_loggedIps t) < 2000"
      "t' = \<lparr>s_loggedIps = insert ip (s_loggedIps t), ipQueue = ipQueue t @ [ip]\<rparr>"
  | ip oldestIp rest where "c_string (m_data request) = Inr ip" "ip \<notin> s_loggedIps t"
      "2000 \<le> card (s_loggedIps t)" "ipQueue t = oldestIp # rest"
      "t' = \<lparr>s_loggedIps = insert ip (s_loggedIps t - {oldestIp}), ipQueue = rest @ [ip]\<rparr>"
proof (cases "c_string (m_data request)")
  case (Inr ip)
  show thesis
  proof (cases "ip \<in> s_loggedIps t")
    case True
    with Inr assms show thesis by (intro that(1) [OF Inr]) (simp_all add: announce_ip_def)
  next
    case new: False
    show thesis
    proof (cases "card (s_loggedIps t) < 2000")
      case True
      with Inr new assms show thesis by (intro that(2) [OF Inr]) (simp_all add: announce_ip_def)
    next
      case False
      then obtain oldestIp rest where "ipQueue t = oldestIp # rest"
        using Inr new assms by (cases "ipQueue t") (simp_all add: announce_ip_def)
      with Inr new False assms show thesis by (intro that(3) [OF Inr]) (auto simp: announce_ip_def)
    qed
  qed
qed (use assms in \<open>simp add: announce_ip_def\<close>)

lemma ip_run_inv: "ip_run t \<Longrightarrow> finite (s_loggedIps t) \<and> s_loggedIps t \<subseteq> set (ipQueue t)"
proof (induction rule: ip_run.induct)
  case (ip_announce t request t')
  then show ?case by (auto elim!: announce_ip_cases)
next
  case (ip_read t s posted s' t')
  then show ?case using asyncRead_table [OF ip_read.hyps(2)] finite_subset by auto
qed simp

text \<open>Addresses for the counterexample: two bytes, neither of them zero.\<close>

definition nth_ip :: "nat \<Rightarrow> bytes" where
  "nth_ip k = [of_nat (k div 200 + 1), of_nat (k mod 200 + 1)]"

definition announce_nth :: "nat \<Rightarrow> packet" where
  "announce_nth k = packet_new\<lparr>m_data := nth_ip k @ [0]\<rparr>"

lemma small_byte: "n < 256 \<Longrightarrow> unat (of_nat n :: u8) = n"
  by (simp add: unsigned_of_nat take_bit_nat_eq_self)

lemma nth_ip_unat: "k < 40000 \<Longrightarrow> map unat (nth_ip k) = [k div 200 + 1, k mod 200 + 1]"
  by (simp add: nth_ip_def small_byte del: of_nat_Suc of_nat_add)

lemma nth_ip_inj: "j < 40000 \<Longrightarrow> k < 40000 \<Longrightarrow> nth_ip j = nth_ip k \<longleftrightarrow> j = k"
proof
  assume "j < 40000" "k < 40000" "nth_ip j = nth_ip k"
  then have "j div 200 = k div 200" "j mod 200 = k mod 200"
    using nth_ip_unat [of j] nth_ip_unat [of k] by simp_all
  then show "j = k" by (metis div_mult_mod_eq)
qed simp

lemma inj_nth_ip: "inj_on nth_ip {..<40000}"
  by (auto simp: inj_on_def nth_ip_inj)

lemma nth_ip_mem: "n < 40000 \<Longrightarrow> K \<subseteq> {..<40000} \<Longrightarrow> nth_ip n \<in> nth_ip ` K \<longleftrightarrow> n \<in> K"
  by (rule inj_on_image_mem_iff [OF inj_nth_ip]) auto

lemma announce_nth_ip: "k < 40000 \<Longrightarrow> c_string (m_data (announce_nth k)) = Inr (nth_ip k)"
proof -
  assume "k < 40000"
  then have "0 \<notin> set (nth_ip k)"
    using nth_ip_unat [of k] by (auto simp: nth_ip_def)
  then show ?thesis
    using takeWhile_append [of "\<lambda>b. b \<noteq> 0" "nth_ip k" "[0]"]
    by (auto simp: takeWhile_eq_all_conv c_string_def announce_nth_def packet_new_def)
qed

lemma ip_run_fill: "n \<le> 2000 \<Longrightarrow> ip_run \<lparr>s_loggedIps = nth_ip ` {..<n}, ipQueue = map nth_ip [0..<n]\<rparr>"
proof (induction n)
  case 0
  then show ?case using ip_start by simp
next
  case (Suc n)
  have "nth_ip n \<notin> nth_ip ` {..<n}"
    using Suc.prems nth_ip_mem [of n "{..<n}"] by auto
  moreover have "card (nth_ip ` {..<n}) < 2000" using Suc.prems card_image_le [of "{..<n}" nth_ip] by simp
  ultimately have "announce_ip (announce_nth n) \<lparr>s_loggedIps = nth_ip ` {..<n}, ipQueue = map nth_ip [0..<n]\<rparr> =
      Inr \<lparr>s_loggedIps = nth_ip ` {..<Suc n}, ipQueue = map nth_ip [0..<Suc n]\<rparr>"
    using Suc.prems by (simp add: announce_ip_def announce_nth_ip lessThan_Suc)
  with Suc show ?case using ip_announce by fastforce
qed

text \<open>An open, fresh connection and a handler that records what it is given.\<close>

definition demo_session :: "bool \<Rightarrow> 'a \<Rightarrow> 'a session" where
  "demo_session used app = \<lparr>m_reader = [], m_crypt = Crypt_new (replicate 26 0) (replicate 84 0)\<lparr>isUsed := used\<rparr>,
     m_id = 1, m_ip = [49], m_isOpen = True, m_checkValidSession = True, m_isValidSession = False,
     m_isFirstRead = True, m_written = [], sess_app = app\<rparr>"

definition recorder :: "bytes \<Rightarrow> bytes list session \<Rightarrow> bytes list session" where
  "recorder d s = s\<lparr>sess_app := sess_app s @ [d]\<rparr>"

lemma recorder_blind: "buffer_blind recorder" "m_isOpen (recorder d s) = m_isOpen s"
  by (simp_all add: buffer_blind_def recorder_def)

section \<open>Properties\<close>

text \<open>C11: The receive loop is the cutting function. For a handler that leaves the buffer
  alone it hands over the complete packets at the front of the buffer in order, each of
  between 1 and 1449 bytes, keeps exactly the bytes after them, closes the connection when the
  next announced size is 1450 or more - and never returns when the next announced size is 0.\<close>

theorem read_loop_delivers:
  assumes "buffer_blind h"
  shows "case cut K (isUsed (m_crypt s)) (m_reader s) of (fs, r, e) \<Rightarrow>
    concat fs @ r = m_reader s \<and> (\<forall>f \<in> set fs. f \<noteq> [] \<and> length f < 1450) \<and>
    read_loop K (\<lambda>d s. Inr (h d s)) cb s =
      (case e of Waits \<Rightarrow> Some (Inr (fold h fs s\<lparr>m_reader := r\<rparr>))
               | Oversized \<Rightarrow> Some (Inr (closeSocket cb (fold h fs s\<lparr>m_reader := r\<rparr>)))
               | Stalls \<Rightarrow> None)"
proof (cases "cut K (isUsed (m_crypt s)) (m_reader s)")
  case (fields fs r e)
  show ?thesis
    using read_loop_cut [OF assms fields, of "\<lambda>_. True" "\<lambda>d s. Inr (h d s)" cb] cut_sound [OF fields] fields
    by auto
qed

theorem read_loop_delivers_witness:
  "case cut (KeySetup 0 (Crypt_new [] [])) False [0, 0, 0x14, 0, 1, 0, 0] of (fs, r, e) \<Rightarrow>
    concat fs @ r = [0, 0, 0x14, 0, 1, 0, 0] \<and> (\<forall>f \<in> set fs. f \<noteq> [] \<and> length f < 1450) \<and>
    read_loop (KeySetup 0 (Crypt_new [] [])) (\<lambda>d s. Inr (recorder d s)) None
        (demo_session False []\<lparr>m_reader := [0, 0, 0x14, 0, 1, 0, 0]\<rparr>) =
      (case e of Waits \<Rightarrow> Some (Inr (fold recorder fs (demo_session False []\<lparr>m_reader := [0, 0, 0x14, 0, 1, 0, 0]\<rparr>)\<lparr>m_reader := r\<rparr>))
               | Oversized \<Rightarrow> Some (Inr (closeSocket None
                   (fold recorder fs (demo_session False []\<lparr>m_reader := [0, 0, 0x14, 0, 1, 0, 0]\<rparr>)\<lparr>m_reader := r\<rparr>)))
               | Stalls \<Rightarrow> None)"
  using read_loop_delivers [OF recorder_blind(1), where K = "KeySetup 0 (Crypt_new [] [])" and cb = None
      and s = "demo_session False []\<lparr>m_reader := [0, 0, 0x14, 0, 1, 0, 0]\<rparr>"]
  by (simp add: demo_session_def del: upt_rec_numeral)

text \<open>C1: However the network splits a stream of well-formed packets, the handler sees exactly
  these packets, in order, and the unfinished rest stays in the buffer.\<close>

theorem stream_reassembly:
  assumes "buffer_blind h" "\<And>d s. m_isOpen (h d s) = m_isOpen s" "m_isOpen s" "m_reader s = []"
    and "\<forall>f \<in> set fs. whole_packet (KeySetup 0 c) (isUsed (m_crypt s)) f"
    and "unfinished (KeySetup 0 c) (isUsed (m_crypt s)) r"
    and "concat chunks = concat fs @ r"
  shows "onReads c (\<lambda>d s. Inr (h d s)) cb chunks s = Some (Inr (fold h fs s\<lparr>m_reader := r\<rparr>))"
  using assms by (intro reads_whole_packets [where I = "\<lambda>_. True"]) (simp_all add: unfinished_def)

theorem stream_reassembly_witness:
  "onReads (Crypt_new [] []) (\<lambda>d s. Inr (recorder d s)) None
     [[0, 0, 0x14], [0, 1, 0, 0, 0x10], [0, 0, 0]] (demo_session False []) =
   Some (Inr (fold recorder [[0, 0, 0x14, 0, 1], [0, 0, 0x10, 0]] (demo_session False [])\<lparr>m_reader := [0, 0]\<rparr>))"
  by (rule stream_reassembly)
    (simp_all add: recorder_blind demo_session_def whole_packet_def unfinished_def front_header_def
      tcp_of_bytes_def TcpHeader_of_data_def tcp_getSize_def)

text \<open>C32: On a connection between the servers, which is not encrypted, four bytes whose size field
  is 0 hang the receiver: when no callback has the order 0, as in the cast server, the loop of
  \<open>onRead\<close> never returns, for it never takes anything out of the buffer. The handler of the players'
  connections of the cast server returns for the same bytes: it empties the buffer.\<close>

theorem zero_size_hangs:
  assumes "callbacks 0 = None" "\<not> isUsed (m_crypt s)" "m_reader s = []"
    and "tcp_getSize (tcp_of_bytes [b0, b1, b2, b3]) = 0"
  shows "onRead c (ipc_onPacket callbacks) cb False (b0 # b1 # b2 # b3 # rest) s = None \<and>
    onRead c (cast_onPacket callbacks) cb False (b0 # b1 # b2 # b3 # rest) s = Some (Inr s)"
proof
  let ?s = "s\<lparr>m_reader := b0 # b1 # b2 # b3 # rest\<rparr>"
  have size: "unat (tcp_getSize (front_header (KeySetup 0 c) (isUsed (m_crypt ?s)) (m_reader ?s))) = 0"
    using assms(2,4) by (simp add: front_header_def)
  have plain: "processIncomingPacket_plain [] (of_nat (length [])) packet_new = Inr packet_new"
    by (simp add: processIncomingPacket_plain_def)
  have order: "packet_getOrder packet_new = 0"
    by (simp add: packet_getOrder_def packet_new_def CommandHeader_default_def cmd_getOrder_def)
  have "cut (KeySetup 0 c) (isUsed (m_crypt ?s)) (m_reader ?s) = ([], m_reader ?s, Stalls)"
    using size by (subst cut.simps) (simp add: Let_def)
  then have "read_loop (KeySetup 0 c) (ipc_onPacket callbacks) cb ?s = None"
    by (rule read_loop_stalls [where h = "\<lambda>_ s. s", rotated 2])
      (use plain order assms(1) in \<open>simp_all add: buffer_blind_def ipc_onPacket_def\<close>)
  then show "onRead c (ipc_onPacket callbacks) cb False (b0 # b1 # b2 # b3 # rest) s = None"
    using assms(3) by (simp add: onRead_def)
  have "s\<lparr>m_reader := []\<rparr> = s" using assms(3) by (intro session.equality) simp_all
  then have "read_loop (KeySetup 0 c) (cast_onPacket callbacks) cb ?s = Some (Inr s)"
    using size plain order assms(1,3) by (subst read_loop.simps) (simp add: cast_onPacket_def Let_def)
  then show "onRead c (cast_onPacket callbacks) cb False (b0 # b1 # b2 # b3 # rest) s = Some (Inr s)"
    using assms(3) by (simp add: onRead_def)
qed

theorem zero_size_hangs_witness:
  "onRead (Crypt_new [] []) (ipc_onPacket (\<lambda>order. if order = 6 then Some (\<lambda>p s. s) else None)) None False (0 # 0 # 0 # 0 # [])
     (demo_session False ()) = None"
  using zero_size_hangs [of "\<lambda>order. if order = 6 then Some (\<lambda>p s. s) else None" "demo_session False ()" 0 0 0 0 "Crypt_new [] []" None "[]"]
  by (simp add: demo_session_def tcp_of_bytes_def TcpHeader_of_data_def tcp_getSize_def)

text \<open>C14: Every announced address admits one connection. The first read of a connection whose
  check is on succeeds exactly when its address is announced, takes the address out of the
  table, and otherwise closes the connection without running the close callback; a second
  connection from the same address is refused until the address is announced again.\<close>

theorem admission:
  assumes "m_checkValidSession s" "m_isFirstRead s" "\<not> m_isValidSession s" "m_isOpen s"
  shows "(case asyncRead cb (s, t) of (posted, s', t') \<Rightarrow>
      (posted \<longleftrightarrow> m_ip s \<in> s_loggedIps t) \<and> (m_isOpen s' \<longleftrightarrow> posted) \<and> m_isValidSession s' = posted \<and>
      s_loggedIps t' = s_loggedIps t - {m_ip s} \<and> sess_app s' = sess_app s \<and>
      (\<forall>s2. m_ip s2 = m_ip s \<and> m_checkValidSession s2 \<and> m_isFirstRead s2 \<and> \<not> m_isValidSession s2 \<longrightarrow>
        \<not> fst (asyncRead cb (s2, t'))))"
  using assms by (auto simp: asyncRead_def closeSocket_def Let_def split: option.splits)

theorem admission_witness:
  "case asyncRead None (demo_session True (), \<lparr>s_loggedIps = {[49], [50]}, ipQueue = [[49], [50]]\<rparr>) of (posted, s', t') \<Rightarrow>
      (posted \<longleftrightarrow> m_ip (demo_session True ()) \<in> {[49], [50]}) \<and> (m_isOpen s' \<longleftrightarrow> posted) \<and>
      m_isValidSession s' = posted \<and> s_loggedIps t' = {[49], [50]} - {[49]}"
  using admission [where s = "demo_session True ()" and cb = None
      and t = "\<lparr>s_loggedIps = {[49], [50]}, ipQueue = [[49], [50]]\<rparr>"]
  by (auto simp: demo_session_def)

text \<open>A client that reads the greeting of the auth or the main server - with any key, for
  it has none yet - obtains the packet of order 401 whose first word is the key the server
  has set up for the connection; the greeting of the cast server is readable in plain and
  leaves the connection unencrypted.\<close>

theorem greeting_conveys_key:
  assumes "m_isOpen s" "isUsed (m_crypt s)" "crypt_wf c" "crypt_wf c'" "isUsed c = isUsed c'"
    and "serverType \<in> {AUTH_SERVER, MAIN_SERVER, CAST_SERVER}"
  shows "let s' = greeting c serverType rnd now s; w = last (m_written s'); n = of_nat (length w) in
    \<exists>p. packet_getOrder p = 401 \<and> le_load (take 4 (m_data p)) = rnd + 1 \<and>
      (if serverType = CAST_SERVER
       then processIncomingPacket_plain w n packet_new = Inr p \<and> \<not> isUsed (m_crypt s')
       else processIncomingPacket c' w n k packet_new = Inr p \<and> UserKey (m_crypt s') = rnd + 1)"
proof -
  define P where "P d e opt = setCommand 401 0 e opt (setData d (setTcpHeader (of_nat (m_id s)) 0 packet_new))"
    for d e opt
  have data: "m_data (P d e opt) = d" for d e opt
    by (simp add: P_def setCommand_def setData_def)
  have sized: "sized (P d e opt)" if "length d \<le> 8" for d e opt
    unfolding P_def by (rule sized_command_data) (use that in simp)
  have P: "tcp_getCrypt (m_header (P d e opt)) = 0" "packet_getOrder (P d e opt) = 401" for d e opt
    by (simp_all add: P_def setCommand_def setData_def setTcpHeader_def tcp_initialize_def packet_getOrder_def
        CommandHeader_of_fields_def)
  let ?auth = "P (le_store 4 (rnd + 1) @ le_store 4 now) 34 0" and ?cast = "P (le_store 4 (rnd + 1)) 54 0"
    and ?main = "P (le_store 4 (rnd + 1) @ le_store 4 (main_unique_id (m_id s))) 0 1"
  have enc: "processIncomingPacket c' (generateOutgoingPacket c key True (P d e opt)) 16 k packet_new = Inr (P d e opt)"
    if "length d \<le> 8" for d e opt key
    using process_generated [OF sized [OF that, of e opt], where sz = 16 and c = c' and c' = c and key = k and rest = "[]"]
      P assms(3-5) generate_no_encryption [OF P(1) [of d e opt], of c key True k] by simp
  consider "serverType = AUTH_SERVER" | "serverType = MAIN_SERVER" | "serverType = CAST_SERVER"
    using assms(6) by auto
  then show ?thesis
  proof cases
    case 1
    then have "greeting c serverType rnd now s = s\<lparr>m_crypt := KeySetup (rnd + 1) (m_crypt s), m_written := m_written s @
        [generateOutgoingPacket c (rnd + 1) True ?auth]\<rparr>"
      using assms(1,2) by (simp add: greeting_def Let_def asyncWrite_open data flip: P_def)
    then show ?thesis
      using enc P(2) 1 by (auto simp: Let_def data intro!: exI [of _ ?auth])
  next
    case 2
    then have "greeting c serverType rnd now s = s\<lparr>m_crypt := KeySetup (rnd + 1) (m_crypt s), m_written := m_written s @
        [generateOutgoingPacket c (rnd + 1) True ?main]\<rparr>"
      using assms(1,2) by (simp add: greeting_def Let_def asyncWrite_open data flip: P_def)
    then show ?thesis
      using enc P(2) 2 by (auto simp: Let_def data intro!: exI [of _ ?main])
  next
    case 3
    have "generateOutgoingPacket c key False ?cast = generateOutgoingPacket_plain ?cast" for key
      using P(1) by (simp add: generate_unencrypted)
    with 3 have "greeting c serverType rnd now s = s\<lparr>m_crypt := m_crypt s\<lparr>isUsed := False\<rparr>, m_written := m_written s @
        [generateOutgoingPacket_plain ?cast]\<rparr>"
      using assms(1) by (simp add: greeting_def Let_def asyncWrite_open data flip: P_def)
    then show ?thesis
      using process_generated_plain [of ?cast 12 "[]"] sized P 3 by (auto simp: Let_def data intro!: exI [of _ ?cast])
  qed
qed

theorem greeting_conveys_key_witness:
  "let s' = greeting (Crypt_new (replicate 26 1) (replicate 84 1)) MAIN_SERVER 41 0 (demo_session True ());
       w = last (m_written s'); n = of_nat (length w)
   in \<exists>p. packet_getOrder p = 401 \<and> le_load (take 4 (m_data p)) = (42 :: u32) \<and>
      processIncomingPacket (Crypt_new (replicate 26 2) (replicate 84 2)) w n 7 packet_new = Inr p \<and>
      UserKey (m_crypt s') = 42"
  using greeting_conveys_key [where s = "demo_session True ()" and c = "Crypt_new (replicate 26 1) (replicate 84 1)"
      and c' = "Crypt_new (replicate 26 2) (replicate 84 2)" and serverType = MAIN_SERVER
      and rnd = 41 and now = 0 and k = 7]
  by (simp add: demo_session_def Crypt_new_def crypt_wf_def Let_def)

text \<open>C24: In every table that announcements and first reads can produce, an announcement
  that carries a terminated address succeeds - the queue is never empty when its front is
  taken -, is answered with the request itself, and admits the address: the first read of any open
  connection from it whose check is on goes ahead.\<close>

theorem announcement_admits:
  assumes "ip_run t" "c_string (m_data request) = Inr ip"
  shows "\<exists>t'. handleIpReq request (server, t) = Inr (snd (asyncWrite_plain request server), t') \<and>
    ip \<in> s_loggedIps t' \<and> s_loggedIps t' \<subseteq> set (ipQueue t') \<and>
    (\<forall>s. m_checkValidSession s \<and> m_isFirstRead s \<and> m_isOpen s \<and> m_ip s = ip \<longrightarrow> fst (asyncRead cb (s, t')))"
proof -
  have i: "finite (s_loggedIps t)" "s_loggedIps t \<subseteq> set (ipQueue t)" using ip_run_inv [OF assms(1)] by auto
  have "ipQueue t \<noteq> []" if "2000 \<le> card (s_loggedIps t)" using that i by auto
  then obtain t' where t': "announce_ip request t = Inr t'"
    using assms(2) by (fastforce simp: announce_ip_def split: list.splits)
  then have "ip \<in> s_loggedIps t'" using assms(2) by (auto elim!: announce_ip_cases)
  moreover from this have "fst (asyncRead cb (s, t'))"
    if "m_checkValidSession s" "m_isFirstRead s" "m_isOpen s" "m_ip s = ip" for s
    using that by (simp add: asyncRead_def Let_def)
  ultimately show ?thesis
    using t' ip_run_inv [OF ip_announce [OF assms(1) t']] by (auto simp: handleIpReq_def)
qed

theorem announcement_admits_witness:
  "\<exists>t'. handleIpReq (announce_nth 0) (demo_session False (), \<lparr>s_loggedIps = {}, ipQueue = []\<rparr>) =
      Inr (snd (asyncWrite_plain (announce_nth 0) (demo_session False ())), t') \<and> nth_ip 0 \<in> s_loggedIps t' \<and>
    s_loggedIps t' \<subseteq> set (ipQueue t') \<and> fst (asyncRead None (demo_session True ()\<lparr>m_ip := nth_ip 0\<rparr>, t'))"
proof -
  obtain t' where t': "handleIpReq (announce_nth 0) (demo_session False (), \<lparr>s_loggedIps = {}, ipQueue = []\<rparr>) =
      Inr (snd (asyncWrite_plain (announce_nth 0) (demo_session False ())), t')"
    "nth_ip 0 \<in> s_loggedIps t'" "s_loggedIps t' \<subseteq> set (ipQueue t')"
    "\<forall>s :: unit session. m_checkValidSession s \<and> m_isFirstRead s \<and> m_isOpen s \<and> m_ip s = nth_ip 0 \<longrightarrow> fst (asyncRead None (s, t'))"
    using announcement_admits [OF ip_start announce_nth_ip [OF zero_less_numeral], where server = "demo_session False ()" and cb = None] by blast
  moreover have "fst (asyncRead None (demo_session True ()\<lparr>m_ip := nth_ip 0\<rparr>, t'))"
    using t'(4) by (simp add: demo_session_def)
  ultimately show ?thesis by blast
qed

text \<open>The bound of 2000 announced addresses is not kept: an address taken by a connection
  stays in the queue, and evicting such a stale entry makes no room. A run of announcements
  and one first read reaches a table of 2001 addresses.\<close>

theorem announced_bound_exceeded: "\<exists>t. ip_run t \<and> card (s_loggedIps t) = 2001"
proof -
  let ?q = "map nth_ip [0..<2000]"
  let ?t0 = "\<lparr>s_loggedIps = nth_ip ` {..<2000}, ipQueue = ?q\<rparr>"
  let ?t1 = "\<lparr>s_loggedIps = nth_ip ` {1..<2000}, ipQueue = ?q\<rparr>"
  let ?t2 = "\<lparr>s_loggedIps = nth_ip ` {1..<2001}, ipQueue = ?q @ [nth_ip 2000]\<rparr>"
  have card: "card (nth_ip ` {1..<n}) = n - 1" if "n < 40000" for n
    using that by (subst card_image) (auto intro: inj_on_subset [OF inj_nth_ip])
  have notin: "nth_ip n \<notin> nth_ip ` {1..<n}" if "n < 40000" for n
    using that nth_ip_mem [of n "{1..<n}"] by (simp add: subset_iff)
  have insert: "insert (nth_ip n) (nth_ip ` {1..<n}) = nth_ip ` {1..<Suc n}" if "1 \<le> n" for n
    using that by (simp add: atLeastLessThanSuc)
  have "ip_run ?t0" using ip_run_fill [of 2000] by simp
  moreover have "{..<2000} = insert 0 {1..<2000::nat}" by auto
  then have "nth_ip ` {..<2000} - {nth_ip 0} = nth_ip ` {1..<2000}"
    using nth_ip_mem [of 0 "{1..<2000}"] by (simp add: subset_iff)
  then have "\<exists>s posted s'. asyncRead None (s :: unit session, ?t0) = (posted, s', ?t1)"
    by (intro exI [of _ "\<lparr>m_reader = [], m_crypt = Crypt_new [] [], m_id = 1, m_ip = nth_ip 0, m_isOpen = True,
      m_checkValidSession = True, m_isValidSession = False, m_isFirstRead = True, m_written = [], sess_app = ()\<rparr>"])
      (auto simp: asyncRead_def)
  ultimately have "ip_run ?t1" using ip_read by blast
  moreover have "announce_ip (announce_nth 2000) ?t1 = Inr ?t2"
    using card [of 2000] notin [of 2000] insert [of 2000] by (simp add: announce_ip_def announce_nth_ip)
  ultimately have "ip_run ?t2" by (rule ip_announce)
  let ?t3 = "\<lparr>s_loggedIps = nth_ip ` {1..<2002}, ipQueue = tl (?q @ [nth_ip 2000]) @ [nth_ip 2001]\<rparr>"
  have q: "?q @ [nth_ip 2000] = nth_ip 0 # tl (?q @ [nth_ip 2000])"
    by (simp add: upt_rec [of 0])
  have "nth_ip 0 \<notin> nth_ip ` {1..<2001}" using nth_ip_mem [of 0 "{1..<2001}"] by (simp add: subset_iff)
  then have "announce_ip (announce_nth 2001) ?t2 = Inr ?t3"
    using card [of 2001] notin [of 2001] insert [of 2001]
    by (subst q) (simp add: announce_ip_def announce_nth_ip)
  with \<open>ip_run ?t2\<close> have "ip_run ?t3" by (rule ip_announce)
  then show ?thesis using card [of 2002] by (intro exI [of _ ?t3]) simp
qed

end
