(* ===== verification/AntiCheat.thy ===== *)
theory AntiCheat
  imports Prelude
begin

text \<open>
  The anti-cheat subsystem, \<open>Common/include/AntiCheat\<close>: the two packet checkers, the event
  queue and the worker that feeds the checkers. Times are milliseconds in a 64-bit word and
  their differences wrap as in the code. The maps are total functions whose default is the
  empty record that \<open>operator[]\<close> inserts; the rendering of a flag as text and its insertion
  into the database are left out, so a flag carries the numbers that are rendered.
\<close>

section \<open>Events and flags\<close>

record flooding_event =
  fl_session :: nat
  fl_account :: u32
  fl_maxPacketsPerSecond :: nat
  fl_analysisWindowMs :: u64
  fl_floodingType :: string
  fl_packetId :: u32
  fl_eventTime :: u64

record replication_event =
  re_session :: nat
  re_account :: u32
  re_packetId :: u16
  re_data :: bytes
  re_eventTime :: u64

datatype ACEvent = PacketFlooding flooding_event | PacketReplication replication_event

datatype flag_details =
  FloodDetails u32 nat u64 nat
| ReplicationDetails u16 nat u64

record ACFlag =
  flag_sessionId :: u32
  flag_cheatType :: string
  flag_details :: flag_details

section \<open>The flooding checker\<close>

record flood_record =
  fr_serverTime :: u64
  fr_event :: flooding_event

type_synonym flood_data = "u32 \<Rightarrow> u32 \<Rightarrow> flood_record list"

definition flood_processEvent :: "flooding_event \<Rightarrow> flood_data \<Rightarrow> ACFlag option \<times> flood_data" where
  "flood_processEvent e D =
     (let sid = of_nat (fl_session e); pid = fl_packetId e;
          packetRecords = D sid pid @ [\<lparr>fr_serverTime = fl_eventTime e, fr_event = e\<rparr>];
          packetRecords = dropWhile (\<lambda>r. fl_eventTime e - fr_serverTime r > fl_analysisWindowMs e) packetRecords
      in if length packetRecords > fl_maxPacketsPerSecond e
         then (Some \<lparr>flag_sessionId = fl_account e, flag_cheatType = fl_floodingType e,
                     flag_details = FloodDetails pid (length packetRecords)
                       (fr_serverTime (last packetRecords) - fr_serverTime (hd packetRecords))
                       (fl_maxPacketsPerSecond e)\<rparr>,
               D(sid := (D sid)(pid := [])))
         else (None, D(sid := (D sid)(pid := packetRecords))))"

section \<open>The replication checker\<close>

text \<open>The hash of the standard library is a parameter; the checker only compares hashes.\<close>

type_synonym 'h replication_data = "u32 \<Rightarrow> 'h \<Rightarrow> u64 list"

definition replication_window :: u64 where "replication_window = 120000"

text \<open>The result also says whether the connection is closed.\<close>

definition replication_processEvent ::
  "(bytes \<Rightarrow> 'h) \<Rightarrow> replication_event \<Rightarrow> 'h replication_data \<Rightarrow> (ACFlag \<times> nat) option \<times> 'h replication_data" where
  "replication_processEvent hash e D =
     (let packetHash = hash (re_data e); sid = of_nat (re_session e);
          playerPackets = (\<lambda>h. filter (\<lambda>ts. \<not> (re_eventTime e - ts > replication_window)) (D sid h));
          timestamps = playerPackets packetHash @ [re_eventTime e];
          playerPackets = playerPackets(packetHash := timestamps)
      in if length timestamps \<ge> 4
         then (Some (\<lparr>flag_sessionId = re_account e,
                      flag_cheatType = ''Possible Packet Replication (e.g. WPE)'',
                      flag_details = ReplicationDetails (re_packetId e) (length timestamps) replication_window\<rparr>,
                     re_session e),
               D(sid := (\<lambda>_. [])))
         else (None, D(sid := playerPackets)))"

section \<open>The queue and the worker\<close>

record 'h ac_state =
  ac_queue :: "ACEvent list"
  ac_flood :: flood_data
  ac_replication :: "'h replication_data"
  ac_flags :: "ACFlag list"
  ac_closed :: "nat list"

definition AntiCheat_new :: "'h ac_state" where
  "AntiCheat_new = \<lparr>ac_queue = [], ac_flood = (\<lambda>_ _. []), ac_replication = (\<lambda>_ _. []), ac_flags = [], ac_closed = []\<rparr>"

definition submitEvent :: "ACEvent \<Rightarrow> 'h ac_state \<Rightarrow> 'h ac_state" where
  "submitEvent e m = m\<lparr>ac_queue := ac_queue m @ [e]\<rparr>"

text \<open>\<open>processEventBase\<close> of both checkers; each looks at the type of the event first.\<close>

definition check_flooding :: "ACEvent \<Rightarrow> 'h ac_state \<Rightarrow> 'h ac_state" where
  "check_flooding ev m =
     (case ev of
        PacketFlooding e \<Rightarrow>
          (case flood_processEvent e (ac_flood m) of (flag, D) \<Rightarrow>
             m\<lparr>ac_flood := D, ac_flags := ac_flags m @ (case flag of None \<Rightarrow> [] | Some f \<Rightarrow> [f])\<rparr>)
      | PacketReplication e \<Rightarrow> m)"

definition check_replication :: "(bytes \<Rightarrow> 'h) \<Rightarrow> ACEvent \<Rightarrow> 'h ac_state \<Rightarrow> 'h ac_state" where
  "check_replication hash ev m =
     (case ev of
        PacketFlooding e \<Rightarrow> m
      | PacketReplication e \<Rightarrow>
          (case replication_processEvent hash e (ac_replication m) of (flag, D) \<Rightarrow>
             m\<lparr>ac_replication := D,
               ac_flags := ac_flags m @ (case flag of None \<Rightarrow> [] | Some (f, s) \<Rightarrow> [f]),
               ac_closed := ac_closed m @ (case flag of None \<Rightarrow> [] | Some (f, s) \<Rightarrow> [s])\<rparr>))"

definition check_event :: "(bytes \<Rightarrow> 'h) \<Rightarrow> ACEvent \<Rightarrow> 'h ac_state \<Rightarrow> 'h ac_state" where
  "check_event hash ev m = check_replication hash ev (check_flooding ev m)"

text \<open>One turn of the worker; with an empty queue it waits.\<close>

definition worker_step :: "(bytes \<Rightarrow> 'h) \<Rightarrow> 'h ac_state \<Rightarrow> 'h ac_state option" where
  "worker_step hash m =
     (case ac_queue m of
        [] \<Rightarrow> None
      | ev # rest \<Rightarrow> Some (check_event hash ev (m\<lparr>ac_queue := rest\<rparr>)))"

text \<open>
  Any interleaving of the network threads, which submit, with the worker. The first index is
  the list of the events submitted so far, the second the number that have been checked.
\<close>

inductive ac_run :: "(bytes \<Rightarrow> 'h) \<Rightarrow> ACEvent list \<Rightarrow> nat \<Rightarrow> 'h ac_state \<Rightarrow> bool" for hash where
  ac_start: "ac_run hash [] 0 AntiCheat_new"
| ac_submit: "ac_run hash evs n m \<Longrightarrow> ac_run hash (evs @ [ev]) n (submitEvent ev m)"
| ac_work: "ac_run hash evs n m \<Longrightarrow> worker_step hash m = Some m' \<Longrightarrow> ac_run hash evs (Suc n) m'"

section \<open>Specifications\<close>

text \<open>
  The contract of a detector: what it answers is what a detector with unbounded memory
  answers, on every sequence of events that its callers can produce.
\<close>

fun run_detector :: "('e \<Rightarrow> 's \<Rightarrow> 'o \<times> 's) \<Rightarrow> 'e list \<Rightarrow> 's \<Rightarrow> 'o list" where
  "run_detector step [] s = []"
| "run_detector step (e # es) s = (case step e s of (out, s') \<Rightarrow> out # run_detector step es s')"

fun allowed :: "('e \<Rightarrow> 'a \<Rightarrow> 'o \<times> 'a) \<Rightarrow> ('a \<Rightarrow> 'e \<Rightarrow> bool) \<Rightarrow> 'e list \<Rightarrow> 'a \<Rightarrow> bool" where
  "allowed spec ok [] a \<longleftrightarrow> True"
| "allowed spec ok (e # es) a \<longleftrightarrow> ok a e \<and> allowed spec ok es (snd (spec e a))"

locale detector =
  fixes step :: "'e \<Rightarrow> 's \<Rightarrow> 'o \<times> 's"
    and spec :: "'e \<Rightarrow> 'a \<Rightarrow> 'o \<times> 'a"
    and ok :: "'a \<Rightarrow> 'e \<Rightarrow> bool"
    and agrees :: "'a \<Rightarrow> 's \<Rightarrow> bool"
  assumes simulates: "agrees a s \<Longrightarrow> ok a e \<Longrightarrow>
    fst (step e s) = fst (spec e a) \<and> agrees (snd (spec e a)) (snd (step e s))"
begin

lemma run_simulates:
  "agrees a s \<Longrightarrow> allowed spec ok es a \<Longrightarrow> run_detector step es s = run_detector spec es a"
proof (induction es arbitrary: a s)
  case Nil
  then show ?case by simp
next
  case (Cons e es)
  then have "fst (step e s) = fst (spec e a)" "agrees (snd (spec e a)) (snd (step e s))"
    using simulates by auto
  with Cons show ?case by (auto split: prod.splits)
qed

end

text \<open>
  The specification remembers the time of the last event and every event since the last flag:
  a packet of a session is flagged when more than the allowed number lie within the window.
\<close>

record 'k history =
  h_now :: u64
  h_times :: "'k \<Rightarrow> u64 list"

definition in_window :: "u64 \<Rightarrow> u64 \<Rightarrow> u64 list \<Rightarrow> u64 list" where
  "in_window w now ts = filter (\<lambda>t. now - t \<le> w) ts"

definition flood_spec :: "flooding_event \<Rightarrow> (u32 \<times> u32) history \<Rightarrow> ACFlag option \<times> (u32 \<times> u32) history" where
  "flood_spec e a =
     (let k = (of_nat (fl_session e), fl_packetId e); now = fl_eventTime e;
          ts = h_times a k @ [now]; recent = in_window (fl_analysisWindowMs e) now ts
      in if length recent > fl_maxPacketsPerSecond e
         then (Some \<lparr>flag_sessionId = fl_account e, flag_cheatType = fl_floodingType e,
                     flag_details = FloodDetails (fl_packetId e) (length recent) (now - hd recent) (fl_maxPacketsPerSecond e)\<rparr>,
               \<lparr>h_now = now, h_times = (h_times a)(k := [])\<rparr>)
         else (None, \<lparr>h_now = now, h_times = (h_times a)(k := ts)\<rparr>))"

definition flood_ok :: "(u32 \<Rightarrow> nat \<times> u64) \<Rightarrow> (u32 \<times> u32) history \<Rightarrow> flooding_event \<Rightarrow> bool" where
  "flood_ok cfg a e \<longleftrightarrow> h_now a \<le> fl_eventTime e \<and>
     cfg (fl_packetId e) = (fl_maxPacketsPerSecond e, fl_analysisWindowMs e)"

text \<open>Of each history the checker has the part that can still count.\<close>

definition outdated :: "u64 \<Rightarrow> u64 \<Rightarrow> u64 list \<Rightarrow> bool" where
  "outdated w now pre \<longleftrightarrow> (\<forall>x \<in> set pre. w < now - x)"

definition flood_agrees :: "(u32 \<Rightarrow> nat \<times> u64) \<Rightarrow> (u32 \<times> u32) history \<Rightarrow> flood_data \<Rightarrow> bool" where
  "flood_agrees cfg a D \<longleftrightarrow> (\<forall>sid pid. \<exists>pre.
     h_times a (sid, pid) = pre @ map fr_serverTime (D sid pid) \<and>
     outdated (snd (cfg pid)) (h_now a) pre \<and>
     sorted (h_times a (sid, pid)) \<and> (\<forall>x \<in> set (h_times a (sid, pid)). x \<le> h_now a))"

definition replication_spec ::
  "(bytes \<Rightarrow> 'h) \<Rightarrow> replication_event \<Rightarrow> (u32 \<times> 'h) history \<Rightarrow> (ACFlag \<times> nat) option \<times> (u32 \<times> 'h) history" where
  "replication_spec hash e a =
     (let sid = of_nat (re_session e); k = (sid, hash (re_data e)); now = re_eventTime e;
          ts = h_times a k @ [now]; recent = in_window replication_window now ts
      in if length recent \<ge> 4
         then (Some (\<lparr>flag_sessionId = re_account e,
                      flag_cheatType = ''Possible Packet Replication (e.g. WPE)'',
                      flag_details = ReplicationDetails (re_packetId e) (length recent) replication_window\<rparr>,
                     re_session e),
               \<lparr>h_now = now, h_times = (\<lambda>(s, h). if s = sid then [] else h_times a (s, h))\<rparr>)
         else (None, \<lparr>h_now = now, h_times = (h_times a)(k := ts)\<rparr>))"

definition replication_ok :: "(u32 \<times> 'h) history \<Rightarrow> replication_event \<Rightarrow> bool" where
  "replication_ok a e \<longleftrightarrow> h_now a \<le> re_eventTime e"

definition replication_agrees :: "(u32 \<times> 'h) history \<Rightarrow> 'h replication_data \<Rightarrow> bool" where
  "replication_agrees a D \<longleftrightarrow> (\<forall>sid h.
     (\<forall>x \<in> set (h_times a (sid, h)). x \<le> h_now a) \<and>
     (\<forall>now \<ge> h_now a. in_window replication_window now (D sid h) = in_window replication_window now (h_times a (sid, h))))"

section \<open>Time differences\<close>

lemma diff_mono: "x \<le> y \<Longrightarrow> y \<le> z \<Longrightarrow> y - x \<le> z - (x :: u64)"
  by (simp add: word_le_nat_alt unat_sub)

lemma diff_antimono: "x \<le> y \<Longrightarrow> y \<le> z \<Longrightarrow> z - y \<le> z - (x :: u64)"
  by (simp add: word_le_nat_alt unat_sub)

lemma in_window_outdated: "outdated w now xs \<Longrightarrow> in_window w now xs = []"
  by (auto simp: outdated_def in_window_def not_le)

lemma in_window_append: "in_window w now (xs @ ys) = in_window w now xs @ in_window w now ys"
  by (simp add: in_window_def)

lemma in_window_now [simp]: "in_window w now [now] = [now]"
  by (simp add: in_window_def)

text \<open>What is outdated stays outdated.\<close>

lemma outdated_mono:
  assumes "outdated w now xs" "\<forall>x \<in> set xs. x \<le> now" "now \<le> now'"
  shows "outdated w now' xs"
  unfolding outdated_def
proof
  fix x assume x: "x \<in> set xs"
  then have "w < now - x" using assms(1) by (simp add: outdated_def)
  also have "now - x \<le> now' - x" using x assms(2,3) by (intro diff_mono) auto
  finally show "w < now' - x" .
qed

text \<open>On times in order the loop that drops from the front keeps the window.\<close>

lemma dropWhile_window:
  assumes "sorted ts" "\<forall>x \<in> set ts. x \<le> now"
  shows "dropWhile (\<lambda>t. now - t > w) ts = in_window w now ts"
  using assms
proof (induction ts)
  case Nil
  then show ?case by (simp add: in_window_def)
next
  case (Cons t ts)
  have "now - x \<le> w" if "now - t \<le> w" "x \<in> set ts" for x
  proof -
    have "now - x \<le> now - t"
      using Cons.prems that(2) by (intro diff_antimono) auto
    with that(1) show ?thesis by simp
  qed
  then have "now - t \<le> w \<Longrightarrow> in_window w now (t # ts) = t # ts"
    by (simp add: in_window_def)
  with Cons show ?case by (auto simp: in_window_def not_le)
qed

lemma dropWhile_split:
  obtains pre where "ts = pre @ dropWhile (\<lambda>t. now - t > w) ts" "outdated w now pre"
  using takeWhile_dropWhile_id [of "\<lambda>t. now - t > w" ts]
  by (metis outdated_def set_takeWhileD)

section \<open>The checkers implement the specifications\<close>

lemma flood_simulates:
  assumes "flood_agrees cfg a D" "flood_ok cfg a e"
  shows "fst (flood_processEvent e D) = fst (flood_spec e a) \<and>
    flood_agrees cfg (snd (flood_spec e a)) (snd (flood_processEvent e D))"
proof -
  define sid :: u32 where "sid = of_nat (fl_session e)"
  define pid where "pid = fl_packetId e"
  define now where "now = fl_eventTime e"
  define w where "w = fl_analysisWindowMs e"
  have later: "h_now a \<le> now" and cfg: "snd (cfg pid) = w"
    using assms(2) by (simp_all add: flood_ok_def now_def w_def pid_def)
  define rs where "rs = D sid pid @ [\<lparr>fr_serverTime = now, fr_event = e\<rparr>]"
  define rs' where "rs' = dropWhile (\<lambda>r. now - fr_serverTime r > w) rs"
  define ts where "ts = h_times a (sid, pid) @ [now]"
  obtain pre where pre: "h_times a (sid, pid) = pre @ map fr_serverTime (D sid pid)"
      "outdated w (h_now a) pre" "sorted (h_times a (sid, pid))" "\<forall>x \<in> set (h_times a (sid, pid)). x \<le> h_now a"
    using assms(1) cfg unfolding flood_agrees_def by metis
  have pre': "outdated w now pre" using outdated_mono [OF pre(2) _ later] pre(1,4) by simp
  have le: "\<forall>x \<in> set ts. x \<le> now" using pre(4) later by (auto simp: ts_def)
  have sorted: "sorted ts" using pre(3,4) later by (auto simp: ts_def sorted_append)
  have ts: "ts = pre @ map fr_serverTime rs" by (simp add: ts_def rs_def pre(1))
  have drop: "map fr_serverTime rs' = dropWhile (\<lambda>t. now - t > w) (map fr_serverTime rs)"
    by (simp add: rs'_def dropWhile_map comp_def)
  have recent: "in_window w now ts = map fr_serverTime rs'"
    unfolding drop using dropWhile_window [of "map fr_serverTime rs" now w] sorted le
    by (auto simp: ts sorted_append in_window_append in_window_outdated [OF pre'])
  have "rs' \<noteq> []"
    using recent by (auto simp: ts_def in_window_append)
  have "last rs' = last rs"
    using \<open>rs' \<noteq> []\<close> unfolding rs'_def by (metis dropWhile_append3 last_append takeWhile_dropWhile_id)
  then have last: "fr_serverTime (last rs') = now" by (simp add: rs_def)
  have hd: "fr_serverTime (hd rs') = hd (in_window w now ts)"
    using \<open>rs' \<noteq> []\<close> by (simp add: recent hd_map)
  have impl: "flood_processEvent e D =
      (if length rs' > fl_maxPacketsPerSecond e
       then (Some \<lparr>flag_sessionId = fl_account e, flag_cheatType = fl_floodingType e,
                   flag_details = FloodDetails pid (length rs') (now - fr_serverTime (hd rs')) (fl_maxPacketsPerSecond e)\<rparr>,
             D(sid := (D sid)(pid := [])))
       else (None, D(sid := (D sid)(pid := rs'))))"
    using last by (simp add: flood_processEvent_def Let_def sid_def pid_def now_def w_def rs_def rs'_def)
  have spec: "flood_spec e a =
      (if length rs' > fl_maxPacketsPerSecond e
       then (Some \<lparr>flag_sessionId = fl_account e, flag_cheatType = fl_floodingType e,
                   flag_details = FloodDetails pid (length rs') (now - fr_serverTime (hd rs')) (fl_maxPacketsPerSecond e)\<rparr>,
             \<lparr>h_now = now, h_times = (h_times a)((sid, pid) := [])\<rparr>)
       else (None, \<lparr>h_now = now, h_times = (h_times a)((sid, pid) := ts)\<rparr>))"
    using recent hd by (simp add: flood_spec_def Let_def sid_def pid_def now_def w_def ts_def)
  have others: "\<exists>pre. h_times a (s, p) = pre @ map fr_serverTime (D s p) \<and> outdated (snd (cfg p)) now pre \<and>
      sorted (h_times a (s, p)) \<and> (\<forall>x \<in> set (h_times a (s, p)). x \<le> now)" for s p
  proof -
    obtain q where "h_times a (s, p) = q @ map fr_serverTime (D s p)" "outdated (snd (cfg p)) (h_now a) q"
        "sorted (h_times a (s, p))" "\<forall>x \<in> set (h_times a (s, p)). x \<le> h_now a"
      using assms(1) unfolding flood_agrees_def by metis
    moreover from this have "outdated (snd (cfg p)) now q" by (intro outdated_mono [OF _ _ later]) auto
    ultimately show ?thesis using later by (meson order_trans)
  qed
  obtain q where "map fr_serverTime rs = q @ map fr_serverTime rs'" "outdated w now q"
    by (rule dropWhile_split [where ts = "map fr_serverTime rs" and now = now and w = w, folded drop])
  then have here: "ts = (pre @ q) @ map fr_serverTime rs'" "outdated (snd (cfg pid)) now (pre @ q)"
    using pre' cfg by (auto simp: ts outdated_def)
  have "flood_agrees cfg \<lparr>h_now = now, h_times = (h_times a)((sid, pid) := [])\<rparr> (D(sid := (D sid)(pid := [])))"
    unfolding flood_agrees_def
  proof (intro allI)
    fix s p
    show "\<exists>pre. h_times \<lparr>h_now = now, h_times = (h_times a)((sid, pid) := [])\<rparr> (s, p) =
            pre @ map fr_serverTime ((D(sid := (D sid)(pid := []))) s p) \<and>
          outdated (snd (cfg p)) (h_now \<lparr>h_now = now, h_times = (h_times a)((sid, pid) := [])\<rparr>) pre \<and>
          sorted (h_times \<lparr>h_now = now, h_times = (h_times a)((sid, pid) := [])\<rparr> (s, p)) \<and>
          (\<forall>x \<in> set (h_times \<lparr>h_now = now, h_times = (h_times a)((sid, pid) := [])\<rparr> (s, p)).
            x \<le> h_now \<lparr>h_now = now, h_times = (h_times a)((sid, pid) := [])\<rparr>)"
      using others [of s p] by (cases "s = sid \<and> p = pid") (auto simp: outdated_def)
  qed
  moreover have "flood_agrees cfg \<lparr>h_now = now, h_times = (h_times a)((sid, pid) := ts)\<rparr> (D(sid := (D sid)(pid := rs')))"
    unfolding flood_agrees_def
  proof (intro allI)
    fix s p
    show "\<exists>pre. h_times \<lparr>h_now = now, h_times = (h_times a)((sid, pid) := ts)\<rparr> (s, p) =
            pre @ map fr_serverTime ((D(sid := (D sid)(pid := rs'))) s p) \<and>
          outdated (snd (cfg p)) (h_now \<lparr>h_now = now, h_times = (h_times a)((sid, pid) := ts)\<rparr>) pre \<and>
          sorted (h_times \<lparr>h_now = now, h_times = (h_times a)((sid, pid) := ts)\<rparr> (s, p)) \<and>
          (\<forall>x \<in> set (h_times \<lparr>h_now = now, h_times = (h_times a)((sid, pid) := ts)\<rparr> (s, p)).
            x \<le> h_now \<lparr>h_now = now, h_times = (h_times a)((sid, pid) := ts)\<rparr>)"
    proof (cases "s = sid \<and> p = pid")
      case True
      then show ?thesis using here sorted le by (intro exI [of _ "pre @ q"]) auto
    next
      case False
      then show ?thesis using others [of s p] by auto
    qed
  qed
  ultimately show ?thesis unfolding impl spec by simp
qed


lemma in_window_in_window:
  assumes "\<forall>x \<in> set xs. x \<le> t" "t \<le> now"
  shows "in_window w now (in_window w t xs) = in_window w now xs"
proof -
  have "now - x \<le> w \<Longrightarrow> x \<in> set xs \<Longrightarrow> t - x \<le> w" for x
    using diff_mono [of x t now] assms by (metis order_trans)
  then show ?thesis by (auto simp: in_window_def intro!: filter_cong)
qed

lemma replication_simulates:
  assumes "replication_agrees a D" "replication_ok a e"
  shows "fst (replication_processEvent hash e D) = fst (replication_spec hash e a) \<and>
    replication_agrees (snd (replication_spec hash e a)) (snd (replication_processEvent hash e D))"
proof -
  define sid :: u32 where "sid = of_nat (re_session e)"
  define h where "h = hash (re_data e)"
  define now where "now = re_eventTime e"
  have later: "h_now a \<le> now" using assms(2) by (simp add: replication_ok_def now_def)
  have old: "\<forall>x \<in> set (h_times a (s, g)). x \<le> h_now a"
      "now' \<ge> h_now a \<Longrightarrow> in_window replication_window now' (D s g) = in_window replication_window now' (h_times a (s, g))"
    for s g now' using assms(1) by (auto simp: replication_agrees_def)
  define pp where "pp g = in_window replication_window now (D sid g)" for g
  define ts where "ts = h_times a (sid, h) @ [now]"
  have pp: "(\<lambda>g. filter (\<lambda>ts. \<not> (now - ts > replication_window)) (D sid g)) = pp"
    by (simp add: pp_def in_window_def fun_eq_iff not_less)
  have recent: "in_window replication_window now ts = pp h @ [now]"
    by (simp add: ts_def in_window_append pp_def old(2) later)
  have impl: "replication_processEvent hash e D =
      (if length (pp h @ [now]) \<ge> 4
       then (Some (\<lparr>flag_sessionId = re_account e, flag_cheatType = ''Possible Packet Replication (e.g. WPE)'',
                   flag_details = ReplicationDetails (re_packetId e) (length (pp h @ [now])) replication_window\<rparr>, re_session e),
             D(sid := (\<lambda>_. [])))
       else (None, D(sid := pp(h := pp h @ [now]))))"
    unfolding replication_processEvent_def Let_def sid_def [symmetric] h_def [symmetric] now_def [symmetric] pp
    by (simp add: fun_cong [OF pp])
  have spec: "replication_spec hash e a =
      (if length (pp h @ [now]) \<ge> 4
       then (Some (\<lparr>flag_sessionId = re_account e, flag_cheatType = ''Possible Packet Replication (e.g. WPE)'',
                   flag_details = ReplicationDetails (re_packetId e) (length (pp h @ [now])) replication_window\<rparr>, re_session e),
             \<lparr>h_now = now, h_times = (\<lambda>(s, g). if s = sid then [] else h_times a (s, g))\<rparr>)
       else (None, \<lparr>h_now = now, h_times = (h_times a)((sid, h) := ts)\<rparr>))"
    using recent by (simp add: replication_spec_def Let_def sid_def h_def now_def ts_def)
  have le: "x \<le> now" if "x \<in> set (h_times a (s, g))" for x s g
    using old(1) [of s g] that later by (meson order_trans)
  have pp_later: "in_window replication_window now' (pp g) = in_window replication_window now' (h_times a (sid, g))"
    if "now \<le> now'" for now' g
  proof -
    have "pp g = in_window replication_window now (h_times a (sid, g))"
      by (simp add: pp_def old(2) later)
    then show ?thesis using in_window_in_window [OF _ that] le by auto
  qed
  have "replication_agrees \<lparr>h_now = now, h_times = (\<lambda>(s, g). if s = sid then [] else h_times a (s, g))\<rparr> (D(sid := (\<lambda>_. [])))"
    using le old(2) later by (auto simp: replication_agrees_def dest: order_trans)
  moreover have "replication_agrees \<lparr>h_now = now, h_times = (h_times a)((sid, h) := ts)\<rparr> (D(sid := pp(h := pp h @ [now])))"
    using le old(2) later pp_later
    by (auto simp: replication_agrees_def ts_def in_window_append dest: order_trans)
  ultimately show ?thesis unfolding impl spec by simp
qed

interpretation flood: detector flood_processEvent flood_spec "flood_ok cfg" "flood_agrees cfg" for cfg
  by unfold_locales (rule flood_simulates)

interpretation replication: detector "replication_processEvent hash" "replication_spec hash" replication_ok replication_agrees
  for hash
  by unfold_locales (rule replication_simulates)


section \<open>The worker\<close>

lemma check_event_queue [simp]:
  "check_event hash ev (m\<lparr>ac_queue := q\<rparr>) = check_event hash ev m\<lparr>ac_queue := q\<rparr>"
  "ac_queue (check_event hash ev m) = ac_queue m"
  by (simp_all add: check_event_def check_flooding_def check_replication_def split: ACEvent.split prod.split)

lemma worker_step_Some:
  assumes "worker_step hash m = Some m'"
  obtains ev rest where "ac_queue m = ev # rest" "m' = check_event hash ev m\<lparr>ac_queue := rest\<rparr>"
  using assms by (auto simp: worker_step_def split: list.splits)

lemma ac_run_state:
  "ac_run hash evs n m \<Longrightarrow>
    n \<le> length evs \<and> m = fold (check_event hash) (take n evs) AntiCheat_new\<lparr>ac_queue := drop n evs\<rparr>"
proof (induction rule: ac_run.induct)
  case ac_start
  then show ?case by (simp add: AntiCheat_new_def)
next
  case (ac_submit evs n m ev)
  then have m: "m = fold (check_event hash) (take n evs) AntiCheat_new\<lparr>ac_queue := drop n evs\<rparr>" "n \<le> length evs" by auto
  show ?case by (subst m(1)) (use m(2) in \<open>simp add: submitEvent_def\<close>)
next
  case (ac_work evs n m m')
  then have m: "m = fold (check_event hash) (take n evs) AntiCheat_new\<lparr>ac_queue := drop n evs\<rparr>" "n \<le> length evs" by auto
  then have q: "ac_queue m = drop n evs" by simp
  obtain ev rest where w: "ac_queue m = ev # rest" "m' = check_event hash ev m\<lparr>ac_queue := rest\<rparr>"
    using worker_step_Some [OF ac_work.hyps(2)] .
  then have d: "drop n evs = ev # rest" using q by simp
  then have "n < length evs" by (metis drop_eq_Nil2 list.distinct(1) not_le)
  moreover have "ev = evs ! n" "rest = drop (Suc n) evs"
    using d calculation by (metis Cons_nth_drop_Suc list.inject)+
  ultimately show ?case
    by (subst w(2), subst m(1)) (simp add: take_Suc_conv_app_nth)
qed

text \<open>Events for the examples.\<close>

definition demo_flooding :: "u64 \<Rightarrow> flooding_event" where
  "demo_flooding t = \<lparr>fl_session = 1, fl_account = 7, fl_maxPacketsPerSecond = 2, fl_analysisWindowMs = 1000,
     fl_floodingType = ''Flooding'', fl_packetId = 5, fl_eventTime = t\<rparr>"

definition demo_replication :: "u64 \<Rightarrow> replication_event" where
  "demo_replication t = \<lparr>re_session = 1, re_account = 7, re_packetId = 5, re_data = [1, 2], re_eventTime = t\<rparr>"

section \<open>Properties\<close>

text \<open>C15: The flooding checker, which forgets everything that left its window, answers on every
  sequence of events in the order of their times as the detector that remembers all packets
  since the last flag: it flags a packet exactly when more packets of that kind of that session
  than allowed lie within the window that ends with it, and reports their number and span.
  (Limit and window are a function of the kind of packet, as the callers have them.)\<close>

theorem flooding_detector:
  assumes "allowed flood_spec (flood_ok cfg) es \<lparr>h_now = 0, h_times = (\<lambda>_. [])\<rparr>"
  shows "run_detector flood_processEvent es (\<lambda>_ _. []) = run_detector flood_spec es \<lparr>h_now = 0, h_times = (\<lambda>_. [])\<rparr>"
  by (rule flood.run_simulates [OF _ assms]) (simp add: flood_agrees_def outdated_def)

theorem flooding_detector_witness:
  "run_detector flood_processEvent (map demo_flooding [10, 20, 2000, 2010, 2020]) (\<lambda>_ _. []) =
   run_detector flood_spec (map demo_flooding [10, 20, 2000, 2010, 2020]) \<lparr>h_now = 0, h_times = (\<lambda>_. [])\<rparr>"
  by (rule flooding_detector [where cfg = "\<lambda>_. (2, 1000)"])
    (simp add: demo_flooding_def flood_ok_def flood_spec_def in_window_def Let_def)

text \<open>C16: The replication checker flags a packet, and closes its connection, exactly when four
  packets of the session with the same hash lie within two minutes since the last flag of that
  session, on every sequence of events in the order of their times and for every hash.\<close>

theorem replication_detector:
  assumes "allowed (replication_spec hash) replication_ok es \<lparr>h_now = 0, h_times = (\<lambda>_. [])\<rparr>"
  shows "run_detector (replication_processEvent hash) es (\<lambda>_ _. []) =
    run_detector (replication_spec hash) es \<lparr>h_now = 0, h_times = (\<lambda>_. [])\<rparr>"
  by (rule replication.run_simulates [OF _ assms]) (simp add: replication_agrees_def)

theorem replication_detector_witness:
  "run_detector (replication_processEvent id) (map demo_replication [10, 20, 30, 40]) (\<lambda>_ _. []) =
   run_detector (replication_spec id) (map demo_replication [10, 20, 30, 40]) \<lparr>h_now = 0, h_times = (\<lambda>_. [])\<rparr>"
  by (rule replication_detector)
    (simp add: demo_replication_def replication_ok_def replication_spec_def in_window_def Let_def)

text \<open>C23: However submissions and the worker interleave, every event is checked at most once and
  in the order of submission: the checkers, the flags and the closed connections are those of
  the first \<open>n\<close> events, and the queue holds the others.\<close>

theorem anticheat_worker_order:
  assumes "ac_run hash evs n m"
  shows "m = fold (check_event hash) (take n evs) AntiCheat_new\<lparr>ac_queue := drop n evs\<rparr> \<and>
    (worker_step hash m = None \<longleftrightarrow> n = length evs)"
proof -
  have m: "n \<le> length evs" "m = fold (check_event hash) (take n evs) AntiCheat_new\<lparr>ac_queue := drop n evs\<rparr>"
    using ac_run_state [OF assms] by auto
  then have "ac_queue m = drop n evs" by simp
  then show ?thesis using m by (auto simp: worker_step_def split: list.splits)
qed

theorem anticheat_worker_order_witness:
  "let m = submitEvent (PacketFlooding (demo_flooding 10)) (AntiCheat_new :: bytes ac_state) in
   m = fold (check_event id) (take 0 [PacketFlooding (demo_flooding 10)]) AntiCheat_new
         \<lparr>ac_queue := drop 0 [PacketFlooding (demo_flooding 10)]\<rparr> \<and>
   (worker_step id m = None \<longleftrightarrow> 0 = length [PacketFlooding (demo_flooding 10)])"
  unfolding Let_def
  by (rule anticheat_worker_order) (use ac_submit [OF ac_start, of id "PacketFlooding (demo_flooding 10)"] in simp)

end
