(* ===== verification/Enums.thy ===== *)
theory Enums
  imports Prelude
begin

text \<open>
  Enumerations and small packed structures that the cast and the main server share:
  \<open>Common/include/Enums\<close> and \<open>MainServer/include/Structures/AccountInfo/MainAccountUniqueId.h\<close>.
  An enumeration whose values are cast from 32-bit integers of the network is a 32-bit word,
  with its enumerators as constants.
\<close>

definition TEAM_ALL :: u32 where "TEAM_ALL = 0"
definition TEAM_RED :: u32 where "TEAM_RED = 1"
definition TEAM_BLUE :: u32 where "TEAM_BLUE = 2"
definition TEAM_OBSERVER :: u32 where "TEAM_OBSERVER = 4"
definition TEAM_ZOMBIE :: u32 where "TEAM_ZOMBIE = 5"

lemmas teams = TEAM_ALL_def TEAM_RED_def TEAM_BLUE_def TEAM_OBSERVER_def TEAM_ZOMBIE_def

definition STATE_LOBBY :: u32 where "STATE_LOBBY = 4"
definition STATE_SHOP :: u32 where "STATE_SHOP = 5"
definition STATE_INVENTORY :: u32 where "STATE_INVENTORY = 6"
definition STATE_CAPSULE :: u32 where "STATE_CAPSULE = 7"
definition STATE_WAITING :: u32 where "STATE_WAITING = 8"
definition STATE_READY :: u32 where "STATE_READY = 9"
definition STATE_LOADING :: u32 where "STATE_LOADING = 10"
definition STATE_LOADED :: u32 where "STATE_LOADED = 11"
definition STATE_NORMAL :: u32 where "STATE_NORMAL = 12"
definition STATE_DYING :: u32 where "STATE_DYING = 13"
definition STATE_TRADE :: u32 where "STATE_TRADE = 14"

lemmas states = STATE_LOBBY_def STATE_SHOP_def STATE_INVENTORY_def STATE_CAPSULE_def STATE_DYING_def STATE_WAITING_def STATE_READY_def STATE_LOADING_def STATE_LOADED_def STATE_NORMAL_def

definition MODES_MAX :: u32 where "MODES_MAX = 15"
definition FreeForAll :: u32 where "FreeForAll = 1"
definition AcademyTrainingGround :: u32 where "AcademyTrainingGround = 3"
definition TeamDeathMatch :: u32 where "TeamDeathMatch = 0"
definition ItemMatch :: u32 where "ItemMatch = 2"
definition CaptureTheBattery :: u32 where "CaptureTheBattery = 3"
definition CloseCombat :: u32 where "CloseCombat = 4"
definition Elimination :: u32 where "Elimination = 5"
definition SuperItemMatch :: u32 where "SuperItemMatch = 6"
definition ZombieMode :: u32 where "ZombieMode = 7"
definition ArmsRace :: u32 where "ArmsRace = 8"
definition Scrimmage :: u32 where "Scrimmage = 9"
definition BombBattle :: u32 where "BombBattle = 10"
definition SniperMode :: u32 where "SniperMode = 11"
definition SquareMode :: u32 where "SquareMode = 12"
definition BossBattle :: u32 where "BossBattle = 13"
definition AiBattle :: u32 where "AiBattle = 14"
definition Clan_TeamDeathMatch :: u32 where "Clan_TeamDeathMatch = 16"
definition Clan_Elimination :: u32 where "Clan_Elimination = 17"
definition Clan_CaptureTheBattery :: u32 where "Clan_CaptureTheBattery = 18"
definition Clan_BombBattle :: u32 where "Clan_BombBattle = 19"

definition CHANGE_HOST_SUCCESS :: u32 where "CHANGE_HOST_SUCCESS = 1"
definition CHANGE_HOST_FAIL :: u32 where "CHANGE_HOST_FAIL = 2"
definition GRADE_ES :: u32 where "GRADE_ES = 2"
definition ChatExtra_NORMAL :: u32 where "ChatExtra_NORMAL = 0"
definition ChatExtra_TEAM :: u32 where "ChatExtra_TEAM = 5"
definition maxObserverPlayers :: nat where "maxObserverPlayers = 10"
definition maxRooms :: nat where "maxRooms = 30"
definition clanRoomNumberStart :: u32 where "clanRoomNumberStart = 151"

lemmas game_modes = FreeForAll_def TeamDeathMatch_def ItemMatch_def CaptureTheBattery_def CloseCombat_def Elimination_def SuperItemMatch_def ZombieMode_def ArmsRace_def Scrimmage_def BombBattle_def SniperMode_def SquareMode_def BossBattle_def AiBattle_def Clan_TeamDeathMatch_def Clan_Elimination_def Clan_CaptureTheBattery_def Clan_BombBattle_def

datatype MatchEnd = MATCH_WON | MATCH_LOST | MATCH_DRAW | MATCH_DO_NOTHING

text \<open>A session number, the server it is on and one bit, packed into 32 bits.\<close>

record UniqueId =
  uid_session :: "16 word"
  uid_server :: "15 word"
  uid_unknown :: "1 word"

definition UniqueId_default :: UniqueId where
  "UniqueId_default = \<lparr>uid_session = 0, uid_server = 0, uid_unknown = 0\<rparr>"

definition UniqueId_make :: "u32 \<Rightarrow> u32 \<Rightarrow> u32 \<Rightarrow> UniqueId" where
  "UniqueId_make s v u = \<lparr>uid_session = ucast s, uid_server = ucast v, uid_unknown = ucast u\<rparr>"

definition UniqueId_data :: "UniqueId \<Rightarrow> u32" where
  "UniqueId_data u = ucast (uid_session u) OR push_bit 16 (ucast (uid_server u)) OR push_bit 31 (ucast (uid_unknown u))"

text \<open>The four bytes of a \<open>UniqueId\<close> in memory.\<close>

definition uid_bytes :: "UniqueId \<Rightarrow> bytes" where
  "uid_bytes u = le_store 4 (UniqueId_data u)"

text \<open>What the main server tells the cast server about a player when a match starts.\<close>

record PlayerTeamInfo =
  pti_uid :: UniqueId
  pti_team :: u32
  pti_nickname :: bytes

end
