(* ===== verification/CastRoom.thy ===== *)
theory CastRoom
  imports SessionStream Enums
begin

text \<open>
  A room of the cast server, \<open>CastServer/include/Classes/Room.h\<close> and
  \<open>CastServer/src/Classes/Room.cpp\<close>, and the fields that
  \<open>CastServer/include/Network/CastSession.h\<close> adds to a connection. Session objects live in an
  explicit heap; a room holds weak references to them, and \<open>lock\<close> of a reference is the lookup
  in the heap, which has no entry for an expired one. The number of a session is a field of the
  object and not its reference.
\<close>

section \<open>Sessions and the heap\<close>

record cast_fields =
  cf_roomNumber :: u32
  cf_team :: u32
  cf_isDead :: bool
  cf_isInMatch :: bool
  cf_nickname :: bytes
  cf_isInvisible :: bool

type_synonym cast_session = "cast_fields session"
type_synonym sref = nat
type_synonym sheap = "sref \<Rightarrow> cast_session option"

definition setRoomNumber :: "u32 \<Rightarrow> cast_session \<Rightarrow> cast_session" where
  "setRoomNumber n s = s\<lparr>sess_app := sess_app s\<lparr>cf_roomNumber := n\<rparr>\<rparr>"

definition getRoomNumber :: "cast_session \<Rightarrow> u32" where
  "getRoomNumber s = cf_roomNumber (sess_app s)"

definition isInMatch :: "cast_session \<Rightarrow> bool" where
  "isInMatch s = cf_isInMatch (sess_app s)"

definition setIsInMatch :: "bool \<Rightarrow> cast_session \<Rightarrow> cast_session" where
  "setIsInMatch b s = s\<lparr>sess_app := sess_app s\<lparr>cf_isInMatch := b\<rparr>\<rparr>"

definition setTeam :: "u32 \<Rightarrow> cast_session \<Rightarrow> cast_session" where
  "setTeam t s = s\<lparr>sess_app := sess_app s\<lparr>cf_team := t\<rparr>\<rparr>"

definition getTeam :: "cast_session \<Rightarrow> u32" where
  "getTeam s = cf_team (sess_app s)"

definition setNickname :: "bytes \<Rightarrow> cast_session \<Rightarrow> cast_session" where
  "setNickname n s = s\<lparr>sess_app := sess_app s\<lparr>cf_nickname := n\<rparr>\<rparr>"

definition setDead :: "bool \<Rightarrow> cast_session \<Rightarrow> cast_session" where
  "setDead b s = s\<lparr>sess_app := sess_app s\<lparr>cf_isDead := b\<rparr>\<rparr>"

text \<open>The loops \<open>for (auto& weakSession : m_playersVec) if (auto session = weakSession.lock())\<close>.\<close>

definition update_at :: "(cast_session \<Rightarrow> cast_session) \<Rightarrow> sref \<Rightarrow> sheap \<Rightarrow> sheap" where
  "update_at f r h = (case h r of None \<Rightarrow> h | Some s \<Rightarrow> h(r \<mapsto> f s))"

definition for_players :: "(cast_session \<Rightarrow> cast_session) \<Rightarrow> sref list \<Rightarrow> sheap \<Rightarrow> sheap" where
  "for_players f rs h = fold (update_at f) rs h"

text \<open>The predicate of the searches: a live session with the given number.\<close>

definition has_id :: "sheap \<Rightarrow> nat \<Rightarrow> sref \<Rightarrow> bool" where
  "has_id h i r = (case h r of None \<Rightarrow> False | Some s \<Rightarrow> m_id s = i)"

section \<open>The room\<close>

type_synonym position = "u16 \<times> u16 \<times> u16"

record cast_room =
  cr_players :: "sref list"
  cr_map :: u32
  cr_mode :: u32
  cr_roomNumber :: u32
  cr_serverId :: u32
  cr_pendingPositions :: "packet list"
  cr_hasMatchStarted :: bool
  cr_isInvisible :: bool
  cr_roomTick :: u32
  cr_isArenaMode :: bool
  cr_arenaRoundFinished :: bool
  cr_respawnPoints :: "(u32 \<times> u32 \<times> u32) list"
  cr_isAssassinMode :: u32
  cr_assassinBlueUid :: UniqueId
  cr_assassinRedUid :: UniqueId
  cr_blueAssassinPos :: position
  cr_assassinBlueName :: bytes
  cr_assassinRedName :: bytes
  cr_redAssassinPos :: position

definition respawnPoints_init :: "(u32 \<times> u32 \<times> u32) list" where
  "respawnPoints_init =
     [(24583, 60683, 19115), (58722, 60694, 19115), (25497, 60099, 19415), (25475, 58678, 19415),
      (25521, 23589, 19415), (25922, 26812, 19415), (55990, 26504, 56296), (59297, 26439, 56296),
      (60178, 26367, 56296), (60225, 23721, 56296), (60510, 58834, 56296), (59849, 59616, 56296),
      (58965, 59961, 56296), (58252, 59675, 56296), (57185, 58780, 56296), (21758, 25560, 56296)]"

definition CastRoom_new :: "u32 \<Rightarrow> sref \<Rightarrow> cast_room" where
  "CastRoom_new serverNumber hostSession =
     \<lparr>cr_players = [hostSession], cr_map = 0, cr_mode = 0, cr_roomNumber = -1, cr_serverId = serverNumber,
      cr_pendingPositions = [], cr_hasMatchStarted = False, cr_isInvisible = False, cr_roomTick = 0,
      cr_isArenaMode = False, cr_arenaRoundFinished = False, cr_respawnPoints = respawnPoints_init,
      cr_isAssassinMode = 0, cr_assassinBlueUid = UniqueId_default, cr_assassinRedUid = UniqueId_default,
      cr_blueAssassinPos = (0, 0, 0), cr_assassinBlueName = [], cr_assassinRedName = [],
      cr_redAssassinPos = (0, 0, 0)\<rparr>"

definition room_setRoomNumber :: "u32 \<Rightarrow> sheap \<times> cast_room \<Rightarrow> sheap \<times> cast_room" where
  "room_setRoomNumber n = (\<lambda>(h, R). (for_players (setRoomNumber n) (cr_players R) h, R\<lparr>cr_roomNumber := n\<rparr>))"

definition endMatch :: "sheap \<times> cast_room \<Rightarrow> sheap \<times> cast_room" where
  "endMatch = (\<lambda>(h, R). (for_players (setIsInMatch False) (cr_players R) h, R\<lparr>cr_hasMatchStarted := False\<rparr>))"

definition getTotalPlayers :: "cast_room \<Rightarrow> nat" where
  "getTotalPlayers R = length (cr_players R)"

definition removeAllPlayers :: "sheap \<times> cast_room \<Rightarrow> sheap \<times> cast_room" where
  "removeAllPlayers = (\<lambda>(h, R).
     (for_players (\<lambda>s. setRoomNumber (-1) (setIsInMatch False s)) (cr_players R) h, R\<lparr>cr_players := []\<rparr>))"

text \<open>The result says whether the room must be closed because it is empty.\<close>

definition removePlayer :: "nat \<Rightarrow> sheap \<times> cast_room \<Rightarrow> bool \<times> sheap \<times> cast_room" where
  "removePlayer playerSessionId = (\<lambda>(h, R).
     case find_index (has_id h playerSessionId) (cr_players R) of
       None \<Rightarrow> (cr_players R = [], h, R)
     | Some i \<Rightarrow>
         let h' = update_at (\<lambda>s. setRoomNumber (-1) (setIsInMatch False s)) (cr_players R ! i) h;
             R' = R\<lparr>cr_players := erase_at i (cr_players R)\<rparr>
         in (cr_players R' = [], h', R'))"

text \<open>The argument is a shared pointer, \<open>None\<close> when it is empty.\<close>

definition addPlayer :: "sref option \<Rightarrow> sheap \<times> cast_room \<Rightarrow> sheap \<times> cast_room" where
  "addPlayer playerSession = (\<lambda>(h, R).
     case playerSession of
       None \<Rightarrow> (h, R)
     | Some r \<Rightarrow>
         (case h r of
            None \<Rightarrow> (h, R)
          | Some s \<Rightarrow>
              (update_at (setRoomNumber (cr_roomNumber R)) r h,
               R\<lparr>cr_players := filter (\<lambda>x. \<not> has_id h (m_id s) x) (cr_players R) @ [r]\<rparr>)))"

definition room_isInMatch :: "nat \<Rightarrow> sheap \<times> cast_room \<Rightarrow> bool" where
  "room_isInMatch playerSessionId = (\<lambda>(h, R).
     case find_index (has_id h playerSessionId) (cr_players R) of
       None \<Rightarrow> False
     | Some i \<Rightarrow> (case h (cr_players R ! i) of None \<Rightarrow> False | Some s \<Rightarrow> isInMatch s))"

definition room_isArenaMode :: "cast_room \<Rightarrow> bool" where
  "room_isArenaMode R \<longleftrightarrow> cr_map R = AcademyTrainingGround \<and> cr_mode R = FreeForAll"

subsection \<open>Sending\<close>

text \<open>
  The broadcasts take the packet by reference and rewrite its header for every recipient, so
  they also return it. A broadcast is the loop over the players with a condition on the
  recipient and a choice of the session number that goes into the header.
\<close>

definition send_step ::
  "(cast_session \<Rightarrow> bool) \<Rightarrow> (cast_session \<Rightarrow> nat) \<Rightarrow> sref \<Rightarrow> sheap \<times> packet \<Rightarrow> sheap \<times> packet" where
  "send_step cond sid r = (\<lambda>(h, p).
     case h r of
       None \<Rightarrow> (h, p)
     | Some s \<Rightarrow>
         if cond s
         then let p = setTcpHeader_plain (of_nat (sid s)) p in (h(r \<mapsto> snd (asyncWrite_plain p s)), p)
         else (h, p))"

definition broadcast ::
  "(cast_session \<Rightarrow> bool) \<Rightarrow> (cast_session \<Rightarrow> nat) \<Rightarrow> cast_room \<Rightarrow> sheap \<times> packet \<Rightarrow> sheap \<times> packet" where
  "broadcast cond sid R = fold (send_step cond sid) (cr_players R)"

definition broadcastToRoomExceptSelf :: "nat \<Rightarrow> cast_room \<Rightarrow> sheap \<times> packet \<Rightarrow> sheap \<times> packet" where
  "broadcastToRoomExceptSelf self = broadcast (\<lambda>s. m_id s \<noteq> self) (\<lambda>_. self)"

definition broadcastToRoomExceptSelfAndHost :: "nat \<Rightarrow> nat \<Rightarrow> cast_room \<Rightarrow> sheap \<times> packet \<Rightarrow> sheap \<times> packet" where
  "broadcastToRoomExceptSelfAndHost self host =
     broadcast (\<lambda>s. \<not> (m_id s = self \<or> m_id s = host)) (\<lambda>_. self)"

definition broadcastToRoom :: "cast_room \<Rightarrow> sheap \<times> packet \<Rightarrow> sheap \<times> packet" where
  "broadcastToRoom = broadcast (\<lambda>_. True) m_id"

definition broadcastToMatch :: "cast_room \<Rightarrow> sheap \<times> packet \<Rightarrow> sheap \<times> packet" where
  "broadcastToMatch = broadcast isInMatch m_id"

definition broadcastToMatchExceptSelf :: "nat \<Rightarrow> cast_room \<Rightarrow> sheap \<times> packet \<Rightarrow> sheap \<times> packet" where
  "broadcastToMatchExceptSelf self = broadcast (\<lambda>s. isInMatch s \<and> m_id s \<noteq> self) m_id"

definition playerForwardToHost :: "nat \<Rightarrow> nat \<Rightarrow> cast_room \<Rightarrow> sheap \<times> packet \<Rightarrow> sheap \<times> packet" where
  "playerForwardToHost host sender R = (\<lambda>(h, p).
     case find_index (has_id h host) (cr_players R) of
       None \<Rightarrow> (h, p)
     | Some i \<Rightarrow> send_step (\<lambda>_. True) (\<lambda>_. sender) (cr_players R ! i) (h, p))"

definition hostForwardToPlayer :: "nat \<Rightarrow> nat \<Rightarrow> bool \<Rightarrow> cast_room \<Rightarrow> sheap \<times> packet \<Rightarrow> sheap \<times> packet" where
  "hostForwardToPlayer host player useHostIdInTcpHeader R = (\<lambda>(h, p).
     case find_index (has_id h player) (cr_players R) of
       None \<Rightarrow> (h, p)
     | Some i \<Rightarrow> send_step (\<lambda>_. True) (\<lambda>_. if useHostIdInTcpHeader then host else player) (cr_players R ! i) (h, p))"

definition broadcastMessage :: "crypt \<Rightarrow> bytes \<Rightarrow> cast_room \<Rightarrow> sheap \<Rightarrow> sheap" where
  "broadcastMessage c msg R h = for_players (sendMessage c msg 1) (cr_players R) h"

subsection \<open>Teams, arena and assassins\<close>

text \<open>
  The name is an array of 16 characters that is read as a zero-terminated string; without a
  zero the read leaves the array.
\<close>

definition set_team_step :: "PlayerTeamInfo list \<Rightarrow> sref \<Rightarrow> mem_error + sheap \<Rightarrow> mem_error + sheap" where
  "set_team_step players r res =
     (case res of
        Inl e \<Rightarrow> Inl e
      | Inr h \<Rightarrow>
          (case h r of
             None \<Rightarrow> Inr h
           | Some s \<Rightarrow>
               (case find_index (\<lambda>info. unat (uid_session (pti_uid info)) = m_id s) players of
                  None \<Rightarrow> Inr h
                | Some i \<Rightarrow>
                    (case c_string (pti_nickname (players ! i)) of
                       Inl e \<Rightarrow> Inl e
                     | Inr name \<Rightarrow> Inr (h(r \<mapsto> setNickname name (setTeam (pti_team (players ! i)) s)))))))"

definition setPlayerTeams :: "PlayerTeamInfo list \<Rightarrow> cast_room \<Rightarrow> sheap \<Rightarrow> mem_error + sheap" where
  "setPlayerTeams players R h = fold (set_team_step players) (cr_players R) (Inr h)"

text \<open>\<open>SuicideStructure\<close>: three coordinates, two unknown fields, the player and the health left.\<close>

definition suicide_bytes :: "UniqueId \<Rightarrow> bytes" where
  "suicide_bytes uid =
     le_store 2 (0 :: u16) @ le_store 2 (0 :: u16) @ le_store 2 (0 :: u16) @ le_store 4 (0 :: u32) @
     le_store 2 (0 :: u16) @ le_store 4 (UniqueId_data uid) @ le_store 4 (0 :: u32)"

definition kill_step :: "u32 \<Rightarrow> cast_room \<Rightarrow> sref \<Rightarrow> sheap \<times> packet \<Rightarrow> sheap \<times> packet" where
  "kill_step team R r = (\<lambda>(h, p).
     case h r of
       None \<Rightarrow> (h, p)
     | Some s \<Rightarrow>
         if getTeam s = team
         then broadcastToRoom R (h, setData (suicide_bytes (UniqueId_make (of_nat (m_id s)) (cr_serverId R) 0)) p)
         else (h, p))"

definition killTeam :: "u32 \<Rightarrow> cast_room \<Rightarrow> sheap \<Rightarrow> sheap" where
  "killTeam team R h = fst (fold (kill_step team R) (cr_players R) (h, packet_setOrder 264 packet_new))"

text \<open>The first live player of the team other than the one who leaves.\<close>

definition is_candidate :: "u32 \<Rightarrow> u32 \<Rightarrow> sheap \<Rightarrow> sref \<Rightarrow> bool" where
  "is_candidate team leavingPlayerSid h r =
     (case h r of None \<Rightarrow> False | Some s \<Rightarrow> getTeam s = team \<and> m_id s \<noteq> unat leavingPlayerSid)"

definition assassin_message :: "u32 \<Rightarrow> bytes \<Rightarrow> bytes" where
  "assassin_message team name =
     ascii ''New '' @ (if team = TEAM_BLUE then ascii ''BLUE'' else ascii ''RED'') @ ascii '' assassin: '' @ name"

definition assignNewAssassin ::
  "crypt \<Rightarrow> u32 \<Rightarrow> u32 \<Rightarrow> sheap \<times> cast_room \<Rightarrow> (sheap \<times> UniqueId \<times> bytes) option" where
  "assignNewAssassin c team leavingPlayerSid = (\<lambda>(h, R).
     let uid = (if team = TEAM_BLUE then cr_assassinBlueUid R else cr_assassinRedUid R)
     in case find_index (is_candidate team leavingPlayerSid h) (cr_players R) of
          None \<Rightarrow> None
        | Some i \<Rightarrow>
            (case h (cr_players R ! i) of
               None \<Rightarrow> None
             | Some s \<Rightarrow>
                 let name = cf_nickname (sess_app s)
                 in Some (broadcastMessage c (assassin_message team name) R h,
                          uid\<lparr>uid_session := of_nat (m_id s)\<rparr>, name)))"

definition tryFindNewAssassin :: "crypt \<Rightarrow> u32 \<Rightarrow> sheap \<times> cast_room \<Rightarrow> sheap \<times> cast_room" where
  "tryFindNewAssassin c leavingPlayerSid = (\<lambda>(h, R).
     if cr_isAssassinMode R = 0 then (h, R)
     else if ucast (uid_session (cr_assassinBlueUid R)) = leavingPlayerSid
     then (case assignNewAssassin c TEAM_BLUE leavingPlayerSid (h, R) of
             None \<Rightarrow> (h, R)
           | Some (h', uid, name) \<Rightarrow> (h', R\<lparr>cr_assassinBlueUid := uid, cr_assassinBlueName := name\<rparr>))
     else if ucast (uid_session (cr_assassinRedUid R)) = leavingPlayerSid
     then (case assignNewAssassin c TEAM_RED leavingPlayerSid (h, R) of
             None \<Rightarrow> (h, R)
           | Some (h', uid, name) \<Rightarrow> (h', R\<lparr>cr_assassinRedUid := uid, cr_assassinRedName := name\<rparr>))
     else (h, R))"

definition is_alive :: "sheap \<Rightarrow> sref \<Rightarrow> bool" where
  "is_alive h r =
     (case h r of None \<Rightarrow> False
      | Some s \<Rightarrow> isInMatch s \<and> getTeam s = TEAM_ALL \<and> \<not> cf_isDead (sess_app s))"

definition getTotalAlivePlayers :: "sheap \<times> cast_room \<Rightarrow> u32" where
  "getTotalAlivePlayers = (\<lambda>(h, R). fold (\<lambda>r total. if is_alive h r then total + 1 else total) (cr_players R) 0)"

text \<open>The random generator is a parameter: the permutation it applies.\<close>

definition shuffleCoordinates ::
  "((u32 \<times> u32 \<times> u32) list \<Rightarrow> (u32 \<times> u32 \<times> u32) list) \<Rightarrow> cast_room \<Rightarrow> cast_room" where
  "shuffleCoordinates perm R = R\<lparr>cr_respawnPoints := perm (cr_respawnPoints R)\<rparr>"

definition respawn_bytes :: "u32 \<times> u32 \<times> u32 \<Rightarrow> UniqueId \<Rightarrow> bytes" where
  "respawn_bytes coord uid =
     (case coord of (x, y, z) \<Rightarrow>
        le_store 2 (ucast x :: u16) @ le_store 2 (ucast y :: u16) @ le_store 2 (ucast z :: u16) @
        le_store 2 (0 :: u16) @ le_store 4 (UniqueId_data uid))"

text \<open>\<open>coordIndex\<close> is a static variable, shared by all rooms.\<close>

definition respawn_step :: "cast_room \<Rightarrow> sref \<Rightarrow> nat \<times> sheap \<times> packet \<Rightarrow> nat \<times> sheap \<times> packet" where
  "respawn_step R r = (\<lambda>(coordIndex, h, p).
     case h r of
       None \<Rightarrow> (coordIndex, h, p)
     | Some s \<Rightarrow>
         if isInMatch s \<and> getTeam s = TEAM_ALL \<and> cf_isDead (sess_app s)
         then let coord = cr_respawnPoints R ! coordIndex;
                  uid = \<lparr>uid_session = of_nat (m_id s), uid_server = ucast (cr_serverId R), uid_unknown = 0\<rparr>;
                  h = h(r \<mapsto> setDead False s);
                  (h, p) = broadcastToMatch R (h, setData (respawn_bytes coord uid) p)
              in ((coordIndex + 1) mod length (cr_respawnPoints R), h, p)
         else (coordIndex, h, p))"

definition respawnEveryoneArena :: "nat \<Rightarrow> sheap \<times> cast_room \<Rightarrow> nat \<times> sheap \<times> cast_room" where
  "respawnEveryoneArena coordIndex = (\<lambda>(h, R).
     case fold (respawn_step R) (cr_players R) (coordIndex, h, packet_setOrder 276 packet_new) of
       (coordIndex', h', p) \<Rightarrow> (coordIndex', h', R\<lparr>cr_arenaRoundFinished := False\<rparr>))"

subsection \<open>Positions\<close>

definition enqueuePosition :: "packet \<Rightarrow> cast_room \<Rightarrow> cast_room" where
  "enqueuePosition pkt R = R\<lparr>cr_pendingPositions := cr_pendingPositions R @ [pkt]\<rparr>"

text \<open>The loop that fills the batch buffer: the bytes so far and the number of positions.\<close>

fun batch_positions :: "packet list \<Rightarrow> bytes \<Rightarrow> nat \<Rightarrow> bytes \<times> nat" where
  "batch_positions [] buf n = (buf, n)"
| "batch_positions (pkt # pkts) buf n =
     (if length buf + length (m_data pkt) > 2036 then (buf, n)
      else batch_positions pkts (buf @ m_data pkt) (n + 1))"

definition batch_packet :: "cast_room \<Rightarrow> packet \<Rightarrow> packet" where
  "batch_packet R batch =
     (case batch_positions (cr_pendingPositions R) [] 0 of (buf, n) \<Rightarrow>
        setData (le_store 4 (cr_roomTick R) @ buf) (packet_setOption (of_nat n) batch))"

text \<open>
  \<open>batch\<close> is a static packet: its first use constructs it with order 322, and afterwards it
  is what the previous flush left.
\<close>

definition batch_new :: packet where
  "batch_new = setCommand 322 0 0 0 packet_new"

definition flushPendingPositions :: "packet \<Rightarrow> sheap \<times> cast_room \<Rightarrow> packet \<times> sheap \<times> cast_room" where
  "flushPendingPositions batch = (\<lambda>(h, R).
     if cr_pendingPositions R = [] then (batch, h, R)
     else case broadcastToRoom R (h, batch_packet R batch) of
            (h', batch') \<Rightarrow> (batch', h', R\<lparr>cr_pendingPositions := []\<rparr>))"

section \<open>Members\<close>

definition id_of :: "sheap \<Rightarrow> sref \<Rightarrow> nat option" where
  "id_of h r = map_option m_id (h r)"

definition live_ids :: "sheap \<Rightarrow> sref list \<Rightarrow> nat set" where
  "live_ids h rs = {i. \<exists>r \<in> set rs. id_of h r = Some i}"

definition room_inv :: "sheap \<Rightarrow> cast_room \<Rightarrow> bool" where
  "room_inv h R \<longleftrightarrow> distinct (cr_players R) \<and>
     (\<forall>r1 \<in> set (cr_players R). \<forall>r2 \<in> set (cr_players R). \<forall>i.
        id_of h r1 = Some i \<and> id_of h r2 = Some i \<longrightarrow> r1 = r2)"

lemma has_id_id_of: "has_id h i r \<longleftrightarrow> id_of h r = Some i"
  by (auto simp: has_id_def id_of_def split: option.split)

lemma field_setters [simp]:
  "m_id (setRoomNumber n s) = m_id s" "m_id (setIsInMatch b s) = m_id s" "m_id (setDead b s) = m_id s"
  "m_id (setTeam t s) = m_id s" "m_id (setNickname nm s) = m_id s"
  "isInMatch (setRoomNumber n s) = isInMatch s" "isInMatch (setIsInMatch b s) = b" "isInMatch (setDead b s) = isInMatch s"
  "getRoomNumber (setRoomNumber n s) = n" "getRoomNumber (setIsInMatch b s) = getRoomNumber s"
  "getTeam (setDead b s) = getTeam s" "cf_isDead (sess_app (setDead b s)) = b"
  by (simp_all add: setRoomNumber_def setIsInMatch_def setDead_def setTeam_def setNickname_def isInMatch_def
      getRoomNumber_def getTeam_def)

lemma update_at_apply: "update_at f r h x = (if x = r then map_option f (h r) else h x)"
  by (auto simp: update_at_def split: option.split)

lemma for_players_apply:
  "distinct rs \<Longrightarrow> for_players f rs h x = (if x \<in> set rs then map_option f (h x) else h x)"
  unfolding for_players_def by (induction rs arbitrary: h) (auto simp: update_at_apply)

text \<open>Most operations keep the number of every session, so nothing said about members changes.\<close>

lemma update_at_ids: "(\<And>s. m_id (f s) = m_id s) \<Longrightarrow> id_of (update_at f r h) = id_of h"
  by (auto simp: id_of_def update_at_apply fun_eq_iff option.map_comp comp_def)

lemma for_players_ids: "(\<And>s. m_id (f s) = m_id s) \<Longrightarrow> id_of (for_players f rs h) = id_of h"
  unfolding for_players_def by (induction rs arbitrary: h) (auto simp: update_at_ids)

lemma room_inv_cong: "id_of h = id_of h' \<Longrightarrow> cr_players R = cr_players R' \<Longrightarrow> room_inv h R = room_inv h' R'"
  by (simp add: room_inv_def)

lemma live_ids_cong: "id_of h = id_of h' \<Longrightarrow> live_ids h rs = live_ids h' rs"
  by (simp add: live_ids_def)

lemma set_erase_at_distinct: "distinct xs \<Longrightarrow> i < length xs \<Longrightarrow> set (erase_at i xs) = set xs - {xs ! i}"
  using set_take_disj_set_drop_if_distinct [of xs i "Suc i"] id_take_nth_drop [of i xs]
  by (metis Diff_insert_absorb Un_iff disjoint_insert(1) distinct_append distinct.simps(2) erase_at_def insert_Diff_if
      list.set(2) mset_erase_at set_append set_mset_add_mset_insert set_mset_mset)

lemma distinct_erase_at: "distinct xs \<Longrightarrow> distinct (erase_at i xs)"
  using set_take_disj_set_drop_if_distinct [of xs i "Suc i"] by (auto simp: erase_at_def)

lemma room_inv_subset:
  assumes "room_inv h R" "distinct (cr_players R')" "set (cr_players R') \<subseteq> set (cr_players R)"
  shows "room_inv h R'"
  using assms unfolding room_inv_def by blast

text \<open>Removing the session with a number that a live member has.\<close>

lemma removePlayer_live:
  assumes "room_inv h R" "r \<in> set (cr_players R)" "id_of h r = Some i"
    and "removePlayer i (h, R) = (closed, h', R')"
  shows "set (cr_players R') = set (cr_players R) - {r}" "distinct (cr_players R')"
    and "h' = update_at (\<lambda>s. setRoomNumber (-1) (setIsInMatch False s)) r h"
    and "closed \<longleftrightarrow> cr_players R' = []" "id_of h' = id_of h"
proof -
  obtain k where k: "find_index (has_id h i) (cr_players R) = Some k"
    using assms(2,3) find_index_None [of "has_id h i" "cr_players R"] by (auto simp: has_id_id_of)
  then have "k < length (cr_players R)" "id_of h (cr_players R ! k) = Some i"
    using find_index_Some [OF k] by (auto simp: has_id_id_of)
  moreover from this have r: "cr_players R ! k = r"
    using assms(1-3) unfolding room_inv_def by (metis nth_mem)
  moreover have "distinct (cr_players R)" using assms(1) by (simp add: room_inv_def)
  moreover have "h' = update_at (\<lambda>s. setRoomNumber (-1) (setIsInMatch False s)) (cr_players R ! k) h"
      "R' = R\<lparr>cr_players := erase_at k (cr_players R)\<rparr>" "closed \<longleftrightarrow> erase_at k (cr_players R) = []"
    using assms(4) k by (simp_all add: removePlayer_def Let_def)
  ultimately show "set (cr_players R') = set (cr_players R) - {r}" "distinct (cr_players R')"
      "h' = update_at (\<lambda>s. setRoomNumber (-1) (setIsInMatch False s)) r h" "closed \<longleftrightarrow> cr_players R' = []"
    using set_erase_at_distinct [of "cr_players R" k] distinct_erase_at [of "cr_players R" k] by simp_all
  then show "id_of h' = id_of h" by (simp add: update_at_ids)
qed

lemma removePlayer_absent:
  assumes "i \<notin> live_ids h (cr_players R)"
  shows "removePlayer i (h, R) = (cr_players R = [], h, R)"
proof -
  have "find_index (has_id h i) (cr_players R) = None"
    using assms by (auto simp: find_index_None has_id_id_of live_ids_def)
  then show ?thesis by (simp add: removePlayer_def)
qed

lemma removePlayer_inv [inv_intros]:
  assumes "room_inv h R" "removePlayer i (h, R) = (closed, h', R')"
  shows "room_inv h' R' \<and> live_ids h' (cr_players R') = live_ids h (cr_players R) - {i} \<and>
    (closed \<longleftrightarrow> cr_players R' = []) \<and> id_of h' = id_of h"
proof (cases "i \<in> live_ids h (cr_players R)")
  case True
  then obtain r where r: "r \<in> set (cr_players R)" "id_of h r = Some i" by (auto simp: live_ids_def)
  note rem = removePlayer_live [OF assms(1) r assms(2)]
  have "live_ids h (cr_players R') = live_ids h (cr_players R) - {i}"
  proof (intro equalityI subsetI)
    fix j assume "j \<in> live_ids h (cr_players R')"
    then obtain x where "x \<in> set (cr_players R)" "x \<noteq> r" "id_of h x = Some j" by (auto simp: live_ids_def rem(1))
    moreover from this have "j \<noteq> i" using assms(1) r unfolding room_inv_def by blast
    ultimately show "j \<in> live_ids h (cr_players R) - {i}" by (auto simp: live_ids_def)
  next
    fix j assume "j \<in> live_ids h (cr_players R) - {i}"
    then show "j \<in> live_ids h (cr_players R')" using r by (auto simp: live_ids_def rem(1))
  qed
  then show ?thesis
    using rem room_inv_subset [OF assms(1) rem(2)] room_inv_cong [of h' h R' R'] live_ids_cong [of h' h] by auto
next
  case False
  then show ?thesis using assms removePlayer_absent [OF False] by auto
qed

lemma addPlayer_inv [inv_intros]:
  assumes "room_inv h R" "h r = Some s" "addPlayer (Some r) (h, R) = (h', R')"
  shows "room_inv h' R' \<and> live_ids h' (cr_players R') = insert (m_id s) (live_ids h (cr_players R)) \<and>
    id_of h' = id_of h \<and> h' r = Some (setRoomNumber (cr_roomNumber R) s)"
proof -
  have p: "cr_players R' = filter (\<lambda>x. id_of h x \<noteq> Some (m_id s)) (cr_players R) @ [r]"
    and h': "h' = update_at (setRoomNumber (cr_roomNumber R)) r h"
    using assms(2,3) by (auto simp: addPlayer_def has_id_id_of)
  have r: "id_of h r = Some (m_id s)" by (simp add: id_of_def assms(2))
  have ids: "id_of h' = id_of h" by (simp add: h' update_at_ids)
  have "room_inv h R'"
    using assms(1) r unfolding room_inv_def p by auto
  moreover have "live_ids h (cr_players R') = insert (m_id s) (live_ids h (cr_players R))"
    using r unfolding live_ids_def p by auto
  ultimately show ?thesis
    using ids room_inv_cong [of h' h R' R'] live_ids_cong [of h' h] assms(2) by (auto simp: h' update_at_apply)
qed

section \<open>Delivery\<close>

lemma setTcpHeader_plain_twice [simp]: "setTcpHeader_plain a (setTcpHeader_plain b p) = setTcpHeader_plain a p"
  by (simp add: setTcpHeader_plain_def tcp_initialize_def tcp_sets)

definition received :: "packet \<Rightarrow> cast_session \<Rightarrow> cast_session" where
  "received p s = (if m_isOpen s then s\<lparr>m_written := m_written s @ [generateOutgoingPacket_plain p]\<rparr> else s)"

lemma asyncWrite_plain_received:
  "length (m_data p) \<le> 4000 \<Longrightarrow> snd (asyncWrite_plain p s) = received p s"
  using unat_of_nat_small [of "8 + length (m_data p)"]
  by (simp add: asyncWrite_plain_def received_def getFullSize_def)

lemma m_id_written [simp]: "m_id (snd (asyncWrite_plain p s)) = m_id s" "m_id (received p s) = m_id s"
  by (simp_all add: asyncWrite_plain_def received_def)

lemma send_fold:
  assumes "distinct rs"
  shows "fst (fold (send_step cond sid) rs (h, p)) x =
      (if x \<in> set rs
       then map_option (\<lambda>s. if cond s then snd (asyncWrite_plain (setTcpHeader_plain (of_nat (sid s)) p) s) else s) (h x)
       else h x)"
  using assms
proof (induction rs arbitrary: h p)
  case Nil
  then show ?case by simp
next
  case (Cons r rs)
  show ?case
  proof (cases "h r")
    case None
    then have "send_step cond sid r (h, p) = (h, p)" by (simp add: send_step_def)
    then show ?thesis using Cons None by auto
  next
    case (Some s)
    show ?thesis
    proof (cases "cond s")
      case True
      let ?p = "setTcpHeader_plain (of_nat (sid s)) p"
      have "send_step cond sid r (h, p) = (h(r \<mapsto> snd (asyncWrite_plain ?p s)), ?p)"
        using True Some by (simp add: send_step_def Let_def)
      then show ?thesis using Cons.IH [of "h(r \<mapsto> snd (asyncWrite_plain ?p s))" ?p] Cons.prems True Some
        by (auto simp: fun_upd_def cong: if_cong)
    next
      case False
      then have "send_step cond sid r (h, p) = (h, p)" using Some by (simp add: send_step_def)
      then show ?thesis using Cons Some False by simp
    qed
  qed
qed

lemma broadcast_delivers:
  assumes "distinct (cr_players R)" "length (m_data p) \<le> 4000"
  shows "fst (broadcast cond sid R (h, p)) r =
    (if r \<in> set (cr_players R)
     then map_option (\<lambda>s. if cond s then received (setTcpHeader_plain (of_nat (sid s)) p) s else s) (h r) else h r)"
proof -
  have "snd (asyncWrite_plain (setTcpHeader_plain n p) s) = received (setTcpHeader_plain n p) s" for n s
    by (rule asyncWrite_plain_received) (use assms(2) in \<open>simp add: setTcpHeader_plain_def\<close>)
  then show ?thesis using send_fold [OF assms(1), of cond sid h p r] by (simp add: broadcast_def cong: if_cong)
qed

lemma broadcast_ids: "id_of (fst (broadcast cond sid R (h, p))) = id_of h"
proof -
  have "id_of (fst (fold (send_step cond sid) rs (h, p))) = id_of h" for rs
    by (induction rs arbitrary: h p) (auto simp: send_step_def id_of_def fun_eq_iff Let_def split: option.split)
  then show ?thesis by (simp add: broadcast_def)
qed

section \<open>Batches of positions\<close>

lemma batch_positions_prefix:
  "batch_positions pkts buf n = (buf', n') \<Longrightarrow> length buf \<le> 2036 \<Longrightarrow>
    \<exists>k \<le> length pkts. n' = n + k \<and> buf' = buf @ concat (map m_data (take k pkts)) \<and> length buf' \<le> 2036 \<and>
      (k < length pkts \<longrightarrow> length buf' + length (m_data (pkts ! k)) > 2036)"
proof (induction pkts arbitrary: buf n)
  case Nil
  then show ?case by simp
next
  case (Cons pkt pkts)
  show ?case
  proof (cases "length buf + length (m_data pkt) > 2036")
    case True
    then show ?thesis using Cons.prems by (intro exI [of _ 0]) simp
  next
    case False
    then obtain k where "k \<le> length pkts" "n' = n + 1 + k" "buf' = (buf @ m_data pkt) @ concat (map m_data (take k pkts))"
        "length buf' \<le> 2036" "k < length pkts \<longrightarrow> length buf' + length (m_data (pkts ! k)) > 2036"
      using Cons.IH [of "buf @ m_data pkt" "n + 1"] Cons.prems by auto
    then show ?thesis by (intro exI [of _ "Suc k"]) simp
  qed
qed

lemma size_field_mod: "unat (tcp_getSize (m_header (setTcpHeader_plain i p))) = (8 + length (m_data p)) mod 2048"
  if "length (m_data p) \<le> 4000"
  using unat_of_nat_small [of "8 + length (m_data p)"] that
  by (simp add: setTcpHeader_plain_def tcp_initialize_def unat_mod_distrib)

section \<open>The arena\<close>

definition must_respawn :: "sheap \<Rightarrow> sref \<Rightarrow> bool" where
  "must_respawn h r = (case h r of None \<Rightarrow> False
     | Some s \<Rightarrow> isInMatch s \<and> getTeam s = TEAM_ALL \<and> cf_isDead (sess_app s))"

text \<open>What the arena looks at is not touched by a write.\<close>

definition arena_view :: "sheap \<Rightarrow> sref \<Rightarrow> (nat \<times> bool \<times> u32 \<times> bool) option" where
  "arena_view h r = map_option (\<lambda>s. (m_id s, isInMatch s, getTeam s, cf_isDead (sess_app s))) (h r)"

lemma arena_view_written:
  "isInMatch (snd (asyncWrite_plain p s)) = isInMatch s" "getTeam (snd (asyncWrite_plain p s)) = getTeam s"
  "sess_app (snd (asyncWrite_plain p s)) = sess_app s"
  by (simp_all add: asyncWrite_plain_def isInMatch_def getTeam_def)

lemma arena_view_broadcast: "arena_view (fst (broadcast cond sid R hp)) = arena_view (fst hp)"
proof -
  have "arena_view (fst (fold (send_step cond sid) rs (h, p))) = arena_view h" for rs h p
    by (induction rs arbitrary: h p)
      (auto simp: send_step_def arena_view_def fun_eq_iff Let_def arena_view_written split: option.split)
  then show ?thesis by (cases hp) (simp add: broadcast_def)
qed

lemma must_respawn_view: "must_respawn h r \<longleftrightarrow> (\<exists>i. arena_view h r = Some (i, True, TEAM_ALL, True))"
  by (auto simp: must_respawn_def arena_view_def split: option.split)

lemma respawn_step_effect:
  assumes "respawn_step R r (k, h, p) = (k', h', p')"
  shows "arena_view h' = (if must_respawn h r then (arena_view h)(r := map_option (\<lambda>(i, m, t, d). (i, m, t, False)) (arena_view h r))
      else arena_view h) \<and>
    k' = (if must_respawn h r then (k + 1) mod length (cr_respawnPoints R) else k)"
proof (cases "h r")
  case None
  then show ?thesis using assms by (auto simp: respawn_step_def must_respawn_def)
next
  case (Some s)
  have "arena_view (fst (broadcastToMatch R (h(r \<mapsto> setDead False s), q))) =
      (arena_view h)(r := Some (m_id s, isInMatch s, getTeam s, False))" for q
    unfolding broadcastToMatch_def arena_view_broadcast by (auto simp: arena_view_def fun_eq_iff)
  then show ?thesis
    using assms Some
    by (auto simp: respawn_step_def must_respawn_def Let_def arena_view_def split: prod.splits if_splits)
      (metis fst_conv)+
qed

abbreviation revive :: "(nat \<times> bool \<times> u32 \<times> bool) option \<Rightarrow> (nat \<times> bool \<times> u32 \<times> bool) option" where
  "revive \<equiv> map_option (\<lambda>(i, m, t, d). (i, m, t, False))"

lemma respawn_fold:
  assumes "distinct rs" "k < length (cr_respawnPoints R)"
    and "fold (respawn_step R) rs (k, h, p) = (k', h', p')"
  shows "arena_view h' = (\<lambda>r. if r \<in> set rs \<and> must_respawn h r then revive (arena_view h r) else arena_view h r) \<and>
    k' = (k + length (filter (must_respawn h) rs)) mod length (cr_respawnPoints R)"
  using assms
proof (induction rs arbitrary: k h p)
  case Nil
  then show ?case by auto
next
  case (Cons r rs)
  obtain k1 h1 p1 where step: "respawn_step R r (k, h, p) = (k1, h1, p1)" by (metis prod_cases3)
  note eff = respawn_step_effect [OF step]
  have k1: "k1 < length (cr_respawnPoints R)"
    using eff Cons.prems(2) mod_less_divisor [OF order_le_less_trans [OF le0 Cons.prems(2)], of "k + 1"]
    by (auto split: if_splits)
  have same: "must_respawn h1 x = must_respawn h x" if "x \<noteq> r" for x
    using eff that by (auto simp: must_respawn_view)
  have same_rs: "must_respawn h1 x = must_respawn h x" if "x \<in> set rs" for x
    using Cons.prems(1) that by (intro same) auto
  have "arena_view h' = (\<lambda>x. if x \<in> set rs \<and> must_respawn h1 x then revive (arena_view h1 x) else arena_view h1 x)"
      and k': "k' = (k1 + length (filter (must_respawn h1) rs)) mod length (cr_respawnPoints R)"
    using Cons.IH [OF _ k1, of h1 p1] Cons.prems step by auto
  moreover have "filter (must_respawn h1) rs = filter (must_respawn h) rs"
    by (rule filter_cong [OF refl]) (rule same_rs)
  ultimately show ?case
    using eff Cons.prems(1) same_rs by (auto simp: fun_eq_iff mod_add_left_eq mod_Suc_eq)
qed

text \<open>Two players and their room, for the examples.\<close>

definition demo_player :: "nat \<Rightarrow> cast_session" where
  "demo_player i = demo_session False \<lparr>cf_roomNumber = 3, cf_team = TEAM_ALL, cf_isDead = True,
     cf_isInMatch = True, cf_nickname = [65], cf_isInvisible = False\<rparr>\<lparr>m_id := i\<rparr>"

lemma demo_player_id [simp]: "m_id (demo_player i) = i"
  by (simp add: demo_player_def)

definition demo_heap :: sheap where
  "demo_heap = [1 \<mapsto> demo_player 10, 2 \<mapsto> demo_player 20]"

definition demo_room :: cast_room where
  "demo_room = CastRoom_new 1 1\<lparr>cr_players := [1, 2], cr_pendingPositions := [packet_new\<lparr>m_data := [1, 2, 3]\<rparr>]\<rparr>"

lemma demo_room_inv: "room_inv demo_heap demo_room"
  by (auto simp: room_inv_def demo_room_def demo_heap_def demo_player_def id_of_def)

lemma demo_room_points: "length (cr_respawnPoints demo_room) = 16"
  by (simp add: demo_room_def CastRoom_new_def respawnPoints_init_def)

section \<open>Properties\<close>

text \<open>A room keeps its books on leaving. Removing a session number from a room without
  duplicates takes exactly that number out of the live members, asks for the room to be closed
  exactly when no entry is left, and sends a member that was there back to no room and no
  match.\<close>

theorem removePlayer_effect:
  assumes "room_inv h R" "removePlayer i (h, R) = (closed, h', R')"
  shows "room_inv h' R' \<and> live_ids h' (cr_players R') = live_ids h (cr_players R) - {i} \<and>
    (closed \<longleftrightarrow> cr_players R' = []) \<and>
    (\<forall>r s. r \<in> set (cr_players R) \<and> h r = Some s \<and> m_id s = i \<longrightarrow>
       (\<exists>s'. h' r = Some s' \<and> getRoomNumber s' = -1 \<and> \<not> isInMatch s'))"
proof -
  have "\<exists>s'. h' r = Some s' \<and> getRoomNumber s' = -1 \<and> \<not> isInMatch s'"
    if "r \<in> set (cr_players R)" "h r = Some s" "m_id s = i" for r s
    using removePlayer_live(3) [OF assms(1) that(1) _ assms(2)] that by (simp add: id_of_def update_at_apply)
  then show ?thesis using removePlayer_inv [OF assms] by blast
qed

theorem removePlayer_effect_witness:
  "\<exists>closed h' R'. removePlayer 10 (demo_heap, demo_room) = (closed, h', R') \<and> room_inv h' R' \<and>
    live_ids h' (cr_players R') = live_ids demo_heap (cr_players demo_room) - {10} \<and> (closed \<longleftrightarrow> cr_players R' = [])"
proof -
  obtain closed h' R' where "removePlayer 10 (demo_heap, demo_room) = (closed, h', R')" by (metis prod_cases3)
  with removePlayer_effect [OF demo_room_inv this] show ?thesis by auto
qed

text \<open>Joining a room adds the session's number to the live members, replaces an older entry
  with the same number, keeps the room free of duplicates and gives the session the room's
  number; an empty pointer changes nothing.\<close>

theorem addPlayer_effect:
  assumes "room_inv h R" "h r = Some s"
  shows "case addPlayer (Some r) (h, R) of (h', R') \<Rightarrow>
    room_inv h' R' \<and> live_ids h' (cr_players R') = insert (m_id s) (live_ids h (cr_players R)) \<and>
    last (cr_players R') = r \<and> map_option getRoomNumber (h' r) = Some (cr_roomNumber R) \<and>
    addPlayer None (h, R) = (h, R)"
proof -
  obtain h' R' where a: "addPlayer (Some r) (h, R) = (h', R')" by fastforce
  then have "last (cr_players R') = r" using assms(2) by (auto simp: addPlayer_def)
  with a show ?thesis using addPlayer_inv [OF assms a] by (auto simp: addPlayer_def)
qed

theorem addPlayer_effect_witness:
  "case addPlayer (Some 2) (demo_heap, demo_room) of (h', R') \<Rightarrow>
    room_inv h' R' \<and> live_ids h' (cr_players R') = insert 20 (live_ids demo_heap (cr_players demo_room)) \<and>
    last (cr_players R') = 2 \<and> map_option getRoomNumber (h' 2) = Some (cr_roomNumber demo_room) \<and>
    addPlayer None (demo_heap, demo_room) = (demo_heap, demo_room)"
  using addPlayer_effect [OF demo_room_inv, of 2 "demo_player 20"]
  by (simp add: demo_heap_def demo_player_def split: prod.splits)

text \<open>A broadcast to the others in a room reaches every live member but the sender exactly
  once, with the sender's number in the header, and touches nobody else; a broadcast to a match
  reaches exactly the live members who are in the match, each with its own number.\<close>

theorem broadcast_exactly_once:
  assumes "room_inv h R" "length (m_data p) \<le> 4000"
  shows "fst (broadcastToRoomExceptSelf self R (h, p)) r =
      (if r \<in> set (cr_players R) \<and> id_of h r \<noteq> Some self
       then map_option (received (setTcpHeader_plain (of_nat self) p)) (h r) else h r) \<and>
    fst (broadcastToMatch R (h, p)) r =
      (if r \<in> set (cr_players R) \<and> map_option isInMatch (h r) = Some True
       then map_option (\<lambda>s. received (setTcpHeader_plain (of_nat (m_id s)) p) s) (h r) else h r)"
proof -
  have d: "distinct (cr_players R)" using assms(1) by (simp add: room_inv_def)
  show ?thesis
    by (cases "h r") (auto simp: broadcastToRoomExceptSelf_def broadcastToMatch_def
        broadcast_delivers [OF d assms(2)] id_of_def)
qed

theorem broadcast_exactly_once_witness:
  "fst (broadcastToRoomExceptSelf 10 demo_room (demo_heap, packet_new)) 2 =
      (if 2 \<in> set (cr_players demo_room) \<and> id_of demo_heap 2 \<noteq> Some 10
       then map_option (received (setTcpHeader_plain (of_nat 10) packet_new)) (demo_heap 2) else demo_heap 2) \<and>
    fst (broadcastToMatch demo_room (demo_heap, packet_new)) 2 =
      (if 2 \<in> set (cr_players demo_room) \<and> map_option isInMatch (demo_heap 2) = Some True
       then map_option (\<lambda>s. received (setTcpHeader_plain (of_nat (m_id s)) packet_new) s) (demo_heap 2) else demo_heap 2)"
  by (rule broadcast_exactly_once [OF demo_room_inv]) (simp add: packet_new_def)

text \<open>C40: Flushing the pending positions of a room sends every live member one packet with the
  room's tick and the longest prefix of the positions that fits 2036 bytes, and empties the
  queue (the positions that did not fit are dropped). A batch that is filled to the last byte
  announces the size 0, because 2048 does not fit the size field.\<close>

theorem flush_batch:
  assumes "room_inv h R" "cr_pendingPositions R \<noteq> []"
  shows "case flushPendingPositions batch (h, R) of (batch', h', R') \<Rightarrow> cr_pendingPositions R' = [] \<and>
    (\<exists>n \<le> length (cr_pendingPositions R). \<exists>P.
       m_data P = le_store 4 (cr_roomTick R) @ concat (map m_data (take n (cr_pendingPositions R))) \<and>
       length (m_data P) \<le> 2040 \<and>
       (n < length (cr_pendingPositions R) \<longrightarrow> length (m_data P) + length (m_data (cr_pendingPositions R ! n)) > 2040) \<and>
       (\<forall>r. h' r = (if r \<in> set (cr_players R)
          then map_option (\<lambda>s. received (setTcpHeader_plain (of_nat (m_id s)) P) s) (h r) else h r)) \<and>
       (\<forall>i. tcp_getSize (m_header (setTcpHeader_plain i P)) = 0 \<longleftrightarrow> length (m_data P) = 2040))"
proof -
  obtain buf n where b: "batch_positions (cr_pendingPositions R) [] 0 = (buf, n)" by fastforce
  then have n: "n \<le> length (cr_pendingPositions R)" "buf = concat (map m_data (take n (cr_pendingPositions R)))"
      "length buf \<le> 2036"
      "n < length (cr_pendingPositions R) \<longrightarrow> length buf + length (m_data (cr_pendingPositions R ! n)) > 2036"
    using batch_positions_prefix [OF b] by auto
  let ?P = "batch_packet R batch"
  have P: "m_data ?P = le_store 4 (cr_roomTick R) @ buf" by (simp add: batch_packet_def b setData_def)
  have d: "distinct (cr_players R)" using assms(1) by (simp add: room_inv_def)
  have sz: "tcp_getSize (m_header (setTcpHeader_plain i ?P)) = 0 \<longleftrightarrow> length (m_data ?P) = 2040" for i
  proof -
    have len: "length (m_data ?P) = 4 + length buf" by (simp add: P)
    then have u: "unat (tcp_getSize (m_header (setTcpHeader_plain i ?P))) = (12 + length buf) mod 2048"
      using size_field_mod [of ?P i] n(3) by simp
    have "(12 + length buf) mod 2048 = 0 \<longleftrightarrow> length buf = 2036"
      using n(3) by (cases "12 + length buf < 2048") auto
    then show ?thesis using u len by (simp flip: unat_0_iff)
  qed
  obtain h' q where bc: "broadcastToRoom R (h, ?P) = (h', q)" by fastforce
  then have h': "h' r = (if r \<in> set (cr_players R)
      then map_option (\<lambda>s. received (setTcpHeader_plain (of_nat (m_id s)) ?P) s) (h r) else h r)" for r
    using broadcast_delivers [OF d, of ?P "\<lambda>_. True" m_id h r] P n(3)
    by (simp add: broadcastToRoom_def)
  have "flushPendingPositions batch (h, R) = (q, h', R\<lparr>cr_pendingPositions := []\<rparr>)"
    using assms(2) bc by (simp add: flushPendingPositions_def)
  then show ?thesis
    using n P sz h' by (auto intro!: exI [of _ n] exI [of _ ?P])
qed

theorem flush_batch_witness:
  "case flushPendingPositions batch_new (demo_heap, demo_room) of (batch', h', R') \<Rightarrow> cr_pendingPositions R' = []"
  using flush_batch [OF demo_room_inv, of batch_new] by (simp add: demo_room_def split: prod.splits)

text \<open>When a round of the arena ends, everybody who is in the match and dead is revived, and
  nothing else about anybody changes. The shared index stays inside the table of respawn
  points and moves on by the number of the revived, so each of them gets the next point.\<close>

theorem arena_respawn:
  assumes "room_inv h R" "k < length (cr_respawnPoints R)"
  shows "case respawnEveryoneArena k (h, R) of (k', h', R') \<Rightarrow>
    (\<forall>r. arena_view h' r = (if r \<in> set (cr_players R) \<and> must_respawn h r then revive (arena_view h r) else arena_view h r)) \<and>
    (\<forall>r \<in> set (cr_players R). \<not> must_respawn h' r) \<and>
    k' = (k + card {r \<in> set (cr_players R). must_respawn h r}) mod length (cr_respawnPoints R) \<and>
    k' < length (cr_respawnPoints R) \<and> R' = R\<lparr>cr_arenaRoundFinished := False\<rparr>"
proof -
  have d: "distinct (cr_players R)" using assms(1) by (simp add: room_inv_def)
  obtain k' h' p' where f: "fold (respawn_step R) (cr_players R) (k, h, packet_setOrder 276 packet_new) = (k', h', p')"
    by (metis prod_cases3)
  have "length (filter (must_respawn h) (cr_players R)) = card {r \<in> set (cr_players R). must_respawn h r}"
    using d distinct_card [of "filter (must_respawn h) (cr_players R)"] by simp
  then have v: "arena_view h' = (\<lambda>r. if r \<in> set (cr_players R) \<and> must_respawn h r then revive (arena_view h r) else arena_view h r)"
    and k': "k' = (k + card {r \<in> set (cr_players R). must_respawn h r}) mod length (cr_respawnPoints R)"
    using respawn_fold [OF d assms(2) f] by auto
  have "\<not> must_respawn h' r" if "r \<in> set (cr_players R)" for r
    using that by (auto simp: must_respawn_view v split: if_splits)
  moreover have "k' < length (cr_respawnPoints R)"
    unfolding k' by (rule mod_less_divisor [OF order_le_less_trans [OF le0 assms(2)]])
  ultimately show ?thesis using f v k' by (simp add: respawnEveryoneArena_def)
qed

theorem arena_respawn_witness:
  "case respawnEveryoneArena 15 (demo_heap, demo_room) of (k', h', R') \<Rightarrow>
    (\<forall>r \<in> set (cr_players demo_room). \<not> must_respawn h' r) \<and>
    k' = (15 + card {r \<in> set (cr_players demo_room). must_respawn demo_heap r}) mod 16 \<and> k' < 16"
  using arena_respawn [OF demo_room_inv, of 15] by (simp add: demo_room_points split: prod.splits)

end
