(* ===== verification/CastManager.thy ===== *)
theory CastManager
  imports CastRoom
begin

text \<open>
  The rooms manager and the sessions manager of the cast server
  (\<open>CastServer/src/Classes/RoomsManager.cpp\<close>, \<open>CastServer/src/Network/SessionsManager.cpp\<close>),
  with the callbacks of \<open>CastServer/src/CastServer.cpp\<close> and of
  \<open>CastServer/include/Handlers/IpcMainHandlers.h\<close> that create, join, leave and configure
  rooms, and the payload readers of \<open>CastServer/include/Utils/Utilities.h\<close>.
\<close>

section \<open>State\<close>

type_synonym rref = nat

text \<open>
  \<open>ct_slots\<close> is the array that maps a session number to the room of its player, \<open>ct_list\<close> the
  vector of all rooms; both hold shared pointers, which keep the room objects of \<open>ct_rooms\<close>
  alive. \<open>ct_registry\<close> maps session numbers to session objects.
\<close>

record cast_state =
  ct_sessions :: sheap
  ct_registry :: "nat \<Rightarrow> sref option"
  ct_rooms :: "rref \<Rightarrow> cast_room option"
  ct_slots :: "rref option list"
  ct_list :: "rref list"
  ct_coordIndex :: nat
  ct_batch :: packet

definition CastState_new :: cast_state where
  "CastState_new = \<lparr>ct_sessions = (\<lambda>_. None), ct_registry = (\<lambda>_. None), ct_rooms = (\<lambda>_. None),
     ct_slots = replicate (500 + 1) None, ct_list = [], ct_coordIndex = 0, ct_batch = batch_new\<rparr>"

text \<open>The bounds check and the null check at the start of every operation.\<close>

definition slot_of :: "cast_state \<Rightarrow> nat \<Rightarrow> rref option" where
  "slot_of st i = (if i \<ge> length (ct_slots st) then None else ct_slots st ! i)"

definition room_of :: "cast_state \<Rightarrow> nat \<Rightarrow> cast_room option" where
  "room_of st i = (case slot_of st i of None \<Rightarrow> None | Some rr \<Rightarrow> ct_rooms st rr)"

text \<open>An operation on the room of a player, on the session heap and the room object.\<close>

definition on_room :: "nat \<Rightarrow> (sheap \<times> cast_room \<Rightarrow> sheap \<times> cast_room) \<Rightarrow> cast_state \<Rightarrow> cast_state" where
  "on_room i f st =
     (case slot_of st i of
        None \<Rightarrow> st
      | Some rr \<Rightarrow>
          (case ct_rooms st rr of
             None \<Rightarrow> st
           | Some R \<Rightarrow> (case f (ct_sessions st, R) of
                          (h', R') \<Rightarrow> st\<lparr>ct_sessions := h', ct_rooms := (ct_rooms st)(rr \<mapsto> R')\<rparr>)))"

definition send_in_room ::
  "nat \<Rightarrow> (cast_room \<Rightarrow> sheap \<times> packet \<Rightarrow> sheap \<times> packet) \<Rightarrow> packet \<Rightarrow> cast_state \<Rightarrow> cast_state \<times> packet" where
  "send_in_room i send p st =
     (case room_of st i of
        None \<Rightarrow> (st, p)
      | Some R \<Rightarrow> (case send R (ct_sessions st, p) of (h', p') \<Rightarrow> (st\<lparr>ct_sessions := h'\<rparr>, p')))"

section \<open>The rooms manager\<close>

text \<open>The argument is the new room object, with its reference.\<close>

definition addRoom :: "rref \<Rightarrow> cast_room \<Rightarrow> nat \<Rightarrow> cast_state \<Rightarrow> cast_state" where
  "addRoom rr R playerId st =
     (if playerId < length (ct_slots st)
      then st\<lparr>ct_rooms := (ct_rooms st)(rr \<mapsto> R), ct_slots := (ct_slots st)[playerId := Some rr],
              ct_list := ct_list st @ [rr]\<rparr>
      else st)"

definition removePlayerFromRoom :: "nat \<Rightarrow> cast_state \<Rightarrow> cast_state" where
  "removePlayerFromRoom i st =
     (case slot_of st i of
        None \<Rightarrow> st
      | Some rr \<Rightarrow>
          (case ct_rooms st rr of
             None \<Rightarrow> st
           | Some R \<Rightarrow>
               (case removePlayer i (ct_sessions st, R) of
                  (mustRoomBeRemoved, h', R') \<Rightarrow>
                    let st = st\<lparr>ct_sessions := h', ct_rooms := (ct_rooms st)(rr \<mapsto> R'),
                                ct_slots := (ct_slots st)[i := None]\<rparr>
                    in if mustRoomBeRemoved
                       then st\<lparr>ct_list := filter (\<lambda>x. x \<noteq> rr) (ct_list st),
                               ct_slots := map (\<lambda>sl. if sl = Some rr then None else sl) (ct_slots st)\<rparr>
                       else st)))"

definition switchRoomJoinOrExit :: "sref \<Rightarrow> nat \<Rightarrow> cast_state \<Rightarrow> cast_state" where
  "switchRoomJoinOrExit r hostSessionId st =
     (case ct_sessions st r of
        None \<Rightarrow> st
      | Some s \<Rightarrow>
          let playerId = m_id s
          in if playerId \<ge> length (ct_slots st) then st
             else if ct_slots st ! playerId \<noteq> None
             then let st = removePlayerFromRoom playerId st
                  in st\<lparr>ct_slots := (ct_slots st)[playerId := None]\<rparr>
             else if hostSessionId < length (ct_slots st)
             then (case ct_slots st ! hostSessionId of
                     None \<Rightarrow> st
                   | Some rr \<Rightarrow>
                       let st = on_room hostSessionId (addPlayer (Some r)) st
                       in st\<lparr>ct_slots := (ct_slots st)[playerId := Some rr]\<rparr>)
             else st)"

definition mgr_broadcastToRoomExceptSelf :: "nat \<Rightarrow> packet \<Rightarrow> cast_state \<Rightarrow> cast_state \<times> packet" where
  "mgr_broadcastToRoomExceptSelf i = send_in_room i (broadcastToRoomExceptSelf i)"

definition mgr_broadcastToRoom :: "nat \<Rightarrow> packet \<Rightarrow> cast_state \<Rightarrow> cast_state \<times> packet" where
  "mgr_broadcastToRoom i = send_in_room i broadcastToRoom"

definition mgr_broadcastToMatch :: "nat \<Rightarrow> packet \<Rightarrow> cast_state \<Rightarrow> cast_state \<times> packet" where
  "mgr_broadcastToMatch i = send_in_room i broadcastToMatch"

definition mgr_broadcastToMatchExceptSelf :: "nat \<Rightarrow> packet \<Rightarrow> cast_state \<Rightarrow> cast_state \<times> packet" where
  "mgr_broadcastToMatchExceptSelf i = send_in_room i (broadcastToMatchExceptSelf i)"

definition mgr_broadcastToRoomExceptSelfAndHost :: "nat \<Rightarrow> nat \<Rightarrow> packet \<Rightarrow> cast_state \<Rightarrow> cast_state \<times> packet" where
  "mgr_broadcastToRoomExceptSelfAndHost i host = send_in_room i (broadcastToRoomExceptSelfAndHost i host)"

text \<open>The room is that of the sender here and that of the host in the other direction.\<close>

definition mgr_playerForwardToHost :: "nat \<Rightarrow> nat \<Rightarrow> packet \<Rightarrow> cast_state \<Rightarrow> cast_state \<times> packet" where
  "mgr_playerForwardToHost host sender = send_in_room sender (playerForwardToHost host sender)"

definition mgr_hostForwardToPlayer :: "nat \<Rightarrow> nat \<Rightarrow> bool \<Rightarrow> packet \<Rightarrow> cast_state \<Rightarrow> cast_state \<times> packet" where
  "mgr_hostForwardToPlayer host receiver useHost = send_in_room host (hostForwardToPlayer host receiver useHost)"

definition setAssassinModeInfoFor ::
  "nat \<Rightarrow> UniqueId \<Rightarrow> bytes \<Rightarrow> UniqueId \<Rightarrow> bytes \<Rightarrow> bool \<Rightarrow> cast_state \<Rightarrow> cast_state" where
  "setAssassinModeInfoFor i blueUid blueName redUid redName isAssassinMode =
     on_room i (\<lambda>(h, R). (h,
       if \<not> isAssassinMode then R\<lparr>cr_isAssassinMode := 0\<rparr>
       else R\<lparr>cr_assassinBlueName := blueName, cr_assassinBlueUid := blueUid, cr_assassinRedName := redName,
              cr_assassinRedUid := redUid, cr_isAssassinMode := 1\<rparr>))"

definition mgr_isAssassinMode :: "nat \<Rightarrow> cast_state \<Rightarrow> bool" where
  "mgr_isAssassinMode i st = (case room_of st i of None \<Rightarrow> False | Some R \<Rightarrow> cr_isAssassinMode R \<noteq> 0)"

definition setMapFor :: "nat \<Rightarrow> u32 \<Rightarrow> cast_state \<Rightarrow> cast_state" where
  "setMapFor i mp = on_room i (\<lambda>(h, R). (h, R\<lparr>cr_map := mp\<rparr>))"

definition setModeFor :: "nat \<Rightarrow> u32 \<Rightarrow> cast_state \<Rightarrow> cast_state" where
  "setModeFor i mode = on_room i (\<lambda>(h, R). (h, R\<lparr>cr_mode := mode\<rparr>))"

definition setPlayerTeamsFor :: "nat \<Rightarrow> PlayerTeamInfo list \<Rightarrow> cast_state \<Rightarrow> mem_error + cast_state" where
  "setPlayerTeamsFor i players st =
     (case room_of st i of
        None \<Rightarrow> Inr st
      | Some R \<Rightarrow> (case setPlayerTeams players R (ct_sessions st) of
                     Inl e \<Rightarrow> Inl e
                   | Inr h \<Rightarrow> Inr (st\<lparr>ct_sessions := h\<rparr>)))"

definition setAssassinPosition :: "nat \<Rightarrow> position \<Rightarrow> cast_state \<Rightarrow> bool \<times> cast_state" where
  "setAssassinPosition i pos st =
     (case room_of st i of
        None \<Rightarrow> (False, st)
      | Some R \<Rightarrow>
          if cr_isAssassinMode R = 0 then (False, st)
          else if unat (uid_session (cr_assassinBlueUid R)) = i
          then (True, on_room i (\<lambda>(h, R). (h, R\<lparr>cr_blueAssassinPos := pos\<rparr>)) st)
          else if unat (uid_session (cr_assassinRedUid R)) = i
          then (True, on_room i (\<lambda>(h, R). (h, R\<lparr>cr_redAssassinPos := pos\<rparr>)) st)
          else (False, st))"

definition getPositionFor :: "nat \<Rightarrow> u32 \<Rightarrow> cast_state \<Rightarrow> position option" where
  "getPositionFor i team st =
     (case room_of st i of
        None \<Rightarrow> None
      | Some R \<Rightarrow>
          if cr_isAssassinMode R = 0 then None
          else if team = TEAM_BLUE then Some (cr_blueAssassinPos R)
          else if team = TEAM_RED then Some (cr_redAssassinPos R) else None)"

definition setRoomNumberFor :: "nat \<Rightarrow> u32 \<Rightarrow> cast_state \<Rightarrow> bool \<times> cast_state" where
  "setRoomNumberFor i n st =
     (case room_of st i of None \<Rightarrow> (False, st) | Some R \<Rightarrow> (True, on_room i (room_setRoomNumber n) st))"

definition room_exists :: "nat \<Rightarrow> cast_state \<Rightarrow> bool" where
  "room_exists i st \<longleftrightarrow> i < length (ct_slots st) \<and> ct_slots st ! i \<noteq> None"

definition getMapOf :: "nat \<Rightarrow> cast_state \<Rightarrow> u32" where
  "getMapOf i st = (case room_of st i of None \<Rightarrow> 0 | Some R \<Rightarrow> cr_map R)"

definition getModeOf :: "nat \<Rightarrow> cast_state \<Rightarrow> u32" where
  "getModeOf i st = (case room_of st i of None \<Rightarrow> MODES_MAX | Some R \<Rightarrow> cr_mode R)"

definition mgr_endMatch :: "nat \<Rightarrow> cast_state \<Rightarrow> cast_state" where
  "mgr_endMatch i = on_room i endMatch"

section \<open>The sessions manager\<close>

definition addSession :: "sref \<Rightarrow> nat \<Rightarrow> cast_state \<Rightarrow> cast_state" where
  "addSession r i st =
     (if ct_registry st i = None
      then st\<lparr>ct_registry := (ct_registry st)(i \<mapsto> r),
              ct_sessions := update_at (\<lambda>s. s\<lparr>m_id := i\<rparr>) r (ct_sessions st)\<rparr>
      else st)"

definition removeSession :: "nat \<Rightarrow> cast_state \<Rightarrow> cast_state" where
  "removeSession i st =
     (case ct_registry st i of
        None \<Rightarrow> st
      | Some r \<Rightarrow> st\<lparr>ct_sessions := update_at (setIsInMatch False) r (ct_sessions st),
                      ct_registry := (ct_registry st)(i := None)\<rparr>)"

definition getSession :: "nat \<Rightarrow> cast_state \<Rightarrow> sref option" where
  "getSession i st = ct_registry st i"

text \<open>
  Once nothing holds a session object any more it is freed, and its weak references expire.
\<close>

definition session_expires :: "sref \<Rightarrow> cast_state \<Rightarrow> cast_state" where
  "session_expires r st = st\<lparr>ct_sessions := (ct_sessions st)(r := None)\<rparr>"

section \<open>Callbacks\<close>

text \<open>Order 277: a room with the sender as its host.\<close>

definition on_room_creation :: "u32 \<Rightarrow> rref \<Rightarrow> sref \<Rightarrow> cast_state \<Rightarrow> cast_state" where
  "on_room_creation serverNumber rr r st =
     (case ct_sessions st r of None \<Rightarrow> st | Some s \<Rightarrow> addRoom rr (CastRoom_new serverNumber r) (m_id s) st)"

text \<open>Order 140 joins the room of the host named in the header, order 279 leaves.\<close>

definition on_room_join :: "packet \<Rightarrow> sref \<Rightarrow> cast_state \<Rightarrow> cast_state" where
  "on_room_join request r st = switchRoomJoinOrExit r (unat (tcp_getSessionId (m_header request))) st"

definition on_room_leave :: "sref \<Rightarrow> cast_state \<Rightarrow> cast_state" where
  "on_room_leave r st = switchRoomJoinOrExit r (2 ^ 64 - 1) st"

definition handleCrash :: "packet \<Rightarrow> u32 \<Rightarrow> sref \<Rightarrow> cast_state \<Rightarrow> cast_state" where
  "handleCrash request serverId r st =
     (case ct_sessions st r of
        None \<Rightarrow> st
      | Some s \<Rightarrow>
          let st = st\<lparr>ct_sessions := update_at (setIsInMatch False) r (ct_sessions st)\<rparr>;
              uid = UniqueId_make (of_nat (m_id s) AND 0xFFFF) serverId 0;
              response = setData (le_store 4 (UniqueId_data uid)) request;
              (st, response) = mgr_playerForwardToHost (unat (tcp_getSessionId (m_header request))) (m_id s) response st
          in removePlayerFromRoom (m_id s) st)"

text \<open>
  What the worker thread of the connection handler posts back to the server: the session
  number that the main server has for the account, or nothing.
\<close>

definition connection_result :: "u32 option \<Rightarrow> (nat \<Rightarrow> cast_session \<Rightarrow> cast_session) option \<Rightarrow> sref \<Rightarrow> cast_state \<Rightarrow> cast_state" where
  "connection_result retrieved cb r st =
     (case retrieved of
        None \<Rightarrow> st\<lparr>ct_sessions := update_at (closeSocket cb) r (ct_sessions st)\<rparr>
      | Some i \<Rightarrow>
          let st = st\<lparr>ct_sessions := update_at (\<lambda>s. s\<lparr>m_id := unat i\<rparr>) r (ct_sessions st)\<rparr>;
              st = addSession r (unat i) st;
              response = \<lambda>s. setCommand 501 0 32 0 (setTcpHeader_plain (of_nat (m_id s)) packet_new)
          in st\<lparr>ct_sessions := update_at (\<lambda>s. snd (asyncWrite_plain (response s) s)) r (ct_sessions st)\<rparr>)"

definition handleMapId :: "packet \<Rightarrow> cast_state \<Rightarrow> cast_state" where
  "handleMapId request st =
     (let i = unat (tcp_getSessionId (m_header request))
      in setModeFor i (cmd_getOption (m_command request)) (setMapFor i (cmd_getExtra (m_command request)) st))"

definition handleRoomNumber :: "packet \<Rightarrow> cast_state \<Rightarrow> cast_state" where
  "handleRoomNumber request st =
     snd (setRoomNumberFor (unat (tcp_getSessionId (m_header request))) (cmd_getExtra (m_command request)) st)"

definition handleInvisibleCmd :: "packet \<Rightarrow> cast_state \<Rightarrow> cast_state" where
  "handleInvisibleCmd request st =
     (let i = unat (tcp_getSessionId (m_header request)); extra = cmd_getExtra (m_command request)
      in case room_of st i of
           None \<Rightarrow> st
         | Some _ \<Rightarrow>
             let st = (case getSession i st of
                         None \<Rightarrow> st
                       | Some r \<Rightarrow>
                           if extra = 0 \<or> extra = 1
                           then st\<lparr>ct_sessions := update_at (\<lambda>s. s\<lparr>sess_app := sess_app s\<lparr>cf_isInvisible := (extra = 1)\<rparr>\<rparr>)
                                     r (ct_sessions st)\<rparr>
                           else st)
             in if extra = 2 then on_room i (\<lambda>(h, R). (h, R\<lparr>cr_isInvisible := True\<rparr>)) st
                else if extra = 3 then on_room i (\<lambda>(h, R). (h, R\<lparr>cr_isInvisible := False\<rparr>)) st
                else st)"

section \<open>Reading a payload\<close>

text \<open>
  \<open>parseDataImpl\<close> for a type of \<open>n\<close> bytes. The number of bytes available is a 32-bit
  difference, which wraps when the offset is beyond the payload; the object is zero where
  nothing was copied.
\<close>

definition cast_parseData :: "nat \<Rightarrow> u32 \<Rightarrow> packet \<Rightarrow> mem_error + bytes" where
  "cast_parseData n offset request =
     (let dataAvailable = of_nat (length (m_data request)) - offset;
          copySize = min n (unat dataAvailable)
      in if unat offset + copySize > length (m_data request) then Inl OutOfBounds
         else Inr (take copySize (drop (unat offset) (m_data request)) @ replicate (n - copySize) 0))"

definition cast_parseDataFromEnd :: "nat \<Rightarrow> u32 \<Rightarrow> packet \<Rightarrow> bytes" where
  "cast_parseDataFromEnd n offsetFromEnd request =
     (let dataSize = length (m_data request)
      in if unat offsetFromEnd + n > dataSize then replicate n 0
         else take n (drop (dataSize - unat offsetFromEnd - n) (m_data request)))"

definition mustBroadcastDeath :: "u32 \<Rightarrow> bool" where
  "mustBroadcastDeath mode \<longleftrightarrow>
     mode = 5 \<or> mode = 3 \<or> mode = 10 \<or> mode = 19 \<or> mode = 18 \<or> mode = 17 \<or> mode = 7"

section \<open>Runs of the cast server\<close>

text \<open>
  Every way the state of rooms and sessions changes: new connections, the callbacks, the
  messages of the main server, disconnects and the end of a session object.
\<close>

inductive cast_reach :: "cast_state \<Rightarrow> bool" where
  reach_start: "cast_reach CastState_new"
| reach_connect: "cast_reach st \<Longrightarrow> ct_sessions st r = None \<Longrightarrow>
    cast_reach (st\<lparr>ct_sessions := (ct_sessions st)(r \<mapsto> s)\<rparr>)"
| reach_identified: "cast_reach st \<Longrightarrow> cast_reach (connection_result retrieved cb r st)"
| reach_create: "cast_reach st \<Longrightarrow> ct_rooms st rr = None \<Longrightarrow> cast_reach (on_room_creation n rr r st)"
| reach_join: "cast_reach st \<Longrightarrow> cast_reach (on_room_join request r st)"
| reach_leave: "cast_reach st \<Longrightarrow> cast_reach (on_room_leave r st)"
| reach_crash: "cast_reach st \<Longrightarrow> cast_reach (handleCrash request serverId r st)"
| reach_disconnect: "cast_reach st \<Longrightarrow> cast_reach (removeSession i st)"
| reach_expire: "cast_reach st \<Longrightarrow> cast_reach (session_expires r st)"
| reach_map: "cast_reach st \<Longrightarrow> cast_reach (handleMapId request st)"
| reach_number: "cast_reach st \<Longrightarrow> cast_reach (handleRoomNumber request st)"
| reach_invisible: "cast_reach st \<Longrightarrow> cast_reach (handleInvisibleCmd request st)"
| reach_teams: "cast_reach st \<Longrightarrow> setPlayerTeamsFor i players st = Inr st' \<Longrightarrow> cast_reach st'"
| reach_assassin: "cast_reach st \<Longrightarrow> cast_reach (setAssassinModeInfoFor i bu bn ru rn on st)"
| reach_position: "cast_reach st \<Longrightarrow> cast_reach (snd (setAssassinPosition i pos st))"
| reach_match_end: "cast_reach st \<Longrightarrow> cast_reach (mgr_endMatch i st)"
| reach_send: "cast_reach st \<Longrightarrow> cast_reach (fst (send_in_room i send p st))"

text \<open>
  Every slot refers to a listed room, every listed room exists and has an entry, and nobody is
  twice in a room.
\<close>

definition room_ok :: "cast_room \<Rightarrow> bool" where
  "room_ok R \<longleftrightarrow> distinct (cr_players R) \<and> cr_players R \<noteq> []"

definition mgr_inv :: "cast_state \<Rightarrow> bool" where
  "mgr_inv st \<longleftrightarrow> length (ct_slots st) = 501 \<and> distinct (ct_list st) \<and>
     (\<forall>rr. Some rr \<in> set (ct_slots st) \<longrightarrow> rr \<in> set (ct_list st)) \<and>
     (\<forall>rr \<in> set (ct_list st). \<exists>R. ct_rooms st rr = Some R \<and> room_ok R)"

lemma mgr_inv_frame:
  assumes "mgr_inv st" "ct_slots st' = ct_slots st" "ct_list st' = ct_list st" "ct_rooms st' = ct_rooms st"
  shows "mgr_inv st'"
  using assms by (simp add: mgr_inv_def)

lemma slot_of_listed: "mgr_inv st \<Longrightarrow> slot_of st i = Some rr \<Longrightarrow> rr \<in> set (ct_list st)"
  by (auto simp: slot_of_def mgr_inv_def split: if_splits) (metis linorder_not_less nth_mem)

lemma on_room_fields [simp]:
  "ct_slots (on_room i f st) = ct_slots st" "ct_list (on_room i f st) = ct_list st"
  "ct_registry (on_room i f st) = ct_registry st"
  by (auto simp: on_room_def split: option.split prod.split)

lemma on_room_inv:
  assumes "mgr_inv st" "\<And>h R. room_ok R \<Longrightarrow> room_ok (snd (f (h, R)))"
  shows "mgr_inv (on_room i f st)"
proof (cases "slot_of st i")
  case None
  then show ?thesis using assms by (simp add: on_room_def)
next
  case (Some rr)
  then obtain R where R: "ct_rooms st rr = Some R" "room_ok R"
    using slot_of_listed [OF assms(1) Some] assms(1) unfolding mgr_inv_def by blast
  obtain h' R' where f: "f (ct_sessions st, R) = (h', R')" by fastforce
  then have "room_ok R'" using assms(2) [OF R(2), of "ct_sessions st"] by simp
  then show ?thesis using assms(1) Some R f by (auto simp: on_room_def mgr_inv_def)
qed

lemma on_room_inv_same:
  assumes "mgr_inv st" "\<And>h R. cr_players (snd (f (h, R))) = cr_players R"
  shows "mgr_inv (on_room i f st)"
  by (rule on_room_inv [OF assms(1)]) (simp add: room_ok_def assms(2))

lemma removePlayer_room:
  assumes "removePlayer i (h, R) = (closed, h', R')" "distinct (cr_players R)"
  shows "distinct (cr_players R')" "closed \<longleftrightarrow> cr_players R' = []" "set (cr_players R') \<subseteq> set (cr_players R)"
proof -
  have "closed = (cr_players R' = []) \<and> (cr_players R' = cr_players R \<or> (\<exists>k. cr_players R' = erase_at k (cr_players R)))"
  proof (cases "find_index (has_id h i) (cr_players R)")
    case None
    then show ?thesis using assms(1) by (auto simp: removePlayer_def)
  next
    case (Some k)
    then have "R' = R\<lparr>cr_players := erase_at k (cr_players R)\<rparr>" "closed = (erase_at k (cr_players R) = [])"
      using assms(1) by (simp_all add: removePlayer_def Let_def)
    then show ?thesis by auto
  qed
  then show "distinct (cr_players R')" "closed \<longleftrightarrow> cr_players R' = []" "set (cr_players R') \<subseteq> set (cr_players R)"
    using assms(2) distinct_erase_at by (auto dest: set_erase_at_subset [THEN subsetD])
qed

text \<open>Leaving, on the manager: the slot is cleared, and an empty room disappears everywhere.\<close>

lemma removePlayerFromRoom_slots:
  assumes "mgr_inv st"
  obtains "slot_of st i = None" "removePlayerFromRoom i st = st"
  | rr R h' R' where "slot_of st i = Some rr" "ct_rooms st rr = Some R" "room_ok R"
      "removePlayer i (ct_sessions st, R) = (False, h', R')" "room_ok R'"
      "removePlayerFromRoom i st = st\<lparr>ct_sessions := h', ct_rooms := (ct_rooms st)(rr \<mapsto> R'), ct_slots := (ct_slots st)[i := None]\<rparr>"
  | rr R h' R' where "slot_of st i = Some rr" "ct_rooms st rr = Some R" "room_ok R"
      "removePlayer i (ct_sessions st, R) = (True, h', R')" "cr_players R' = []"
      "removePlayerFromRoom i st = st\<lparr>ct_sessions := h', ct_rooms := (ct_rooms st)(rr \<mapsto> R'),
         ct_slots := map (\<lambda>sl. if sl = Some rr then None else sl) ((ct_slots st)[i := None]),
         ct_list := filter (\<lambda>x. x \<noteq> rr) (ct_list st)\<rparr>"
proof (cases "slot_of st i")
  case None
  then show thesis using that(1) by (simp add: removePlayerFromRoom_def)
next
  case (Some rr)
  then obtain R where R: "ct_rooms st rr = Some R" "room_ok R"
    using slot_of_listed [OF assms Some] assms unfolding mgr_inv_def by blast
  obtain closed h' R' where f: "removePlayer i (ct_sessions st, R) = (closed, h', R')" by (metis prod_cases3)
  note rp = removePlayer_room [OF f]
  show thesis
  proof (cases closed)
    case True
    then show thesis
      using that(3) [OF Some R _ _ ] f rp R Some by (simp add: removePlayerFromRoom_def Let_def room_ok_def)
  next
    case False
    then show thesis
      using that(2) [OF Some R] f rp R Some by (simp add: removePlayerFromRoom_def Let_def room_ok_def)
  qed
qed

lemma set_list_update_None: "Some x \<in> set (xs[i := None]) \<Longrightarrow> Some x \<in> set xs"
  using set_update_subset_insert [of xs i None] by auto

lemma removePlayerFromRoom_inv: "mgr_inv st \<Longrightarrow> mgr_inv (removePlayerFromRoom i st)"
proof -
  assume inv: "mgr_inv st"
  have slots: "Some x \<in> set (ct_slots st) \<Longrightarrow> x \<in> set (ct_list st)" for x
    using inv by (simp add: mgr_inv_def)
  from inv show ?thesis
  proof (cases rule: removePlayerFromRoom_slots [where i = i])
    case 1
    then show ?thesis using inv by simp
  next
    case (2 rr R h' R')
    have "\<forall>x. Some x \<in> set ((ct_slots st)[i := None]) \<longrightarrow> x \<in> set (ct_list st)"
      by (auto dest!: set_list_update_None slots)
    moreover have "\<forall>x \<in> set (ct_list st). \<exists>Q. ((ct_rooms st)(rr \<mapsto> R')) x = Some Q \<and> room_ok Q"
      using inv 2(5) by (simp add: mgr_inv_def)
    ultimately show ?thesis using inv unfolding 2(6) mgr_inv_def by simp
  next
    case (3 rr R h' R')
    have "\<forall>x. Some x \<in> set ((ct_slots st)[i := None]) \<longrightarrow> x \<in> set (ct_list st)"
      by (auto dest!: set_list_update_None slots)
    then have "\<forall>x. Some x \<in> set (map (\<lambda>sl. if sl = Some rr then None else sl) ((ct_slots st)[i := None])) \<longrightarrow>
        x \<in> set (filter (\<lambda>x. x \<noteq> rr) (ct_list st))"
      by (auto split: if_splits)
    moreover have "\<forall>x \<in> set (filter (\<lambda>x. x \<noteq> rr) (ct_list st)). \<exists>Q. ((ct_rooms st)(rr \<mapsto> R')) x = Some Q \<and> room_ok Q"
      using inv by (simp add: mgr_inv_def)
    ultimately show ?thesis using inv unfolding 3(6) mgr_inv_def by simp
  qed
qed

lemma clear_slot_inv: "mgr_inv st \<Longrightarrow> mgr_inv (st\<lparr>ct_slots := (ct_slots st)[i := None]\<rparr>)"
  unfolding mgr_inv_def by (auto dest!: set_list_update_None)

lemma addPlayer_room_ok: "room_ok R \<Longrightarrow> room_ok (snd (addPlayer r (h, R)))"
  by (auto simp: addPlayer_def room_ok_def has_id_def split: option.splits)

lemma switchRoom_inv: "mgr_inv st \<Longrightarrow> mgr_inv (switchRoomJoinOrExit r host st)"
proof -
  assume inv: "mgr_inv st"
  have leave: "mgr_inv ((removePlayerFromRoom i st)\<lparr>ct_slots := (ct_slots (removePlayerFromRoom i st))[i := None]\<rparr>)" for i
    using clear_slot_inv [OF removePlayerFromRoom_inv [OF inv]] .
  have join: "mgr_inv (on_room host (addPlayer (Some r)) st\<lparr>ct_slots := (ct_slots (on_room host (addPlayer (Some r)) st))[i := Some rr]\<rparr>)"
    if "host < length (ct_slots st)" "ct_slots st ! host = Some rr" for i rr
  proof -
    have "mgr_inv (on_room host (addPlayer (Some r)) st)"
      by (rule on_room_inv [OF inv]) (rule addPlayer_room_ok)
    moreover have "rr \<in> set (ct_list st)"
      using inv that unfolding mgr_inv_def by (metis nth_mem)
    ultimately show ?thesis
      unfolding mgr_inv_def by (auto dest!: set_update_subset_insert [THEN subsetD])
  qed
  show ?thesis
    using inv leave join by (auto simp: switchRoomJoinOrExit_def Let_def split: option.split)
qed

lemma create_inv:
  assumes "mgr_inv st" "ct_rooms st rr = None"
  shows "mgr_inv (on_room_creation n rr r st)"
proof (cases "ct_sessions st r")
  case None
  then show ?thesis using assms by (simp add: on_room_creation_def)
next
  case (Some s)
  have "rr \<notin> set (ct_list st)" using assms unfolding mgr_inv_def by fastforce
  then show ?thesis
    using assms Some
    by (auto simp: on_room_creation_def addRoom_def mgr_inv_def room_ok_def CastRoom_new_def
        dest!: set_update_subset_insert [THEN subsetD])
qed

lemma send_in_room_fields [simp]:
  "ct_slots (fst (send_in_room i send p st)) = ct_slots st" "ct_list (fst (send_in_room i send p st)) = ct_list st"
  "ct_rooms (fst (send_in_room i send p st)) = ct_rooms st"
  by (auto simp: send_in_room_def split: option.split prod.split)

lemma send_in_room_inv: "mgr_inv st \<Longrightarrow> mgr_inv (fst (send_in_room i send p st))"
  by (rule mgr_inv_frame) simp_all

lemma crash_inv: "mgr_inv st \<Longrightarrow> mgr_inv (handleCrash request serverId r st)"
proof -
  assume inv: "mgr_inv st"
  have "mgr_inv (fst (send_in_room i send p (st\<lparr>ct_sessions := h\<rparr>)))" for i send p h
    by (rule send_in_room_inv, rule mgr_inv_frame [OF inv]) simp_all
  then show ?thesis
    using inv by (auto simp: handleCrash_def Let_def mgr_playerForwardToHost_def split: option.split prod.split
        intro!: removePlayerFromRoom_inv dest: arg_cong [where f = fst])
      (metis fst_conv)
qed

lemma cast_reach_inv: "cast_reach st \<Longrightarrow> mgr_inv st"
proof (induction rule: cast_reach.induct)
  case reach_start
  then show ?case by (auto simp: mgr_inv_def CastState_new_def)
next
  case (reach_connect st r s)
  show ?case by (rule mgr_inv_frame [OF reach_connect.IH]) simp_all
next
  case (reach_identified st retrieved cb r)
  show ?case
    by (rule mgr_inv_frame [OF reach_identified.IH]) (simp_all add: connection_result_def addSession_def Let_def split: option.split)
next
  case (reach_create st rr n r)
  then show ?case by (intro create_inv)
next
  case (reach_join st request r)
  then show ?case by (simp add: on_room_join_def switchRoom_inv)
next
  case (reach_leave st r)
  then show ?case by (simp add: on_room_leave_def switchRoom_inv)
next
  case (reach_crash st request serverId r)
  then show ?case by (intro crash_inv)
next
  case (reach_disconnect st i)
  show ?case by (rule mgr_inv_frame [OF reach_disconnect.IH]) (simp_all add: removeSession_def split: option.split)
next
  case (reach_expire st r)
  show ?case by (rule mgr_inv_frame [OF reach_expire.IH]) (simp_all add: session_expires_def)
next
  case (reach_map st request)
  then show ?case
    by (auto simp: handleMapId_def Let_def setMapFor_def setModeFor_def intro!: on_room_inv_same)
next
  case (reach_number st request)
  then show ?case
    by (auto simp: handleRoomNumber_def setRoomNumberFor_def room_setRoomNumber_def intro!: on_room_inv_same split: option.split)
next
  case (reach_invisible st request)
  have "mgr_inv (st\<lparr>ct_sessions := h\<rparr>)" for h by (rule mgr_inv_frame [OF reach_invisible.IH]) simp_all
  with reach_invisible show ?case
    by (auto simp: handleInvisibleCmd_def Let_def intro!: on_room_inv_same split: option.split)
next
  case (reach_teams st i players st')
  show ?case
    by (rule mgr_inv_frame [OF reach_teams.IH]) (use reach_teams.hyps in \<open>auto simp: setPlayerTeamsFor_def split: option.splits sum.splits\<close>)
next
  case (reach_assassin st i bu bn ru rn on)
  then show ?case by (auto simp: setAssassinModeInfoFor_def intro!: on_room_inv_same)
next
  case (reach_position st i pos)
  then show ?case by (auto simp: setAssassinPosition_def intro!: on_room_inv_same split: option.split)
next
  case (reach_match_end st i)
  then show ?case by (auto simp: mgr_endMatch_def endMatch_def intro!: on_room_inv_same)
next
  case (reach_send st i send p)
  then show ?case by (rule_tac send_in_room_inv)
qed

lemma slot_of_update:
  "length (ct_slots st) = 501 \<Longrightarrow> i < 501 \<Longrightarrow>
    slot_of (st\<lparr>ct_slots := (ct_slots st)[i := x]\<rparr>) j = (if j = i then x else slot_of st j)"
  by (auto simp: slot_of_def)

lemma leave_clears_slot:
  assumes "mgr_inv st"
  shows "slot_of (removePlayerFromRoom i st) i = None"
  using assms
proof (cases rule: removePlayerFromRoom_slots [where i = i])
  case (2 rr R h' R')
  then show ?thesis by (auto simp: slot_of_def)
next
  case (3 rr R h' R')
  then show ?thesis by (auto simp: slot_of_def)
qed simp

text \<open>Two connections, the first of which has created a room; for the examples.\<close>

definition demo_cast :: cast_state where
  "demo_cast = on_room_creation 1 7 1 (CastState_new\<lparr>ct_sessions := demo_heap\<rparr>)"

text \<open>The number of the first is used again by a third connection.\<close>

definition demo_cast_again :: cast_state where
  "demo_cast_again = demo_cast\<lparr>ct_sessions := (ct_sessions demo_cast)(3 \<mapsto> demo_player 10)\<rparr>"

lemma demo_cast_reach: "cast_reach demo_cast"
proof -
  have "cast_reach (CastState_new\<lparr>ct_sessions := [1 \<mapsto> demo_player 10]\<rparr>)"
    using reach_connect [OF reach_start, of 1 "demo_player 10"] by (simp add: CastState_new_def)
  from reach_connect [OF this, of 2 "demo_player 20"]
  have "cast_reach (CastState_new\<lparr>ct_sessions := demo_heap\<rparr>)" by (simp add: demo_heap_def)
  then show ?thesis unfolding demo_cast_def by (rule reach_create) (simp add: CastState_new_def)
qed

lemma demo_slots: "ct_slots demo_cast = (ct_slots CastState_new)[10 := Some 7]"
proof -
  have "demo_heap 1 = Some (demo_player 10)" by (simp add: demo_heap_def)
  moreover have "10 < length (ct_slots CastState_new)" by (simp add: CastState_new_def)
  ultimately show ?thesis by (simp add: demo_cast_def on_room_creation_def addRoom_def)
qed

lemma new_slots: "length (ct_slots CastState_new) = 501" "j < 501 \<Longrightarrow> ct_slots CastState_new ! j = None"
  by (simp_all add: CastState_new_def)

lemma demo_cast_fields:
  "ct_sessions demo_cast = demo_heap" "slot_of demo_cast 10 = Some 7" "slot_of demo_cast 20 = None"
  "ct_rooms demo_cast = [7 \<mapsto> CastRoom_new 1 1]" "ct_list demo_cast = [7]"
proof -
  have "demo_heap 1 = Some (demo_player 10)" by (simp add: demo_heap_def)
  then show "ct_sessions demo_cast = demo_heap" "ct_rooms demo_cast = [7 \<mapsto> CastRoom_new 1 1]" "ct_list demo_cast = [7]"
    using new_slots(1) by (simp_all add: demo_cast_def on_room_creation_def addRoom_def) (simp_all add: CastState_new_def)
  show "slot_of demo_cast 10 = Some 7" "slot_of demo_cast 20 = None"
    by (simp_all add: slot_of_def demo_slots new_slots)
qed

section \<open>Properties\<close>

text \<open>C4: In every state the cast server can reach - connections, joins, leaves, crashes,
  disconnects, expiring sessions and messages of the main server in any order - a player's
  slot refers to a room that exists and is listed, and a listed room has at least one entry and
  nobody twice. So no operation ever uses a room that has been closed.\<close>

theorem cast_rooms_consistent:
  assumes "cast_reach st"
  shows "length (ct_slots st) = 501 \<and> distinct (ct_list st) \<and>
    (\<forall>i rr. slot_of st i = Some rr \<longrightarrow> rr \<in> set (ct_list st)) \<and>
    (\<forall>rr \<in> set (ct_list st). \<exists>R. ct_rooms st rr = Some R \<and> distinct (cr_players R) \<and> cr_players R \<noteq> [])"
  using cast_reach_inv [OF assms] slot_of_listed [OF cast_reach_inv [OF assms]]
  by (simp add: mgr_inv_def room_ok_def)

theorem cast_rooms_consistent_witness:
  "length (ct_slots demo_cast) = 501 \<and> distinct (ct_list demo_cast) \<and>
    slot_of demo_cast 10 = Some 7 \<and> 7 \<in> set (ct_list demo_cast)"
  using cast_rooms_consistent [OF demo_cast_reach] demo_cast_fields(2) by blast

text \<open>C17: Leaving a room clears the player's slot. If the room is then empty it is taken off the
  list and out of every slot, so that it is unreachable; otherwise the slots of all others and
  the list stay as they are.\<close>

theorem leaving_closes_empty_rooms:
  assumes "cast_reach st" "slot_of st i = Some rr"
  shows "let st' = removePlayerFromRoom i st in
    slot_of st' i = None \<and>
    (if \<exists>R. ct_rooms st' rr = Some R \<and> cr_players R = []
     then rr \<notin> set (ct_list st') \<and> Some rr \<notin> set (ct_slots st')
     else ct_list st' = ct_list st \<and> (\<forall>j. j \<noteq> i \<longrightarrow> slot_of st' j = slot_of st j))"
  using cast_reach_inv [OF assms(1)]
proof (cases rule: removePlayerFromRoom_slots [where i = i])
  case 1
  then show ?thesis using assms(2) by simp
next
  case (2 rr' R h' R')
  then have "rr' = rr" using assms(2) by simp
  with 2 show ?thesis by (auto simp: Let_def slot_of_def room_ok_def)
next
  case (3 rr' R h' R')
  then have "rr' = rr" using assms(2) by simp
  with 3 show ?thesis by (auto simp: Let_def slot_of_def split: if_splits)
qed

theorem leaving_closes_empty_rooms_witness:
  "slot_of demo_cast 10 = Some 7 \<and> slot_of (removePlayerFromRoom 10 demo_cast) 10 = None"
  using leaving_closes_empty_rooms [OF demo_cast_reach, of 10 7] demo_cast_fields by (simp add: Let_def)

text \<open>A player without a room who asks to join the room of a host that has one ends up in
  that room: his slot is the host's, and he is the newest entry of the room.\<close>

theorem join_enters_room:
  assumes "cast_reach st" "ct_sessions st r = Some s" "m_id s \<le> 500" "slot_of st (m_id s) = None"
    and "slot_of st (unat (tcp_getSessionId (m_header request))) = Some rr"
  shows "let st' = on_room_join request r st in
    slot_of st' (m_id s) = Some rr \<and> map_option (last \<circ> cr_players) (ct_rooms st' rr) = Some r"
proof -
  have inv: "mgr_inv st" using cast_reach_inv [OF assms(1)] .
  define host where "host = unat (tcp_getSessionId (m_header request))"
  have len: "length (ct_slots st) = 501" using inv by (simp add: mgr_inv_def)
  have host: "host < 501" "ct_slots st ! host = Some rr"
    using assms(5) len by (auto simp: slot_of_def host_def split: if_splits)
  obtain R where R: "ct_rooms st rr = Some R"
    using slot_of_listed [OF inv assms(5)] inv unfolding mgr_inv_def by blast
  obtain h' R' where a: "addPlayer (Some r) (ct_sessions st, R) = (h', R')" by fastforce
  then have "last (cr_players R') = r" using assms(2) by (auto simp: addPlayer_def)
  moreover have "on_room host (addPlayer (Some r)) st = st\<lparr>ct_sessions := h', ct_rooms := (ct_rooms st)(rr \<mapsto> R')\<rparr>"
    using assms(5) R a by (simp add: on_room_def host_def)
  ultimately show ?thesis
    using assms(2-4) host len
    by (simp add: on_room_join_def switchRoomJoinOrExit_def Let_def slot_of_def flip: host_def)
qed

theorem join_enters_room_witness:
  "let st' = on_room_join (packet_setSession 10 packet_new) 2 demo_cast in
    slot_of st' 20 = Some 7 \<and> map_option (last \<circ> cr_players) (ct_rooms st' 7) = Some 2"
  using join_enters_room [OF demo_cast_reach, of 2 "demo_player 20" "packet_setSession 10 packet_new" 7] demo_cast_fields
  by (simp add: demo_heap_def demo_player_def packet_setSession_def)

text \<open>C35: A disconnect leaves the slot of the player set: the sessions manager does not tell the
  rooms manager. So when the number is used again, the first join of the new session is taken
  for a leave, whatever host it names: it ends up with no room, and in no room's list.\<close>

theorem stale_slot_swallows_join:
  assumes "cast_reach st" "slot_of st i = Some rr" "ct_sessions st r2 = Some s2" "m_id s2 = i" "r2 \<noteq> r1"
    and "\<forall>x R. ct_rooms st x = Some R \<longrightarrow> r2 \<notin> set (cr_players R)"
  shows "let st' = on_room_join request r2 (session_expires r1 (removeSession i st)) in
    slot_of st' i = None \<and> (\<forall>x R. ct_rooms st' x = Some R \<longrightarrow> r2 \<notin> set (cr_players R))"
proof -
  let ?st = "session_expires r1 (removeSession i st)"
  have reach: "cast_reach ?st" using assms(1) by (intro reach_expire reach_disconnect)
  then have inv: "mgr_inv ?st" by (rule cast_reach_inv)
  have same: "ct_slots ?st = ct_slots st" "ct_rooms ?st = ct_rooms st"
    by (auto simp: session_expires_def removeSession_def split: option.split)
  have "\<exists>s. ct_sessions ?st r2 = Some s \<and> m_id s = i"
    using assms(3-5) by (auto simp: session_expires_def removeSession_def update_at_apply split: option.split)
  moreover have slot: "i < length (ct_slots ?st)" "ct_slots ?st ! i \<noteq> None"
    using assms(2) same by (auto simp: slot_of_def split: if_splits)
  ultimately have join: "on_room_join request r2 ?st =
      (removePlayerFromRoom i ?st)\<lparr>ct_slots := (ct_slots (removePlayerFromRoom i ?st))[i := None]\<rparr>"
    by (auto simp: on_room_join_def switchRoomJoinOrExit_def Let_def)
  have "slot_of (on_room_join request r2 ?st) i = None"
    unfolding join by (auto simp: slot_of_def)
  moreover have "r2 \<notin> set (cr_players R)" if "ct_rooms (removePlayerFromRoom i ?st) x = Some R" for x R
    using inv
  proof (cases rule: removePlayerFromRoom_slots [where i = i])
    case 1
    then show ?thesis using that assms(6) same by simp
  next
    case (2 rr R0 h' R')
    then show ?thesis
      using that assms(6) same removePlayer_room(3) [OF 2(4)] by (fastforce simp: room_ok_def split: if_splits)
  next
    case (3 rr R0 h' R')
    then show ?thesis using that assms(6) same by (auto split: if_splits)
  qed
  ultimately show ?thesis by (simp add: join Let_def)
qed

theorem stale_slot_swallows_join_witness:
  "let st' = on_room_join (packet_setSession 20 packet_new) 3 (session_expires 1 (removeSession 10 demo_cast_again)) in
    slot_of st' 10 = None \<and> (\<forall>x R. ct_rooms st' x = Some R \<longrightarrow> 3 \<notin> set (cr_players R))"
proof (rule stale_slot_swallows_join)
  show "cast_reach demo_cast_again"
    unfolding demo_cast_again_def by (rule reach_connect [OF demo_cast_reach]) (simp add: demo_cast_fields demo_heap_def)
  have "slot_of demo_cast_again 10 = slot_of demo_cast 10" by (simp add: slot_of_def demo_cast_again_def)
  then show "slot_of demo_cast_again 10 = Some 7" by (simp add: demo_cast_fields)
  show "\<forall>x R. ct_rooms demo_cast_again x = Some R \<longrightarrow> 3 \<notin> set (cr_players R)"
    by (simp add: demo_cast_again_def demo_cast_fields CastRoom_new_def)
  show "ct_sessions demo_cast_again 3 = Some (demo_player 10)" by (simp add: demo_cast_again_def)
qed simp_all

text \<open>C34: The reader of a payload is safe exactly when the offset is inside it. With a larger
  offset the 32-bit difference wraps and up to the size of the type is read behind the
  payload, for every payload that a packet can have.\<close>

theorem cast_parseData_safe:
  assumes "length (m_data p) < 65536" "0 < n" "unat offset + n < 2 ^ 31"
  shows "(cast_parseData n offset p \<noteq> Inl OutOfBounds \<longleftrightarrow> unat offset \<le> length (m_data p)) \<and>
    (unat offset + n \<le> length (m_data p) \<longrightarrow>
      cast_parseData n offset p = Inr (take n (drop (unat offset) (m_data p))))"
proof -
  let ?len = "length (m_data p)"
  have u: "unat (of_nat ?len :: u32) = ?len"
    using assms(1) by (simp add: unsigned_of_nat take_bit_nat_eq_self)
  have "unat (of_nat ?len - offset) = (if unat offset \<le> ?len then ?len - unat offset else ?len + 2 ^ 32 - unat offset)"
    using u by (auto simp: unat_sub_if' word_le_nat_alt)
  then show ?thesis
    using assms by (auto simp: cast_parseData_def Let_def min_def)
qed

theorem cast_parseData_safe_witness:
  "(cast_parseData 4 8 (packet_new\<lparr>m_data := [1, 2, 3, 4]\<rparr>) \<noteq> Inl OutOfBounds \<longleftrightarrow> unat (8 :: u32) \<le> length [1, 2, 3, 4 :: u8]) \<and>
   cast_parseData 4 0 (packet_new\<lparr>m_data := [1, 2, 3, 4]\<rparr>) = Inr [1, 2, 3, 4]"
  using cast_parseData_safe [of "packet_new\<lparr>m_data := [1, 2, 3, 4]\<rparr>" 4 8]
    cast_parseData_safe [of "packet_new\<lparr>m_data := [1, 2, 3, 4]\<rparr>" 4 0] by simp

end
