(* ===== verification/RoomNumbers.thy ===== *)
theory RoomNumbers
  imports SessionIds
begin

text \<open>
  Room numbers of the main server, \<open>MainServer/include/Classes/RoomNumberManager.h\<close>: the class
  template has one generator for ordinary rooms and one for clan rooms. The queue is a list whose
  head is its front. The generator does not keep the numbers that are out; they are the ones
  below the counter that are not in the queue, and with that ghost set it meets the contract of
  an allocator of \<open>SessionIds\<close>.
\<close>

section \<open>The generator\<close>

datatype RoomType = Room | Clan

record RoomNumberGenerator =
  m_maxRoomNumber :: u16
  m_nextNumber :: u16
  m_availableNumbers :: "u16 list"

definition first_number :: "RoomType \<Rightarrow> u16" where
  "first_number t = (case t of Room \<Rightarrow> 1 | Clan \<Rightarrow> 151)"

definition RoomNumberGenerator_new :: "RoomType \<Rightarrow> u16 \<Rightarrow> RoomNumberGenerator" where
  "RoomNumberGenerator_new t maxRoomNumber =
     \<lparr>m_maxRoomNumber = maxRoomNumber, m_nextNumber = first_number t, m_availableNumbers = []\<rparr>"

definition generate :: "RoomNumberGenerator \<Rightarrow> (u16 \<times> RoomNumberGenerator) option" where
  "generate g =
     (case m_availableNumbers g of
        number # rest \<Rightarrow> Some (number, g\<lparr>m_availableNumbers := rest\<rparr>)
      | [] \<Rightarrow>
          if m_nextNumber g \<le> m_maxRoomNumber g
          then Some (m_nextNumber g, g\<lparr>m_nextNumber := m_nextNumber g + 1\<rparr>)
          else None)"

definition release :: "u16 \<Rightarrow> RoomNumberGenerator \<Rightarrow> bool \<times> RoomNumberGenerator" where
  "release number g =
     (if number < 1 \<or> number > m_maxRoomNumber g then (False, g)
      else (True, g\<lparr>m_availableNumbers := m_availableNumbers g @ [number]\<rparr>))"

text \<open>\<open>generate().value_or(0)\<close>, as the constructor of a room calls it.\<close>

definition generate_or_zero :: "RoomNumberGenerator \<Rightarrow> u16 \<times> RoomNumberGenerator" where
  "generate_or_zero g = (case generate g of None \<Rightarrow> (0, g) | Some (n, g') \<Rightarrow> (n, g'))"

section \<open>The numbers that are out\<close>

definition numbers_out :: "u16 \<Rightarrow> RoomNumberGenerator \<Rightarrow> u16 set" where
  "numbers_out first g = {first..<m_nextNumber g} - set (m_availableNumbers g)"

definition gen_inv :: "u16 \<Rightarrow> u16 \<Rightarrow> RoomNumberGenerator \<Rightarrow> bool" where
  "gen_inv first mx g \<longleftrightarrow>
     m_maxRoomNumber g = mx \<and> 1 \<le> first \<and> first \<le> mx \<and> mx < -1 \<and>
     first \<le> m_nextNumber g \<and> m_nextNumber g \<le> mx + 1 \<and>
     distinct (m_availableNumbers g) \<and> set (m_availableNumbers g) \<subseteq> {first..<m_nextNumber g}"

lemma succ_facts:
  fixes n mx :: u16
  assumes "n \<le> mx" "mx < -1"
  shows "n < n + 1" "n + 1 \<le> mx + 1" "k < n + 1 \<longleftrightarrow> k \<le> n"
proof -
  show n: "n < n + 1" using assms by unat_arith
  show "n + 1 \<le> mx + 1" using assms by unat_arith
  show "k < n + 1 \<longleftrightarrow> k \<le> n" using n by (meson inc_le leD leI order.strict_trans2)
qed

lemma gen_inv_below:
  assumes "gen_inv first mx g" "x < m_nextNumber g"
  shows "x \<le> mx"
proof -
  have "mx < -1" "x < mx + 1" using assms by (auto simp: gen_inv_def)
  then show ?thesis using succ_facts(3) [of mx mx x] by simp
qed

lemma gen_inv_new [inv_intros]:
  assumes "first_number t \<le> mx" "mx < -1"
  shows "gen_inv (first_number t) mx (RoomNumberGenerator_new t mx)"
  using assms succ_facts(2) [OF assms] succ_facts(1) [OF order.refl assms(2)]
  by (cases t) (auto simp: gen_inv_def RoomNumberGenerator_new_def first_number_def)

lemma numbers_out_new [simp]: "numbers_out (first_number t) (RoomNumberGenerator_new t mx) = {}"
  by (simp add: numbers_out_def RoomNumberGenerator_new_def)

lemma generate_Some:
  assumes "gen_inv first mx g" "generate g = Some (n, g')"
  shows "n \<in> {first..mx} - numbers_out first g" "gen_inv first mx g'" "numbers_out first g' = insert n (numbers_out first g)"
proof -
  note i = assms(1) [unfolded gen_inv_def]
  have "n \<in> {first..mx} - numbers_out first g \<and> gen_inv first mx g' \<and> numbers_out first g' = insert n (numbers_out first g)"
  proof (cases "m_availableNumbers g")
    case Nil
    then have e: "n = m_nextNumber g" "g' = g\<lparr>m_nextNumber := n + 1\<rparr>" "n \<le> mx"
      using assms(2) i by (auto simp: generate_def split: if_splits)
    have "mx < -1" "first \<le> n" using i e by simp_all
    note f = succ_facts [OF e(3) this(1)]
    have g': "m_nextNumber g' = n + 1" "m_availableNumbers g' = []" "m_maxRoomNumber g' = mx"
      using e Nil i by simp_all
    have "first \<le> n + 1" using f(1) \<open>first \<le> n\<close> by simp
    then have "gen_inv first mx g'" using g' i f(2) by (simp add: gen_inv_def)
    moreover have "{first..<n + 1} = insert n {first..<n}"
    proof (rule set_eqI)
      fix k show "k \<in> {first..<n + 1} \<longleftrightarrow> k \<in> insert n {first..<n}"
        using \<open>first \<le> n\<close> f(3) [of k] by (simp only: atLeastLessThan_iff insert_iff le_less) blast
    qed
    then have "numbers_out first g' = insert n (numbers_out first g)"
      using g' Nil e(1) by (simp add: numbers_out_def)
    moreover have "n \<in> {first..mx} - numbers_out first g"
      using e \<open>first \<le> n\<close> by (simp add: numbers_out_def)
    ultimately show ?thesis by blast
  next
    case (Cons a rest)
    then have "n = a" "g' = g\<lparr>m_availableNumbers := rest\<rparr>" using assms(2) by (auto simp: generate_def)
    moreover have "a \<le> mx" using Cons i gen_inv_below [OF assms(1), of a] by auto
    ultimately show ?thesis using Cons i by (auto simp: numbers_out_def gen_inv_def)
  qed
  then show "n \<in> {first..mx} - numbers_out first g" "gen_inv first mx g'"
    "numbers_out first g' = insert n (numbers_out first g)" by simp_all
qed

interpretation room_numbers: id_allocator generate "\<lambda>n g. snd (release n g)" "numbers_out first" "{first..mx}" "gen_inv first mx"
  for first mx
proof unfold_locales
  fix g assume i: "gen_inv first mx g"
  note u = i [unfolded gen_inv_def]
  show sub: "numbers_out first g \<subseteq> {first..mx}"
    using gen_inv_below [OF i] by (auto simp: numbers_out_def)
  show "(generate g = None) = (numbers_out first g = {first..mx})"
  proof
    assume "generate g = None"
    then have "m_availableNumbers g = []" "mx < m_nextNumber g"
      using u by (auto simp: generate_def split: list.splits if_splits)
    then show "numbers_out first g = {first..mx}" using sub by (auto simp: numbers_out_def)
  next
    assume "numbers_out first g = {first..mx}"
    then show "generate g = None" using generate_Some(1) [OF i] by (cases "generate g") auto
  qed
  fix n show "n \<in> numbers_out first g \<Longrightarrow>
    gen_inv first mx (snd (release n g)) \<and> numbers_out first (snd (release n g)) = numbers_out first g - {n}"
    using u sub by (auto simp: release_def gen_inv_def numbers_out_def)
  fix g' assume "generate g = Some (n, g')"
  from generate_Some [OF i this]
  show "n \<in> {first..mx} - numbers_out first g" "gen_inv first mx g' \<and> numbers_out first g' = insert n (numbers_out first g)"
    by simp_all
qed

section \<open>Properties\<close>

text \<open>The numbers are handed out from the first one upwards while none has come back.\<close>

lemma generate_upwards:
  assumes "unat (first_number t) + k \<le> unat mx" "mx < -1"
  shows "((\<lambda>g. snd (the (generate g))) ^^ k) (RoomNumberGenerator_new t mx) =
      (RoomNumberGenerator_new t mx)\<lparr>m_nextNumber := first_number t + of_nat k\<rparr>"
  using assms(1)
proof (induction k)
  case 0
  then show ?case by (simp add: RoomNumberGenerator_new_def)
next
  case (Suc k)
  moreover have "unat (first_number t + of_nat k) = unat (first_number t) + k"
  proof -
    have "unat mx < 2 ^ 16" using unsigned_less [of mx] by simp
    then show ?thesis using Suc.prems by (simp add: unat_word_ariths unat_of_nat)
  qed
  ultimately show ?case by (simp add: RoomNumberGenerator_new_def generate_def word_le_nat_alt ac_simps)
qed

text \<open>C22: On every run of creations and closings that gives back only numbers that are out, a new
  room gets a number between the first and the largest one that no open room has; the generator
  refuses exactly when all are out, and then the constructor falls back to number 0, the number
  of the lobby.\<close>

theorem room_numbers_unique:
  assumes "first_number t \<le> mx" "mx < -1"
    and "id_run generate (\<lambda>n g. snd (release n g)) (RoomNumberGenerator_new t mx) g held"
  shows "held \<subseteq> {first_number t..mx} \<and>
    (case generate g of
       None \<Rightarrow> held = {first_number t..mx} \<and> fst (generate_or_zero g) = 0
     | Some (n, g') \<Rightarrow> n \<in> {first_number t..mx} - held \<and> generate_or_zero g = (n, g'))"
  using room_numbers.run_safe [OF assms(3) gen_inv_new [OF assms(1,2)] numbers_out_new]
  by (auto simp: generate_or_zero_def split: option.split)

theorem room_numbers_unique_witness:
  "{1} \<subseteq> {first_number Room..600} \<and>
    (case generate \<lparr>m_maxRoomNumber = 600, m_nextNumber = 2, m_availableNumbers = []\<rparr> of
       None \<Rightarrow> {1} = {first_number Room..600} \<and>
         fst (generate_or_zero \<lparr>m_maxRoomNumber = 600, m_nextNumber = 2, m_availableNumbers = []\<rparr>) = 0
     | Some (n, g') \<Rightarrow> n \<in> {first_number Room..600} - {1} \<and>
         generate_or_zero \<lparr>m_maxRoomNumber = 600, m_nextNumber = 2, m_availableNumbers = []\<rparr> = (n, g'))"
proof (rule room_numbers_unique)
  have "generate (RoomNumberGenerator_new Room 600) =
      Some (1, \<lparr>m_maxRoomNumber = 600, m_nextNumber = 2, m_availableNumbers = []\<rparr>)"
    by (simp add: generate_def RoomNumberGenerator_new_def first_number_def)
  from id_acquire [OF id_start [of generate "\<lambda>n g. snd (release n g)" "RoomNumberGenerator_new Room 600"] this]
  show "id_run generate (\<lambda>n g. snd (release n g)) (RoomNumberGenerator_new Room 600)
      \<lparr>m_maxRoomNumber = 600, m_nextNumber = 2, m_availableNumbers = []\<rparr> {1}" .
qed (simp_all add: first_number_def)

text \<open>The two generators are not disjoint: the 151st ordinary room has the number of the
  first clan room. And a generator takes back a number twice, or one that was never out, and
  then hands it out twice.\<close>

theorem room_numbers_collide:
  "fst (the (generate (((\<lambda>g. snd (the (generate g))) ^^ 150) (RoomNumberGenerator_new Room 600)))) =
     fst (the (generate (RoomNumberGenerator_new Clan 600))) \<and>
   (let g = snd (release 5 (snd (release 5 (RoomNumberGenerator_new t 600)))) in
      fst (the (generate g)) = 5 \<and> fst (the (generate (snd (the (generate g))))) = 5)"
proof
  have "unat (first_number Room) + 150 \<le> unat (600 :: u16)" by (simp add: first_number_def)
  from generate_upwards [OF this]
  show "fst (the (generate (((\<lambda>g. snd (the (generate g))) ^^ 150) (RoomNumberGenerator_new Room 600)))) =
     fst (the (generate (RoomNumberGenerator_new Clan 600)))"
    by (simp add: RoomNumberGenerator_new_def generate_def first_number_def)
qed (simp add: Let_def release_def generate_def RoomNumberGenerator_new_def)

end
