(* ===== verification/Player.thy ===== *)
theory Player
  imports Enums "HOL-Library.AList"
begin

unbundle bit_operations_syntax

text \<open>
  A player of the main server, \<open>MainServer/include/Classes/Player.h\<close> and
  \<open>MainServer/src/Classes/Player.cpp\<close>: its state, the account, the mute and permission flags,
  friends, blocked players, mail, room and trade data. The items are in \<open>Inventory\<close>. Bit-fields
  are words of their width. The unordered maps are association lists in iteration order: where a
  new key lands in that order the standard library leaves open, and nothing here depends on it.
  The unnamed and unused bit-fields of the account and its achievements are left out.
\<close>

section \<open>Structures\<close>

record AccountInfo =
  ai_diorama1 :: "23 word"
  ai_diorama2 :: "23 word"
  ai_diorama3 :: "14 word"
  ai_totalKills :: u32
  ai_deaths :: u32
  ai_assists :: u32
  ai_wins :: u32
  ai_losses :: u32
  ai_draws :: u32
  ai_meleeKills :: u32
  ai_rifleKills :: u32
  ai_shotgunKills :: u32
  ai_sniperKills :: u32
  ai_microgunKills :: u32
  ai_bazookaKills :: u32
  ai_grenadeKills :: u32
  ai_headshots :: "29 word"
  ai_killstreak :: "8 word"
  ai_playtime :: u32
  ai_clanId :: u32
  ai_zombieKills :: u32
  ai_infected :: u32
  ai_nickname :: bytes
  ai_serverTime :: u64
  ai_uniqueId :: UniqueId
  ai_playerGrade :: "4 word"
  ai_latestSelectedCharacter :: "4 word"
  ai_boughtCharacters :: "16 word"
  ai_playerLevel :: "7 word"
  ai_coins :: "7 word"
  ai_battery :: "14 word"
  ai_luckyPoints :: "11 word"
  ai_experience :: u32
  ai_microPoints :: "31 word"
  ai_rockTotens :: "30 word"
  ai_goldenMode :: "3 word"
  ai_isTutorialDone :: "22 word"
  ai_inventorySpace :: "10 word"
  ai_maxBattery :: "13 word"
  ai_singleWaveAttempts :: "9 word"
  ai_highestSinglewaveStage :: "10 word"
  ai_highestSingleWaveScore :: u32
  ai_userstory :: u32
  ai_vipExperience :: u32
  ai_accountID :: u32
  ai_accountKey :: u32
  ai_clanName :: bytes
  ai_clanLogoFrontId :: "16 word"
  ai_clanLogoBackId :: "14 word"
  ai_clanContribution :: "34 word"
  ai_clanWins :: "23 word"
  ai_clanLosses :: "23 word"
  ai_clanDraws :: "18 word"
  ai_clanKills :: u32
  ai_clanDeaths :: u32
  ai_clanAssists :: u32

definition AccountInfo_default :: AccountInfo where
  "AccountInfo_default =
     \<lparr>ai_diorama1 = 0, ai_diorama2 = 0, ai_diorama3 = 0, ai_totalKills = 0, ai_deaths = 0,
      ai_assists = 0, ai_wins = 0, ai_losses = 0, ai_draws = 0, ai_meleeKills = 0,
      ai_rifleKills = 0, ai_shotgunKills = 0, ai_sniperKills = 0, ai_microgunKills = 0,
      ai_bazookaKills = 0, ai_grenadeKills = 0, ai_headshots = 0, ai_killstreak = 0,
      ai_playtime = 0, ai_clanId = 0, ai_zombieKills = 0, ai_infected = 0,
      ai_nickname = replicate 16 0, ai_serverTime = 0, ai_uniqueId = UniqueId_default,
      ai_playerGrade = 0, ai_latestSelectedCharacter = 0, ai_boughtCharacters = 0,
      ai_playerLevel = 0, ai_coins = 0, ai_battery = 0, ai_luckyPoints = 0,
      ai_experience = 0, ai_microPoints = 0, ai_rockTotens = 0, ai_goldenMode = 0,
      ai_isTutorialDone = 0, ai_inventorySpace = 0, ai_maxBattery = 0,
      ai_singleWaveAttempts = 0, ai_highestSinglewaveStage = 0,
      ai_highestSingleWaveScore = 0, ai_userstory = 0, ai_vipExperience = 0,
      ai_accountID = 0, ai_accountKey = 0, ai_clanName = replicate 16 0,
      ai_clanLogoFrontId = 0, ai_clanLogoBackId = 0, ai_clanContribution = 0,
      ai_clanWins = 0, ai_clanLosses = 0, ai_clanDraws = 0, ai_clanKills = 0,
      ai_clanDeaths = 0, ai_clanAssists = 0\<rparr>"

record ItemSerialInfo =
  si_itemNumber :: "20 word"
  si_serverId :: "4 word"
  si_unknown :: "4 word"
  si_itemOrigin :: "4 word"
  si_itemCreationDate :: u32

text \<open>The default constructor reads the clock.\<close>

definition ItemSerialInfo_default :: "u32 \<Rightarrow> ItemSerialInfo" where
  "ItemSerialInfo_default now =
     \<lparr>si_itemNumber = 0, si_serverId = 0, si_unknown = 0, si_itemOrigin = 0, si_itemCreationDate = now\<rparr>"

record ItemId =
  iid_itemId :: "23 word"
  iid_stock :: "9 word"

record Item =
  it_itemId :: ItemId
  it_expirationDate :: u32
  it_serialInfo :: ItemSerialInfo
  it_durability :: u16
  it_energy :: u16
  it_isSealed :: u32
  it_sealLevel :: u32
  it_experienceEnhancement :: u32
  it_mpEnhancement :: u32
  it_unknown :: u32

record EquippedItem =
  eq_type :: "9 word"
  eq_id :: "23 word"
  eq_expirationDate :: u32
  eq_serialInfo :: ItemSerialInfo
  eq_durability :: u16
  eq_energy :: u16
  eq_isSealed :: u32
  eq_sealLevel :: u32
  eq_experienceEnhancement :: u32
  eq_mpEnhancement :: u32

definition EquippedItem_default :: "u32 \<Rightarrow> EquippedItem" where
  "EquippedItem_default now =
     \<lparr>eq_type = 0, eq_id = 0, eq_expirationDate = 0, eq_serialInfo = ItemSerialInfo_default now,
      eq_durability = 0, eq_energy = 0, eq_isSealed = 0, eq_sealLevel = 0,
      eq_experienceEnhancement = 0, eq_mpEnhancement = 0\<rparr>"

record TradeBasicItem =
  tbi_itemId :: ItemId
  tbi_itemSerialInfo :: ItemSerialInfo

record Friend =
  fr_targetUniqueId :: UniqueId
  fr_targetAccountId :: u32
  fr_targetNickname :: bytes

record BlockedPlayer =
  bp_targetAccountId :: u32
  bp_targetNickname :: bytes

record Mailbox =
  mb_accountId :: u32
  mb_timestamp :: u32
  mb_hasBeenRead :: u32
  mb_nickname :: bytes
  mb_message :: bytes

record Giftbox =
  gb_accountId :: u32
  gb_timestamp :: u32
  gb_id :: u32
  gb_nickname :: bytes
  gb_message :: bytes

type_synonym session_ref = nat

definition MAX_CHARACTERS :: nat where "MAX_CHARACTERS = 9"
definition MAX_ITEMTYPE :: nat where "MAX_ITEMTYPE = 18"
definition maxFriends :: nat where "maxFriends = 59"

record player =
  p_accountInfo :: AccountInfo
  p_itemsByItemNumber :: "(u64 \<times> Item) list"
  p_equippedItemByCharacter :: "EquippedItem list"
  p_totalEquippedItems :: u64
  p_friends :: "(Friend \<times> session_ref option) list"
  p_blockedAccounts :: "BlockedPlayer list"
  p_playerState :: u32
  p_ping :: u16
  p_isMuted :: bool
  p_isRoomCreationEnabled :: bool
  p_isVotekickEnabled :: bool
  p_mutedBy :: bytes
  p_muteReason :: bytes
  p_mutedUntil :: bytes
  p_mailboxReceived :: "Mailbox list"
  p_mailboxSent :: "Mailbox list"
  p_giftboxReceived :: "Giftbox list"
  p_roomNumber :: u16
  p_clanRoomNumber :: u16
  p_isInMatch :: bool
  p_batteryObtainedInMatch :: u32
  p_couponItems :: "Item list"
  p_currentlyTradingWithAccountId :: u32
  p_tradedItems :: "TradeBasicItem list"
  p_hasPlayerLocked :: bool

definition Player_new :: "u32 \<Rightarrow> player" where
  "Player_new now =
     \<lparr>p_accountInfo = AccountInfo_default, p_itemsByItemNumber = [],
      p_equippedItemByCharacter = replicate (MAX_ITEMTYPE * MAX_CHARACTERS) (EquippedItem_default now),
      p_totalEquippedItems = 0, p_friends = [], p_blockedAccounts = [], p_playerState = 0, p_ping = 0,
      p_isMuted = False, p_isRoomCreationEnabled = True, p_isVotekickEnabled = True,
      p_mutedBy = [], p_muteReason = [], p_mutedUntil = [], p_mailboxReceived = [], p_mailboxSent = [],
      p_giftboxReceived = [], p_roomNumber = 0, p_clanRoomNumber = 0, p_isInMatch = False,
      p_batteryObtainedInMatch = 0, p_couponItems = [], p_currentlyTradingWithAccountId = 0,
      p_tradedItems = [], p_hasPlayerLocked = False\<rparr>"

section \<open>The account\<close>

definition on_account :: "(AccountInfo \<Rightarrow> AccountInfo) \<Rightarrow> player \<Rightarrow> player" where
  "on_account f p = p\<lparr>p_accountInfo := f (p_accountInfo p)\<rparr>"

definition setAccountInfo :: "AccountInfo \<Rightarrow> player \<Rightarrow> player" where
  "setAccountInfo a p = p\<lparr>p_accountInfo := a\<rparr>"

definition addBattery :: "u32 \<Rightarrow> player \<Rightarrow> u32 \<times> player" where
  "addBattery battery p =
     (let a = p_accountInfo p;
          b = ucast (min (ucast (ai_battery a) + battery) (ucast (ai_maxBattery a) :: u32)) :: 14 word
      in (ucast b, on_account (\<lambda>a. a\<lparr>ai_battery := b\<rparr>) p))"

definition addBatteryObtainedInMatch :: "u32 \<Rightarrow> player \<Rightarrow> player" where
  "addBatteryObtainedInMatch newBattery p = p\<lparr>p_batteryObtainedInMatch := p_batteryObtainedInMatch p + newBattery\<rparr>"

definition storeBatteryObtainedInMatch :: "player \<Rightarrow> player" where
  "storeBatteryObtainedInMatch p =
     (let a = p_accountInfo p;
          sum = (ucast (ai_battery a) :: u32) + p_batteryObtainedInMatch p
      in (if sum \<ge> ucast (ai_maxBattery a)
          then on_account (\<lambda>a. a\<lparr>ai_battery := ucast (ai_maxBattery a)\<rparr>) p
          else on_account (\<lambda>a. a\<lparr>ai_battery := ucast sum\<rparr>) p)\<lparr>p_batteryObtainedInMatch := 0\<rparr>)"

definition setPing :: "u16 \<Rightarrow> player \<Rightarrow> player" where
  "setPing ping p = p\<lparr>p_ping := ping\<rparr>"

definition setAccountRockTotens :: "u32 \<Rightarrow> player \<Rightarrow> bool \<times> player" where
  "setAccountRockTotens rt p =
     (if rt > 0x3FFFFFFF then (False, p) else (True, on_account (\<lambda>a. a\<lparr>ai_rockTotens := ucast rt\<rparr>) p))"

definition setAccountMicroPoints :: "u32 \<Rightarrow> player \<Rightarrow> bool \<times> player" where
  "setAccountMicroPoints mp p =
     (if mp > 0x7FFFFFFF then (False, p) else (True, on_account (\<lambda>a. a\<lparr>ai_microPoints := ucast mp\<rparr>) p))"

definition setAccountCoins :: "u16 \<Rightarrow> player \<Rightarrow> bool \<times> player" where
  "setAccountCoins coins p =
     (if coins > 0x7F then (False, p) else (True, on_account (\<lambda>a. a\<lparr>ai_coins := ucast coins\<rparr>) p))"

definition setAccountLatestCharacterSelected :: "u16 \<Rightarrow> player \<Rightarrow> player" where
  "setAccountLatestCharacterSelected c = on_account (\<lambda>a. a\<lparr>ai_latestSelectedCharacter := ucast c\<rparr>)"

definition setLevel :: "u16 \<Rightarrow> player \<Rightarrow> player" where
  "setLevel level = on_account (\<lambda>a. a\<lparr>ai_playerLevel := ucast ((ucast level :: u32) + 1)\<rparr>)"

definition setExperience :: "u32 \<Rightarrow> player \<Rightarrow> player" where
  "setExperience exp = on_account (\<lambda>a. a\<lparr>ai_experience := exp\<rparr>)"

definition resetKillDeath :: "player \<Rightarrow> player" where
  "resetKillDeath = on_account (\<lambda>a. a\<lparr>ai_totalKills := 0, ai_deaths := 0\<rparr>)"

definition resetRecord :: "player \<Rightarrow> player" where
  "resetRecord = on_account (\<lambda>a. a\<lparr>ai_wins := 0, ai_losses := 0, ai_draws := 0\<rparr>)"

definition expandBattery :: "player \<Rightarrow> bool \<times> player" where
  "expandBattery p =
     (if ai_maxBattery (p_accountInfo p) > 4000 then (False, p)
      else (True, on_account (\<lambda>a. a\<lparr>ai_maxBattery := ai_maxBattery a + 1000\<rparr>) p))"

definition expandInventory :: "u32 \<Rightarrow> player \<Rightarrow> bool \<times> player" where
  "expandInventory spaceToAdd p =
     (let space = (ucast (ai_inventorySpace (p_accountInfo p)) :: u32) + spaceToAdd
      in if space > 1000 then (False, p)
         else (True, on_account (\<lambda>a. a\<lparr>ai_inventorySpace := ucast space\<rparr>) p))"

definition setPlayerName :: "bytes \<Rightarrow> player \<Rightarrow> player" where
  "setPlayerName name =
     (let chars = take 15 (takeWhile (\<lambda>c. c \<noteq> 0) name)
      in on_account (\<lambda>a. a\<lparr>ai_nickname := chars @ replicate (16 - length chars) 0\<rparr>))"

definition addLuckyPoints :: "u32 \<Rightarrow> player \<Rightarrow> player" where
  "addLuckyPoints points = on_account (\<lambda>a. a\<lparr>ai_luckyPoints := ucast ((ucast (ai_luckyPoints a) :: u32) + points)\<rparr>)"

definition setLuckyPoints :: "u32 \<Rightarrow> player \<Rightarrow> player" where
  "setLuckyPoints points = on_account (\<lambda>a. a\<lparr>ai_luckyPoints := ucast points\<rparr>)"

section \<open>State and permissions\<close>

definition player_setPlayerState :: "u32 \<Rightarrow> player \<Rightarrow> player" where
  "player_setPlayerState st p = p\<lparr>p_playerState := st\<rparr>"

definition isInLobby :: "player \<Rightarrow> bool" where
  "isInLobby p \<longleftrightarrow> p_roomNumber p = 0"

definition mute :: "bytes \<Rightarrow> bytes \<Rightarrow> bytes \<Rightarrow> player \<Rightarrow> player" where
  "mute reason mutedBy mutedUntil p =
     p\<lparr>p_isMuted := True, p_muteReason := reason, p_mutedBy := mutedBy, p_mutedUntil := mutedUntil\<rparr>"

definition unmute :: "player \<Rightarrow> player" where
  "unmute p = p\<lparr>p_isMuted := False\<rparr>"

definition setRoomCreation :: "bool \<Rightarrow> player \<Rightarrow> player" where
  "setRoomCreation b p = p\<lparr>p_isRoomCreationEnabled := b\<rparr>"

definition setVotekick :: "bool \<Rightarrow> player \<Rightarrow> player" where
  "setVotekick b p = p\<lparr>p_isVotekickEnabled := b\<rparr>"

section \<open>Friends and blocked players\<close>

text \<open>
  The table of friends compares keys by account number only. \<open>operator[]\<close> with a key that is
  present keeps the stored key and replaces the value.
\<close>

fun friend_put :: "Friend \<Rightarrow> session_ref option \<Rightarrow> (Friend \<times> session_ref option) list \<Rightarrow> (Friend \<times> session_ref option) list" where
  "friend_put f v [] = [(f, v)]"
| "friend_put f v ((g, w) # fs) =
     (if fr_targetAccountId g = fr_targetAccountId f then (g, v) # fs else (g, w) # friend_put f v fs)"

definition friend_erase :: "u32 \<Rightarrow> (Friend \<times> session_ref option) list \<Rightarrow> (Friend \<times> session_ref option) list" where
  "friend_erase aid fs = filter (\<lambda>(g, w). fr_targetAccountId g \<noteq> aid) fs"

definition getFriendlist :: "player \<Rightarrow> Friend list" where
  "getFriendlist p = map fst (p_friends p)"

definition isFriend :: "u32 \<Rightarrow> player \<Rightarrow> bool" where
  "isFriend aid p \<longleftrightarrow> list_ex (\<lambda>(g, w). fr_targetAccountId g = aid) (p_friends p)"

definition setFriendList :: "Friend list \<Rightarrow> player \<Rightarrow> player" where
  "setFriendList fs p = p\<lparr>p_friends := fold (\<lambda>f t. friend_put f None t) fs (p_friends p)\<rparr>"

definition updateFriend :: "Friend \<Rightarrow> session_ref option \<Rightarrow> bool \<Rightarrow> player \<Rightarrow> player" where
  "updateFriend f target remove p =
     p\<lparr>p_friends := friend_put f (if remove then None else target) (friend_erase (fr_targetAccountId f) (p_friends p))\<rparr>"

definition deleteFriend :: "u32 \<Rightarrow> player \<Rightarrow> bool \<times> player" where
  "deleteFriend aid p =
     (if isFriend aid p then (True, p\<lparr>p_friends := friend_erase aid (p_friends p)\<rparr>) else (False, p))"

definition addOfflineFriend :: "Friend \<Rightarrow> player \<Rightarrow> player" where
  "addOfflineFriend f p = p\<lparr>p_friends := friend_put f None (p_friends p)\<rparr>"

text \<open>The argument is the session and its account, \<open>None\<close> for an empty pointer.\<close>

definition addOnlineFriend :: "(session_ref \<times> AccountInfo) option \<Rightarrow> player \<Rightarrow> Friend option \<times> player" where
  "addOnlineFriend s p =
     (case s of
        None \<Rightarrow> (None, p)
      | Some (r, a) \<Rightarrow>
          let f = \<lparr>fr_targetUniqueId = ai_uniqueId a, fr_targetAccountId = ai_accountID a,
                   fr_targetNickname = take 16 (ai_nickname a)\<rparr>
          in (Some f, p\<lparr>p_friends := friend_put f (Some r) (p_friends p)\<rparr>))"

definition blockAccount :: "u32 \<Rightarrow> bytes \<Rightarrow> player \<Rightarrow> bool \<times> player" where
  "blockAccount aid nickname p =
     (if length (p_blockedAccounts p) \<ge> maxFriends then (False, p)
      else (True, p\<lparr>p_blockedAccounts := p_blockedAccounts p @
              [\<lparr>bp_targetAccountId = aid, bp_targetNickname = take 16 nickname\<rparr>]\<rparr>))"

definition hasBlocked :: "u32 \<Rightarrow> player \<Rightarrow> bool" where
  "hasBlocked aid p \<longleftrightarrow> list_ex (\<lambda>b. bp_targetAccountId b = aid) (p_blockedAccounts p)"

definition unblockAccount :: "u32 \<Rightarrow> player \<Rightarrow> bool \<times> player" where
  "unblockAccount aid p =
     (if hasBlocked aid p
      then (True, p\<lparr>p_blockedAccounts := filter (\<lambda>b. bp_targetAccountId b \<noteq> aid) (p_blockedAccounts p)\<rparr>)
      else (False, p))"

definition setBlockedPlayers :: "BlockedPlayer list \<Rightarrow> player \<Rightarrow> player" where
  "setBlockedPlayers bs p = p\<lparr>p_blockedAccounts := bs\<rparr>"

section \<open>Mailbox and giftbox\<close>

definition addMailboxReceived :: "Mailbox \<Rightarrow> player \<Rightarrow> player" where
  "addMailboxReceived m p = p\<lparr>p_mailboxReceived := p_mailboxReceived p @ [m]\<rparr>"

definition addMailboxSent :: "Mailbox \<Rightarrow> player \<Rightarrow> player" where
  "addMailboxSent m p = p\<lparr>p_mailboxSent := p_mailboxSent p @ [m]\<rparr>"

definition addGiftboxReceived :: "Giftbox \<Rightarrow> player \<Rightarrow> player" where
  "addGiftboxReceived g p = p\<lparr>p_giftboxReceived := p_giftboxReceived p @ [g]\<rparr>"

text \<open>The search for the first message with the time stamp, and its removal.\<close>

definition delete_mail :: "u32 \<Rightarrow> Mailbox list \<Rightarrow> Mailbox list option" where
  "delete_mail timestamp ms =
     (case find_index (\<lambda>m. mb_timestamp m = timestamp) ms of
        None \<Rightarrow> None
      | Some i \<Rightarrow> Some (erase_at i ms))"

definition deleteSentMailbox :: "u32 \<Rightarrow> player \<Rightarrow> bool \<times> player" where
  "deleteSentMailbox timestamp p =
     (case delete_mail timestamp (p_mailboxSent p) of
        None \<Rightarrow> (False, p)
      | Some ms \<Rightarrow> (True, p\<lparr>p_mailboxSent := ms\<rparr>))"

definition deleteReceivedMailbox :: "u32 \<Rightarrow> player \<Rightarrow> bool \<times> player" where
  "deleteReceivedMailbox timestamp p =
     (case delete_mail timestamp (p_mailboxReceived p) of
        None \<Rightarrow> (False, p)
      | Some ms \<Rightarrow> (True, p\<lparr>p_mailboxReceived := ms\<rparr>))"

definition setMailbox :: "Mailbox list \<Rightarrow> bool \<Rightarrow> player \<Rightarrow> player" where
  "setMailbox ms sent p = (if sent then p\<lparr>p_mailboxSent := ms\<rparr> else p\<lparr>p_mailboxReceived := ms\<rparr>)"

definition deleteGiftbox :: "u32 \<Rightarrow> player \<Rightarrow> player" where
  "deleteGiftbox timestamp p =
     p\<lparr>p_giftboxReceived := filter (\<lambda>g. gb_timestamp g \<noteq> timestamp) (p_giftboxReceived p)\<rparr>"

definition getGiftbox :: "u32 \<Rightarrow> player \<Rightarrow> Giftbox option" where
  "getGiftbox timestamp p = find (\<lambda>g. gb_timestamp g = timestamp) (p_giftboxReceived p)"

definition getItemIdFromGiftbox :: "u32 \<Rightarrow> player \<Rightarrow> u32 option" where
  "getItemIdFromGiftbox timestamp p = map_option gb_id (getGiftbox timestamp p)"

definition setReceivedGiftboxes :: "Giftbox list \<Rightarrow> player \<Rightarrow> player" where
  "setReceivedGiftboxes gs p = p\<lparr>p_giftboxReceived := gs\<rparr>"

section \<open>Room and trade\<close>

definition player_setRoomNumber :: "u16 \<Rightarrow> player \<Rightarrow> player" where
  "player_setRoomNumber n p = p\<lparr>p_roomNumber := n\<rparr>"

definition setClanRoomNumber :: "u16 \<Rightarrow> player \<Rightarrow> player" where
  "setClanRoomNumber n p = p\<lparr>p_clanRoomNumber := n\<rparr>"

definition player_setIsInMatch :: "bool \<Rightarrow> player \<Rightarrow> player" where
  "player_setIsInMatch b p = p\<lparr>p_isInMatch := b\<rparr>"

definition player_isInMatch :: "player \<Rightarrow> bool" where
  "player_isInMatch p \<longleftrightarrow> p_playerState p = STATE_NORMAL \<or> p_playerState p = STATE_DYING"

definition player_leaveRoom :: "player \<Rightarrow> player" where
  "player_leaveRoom p = (player_setIsInMatch False (player_setRoomNumber 0 p))\<lparr>p_batteryObtainedInMatch := 0\<rparr>"

definition decreaseRoomNumber :: "player \<Rightarrow> player" where
  "decreaseRoomNumber p = (if p_roomNumber p > 0 then p\<lparr>p_roomNumber := p_roomNumber p - 1\<rparr> else p)"

definition lockTrade :: "player \<Rightarrow> player" where
  "lockTrade p = p\<lparr>p_hasPlayerLocked := True\<rparr>"

definition resetTradeInfo :: "player \<Rightarrow> player" where
  "resetTradeInfo p =
     player_setPlayerState STATE_INVENTORY
       (p\<lparr>p_hasPlayerLocked := False, p_tradedItems := [], p_currentlyTradingWithAccountId := 0\<rparr>)"

definition setCurrentlyTradingWithAccountId :: "u32 \<Rightarrow> player \<Rightarrow> player" where
  "setCurrentlyTradingWithAccountId aid p = p\<lparr>p_currentlyTradingWithAccountId := aid\<rparr>"

definition TradeBasicItem_new :: "(u32 \<Rightarrow> u16 option) \<Rightarrow> u32 \<Rightarrow> ItemSerialInfo \<Rightarrow> TradeBasicItem" where
  "TradeBasicItem_new stocks wholeId serialInfo =
     (let i = ucast (wholeId AND 0x7FFFFF) :: 23 word
      in \<lparr>tbi_itemId = \<lparr>iid_itemId = i, iid_stock = ucast (case stocks (ucast i) of None \<Rightarrow> 1 | Some n \<Rightarrow> n)\<rparr>,
          tbi_itemSerialInfo = serialInfo\<rparr>)"

definition addTradedItem :: "(u32 \<Rightarrow> u16 option) \<Rightarrow> u32 \<Rightarrow> ItemSerialInfo \<Rightarrow> player \<Rightarrow> bool \<times> player" where
  "addTradedItem stocks itemId serialInfo p =
     (if list_ex (\<lambda>t. si_itemNumber (tbi_itemSerialInfo t) = si_itemNumber serialInfo) (p_tradedItems p)
      then (False, p)
      else (True, p\<lparr>p_tradedItems := p_tradedItems p @ [TradeBasicItem_new stocks itemId serialInfo]\<rparr>))"

definition removeTradedItem :: "ItemSerialInfo \<Rightarrow> player \<Rightarrow> player" where
  "removeTradedItem serialInfo p =
     (case find_index (\<lambda>t. tbi_itemSerialInfo t = serialInfo) (p_tradedItems p) of
        None \<Rightarrow> p
      | Some i \<Rightarrow> p\<lparr>p_tradedItems := erase_at i (p_tradedItems p)\<rparr>)"

definition resetTradedItems :: "player \<Rightarrow> player" where
  "resetTradedItems p = p\<lparr>p_tradedItems := []\<rparr>"

section \<open>Lemmas\<close>

lemma account_on_account [simp]: "p_accountInfo (on_account f p) = f (p_accountInfo p)"
  by (simp add: on_account_def)

lemma unat_ucast_small [simp]:
  "unat (ucast (x :: 'a::len word) :: 'b::len word) = unat x mod 2 ^ LENGTH('b)"
  by (simp add: unsigned_ucast_eq take_bit_eq_mod flip: take_bit_eq_mod)

abbreviation friend_ids :: "player \<Rightarrow> u32 list" where
  "friend_ids p \<equiv> map (\<lambda>(f, w). fr_targetAccountId f) (p_friends p)"

lemma friend_put_ids:
  "map (\<lambda>(f, w). fr_targetAccountId f) (friend_put f v fs) =
     (let ids = map (\<lambda>(f, w). fr_targetAccountId f) fs
      in if fr_targetAccountId f \<in> set ids then ids else ids @ [fr_targetAccountId f])"
  by (induction f v fs rule: friend_put.induct) (auto simp: Let_def)

lemma friend_put_value:
  "map_of (map (\<lambda>(f, w). (fr_targetAccountId f, w)) (friend_put f v fs)) =
     (map_of (map (\<lambda>(f, w). (fr_targetAccountId f, w)) fs))(fr_targetAccountId f \<mapsto> v)"
  by (induction f v fs rule: friend_put.induct) auto

lemma friend_erase_ids:
  "map (\<lambda>(f, w). fr_targetAccountId f) (friend_erase aid fs) =
     filter (\<lambda>i. i \<noteq> aid) (map (\<lambda>(f, w). fr_targetAccountId f) fs)"
  by (induction fs) (auto simp: friend_erase_def)

lemma distinct_friend_put:
  "distinct (map (\<lambda>(f, w). fr_targetAccountId f) fs) \<Longrightarrow>
     distinct (map (\<lambda>(f, w). fr_targetAccountId f) (friend_put f v fs))"
  by (simp add: friend_put_ids Let_def)

lemma setFriendList_distinct:
  "distinct (map (\<lambda>(f, w). fr_targetAccountId f) fs) \<Longrightarrow>
     distinct (map (\<lambda>(f, w). fr_targetAccountId f) (fold (\<lambda>f t. friend_put f None t) gs fs))"
  by (induction gs arbitrary: fs) (simp_all add: distinct_friend_put)

text \<open>The friend list has one entry per account, whichever operation changes it, and an
  operation on one account leaves the entries of the others alone.\<close>

lemma isFriend_ids: "isFriend a p \<longleftrightarrow> a \<in> set (friend_ids p)"
  by (induction "p_friends p") (auto simp: isFriend_def list_ex_iff)

lemma friend_list_keys:
  assumes "distinct (friend_ids p)"
  shows "distinct (friend_ids (setFriendList fs p))"
    "distinct (friend_ids (updateFriend f t r p))" "distinct (friend_ids (addOfflineFriend f p))"
    "distinct (friend_ids (snd (addOnlineFriend s p)))" "distinct (friend_ids (snd (deleteFriend aid p)))"
    "isFriend a (snd (deleteFriend aid p)) \<longleftrightarrow> isFriend a p \<and> a \<noteq> aid"
    "isFriend a (updateFriend f t r p) \<longleftrightarrow> isFriend a p \<or> a = fr_targetAccountId f"
proof -
  note [simp] = isFriend_ids friend_erase_ids friend_put_ids Let_def and [simp del] = list.set_map set_map
  show "distinct (friend_ids (setFriendList fs p))" using assms by (simp add: setFriendList_def setFriendList_distinct)
  show "distinct (friend_ids (updateFriend f t r p))" "distinct (friend_ids (addOfflineFriend f p))"
    "distinct (friend_ids (snd (addOnlineFriend s p)))" "distinct (friend_ids (snd (deleteFriend aid p)))"
    using assms by (auto simp: updateFriend_def addOfflineFriend_def addOnlineFriend_def deleteFriend_def
        split: option.split)
  show "isFriend a (snd (deleteFriend aid p)) \<longleftrightarrow> isFriend a p \<and> a \<noteq> aid"
    by (auto simp: deleteFriend_def)
  show "isFriend a (updateFriend f t r p) \<longleftrightarrow> isFriend a p \<or> a = fr_targetAccountId f"
    by (auto simp: updateFriend_def)
qed

section \<open>Properties\<close>

text \<open>The limits of the account hold whatever the arguments are: the battery never exceeds
  its maximum after a gain, the maximum never exceeds 5000, the inventory 1000; the currency setters
  accept exactly what fits their field and store it unchanged; the lucky points wrap at 2048.\<close>

theorem account_limits:
  "unat (ai_battery (p_accountInfo (snd (addBattery b p)))) \<le> unat (ai_maxBattery (p_accountInfo p))"
  "unat (ai_battery (p_accountInfo (storeBatteryObtainedInMatch p))) \<le> unat (ai_maxBattery (p_accountInfo p))"
  "unat (ai_maxBattery (p_accountInfo (snd (expandBattery p)))) \<le> max 5000 (unat (ai_maxBattery (p_accountInfo p)))"
  "unat (ai_inventorySpace (p_accountInfo (snd (expandInventory n p)))) \<le> max 1000 (unat (ai_inventorySpace (p_accountInfo p)))"
  "fst (setAccountMicroPoints mp p) = (unat mp < 2 ^ 31)"
  "fst (setAccountRockTotens rt p) = (unat rt < 2 ^ 30)"
  "fst (setAccountCoins c p) = (unat c < 2 ^ 7)"
  "unat (ai_microPoints (p_accountInfo (snd (setAccountMicroPoints mp p)))) =
     (if unat mp < 2 ^ 31 then unat mp else unat (ai_microPoints (p_accountInfo p)))"
  "unat (ai_rockTotens (p_accountInfo (snd (setAccountRockTotens rt p)))) =
     (if unat rt < 2 ^ 30 then unat rt else unat (ai_rockTotens (p_accountInfo p)))"
  "unat (ai_coins (p_accountInfo (snd (setAccountCoins c p)))) =
     (if unat c < 2 ^ 7 then unat c else unat (ai_coins (p_accountInfo p)))"
  "unat (ai_luckyPoints (p_accountInfo (setLuckyPoints l p))) = unat l mod 2048"
proof -
  note [simp] = word_less_nat_alt word_le_nat_alt min_def Let_def not_le not_less
  have b: "unat (ai_maxBattery (p_accountInfo p)) < 8192" "unat (ai_battery (p_accountInfo p)) < 16384"
    "unat (ai_inventorySpace (p_accountInfo p)) < 1024"
    using unsigned_less [of "ai_maxBattery (p_accountInfo p)", where ?'a = nat]
      unsigned_less [of "ai_battery (p_accountInfo p)", where ?'a = nat]
      unsigned_less [of "ai_inventorySpace (p_accountInfo p)", where ?'a = nat] by simp_all
  show "unat (ai_battery (p_accountInfo (snd (addBattery b p)))) \<le> unat (ai_maxBattery (p_accountInfo p))"
    using b(1) by (simp add: addBattery_def)
  show "unat (ai_battery (p_accountInfo (storeBatteryObtainedInMatch p))) \<le> unat (ai_maxBattery (p_accountInfo p))"
    using b(1) by (simp add: storeBatteryObtainedInMatch_def)
  show "unat (ai_maxBattery (p_accountInfo (snd (expandBattery p)))) \<le> max 5000 (unat (ai_maxBattery (p_accountInfo p)))"
    by (simp add: expandBattery_def unat_word_ariths)
  show "unat (ai_inventorySpace (p_accountInfo (snd (expandInventory n p)))) \<le> max 1000 (unat (ai_inventorySpace (p_accountInfo p)))"
    by (simp add: expandInventory_def max.coboundedI1)
qed (auto simp: setAccountMicroPoints_def setAccountRockTotens_def setAccountCoins_def setLuckyPoints_def
       word_less_nat_alt not_less)

end
