(* ===== verification/MainSession.thy ===== *)
theory MainSession
  imports SessionStream Player
begin

text \<open>
  What a connection of the main server adds to a session, \<open>MainServer/include/Network/MainSession.h\<close>:
  the player and the per-match fields. Session objects live in a heap; rooms hold weak pointers,
  and \<open>lock\<close> of one is a lookup, which fails for an expired session. The loops of the room over
  its members are instances of \<open>for_live\<close>.
\<close>

section \<open>Sessions of the main server\<close>

record main_fields =
  mf_player :: player
  mf_packet :: packet
  mf_eventMissions :: "(u32 \<times> u32) list"
  mf_hasBeenMatchBanned :: bool
  mf_isInvisible :: bool
  mf_totalBossBattleRespawnsLeft :: u16
  mf_matchStartTime :: u64

type_synonym main_session = "main_fields session"
type_synonym mref = nat
type_synonym mheap = "mref \<Rightarrow> main_session option"

definition getPlayer :: "main_session \<Rightarrow> player" where
  "getPlayer s = mf_player (sess_app s)"

definition getAccountInfo :: "main_session \<Rightarrow> AccountInfo" where
  "getAccountInfo s = p_accountInfo (getPlayer s)"

abbreviation uid_of :: "main_session \<Rightarrow> UniqueId" where
  "uid_of s \<equiv> ai_uniqueId (getAccountInfo s)"

abbreviation in_match :: "main_session \<Rightarrow> bool" where
  "in_match s \<equiv> player_isInMatch (getPlayer s)"

abbreviation state_of :: "main_session \<Rightarrow> u32" where
  "state_of s \<equiv> p_playerState (getPlayer s)"

text \<open>The array of a nickname read as a zero-terminated string.\<close>

definition name_of :: "main_session \<Rightarrow> bytes" where
  "name_of s = takeWhile (\<lambda>b. b \<noteq> 0) (ai_nickname (getAccountInfo s))"

definition on_player :: "(player \<Rightarrow> player) \<Rightarrow> main_session \<Rightarrow> main_session" where
  "on_player f s = s\<lparr>sess_app := sess_app s\<lparr>mf_player := f (mf_player (sess_app s))\<rparr>\<rparr>"

definition session_setIsInMatch :: "bool \<Rightarrow> main_session \<Rightarrow> main_session" where
  "session_setIsInMatch val = on_player (player_setIsInMatch val)"

definition session_setPlayerState :: "u32 \<Rightarrow> main_session \<Rightarrow> main_session" where
  "session_setPlayerState st s =
     (let s = on_player (player_setPlayerState st) s
      in if st = STATE_NORMAL then session_setIsInMatch True s
         else if st = STATE_WAITING then session_setIsInMatch False s
         else s)"

definition session_setRoomNumber :: "u16 \<Rightarrow> main_session \<Rightarrow> main_session" where
  "session_setRoomNumber n = on_player (player_setRoomNumber n)"

definition session_setClanRoomNumber :: "u16 \<Rightarrow> main_session \<Rightarrow> main_session" where
  "session_setClanRoomNumber n = on_player (setClanRoomNumber n)"

definition session_decreaseRoomNumber :: "main_session \<Rightarrow> main_session" where
  "session_decreaseRoomNumber = on_player decreaseRoomNumber"

definition session_leaveRoom :: "main_session \<Rightarrow> main_session" where
  "session_leaveRoom s = on_player player_leaveRoom (s\<lparr>sess_app := sess_app s\<lparr>mf_isInvisible := False\<rparr>\<rparr>)"

definition setMatchStartTime :: "u64 \<Rightarrow> main_session \<Rightarrow> main_session" where
  "setMatchStartTime now s = s\<lparr>sess_app := sess_app s\<lparr>mf_matchStartTime := now\<rparr>\<rparr>"

definition setBossBattleRespawns :: "u16 \<Rightarrow> main_session \<Rightarrow> main_session" where
  "setBossBattleRespawns n s = s\<lparr>sess_app := sess_app s\<lparr>mf_totalBossBattleRespawnsLeft := n\<rparr>\<rparr>"

text \<open>\<open>session->asyncWrite(packet)\<close> and the result unused.\<close>

definition send :: "crypt \<Rightarrow> packet \<Rightarrow> main_session \<Rightarrow> main_session" where
  "send c p s = snd (asyncWrite c p s)"

text \<open>
  Every session has a packet of its own, \<open>m_packet\<close>, which keeps what an earlier reply has left in it.
\<close>

definition on_packet :: "(packet \<Rightarrow> packet) \<Rightarrow> main_session \<Rightarrow> main_session" where
  "on_packet f s = s\<lparr>sess_app := sess_app s\<lparr>mf_packet := f (mf_packet (sess_app s))\<rparr>\<rparr>"

definition send_own :: "crypt \<Rightarrow> main_session \<Rightarrow> main_session" where
  "send_own c s = send c (mf_packet (sess_app s)) s"

definition respawnBossBattle :: "crypt \<Rightarrow> main_session \<Rightarrow> main_session" where
  "respawnBossBattle c s =
     (let n = mf_totalBossBattleRespawnsLeft (sess_app s)
      in if n \<noteq> 0
         then setBossBattleRespawns (n - 1) (send_own c (on_packet (\<lambda>p. setData (le_store 2 n) (setCommand 329 0 1 0 p)) s))
         else s)"

section \<open>What the operations leave alone\<close>

text \<open>Only these parts of a session matter to a room.\<close>

lemma on_player_simps [simp]:
  "m_id (on_player f s) = m_id s" "getPlayer (on_player f s) = f (getPlayer s)"
  "m_isOpen (on_player f s) = m_isOpen s" "m_written (on_player f s) = m_written s"
  "mf_isInvisible (sess_app (on_player f s)) = mf_isInvisible (sess_app s)"
  by (simp_all add: on_player_def getPlayer_def)

lemma send_simps [simp]:
  "m_id (send c p s) = m_id s" "sess_app (send c p s) = sess_app s"
  "getPlayer (send c p s) = getPlayer s" "getAccountInfo (send c p s) = getAccountInfo s"
  "m_isOpen (send c p s) = m_isOpen s"
  by (simp_all add: send_def asyncWrite_def getPlayer_def getAccountInfo_def)

lemma on_packet_simps [simp]:
  "m_id (on_packet f s) = m_id s" "getPlayer (on_packet f s) = getPlayer s"
  "getAccountInfo (on_packet f s) = getAccountInfo s" "m_isOpen (on_packet f s) = m_isOpen s"
  "m_written (on_packet f s) = m_written s" "m_crypt (on_packet f s) = m_crypt s"
  by (simp_all add: on_packet_def getPlayer_def getAccountInfo_def)

lemma send_own_simps [simp]:
  "m_id (send_own c s) = m_id s" "getPlayer (send_own c s) = getPlayer s"
  "getAccountInfo (send_own c s) = getAccountInfo s" "m_isOpen (send_own c s) = m_isOpen s"
  by (simp_all add: send_own_def)

lemma sendMessage_simps [simp]:
  "m_id (sendMessage c msg e s) = m_id s" "sess_app (sendMessage c msg e s) = sess_app s"
  "getPlayer (sendMessage c msg e s) = getPlayer s" "getAccountInfo (sendMessage c msg e s) = getAccountInfo s"
  by (simp_all add: sendMessage_def asyncWrite_def getPlayer_def getAccountInfo_def Let_def)

lemma leaveRoom_simps [simp]:
  "m_id (session_leaveRoom s) = m_id s" "getAccountInfo (session_leaveRoom s) = getAccountInfo s"
  "state_of (session_leaveRoom s) = state_of s" "p_roomNumber (getPlayer (session_leaveRoom s)) = 0"
  "p_ping (getPlayer (session_leaveRoom s)) = p_ping (getPlayer s)"
  "in_match (session_leaveRoom s) = in_match s"
  by (simp_all add: session_leaveRoom_def getAccountInfo_def getPlayer_def on_player_def
      player_leaveRoom_def player_setIsInMatch_def player_setRoomNumber_def player_isInMatch_def)

lemma setIsInMatch_simps [simp]:
  "m_id (session_setIsInMatch b s) = m_id s" "getAccountInfo (session_setIsInMatch b s) = getAccountInfo s"
  "state_of (session_setIsInMatch b s) = state_of s" "in_match (session_setIsInMatch b s) = in_match s"
  "p_ping (getPlayer (session_setIsInMatch b s)) = p_ping (getPlayer s)"
  "p_roomNumber (getPlayer (session_setIsInMatch b s)) = p_roomNumber (getPlayer s)"
  by (simp_all add: session_setIsInMatch_def getAccountInfo_def player_setIsInMatch_def player_isInMatch_def)

lemma setRoomNumber_simps [simp]:
  "m_id (session_setRoomNumber n s) = m_id s" "getAccountInfo (session_setRoomNumber n s) = getAccountInfo s"
  "p_roomNumber (getPlayer (session_setRoomNumber n s)) = n" "in_match (session_setRoomNumber n s) = in_match s"
  "p_ping (getPlayer (session_setRoomNumber n s)) = p_ping (getPlayer s)"
  by (simp_all add: session_setRoomNumber_def getAccountInfo_def player_setRoomNumber_def player_isInMatch_def)

lemma setPlayerState_simps [simp]:
  "m_id (session_setPlayerState st s) = m_id s" "getAccountInfo (session_setPlayerState st s) = getAccountInfo s"
  "state_of (session_setPlayerState st s) = st"
  "p_roomNumber (getPlayer (session_setPlayerState st s)) = p_roomNumber (getPlayer s)"
  by (simp_all add: session_setPlayerState_def getAccountInfo_def player_setPlayerState_def
      session_setIsInMatch_def player_setIsInMatch_def Let_def)

section \<open>The loops over the members of a room\<close>

text \<open>
  \<open>for (auto& [info, weakSession] : members) if (auto session = weakSession.lock()) if (P) f\<close>,
  where the condition reads the entry and the session.
\<close>

definition on_live :: "('i \<Rightarrow> main_session \<Rightarrow> bool) \<Rightarrow> (main_session \<Rightarrow> main_session) \<Rightarrow> 'i \<times> mref \<Rightarrow> mheap \<Rightarrow> mheap" where
  "on_live P f = (\<lambda>(info, r) h.
     case h r of None \<Rightarrow> h | Some s \<Rightarrow> if P info s then h(r \<mapsto> f s) else h)"

definition for_live :: "('i \<Rightarrow> main_session \<Rightarrow> bool) \<Rightarrow> (main_session \<Rightarrow> main_session) \<Rightarrow> ('i \<times> mref) list \<Rightarrow> mheap \<Rightarrow> mheap" where
  "for_live P f es h = fold (on_live P f) es h"

text \<open>The members the loop acts on.\<close>

definition chosen_in :: "('i \<Rightarrow> main_session \<Rightarrow> bool) \<Rightarrow> ('i \<times> mref) list \<Rightarrow> mheap \<Rightarrow> mref \<Rightarrow> bool" where
  "chosen_in P es h r \<longleftrightarrow> (\<exists>info s. (info, r) \<in> set es \<and> h r = Some s \<and> P info s)"

lemma for_live_simps [simp]:
  "for_live P f [] h = h" "for_live P f (e # es) h = for_live P f es (on_live P f e h)"
  "for_live P f (es @ fs) h = for_live P f fs (for_live P f es h)"
  by (simp_all add: for_live_def)

lemma on_live_other: "r \<noteq> snd e \<Longrightarrow> on_live P f e h r = h r"
  by (auto simp: on_live_def split: prod.splits option.splits)

lemma for_live_other: "r \<notin> snd ` set es \<Longrightarrow> for_live P f es h r = h r"
  by (induction es arbitrary: h) (auto simp: on_live_other)

lemma on_live_self: "on_live P f (i, r) h r = map_option (\<lambda>s. if P i s then f s else s) (h r)"
  by (auto simp: on_live_def split: option.splits)

text \<open>In a room without duplicate entries every member is visited once.\<close>

lemma for_live_apply:
  assumes "distinct (map snd es)"
  shows "for_live P f es h r = (if chosen_in P es h r then map_option f (h r) else h r)"
  using assms
proof (induction es arbitrary: h)
  case Nil
  then show ?case by (simp add: chosen_in_def)
next
  case (Cons e es)
  obtain i q where e: "e = (i, q)" by fastforce
  show ?case
  proof (cases "r = q")
    case True
    have "for_live P f es h' r = h' r" for h'
      using Cons.prems True e for_live_other [of r es P f h'] by auto
    moreover have "chosen_in P (e # es) h r \<longleftrightarrow> (\<exists>s. h r = Some s \<and> P i s)"
      using Cons.prems True e by (force simp: chosen_in_def)
    ultimately show ?thesis using True e by (cases "h r") (auto simp: on_live_self)
  next
    case False
    then have "chosen_in P (e # es) h r = chosen_in P es h r" by (auto simp: chosen_in_def e)
    moreover have "chosen_in P es (on_live P f e h) r = chosen_in P es h r"
      using False by (simp add: chosen_in_def on_live_other e)
    ultimately show ?thesis using Cons False by (simp add: on_live_other e)
  qed
qed

text \<open>What the visits keep of a session is kept of all sessions.\<close>

lemma for_live_keeps:
  assumes "\<And>s. g (f s) = g s"
  shows "map_option g (for_live P f es h r) = map_option g (h r)"
proof (induction es arbitrary: h)
  case (Cons e es)
  have "map_option g (on_live P f e h r) = map_option g (h r)"
    using assms by (auto simp: on_live_def split: prod.splits option.splits)
  then show ?case using Cons by simp
qed simp

lemma for_live_dom: "(for_live P f es h r = None) = (h r = None)"
  using for_live_keeps [of "\<lambda>_. ()" f P es h r] by (cases "h r"; cases "for_live P f es h r") simp_all

end
