(* ===== verification/MainRoom.thy ===== *)
theory MainRoom
  imports MainSession RoomNumbers
begin

text \<open>
  A room of the main server, \<open>MainServer/include/Classes/Room.h\<close> and
  \<open>MainServer/src/Classes/Room.cpp\<close>: the players and the observers with weak pointers to their
  sessions, the host at index 0, broadcasts and chat, leaving and kicking, the election of a new
  host, teams, votekicks and settings. The state of an operation is the heap of sessions and the
  room. Unknown and padding fields of the packed structures, which stay 0, are left out.
\<close>

section \<open>Data\<close>

record RoomSettings =
  rs_time :: "5 word"
  rs_weaponRestriction :: "4 word"
  rs_isItemOn :: "1 word"
  rs_mode :: "5 word"
  rs_isOpen :: "1 word"
  rs_hasPassword :: "1 word"
  rs_playersPerTeam :: "4 word"
  rs_map :: "7 word"
  rs_isObserverModeOn :: "1 word"

record RoomPlayerInfo =
  rpi_uniqueId :: UniqueId
  rpi_character :: "5 word"
  rpi_team :: "3 word"
  rpi_level :: "7 word"
  rpi_playerName :: bytes
  rpi_state :: "4 word"
  rpi_ping :: "10 word"

definition RoomPlayerInfo_make ::
  "UniqueId \<Rightarrow> u32 \<Rightarrow> u32 \<Rightarrow> u32 \<Rightarrow> bytes \<Rightarrow> u32 \<Rightarrow> u32 \<Rightarrow> RoomPlayerInfo" where
  "RoomPlayerInfo_make uniqueId character team level playerName st ping =
     \<lparr>rpi_uniqueId = uniqueId, rpi_character = ucast character, rpi_team = ucast team, rpi_level = ucast level,
      rpi_playerName = playerName, rpi_state = ucast st, rpi_ping = ucast ping\<rparr>"

type_synonym entry = "RoomPlayerInfo \<times> mref"

record main_room =
  rm_number :: u16
  rm_title :: bytes
  rm_password :: bytes
  rm_hasMatchStarted :: bool
  rm_isTeamBalanceOn :: bool
  rm_specificSetting :: u8
  rm_settings :: RoomSettings
  rm_actualMap :: u32
  rm_players :: "entry list"
  rm_observerPlayers :: "entry list"
  rm_kickedPlayerAccountIds :: "(u32 \<times> bytes) list"
  rm_votekickStarters :: "u32 list"
  rm_bluePoints :: u32
  rm_redPoints :: u32
  rm_isMuted :: bool
  rm_isClanRoom :: bool
  rm_matchStartTime :: u64
  rm_packet :: packet
  rm_votekickYesses :: u32
  rm_votekickReason :: u32
  rm_votekickTargetUid :: UniqueId
  rm_votekickTargetNickname :: bytes
  rm_isAssassinMode :: bool
  rm_isCsdMode :: bool

type_synonym room_state = "mheap \<times> main_room"

definition entry_uid :: "entry \<Rightarrow> UniqueId" where
  "entry_uid e = rpi_uniqueId (fst e)"

abbreviation members :: "main_room \<Rightarrow> entry list" where
  "members R \<equiv> rm_players R @ rm_observerPlayers R"

text \<open>
  The constructor. The number comes from the generator of the kind of room, or is 0 when none is
  left; \<open>actualMap\<close> is an uninitialised member.
\<close>

definition Room_new ::
  "bytes \<Rightarrow> RoomSettings \<Rightarrow> RoomPlayerInfo \<Rightarrow> mref \<Rightarrow> bool \<Rightarrow> u32 \<Rightarrow> RoomNumberGenerator \<Rightarrow> main_room \<times> RoomNumberGenerator" where
  "Room_new title settings player session isClanRoom actualMap g =
     (let (number, g) = generate_or_zero g
      in (\<lparr>rm_number = number, rm_title = title, rm_password = [], rm_hasMatchStarted = False,
           rm_isTeamBalanceOn = False, rm_specificSetting = 0, rm_settings = settings, rm_actualMap = actualMap,
           rm_players = [(player, session)], rm_observerPlayers = [], rm_kickedPlayerAccountIds = [],
           rm_votekickStarters = [], rm_bluePoints = 0, rm_redPoints = 0, rm_isMuted = False,
           rm_isClanRoom = isClanRoom, rm_matchStartTime = 0, rm_packet = setTcpHeader 0 0 packet_new,
           rm_votekickYesses = 0, rm_votekickReason = 0, rm_votekickTargetUid = UniqueId_default,
           rm_votekickTargetNickname = [], rm_isAssassinMode = False, rm_isCsdMode = False\<rparr>, g))"

section \<open>Searches\<close>

text \<open>The predicate of \<open>findPlayer\<close>: a live session with the number.\<close>

definition live_with :: "mheap \<Rightarrow> u32 \<Rightarrow> entry \<Rightarrow> bool" where
  "live_with h sessionId e = (case h (snd e) of None \<Rightarrow> False | Some s \<Rightarrow> m_id s = unat sessionId)"

definition findPlayer :: "u32 \<Rightarrow> room_state \<Rightarrow> nat option" where
  "findPlayer sessionId = (\<lambda>(h, R). find_index (live_with h sessionId) (rm_players R))"

definition findObserverPlayer :: "u32 \<Rightarrow> room_state \<Rightarrow> nat option" where
  "findObserverPlayer sessionId = (\<lambda>(h, R). find_index (live_with h sessionId) (rm_observerPlayers R))"

definition Room_playerExists :: "u32 \<Rightarrow> room_state \<Rightarrow> bool" where
  "Room_playerExists sessionId st \<longleftrightarrow> findPlayer sessionId st \<noteq> None \<or> findObserverPlayer sessionId st \<noteq> None"

definition Room_getPlayer :: "UniqueId \<Rightarrow> room_state \<Rightarrow> mref option" where
  "Room_getPlayer uniqueId st =
     (case findPlayer (ucast (uid_session uniqueId)) st of
        None \<Rightarrow> None
      | Some i \<Rightarrow> let r = snd (rm_players (snd st) ! i) in if fst st r = None then None else Some r)"

definition Room_isHost :: "UniqueId \<Rightarrow> main_room \<Rightarrow> bool" where
  "Room_isHost uniqueId R =
     (case rm_players R of [] \<Rightarrow> False | e # _ \<Rightarrow> uid_session (entry_uid e) = uid_session uniqueId)"

definition Room_getTeamForSession :: "u32 \<Rightarrow> main_room \<Rightarrow> u32 option" where
  "Room_getTeamForSession sessionId R =
     map_option (\<lambda>i. ucast (rpi_team (fst (members R ! i))))
       (find_index (\<lambda>e. ucast (uid_session (entry_uid e)) = sessionId) (members R))"

definition Room_getAllPlayers :: "room_state \<Rightarrow> RoomPlayerInfo list" where
  "Room_getAllPlayers = (\<lambda>(h, R). map fst (filter (\<lambda>e. h (snd e) \<noteq> None) (members R)))"

definition Room_getAllPlayersWithSessions :: "room_state \<Rightarrow> entry list" where
  "Room_getAllPlayersWithSessions = (\<lambda>(h, R). filter (\<lambda>e. h (snd e) \<noteq> None) (members R))"

definition Room_getTotalPlayersInMatch :: "main_room \<Rightarrow> nat" where
  "Room_getTotalPlayersInMatch R = length (filter (\<lambda>e. ucast (rpi_state (fst e)) = STATE_NORMAL) (rm_players R))"

section \<open>Broadcasts\<close>

definition Room_broadcastToRoom :: "crypt \<Rightarrow> packet \<Rightarrow> main_room \<Rightarrow> mheap \<Rightarrow> mheap" where
  "Room_broadcastToRoom c pkt R h =
     for_live (\<lambda>_ _. True) (send c pkt) (rm_observerPlayers R) (for_live (\<lambda>_ _. True) (send c pkt) (rm_players R) h)"

definition Room_broadcastMessage :: "crypt \<Rightarrow> bytes \<Rightarrow> main_room \<Rightarrow> mheap \<Rightarrow> mheap" where
  "Room_broadcastMessage c msg R h = for_live (\<lambda>_ _. True) (sendMessage c msg 1) (members R) h"

definition Room_broadcastToRoomExceptSelf :: "crypt \<Rightarrow> packet \<Rightarrow> UniqueId \<Rightarrow> main_room \<Rightarrow> mheap \<Rightarrow> mheap" where
  "Room_broadcastToRoomExceptSelf c pkt uniqueId R h =
     (let P = (\<lambda>info _. uid_session (rpi_uniqueId info) \<noteq> uid_session uniqueId)
      in for_live P (send c pkt) (rm_observerPlayers R) (for_live P (send c pkt) (rm_players R) h))"

text \<open>The chat of a team: the players of the sender's team who are in the match as he is.\<close>

definition Room_broadcastToTeamExceptSelf :: "crypt \<Rightarrow> packet \<Rightarrow> main_session \<Rightarrow> main_room \<Rightarrow> mheap \<Rightarrow> mheap" where
  "Room_broadcastToTeamExceptSelf c pkt givenSession R h =
     (case findPlayer (ucast (uid_session (uid_of givenSession))) (h, R) of
        None \<Rightarrow> h
      | Some i \<Rightarrow>
          (case h (snd (rm_players R ! i)) of
             None \<Rightarrow> h
           | Some selfSession \<Rightarrow>
               let targetTeam = rpi_team (fst (rm_players R ! i)); inMatch = in_match selfSession
               in for_live (\<lambda>info s. uid_session (rpi_uniqueId info) \<noteq> uid_session (uid_of givenSession) \<and>
                      rpi_team info = targetTeam \<and> in_match s = inMatch) (send c pkt) (rm_players R) h))"

definition Room_broadcastToTeam :: "crypt \<Rightarrow> packet \<Rightarrow> u32 \<Rightarrow> main_room \<Rightarrow> mheap \<Rightarrow> mheap" where
  "Room_broadcastToTeam c pkt team R h =
     for_live (\<lambda>info _. ucast (rpi_team info) = team) (send c pkt) (rm_players R) h"

definition Room_broadcastToDeadTeamExceptSelf :: "crypt \<Rightarrow> packet \<Rightarrow> main_session \<Rightarrow> main_room \<Rightarrow> mheap \<Rightarrow> mheap" where
  "Room_broadcastToDeadTeamExceptSelf c pkt givenSession R h =
     (case findPlayer (ucast (uid_session (uid_of givenSession))) (h, R) of
        None \<Rightarrow> h
      | Some i \<Rightarrow>
          (case h (snd (rm_players R ! i)) of
             None \<Rightarrow> h
           | Some selfSession \<Rightarrow>
               let targetTeam = rpi_team (fst (rm_players R ! i)); inMatch = in_match selfSession
               in for_live (\<lambda>info s. uid_session (rpi_uniqueId info) \<noteq> uid_session (uid_of givenSession) \<and>
                      rpi_team info = targetTeam \<and> in_match s = inMatch \<and> state_of s = STATE_DYING)
                    (send c pkt) (rm_players R) h))"

definition is_staff :: "main_session \<Rightarrow> bool" where
  "is_staff s \<longleftrightarrow> GRADE_ES \<le> ucast (ai_playerGrade (getAccountInfo s))"

definition toMatchExceptSelfHelper :: "crypt \<Rightarrow> packet \<Rightarrow> main_session \<Rightarrow> main_room \<Rightarrow> mheap \<Rightarrow> mheap" where
  "toMatchExceptSelfHelper c pkt givenSession R h =
     (let uniqueId = uid_of givenSession;
          isSenderInPlayers = (\<exists>e \<in> set (rm_players R). entry_uid e = uniqueId);
          isSenderInObservers = (\<exists>e \<in> set (rm_observerPlayers R). entry_uid e = uniqueId);
          P = (\<lambda>info s. rpi_uniqueId info \<noteq> uniqueId \<and> in_match s)
      in if isSenderInPlayers \<or> (isSenderInObservers \<and> is_staff givenSession)
         then for_live P (send c pkt) (rm_observerPlayers R) (for_live P (send c pkt) (rm_players R) h)
         else if isSenderInObservers
         then for_live P (send c pkt) (rm_observerPlayers R) h
         else h)"

definition toMatchDeadExceptSelfHelper :: "crypt \<Rightarrow> packet \<Rightarrow> main_session \<Rightarrow> entry list \<Rightarrow> mheap \<Rightarrow> mheap" where
  "toMatchDeadExceptSelfHelper c pkt givenSession players h =
     for_live (\<lambda>info s. rpi_uniqueId info \<noteq> uid_of givenSession \<and> state_of s = STATE_DYING) (send c pkt) players h"

definition Room_broadcastToMatchExceptSelf :: "crypt \<Rightarrow> packet \<Rightarrow> main_session \<Rightarrow> u32 \<Rightarrow> main_room \<Rightarrow> mheap \<Rightarrow> mheap" where
  "Room_broadcastToMatchExceptSelf c pkt session extra R h =
     (if extra = ChatExtra_TEAM then Room_broadcastToTeamExceptSelf c pkt session R h
      else toMatchExceptSelfHelper c pkt session R h)"

definition Room_broadcastToDeadExceptSelf :: "crypt \<Rightarrow> packet \<Rightarrow> main_session \<Rightarrow> u32 \<Rightarrow> main_room \<Rightarrow> mheap \<Rightarrow> mheap" where
  "Room_broadcastToDeadExceptSelf c pkt session extra R h =
     (if extra = ChatExtra_TEAM
      then if is_staff session then Room_broadcastToTeamExceptSelf c pkt session R h
           else Room_broadcastToDeadTeamExceptSelf c pkt session R h
      else if is_staff session then Room_broadcastToMatchExceptSelf c pkt session ChatExtra_NORMAL R h
      else toMatchDeadExceptSelfHelper c pkt session (rm_players R) h)"

definition Room_broadcastOutsideMatchExceptSelf :: "crypt \<Rightarrow> packet \<Rightarrow> main_session \<Rightarrow> u32 \<Rightarrow> main_room \<Rightarrow> mheap \<Rightarrow> mheap" where
  "Room_broadcastOutsideMatchExceptSelf c pkt givenSession extra R h =
     (if extra = ChatExtra_TEAM then Room_broadcastToTeamExceptSelf c pkt givenSession R h
      else let P = (\<lambda>info s. rpi_uniqueId info \<noteq> uid_of givenSession \<and> \<not> in_match s)
           in for_live P (send c pkt) (rm_observerPlayers R) (for_live P (send c pkt) (rm_players R) h))"

definition Room_sendTo :: "crypt \<Rightarrow> UniqueId \<Rightarrow> packet \<Rightarrow> main_room \<Rightarrow> mheap \<Rightarrow> mheap" where
  "Room_sendTo c uniqueId pkt R h =
     (case findPlayer (ucast (uid_session uniqueId)) (h, R) of
        Some i \<Rightarrow> for_live (\<lambda>_ _. True) (send c pkt) [rm_players R ! i] h
      | None \<Rightarrow>
          (case findObserverPlayer (ucast (uid_session uniqueId)) (h, R) of
             Some i \<Rightarrow> for_live (\<lambda>_ _. True) (send c pkt) [rm_observerPlayers R ! i] h
           | None \<Rightarrow> h))"

section \<open>Joining\<close>

definition Room_createRoomPlayerInfo :: "main_session \<Rightarrow> u32 \<Rightarrow> RoomPlayerInfo" where
  "Room_createRoomPlayerInfo s team =
     (let a = getAccountInfo s
      in RoomPlayerInfo_make (ai_uniqueId a) (ucast (ai_latestSelectedCharacter a)) team (ucast (ai_playerLevel a))
           (ai_nickname a) STATE_WAITING (ucast (p_ping (getPlayer s))))"

definition isDuplicate :: "mheap \<Rightarrow> UniqueId \<Rightarrow> entry list \<Rightarrow> bool" where
  "isDuplicate h u es =
     list_ex (\<lambda>e. case h (snd e) of None \<Rightarrow> False | Some s \<Rightarrow> uid_session (uid_of s) = uid_session u) es"

text \<open>The session is a shared pointer, \<open>None\<close> when it is empty.\<close>

definition Room_addPlayer :: "mref option \<Rightarrow> u32 \<Rightarrow> room_state \<Rightarrow> room_state" where
  "Room_addPlayer session team = (\<lambda>(h, R).
     case session of
       None \<Rightarrow> (h, R)
     | Some r \<Rightarrow>
         (case h r of
            None \<Rightarrow> (h, R)
          | Some s \<Rightarrow>
              if isDuplicate h (uid_of s) (rm_players R) \<or> isDuplicate h (uid_of s) (rm_observerPlayers R) then (h, R)
              else (h(r \<mapsto> session_setRoomNumber (rm_number R) s),
                    R\<lparr>rm_players := rm_players R @ [(Room_createRoomPlayerInfo s team, r)]\<rparr>)))"

definition Room_addObserverPlayer :: "mref option \<Rightarrow> room_state \<Rightarrow> room_state" where
  "Room_addObserverPlayer session = (\<lambda>(h, R).
     case session of
       None \<Rightarrow> (h, R)
     | Some r \<Rightarrow>
         (case h r of
            None \<Rightarrow> (h, R)
          | Some s \<Rightarrow>
              if isDuplicate h (uid_of s) (rm_players R) \<or> isDuplicate h (uid_of s) (rm_observerPlayers R) then (h, R)
              else (h(r \<mapsto> session_setRoomNumber (rm_number R) s),
                    R\<lparr>rm_observerPlayers := rm_observerPlayers R @ [(Room_createRoomPlayerInfo s TEAM_OBSERVER, r)]\<rparr>)))"

text \<open>Character and level of a member follow the account.\<close>

definition refresh_info :: "main_session \<Rightarrow> entry \<Rightarrow> entry" where
  "refresh_info s e =
     ((fst e)\<lparr>rpi_character := ucast (ai_latestSelectedCharacter (getAccountInfo s)),
              rpi_level := ai_playerLevel (getAccountInfo s)\<rparr>, snd e)"

definition map_at :: "nat \<Rightarrow> ('a \<Rightarrow> 'a) \<Rightarrow> 'a list \<Rightarrow> 'a list" where
  "map_at i f xs = xs[i := f (xs ! i)]"

definition Room_updatePlayerInfo :: "mref option \<Rightarrow> room_state \<Rightarrow> room_state" where
  "Room_updatePlayerInfo session = (\<lambda>(h, R).
     case Option.bind session h of
       None \<Rightarrow> (h, R)
     | Some s \<Rightarrow>
         (case findPlayer (of_nat (m_id s)) (h, R) of
            Some i \<Rightarrow> (h, R\<lparr>rm_players := map_at i (refresh_info s) (rm_players R)\<rparr>)
          | None \<Rightarrow>
              (case findObserverPlayer (of_nat (m_id s)) (h, R) of
                 Some i \<Rightarrow> (h, R\<lparr>rm_observerPlayers := map_at i (refresh_info s) (rm_observerPlayers R)\<rparr>)
               | None \<Rightarrow> (h, R))))"

section \<open>Leaving\<close>

text \<open>The packet of the room keeps its payload between commands.\<close>

definition remove_step :: "crypt \<Rightarrow> u32 \<Rightarrow> entry \<Rightarrow> mheap \<times> packet \<Rightarrow> mheap \<times> packet" where
  "remove_step c extra e = (\<lambda>(h, pkt).
     case h (snd e) of
       None \<Rightarrow> (h, pkt)
     | Some s \<Rightarrow>
         let pkt = setCommand 141 0 (ucast extra) 0 pkt
         in (h(snd e \<mapsto> session_leaveRoom (send c pkt s)), pkt))"

definition Room_removeAllPlayers :: "crypt \<Rightarrow> u32 \<Rightarrow> room_state \<Rightarrow> room_state" where
  "Room_removeAllPlayers c extra = (\<lambda>(h, R).
     let (h, pkt) = fold (remove_step c extra) (rm_players R) (h, rm_packet R);
         (h, pkt) = fold (remove_step c extra) (rm_observerPlayers R) (h, pkt)
     in (h, R\<lparr>rm_packet := pkt, rm_players := [], rm_observerPlayers := []\<rparr>))"

definition remove_observer_step :: "crypt \<Rightarrow> u32 \<Rightarrow> entry \<Rightarrow> mheap \<times> packet \<times> nat \<Rightarrow> mheap \<times> packet \<times> nat" where
  "remove_observer_step c extra e = (\<lambda>(h, pkt, i).
     case h (snd e) of
       None \<Rightarrow> (h, pkt, i)
     | Some s \<Rightarrow>
         let pkt1 = setData (uid_bytes (uid_of s)) (setCommand 422 0 0 (of_nat i) pkt);
             pkt2 = setCommand 141 0 (ucast extra) 0 pkt1
         in (h(snd e \<mapsto> session_leaveRoom (send c pkt2 (send c pkt1 s))), pkt2, i + 1))"

definition Room_removeAllObserverPlayers :: "crypt \<Rightarrow> u32 \<Rightarrow> room_state \<Rightarrow> room_state" where
  "Room_removeAllObserverPlayers c extra = (\<lambda>(h, R).
     let (h, pkt, _) = fold (remove_observer_step c extra) (rm_observerPlayers R) (h, rm_packet R, 0)
     in (h, R\<lparr>rm_packet := pkt, rm_observerPlayers := []\<rparr>))"

definition Room_breakroom :: "room_state \<Rightarrow> room_state" where
  "Room_breakroom = (\<lambda>(h, R).
     (for_live (\<lambda>_ _. True) session_leaveRoom (members R) h, R\<lparr>rm_players := [], rm_observerPlayers := []\<rparr>))"

text \<open>
  The container is that of the players or that of the observers. The players are kept as the
  clients keep them: the last one takes the place of the one who leaves.
\<close>

definition container_of :: "bool \<Rightarrow> main_room \<Rightarrow> entry list" where
  "container_of obs R = (if obs then rm_observerPlayers R else rm_players R)"

definition take_out :: "nat \<Rightarrow> bool \<Rightarrow> main_room \<Rightarrow> main_room" where
  "take_out i obs R =
     (if obs then R\<lparr>rm_observerPlayers := erase_at i (rm_observerPlayers R)\<rparr>
      else R\<lparr>rm_players := butlast (swap_at (length (rm_players R) - 1) i (rm_players R))\<rparr>)"

definition leave_packet :: "u32 \<Rightarrow> main_session \<Rightarrow> packet" where
  "leave_packet extra s = packet_setExtra (ucast extra) (packet_setOrder 141 (setTcpHeader (of_nat (m_id s)) 0 packet_new))"

definition Room_playerRoomLeaveNotification ::
  "crypt \<Rightarrow> UniqueId \<Rightarrow> nat \<Rightarrow> bool \<Rightarrow> u32 \<Rightarrow> room_state \<Rightarrow> room_state" where
  "Room_playerRoomLeaveNotification c uniqueId targetPlayerIdx obs extra = (\<lambda>(h, R).
     if targetPlayerIdx \<ge> length (container_of obs R)
     then Room_removeAllPlayers c 1
            (for_live (\<lambda>_ _. True)
               (sendMessage c (ascii ''[Room::playerRoomLeaveNotification] some weird logic error happened, the room is closed'') 1)
               (members R) h, R)
     else let pkt = setData (uid_bytes uniqueId) (setCommand 422 0 0 (of_nat targetPlayerIdx) (rm_packet R));
              h = Room_broadcastToRoomExceptSelf c pkt uniqueId R h;
              h = for_live (\<lambda>_ _. True) (\<lambda>s. send c (leave_packet extra s) (session_leaveRoom s))
                    [container_of obs R ! targetPlayerIdx] h
          in (h, take_out targetPlayerIdx obs (R\<lparr>rm_packet := pkt\<rparr>)))"

section \<open>The host\<close>

text \<open>
  One turn of the search for the best ping; \<open>continue\<close> for an expired session leaves the index
  behind.
\<close>

definition best_step :: "mheap \<Rightarrow> u64 \<Rightarrow> bool \<Rightarrow> entry \<Rightarrow> u32 \<times> u32 \<times> u32 \<times> bool \<Rightarrow> u32 \<times> u32 \<times> u32 \<times> bool" where
  "best_step h selfId checkInMatch e = (\<lambda>(currentIdx, bestMs, bestMsPlayerIdx, foundBestMs).
     case h (snd e) of
       None \<Rightarrow> (currentIdx, bestMs, bestMsPlayerIdx, foundBestMs)
     | Some s \<Rightarrow>
         if unat selfId \<noteq> m_id s \<and> in_match s = checkInMatch \<and> ucast (p_ping (getPlayer s)) < bestMs
         then (currentIdx + 1, ucast (p_ping (getPlayer s)), currentIdx, True)
         else (currentIdx + 1, bestMs, bestMsPlayerIdx, foundBestMs))"

definition getBestMsIndexExceptSelf :: "u64 \<Rightarrow> bool \<Rightarrow> room_state \<Rightarrow> u32" where
  "getBestMsIndexExceptSelf selfId checkInMatch = (\<lambda>(h, R).
     if length (rm_players R) \<le> 1 then -1
     else case fold (best_step h selfId checkInMatch) (rm_players R) (0, -1, -1, False) of
            (_, _, bestMsPlayerIdx, foundBestMs) \<Rightarrow> if foundBestMs then bestMsPlayerIdx else -1)"

definition Room_changeHost :: "nat \<Rightarrow> main_room \<Rightarrow> bool \<times> main_room" where
  "Room_changeHost newHostIdx R =
     (if newHostIdx \<ge> length (rm_players R) \<or> rm_players R = [] then (False, R)
      else (True, R\<lparr>rm_players := swap_at 0 newHostIdx (rm_players R)\<rparr>))"

definition sendHostChangePacket :: "crypt \<Rightarrow> u32 \<Rightarrow> u32 \<Rightarrow> room_state \<Rightarrow> room_state" where
  "sendHostChangePacket c playerIdx result = (\<lambda>(h, R).
     if unat playerIdx < length (rm_players R)
     then (case h (snd (rm_players R ! unat playerIdx)) of
             None \<Rightarrow> (h, R)
           | Some s \<Rightarrow>
               let hostChange = packet_setExtra (ucast result) (packet_setOption (ucast playerIdx)
                     (packet_setOrder 128 (setTcpHeader (of_nat (m_id s)) 0 packet_new)))
               in (Room_broadcastToRoom c hostChange R h, R))
     else (h, R))"

definition removePlayerFromRoomAndMatch :: "crypt \<Rightarrow> u32 \<Rightarrow> UniqueId \<Rightarrow> u32 \<Rightarrow> room_state \<Rightarrow> room_state" where
  "removePlayerFromRoomAndMatch c playerIdx originalHostUniqueId extra = (\<lambda>(h, R).
     let h = (if unat playerIdx < length (rm_players R)
              then case h (snd (rm_players R ! unat playerIdx)) of
                     None \<Rightarrow> h
                   | Some s \<Rightarrow>
                       let request = setData (uid_bytes originalHostUniqueId)
                             (packet_setOrder 256 (setTcpHeader (of_nat (m_id s)) 0 packet_new))
                       in Room_broadcastToRoomExceptSelf c request originalHostUniqueId R h
              else h)
     in Room_playerRoomLeaveNotification c originalHostUniqueId (unat playerIdx) False extra (h, R))"

text \<open>The results say whether the room must be closed.\<close>

definition hand_over :: "crypt \<Rightarrow> u32 \<Rightarrow> UniqueId \<Rightarrow> u32 \<Rightarrow> (main_room \<Rightarrow> main_room) \<Rightarrow> room_state \<Rightarrow> bool \<times> room_state" where
  "hand_over c newHost originalHostUniqueId extra finish = (\<lambda>(h, R).
     case Room_changeHost (unat newHost) R of
       (False, R) \<Rightarrow> (True, sendHostChangePacket c 0 CHANGE_HOST_FAIL (h, R))
     | (True, R) \<Rightarrow>
         let st = sendHostChangePacket c newHost CHANGE_HOST_SUCCESS (h, R);
             (h, R) = removePlayerFromRoomAndMatch c newHost originalHostUniqueId extra st
         in (False, h, finish R))"

definition Room_removeHostFromMatch :: "crypt \<Rightarrow> u32 \<Rightarrow> room_state \<Rightarrow> bool \<times> room_state" where
  "Room_removeHostFromMatch c leaveTypeExtra = (\<lambda>(h, R).
     case rm_players R of
       [] \<Rightarrow> (False, h, R)
     | host # _ \<Rightarrow>
         (case h (snd host) of
            None \<Rightarrow> (False, h, R)
          | Some hostSession \<Rightarrow>
              let originalHostUniqueId = uid_of hostSession;
                  originalHostSessionId = of_nat (m_id hostSession);
                  h = h(snd host \<mapsto> session_setIsInMatch False hostSession);
                  totalPlayersInMatch = length (filter (\<lambda>e. case h (snd e) of None \<Rightarrow> False | Some s \<Rightarrow> in_match s) (rm_players R));
                  totalPlayersInRoom = length (rm_players R)
              in if totalPlayersInMatch \<ge> 1
                 then hand_over c (getBestMsIndexExceptSelf originalHostSessionId True (h, R)) originalHostUniqueId
                        leaveTypeExtra id (h, R)
                 else if totalPlayersInRoom > 1
                 then hand_over c (getBestMsIndexExceptSelf originalHostSessionId False (h, R)) originalHostUniqueId
                        leaveTypeExtra (\<lambda>R. R\<lparr>rm_hasMatchStarted := False\<rparr>) (h, R)
                 else (True, h, R)))"

definition host_change_packet :: "main_session \<Rightarrow> u32 \<Rightarrow> u32 \<Rightarrow> packet" where
  "host_change_packet s result newHost =
     setCommand 128 0 (ucast result) (ucast newHost) (setTcpHeader (of_nat (m_id s)) 0 packet_new)"

text \<open>The last part of leaving: the entry of the player is looked up again after a change of host.\<close>

definition leave_found :: "crypt \<Rightarrow> nat \<Rightarrow> u32 \<Rightarrow> room_state \<Rightarrow> bool \<times> room_state" where
  "leave_found c i extra = (\<lambda>(h, R).
     let st = (case h (snd (rm_players R ! i)) of
                 None \<Rightarrow> (h, R)
               | Some s \<Rightarrow> Room_playerRoomLeaveNotification c (uid_of s) i False extra (h, R))
     in (rm_players (snd st) = [], st))"

definition Room_removePlayer :: "crypt \<Rightarrow> main_session \<Rightarrow> u32 \<Rightarrow> room_state \<Rightarrow> bool \<times> room_state" where
  "Room_removePlayer c session extra = (\<lambda>(h, R).
     if rm_players R = [] then (False, h, R)
     else case findPlayer (of_nat (m_id session)) (h, R) of
       Some i \<Rightarrow>
         (case h (snd (rm_players R ! i)) of
            None \<Rightarrow> (rm_players R = [], h, R)
          | Some playerSession \<Rightarrow>
              if Room_isHost (uid_of playerSession) R
              then let best = getBestMsIndexExceptSelf (of_nat (m_id playerSession)) False (h, R)
                   in case Room_changeHost (unat best) R of
                        (True, R) \<Rightarrow>
                          let h = Room_broadcastToRoom c (host_change_packet playerSession CHANGE_HOST_SUCCESS best) R h
                          in (case findPlayer (of_nat (m_id session)) (h, R) of
                                None \<Rightarrow> (rm_players R = [], h, R)
                              | Some i \<Rightarrow> leave_found c i extra (h, R))
                      | (False, R) \<Rightarrow>
                          if length (rm_players R) > 1
                          then (True, Room_broadcastToRoom c (host_change_packet playerSession CHANGE_HOST_FAIL 0) R h, R)
                          else leave_found c i extra (h, R)
              else leave_found c i extra (h, R))
     | None \<Rightarrow>
         (case findObserverPlayer (of_nat (m_id session)) (h, R) of
            None \<Rightarrow> (False, h, R)
          | Some i \<Rightarrow>
              (case h (snd (rm_observerPlayers R ! i)) of
                 None \<Rightarrow> (False, h, R)
               | Some s \<Rightarrow> (False, Room_playerRoomLeaveNotification c (uid_of s) i True extra (h, R)))))"

definition Room_kickPlayerImpl :: "crypt \<Rightarrow> main_session \<Rightarrow> u32 \<Rightarrow> room_state \<Rightarrow> bool \<times> room_state" where
  "Room_kickPlayerImpl c session extra st =
     (if in_match session \<and> Room_isHost (uid_of session) (snd st) then Room_removeHostFromMatch c extra st
      else Room_removePlayer c session extra st)"

text \<open>The first live member the predicate holds of.\<close>

definition first_live :: "(main_session \<Rightarrow> bool) \<Rightarrow> entry list \<Rightarrow> mheap \<Rightarrow> main_session option" where
  "first_live P es h =
     Option.bind (find_index (\<lambda>e. case h (snd e) of None \<Rightarrow> False | Some s \<Rightarrow> P s) es) (\<lambda>i. h (snd (es ! i)))"

definition kick_session :: "crypt \<Rightarrow> u32 \<Rightarrow> main_session option \<Rightarrow> room_state \<Rightarrow> bool \<times> room_state" where
  "kick_session c extra target = (\<lambda>(h, R).
     case target of
       None \<Rightarrow> (False, h, R)
     | Some s \<Rightarrow>
         if is_staff s then (False, h, R)
         else let R = R\<lparr>rm_kickedPlayerAccountIds :=
                    rm_kickedPlayerAccountIds R @ [(ai_accountID (getAccountInfo s), name_of s)]\<rparr>
              in (True, snd (Room_kickPlayerImpl c s extra (h, R))))"

definition Room_kickPlayer :: "crypt \<Rightarrow> bytes \<Rightarrow> room_state \<Rightarrow> bool \<times> room_state" where
  "Room_kickPlayer c name st =
     kick_session c 0x23 (first_live (\<lambda>s. name_of s = name) (members (snd st)) (fst st)) st"

definition Room_votekickPlayer :: "crypt \<Rightarrow> UniqueId \<Rightarrow> room_state \<Rightarrow> bool \<times> room_state" where
  "Room_votekickPlayer c uniqueId st =
     kick_session c 39 (first_live (\<lambda>s. uid_of s = uniqueId) (rm_players (snd st)) (fst st)) st"

definition Room_changeHostByNickname :: "crypt \<Rightarrow> bytes \<Rightarrow> room_state \<Rightarrow> bool \<times> room_state" where
  "Room_changeHostByNickname c nickname = (\<lambda>(h, R).
     let playerIndex = (case find_index (\<lambda>e. case h (snd e) of None \<Rightarrow> False | Some s \<Rightarrow> name_of s = nickname) (rm_players R) of
                          None \<Rightarrow> length (rm_players R)
                        | Some i \<Rightarrow> i)
     in if playerIndex = 0 then (False, h, R)
        else case Room_changeHost playerIndex R of
               (False, R) \<Rightarrow> (False, h, R)
             | (True, R) \<Rightarrow> (True, sendHostChangePacket c (of_nat playerIndex) CHANGE_HOST_SUCCESS (h, R)))"

end
