(* ===== verification/MainRoomMatch.thy ===== *)
theory MainRoomMatch
  imports MainRoom
begin

text \<open>
  The match, the teams, the votekicks and the settings of a room of the main server
  (\<open>MainServer/src/Classes/Room.cpp\<close>). What the code draws at random - a shuffle, an index, a
  map - and the clock are arguments.
\<close>

section \<open>States and the match\<close>

definition set_state_at :: "u32 \<Rightarrow> entry \<Rightarrow> entry" where
  "set_state_at st e = ((fst e)\<lparr>rpi_state := ucast st\<rparr>, snd e)"

definition Room_setStateFor :: "UniqueId \<Rightarrow> u32 \<Rightarrow> room_state \<Rightarrow> room_state" where
  "Room_setStateFor uniqueId playerState = (\<lambda>(h, R).
     case findPlayer (ucast (uid_session uniqueId)) (h, R) of
       Some i \<Rightarrow>
         (for_live (\<lambda>_ _. True) (session_setPlayerState playerState) [rm_players R ! i] h,
          R\<lparr>rm_players := map_at i (set_state_at playerState) (rm_players R)\<rparr>)
     | None \<Rightarrow>
         (case findObserverPlayer (ucast (uid_session uniqueId)) (h, R) of
            Some i \<Rightarrow>
              (for_live (\<lambda>_ _. True) (session_setPlayerState playerState) [rm_observerPlayers R ! i] h,
               R\<lparr>rm_observerPlayers := map_at i (set_state_at playerState) (rm_observerPlayers R)\<rparr>)
          | None \<Rightarrow> (h, R)))"

text \<open>The overload for an entry, which does nothing for an expired session.\<close>

definition set_entry_state :: "u32 \<Rightarrow> mheap \<Rightarrow> entry \<Rightarrow> mheap \<times> entry" where
  "set_entry_state st h e =
     (case h (snd e) of None \<Rightarrow> (h, e)
      | Some s \<Rightarrow> (h(snd e \<mapsto> session_setPlayerState st s), set_state_at st e))"

definition end_match_entry :: "mheap \<Rightarrow> entry \<Rightarrow> mheap \<times> entry" where
  "end_match_entry h e =
     (case h (snd e) of
        None \<Rightarrow> (h, e)
      | Some s \<Rightarrow>
          if state_of s \<in> {STATE_INVENTORY, STATE_LOBBY, STATE_SHOP, STATE_CAPSULE, STATE_WAITING} then (h, e)
          else set_entry_state STATE_WAITING h e)"

text \<open>A loop that rewrites the entries it passes.\<close>

fun rewrite_entries :: "(mheap \<Rightarrow> entry \<Rightarrow> mheap \<times> entry) \<Rightarrow> entry list \<Rightarrow> mheap \<Rightarrow> mheap \<times> entry list" where
  "rewrite_entries f [] h = (h, [])"
| "rewrite_entries f (e # es) h =
     (let (h, e) = f h e; (h, es) = rewrite_entries f es h in (h, e # es))"

definition Room_resetVotekick :: "main_room \<Rightarrow> main_room" where
  "Room_resetVotekick R =
     R\<lparr>rm_hasMatchStarted := False, rm_votekickYesses := 0, rm_votekickTargetUid := UniqueId_default,
       rm_votekickReason := 0, rm_votekickTargetNickname := []\<rparr>"

definition Room_endMatch :: "room_state \<Rightarrow> room_state" where
  "Room_endMatch = (\<lambda>(h, R).
     let (h, players) = rewrite_entries end_match_entry (rm_players R) h;
         (h, observers) = rewrite_entries end_match_entry (rm_observerPlayers R) h
     in (h, Room_resetVotekick (R\<lparr>rm_players := players, rm_observerPlayers := observers\<rparr>)))"

text \<open>
  The start of a match. \<open>m_players[0]\<close> is read before the test for an empty room. The result
  carries what is sent to the cast server: the members who take part.
\<close>

definition team_info :: "main_session \<Rightarrow> entry \<Rightarrow> PlayerTeamInfo" where
  "team_info s e =
     \<lparr>pti_uid = entry_uid e, pti_team = ucast (rpi_team (fst e)), pti_nickname = ai_nickname (getAccountInfo s)\<rparr>"

definition start_entry :: "nat \<Rightarrow> entry \<Rightarrow> mheap \<times> PlayerTeamInfo list \<Rightarrow> (mheap \<times> PlayerTeamInfo list) \<times> entry" where
  "start_entry hostId e = (\<lambda>(h, batch).
     if ucast (rpi_state (fst e)) = STATE_READY \<or> hostId = unat (uid_session (entry_uid e))
     then case h (snd e) of
            None \<Rightarrow> ((h, batch), e)
          | Some s \<Rightarrow>
              let h = h(snd e \<mapsto> setBossBattleRespawns 3 s);
                  (h, e') = set_entry_state STATE_NORMAL h e
              in ((h, batch @ [team_info s e]), e')
     else ((h, batch), e))"

fun start_entries :: "nat \<Rightarrow> entry list \<Rightarrow> mheap \<times> PlayerTeamInfo list \<Rightarrow> (mheap \<times> PlayerTeamInfo list) \<times> entry list" where
  "start_entries hostId [] st = (st, [])"
| "start_entries hostId (e # es) st =
     (let (st, e) = start_entry hostId e st; (st, es) = start_entries hostId es st in (st, e # es))"

definition Room_startMatch :: "u64 \<Rightarrow> room_state \<Rightarrow> mem_error + room_state \<times> PlayerTeamInfo list" where
  "Room_startMatch now = (\<lambda>(h, R).
     case rm_players R of
       [] \<Rightarrow> Inl OutOfBounds
     | host # rest \<Rightarrow>
         (case h (snd host) of
            None \<Rightarrow> Inr ((h, R), [])
          | Some hostSession \<Rightarrow>
              let R = Room_resetVotekick R\<lparr>rm_votekickStarters := []\<rparr>;
                  R = R\<lparr>rm_hasMatchStarted := True, rm_matchStartTime := now\<rparr>;
                  (h, host) = set_entry_state STATE_NORMAL h host;
                  ((h, batch), players) = start_entries (m_id hostSession) (host # rest) (h, []);
                  ((h, batch), observers) = start_entries (m_id hostSession) (rm_observerPlayers R) (h, batch)
              in Inr ((h, R\<lparr>rm_players := players, rm_observerPlayers := observers\<rparr>), batch)))"

section \<open>Votekicks\<close>

definition Room_votekickVoteYes :: "main_room \<Rightarrow> main_room" where
  "Room_votekickVoteYes R = R\<lparr>rm_votekickYesses := rm_votekickYesses R + 1\<rparr>"

definition Room_getVotekickResultDetails :: "main_room \<Rightarrow> (u32 \<times> bytes) \<times> main_room" where
  "Room_getVotekickResultDetails R =
     ((rm_votekickYesses R, rm_votekickTargetNickname R),
      R\<lparr>rm_votekickReason := 0, rm_votekickTargetUid := UniqueId_default, rm_votekickYesses := 0,
        rm_votekickTargetNickname := []\<rparr>)"

definition Room_startVotekick :: "UniqueId \<Rightarrow> bytes \<Rightarrow> u32 \<Rightarrow> u32 \<Rightarrow> main_room \<Rightarrow> bool \<times> main_room" where
  "Room_startVotekick uniqueId targetNickname reason starterAid R =
     (if starterAid \<in> set (rm_votekickStarters R) then (False, R)
      else (True, R\<lparr>rm_votekickReason := reason, rm_votekickTargetUid := uniqueId,
                    rm_votekickYesses := rm_votekickYesses R + 1, rm_votekickTargetNickname := targetNickname,
                    rm_votekickStarters := rm_votekickStarters R @ [starterAid]\<rparr>))"

definition Room_addKickedPlayer :: "u32 \<Rightarrow> bytes \<Rightarrow> main_room \<Rightarrow> main_room" where
  "Room_addKickedPlayer accountId nickname R =
     R\<lparr>rm_kickedPlayerAccountIds := rm_kickedPlayerAccountIds R @ [(accountId, nickname)]\<rparr>"

definition Room_wasPreviouslyKicked :: "u32 \<Rightarrow> main_room \<Rightarrow> bool" where
  "Room_wasPreviouslyKicked accountId R \<longleftrightarrow> list_ex (\<lambda>(a, _). a = accountId) (rm_kickedPlayerAccountIds R)"

definition Room_removeKickedPlayerByNickname :: "bytes \<Rightarrow> main_room \<Rightarrow> bool \<times> main_room" where
  "Room_removeKickedPlayerByNickname nickname R =
     (let kicked = filter (\<lambda>(_, n). n \<noteq> nickname) (rm_kickedPlayerAccountIds R)
      in (length kicked < length (rm_kickedPlayerAccountIds R), R\<lparr>rm_kickedPlayerAccountIds := kicked\<rparr>))"

definition Room_getKickedPlayerNicknames :: "main_room \<Rightarrow> bytes list" where
  "Room_getKickedPlayerNicknames R = map snd (rm_kickedPlayerAccountIds R)"

section \<open>Teams\<close>

definition getPlayersPerTeam :: "main_room \<Rightarrow> u32" where
  "getPlayersPerTeam R =
     (let n = ucast (rs_playersPerTeam (rm_settings R)) :: u32
      in if n = 1 then 2
         else if ucast (rs_mode (rm_settings R)) = SquareMode \<and> n = 0 then 1
         else n * 2)"

definition Room_isRoomFullObserverExcluded :: "main_room \<Rightarrow> bool" where
  "Room_isRoomFullObserverExcluded R \<longleftrightarrow> of_nat (length (rm_players R)) \<ge> getPlayersPerTeam R"

definition Room_isObserverFull :: "main_room \<Rightarrow> bool" where
  "Room_isObserverFull R \<longleftrightarrow> length (rm_observerPlayers R) \<ge> maxObserverPlayers"

definition Room_isModeTeamBased :: "main_room \<Rightarrow> bool" where
  "Room_isModeTeamBased R \<longleftrightarrow>
     ucast (rs_mode (rm_settings R)) \<in>
       {TeamDeathMatch, Elimination, CaptureTheBattery, ItemMatch, BombBattle, SniperMode, CloseCombat, Scrimmage,
        SuperItemMatch, Clan_BombBattle, Clan_CaptureTheBattery, Clan_Elimination, Clan_TeamDeathMatch}"

definition set_team :: "u32 \<Rightarrow> entry \<Rightarrow> entry" where
  "set_team t e = ((fst e)\<lparr>rpi_team := ucast t\<rparr>, snd e)"

definition team_of :: "entry \<Rightarrow> u32" where
  "team_of e = ucast (rpi_team (fst e))"

definition in_team :: "u32 \<Rightarrow> main_room \<Rightarrow> nat" where
  "in_team t R = length (filter (\<lambda>e. team_of e = t) (rm_players R))"

definition Room_calculateNewPlayerTeam :: "main_room \<Rightarrow> u32" where
  "Room_calculateNewPlayerTeam R = (if in_team TEAM_RED R \<ge> in_team TEAM_BLUE R then TEAM_BLUE else TEAM_RED)"

fun alternate :: "nat \<Rightarrow> entry list \<Rightarrow> entry list" where
  "alternate i [] = []"
| "alternate i (e # es) = set_team (if i mod 2 = 0 then TEAM_BLUE else TEAM_RED) e # alternate (i + 1) es"

definition Room_updatePlayersTeamToTeamBased :: "main_room \<Rightarrow> main_room" where
  "Room_updatePlayersTeamToTeamBased R = R\<lparr>rm_players := alternate 0 (rm_players R)\<rparr>"

definition Room_updatePlayersTeamToNonTeamBased :: "main_room \<Rightarrow> main_room" where
  "Room_updatePlayersTeamToNonTeamBased R = R\<lparr>rm_players := map (set_team TEAM_ALL) (rm_players R)\<rparr>"

definition Room_changePlayerTeam :: "UniqueId \<Rightarrow> u32 \<Rightarrow> room_state \<Rightarrow> bool \<times> room_state" where
  "Room_changePlayerTeam uniqueId newTeam = (\<lambda>(h, R).
     let n = ucast (uid_session uniqueId) :: u32 in
     if ucast (rs_mode (rm_settings R)) = ZombieMode \<and> (newTeam = 1 \<or> newTeam = 2)
     then (case findPlayer n (h, R) of
             None \<Rightarrow> (False, h, R)
           | Some i \<Rightarrow>
               if h (snd (rm_players R ! i)) = None then (False, h, R)
               else (True, h, R\<lparr>rm_players := map_at i (set_team newTeam) (rm_players R)\<rparr>))
     else case findPlayer n (h, R) of
       Some i \<Rightarrow>
         (case h (snd (rm_players R ! i)) of
            None \<Rightarrow> (False, h, R)
          | Some s \<Rightarrow>
              if in_match s then (False, h, R)
              else if newTeam = TEAM_OBSERVER
              then if length (rm_observerPlayers R) \<ge> maxObserverPlayers then (False, h, R)
                   else let R = R\<lparr>rm_players := swap_at (length (rm_players R) - 1) i (rm_players R)\<rparr>
                        in (case findPlayer n (h, R) of
                              None \<Rightarrow> (False, h, R)
                            | Some j \<Rightarrow>
                                (True, h, R\<lparr>rm_observerPlayers := rm_observerPlayers R @ [set_team newTeam (rm_players R ! j)],
                                            rm_players := erase_at j (rm_players R)\<rparr>))
              else (True, h, R\<lparr>rm_players :=
                     map_at i (\<lambda>e. set_team (if team_of e = TEAM_BLUE then TEAM_RED else TEAM_BLUE) e) (rm_players R)\<rparr>))
     | None \<Rightarrow>
         (case findObserverPlayer n (h, R) of
            None \<Rightarrow> (False, h, R)
          | Some i \<Rightarrow>
              if newTeam = TEAM_ALL \<or> newTeam = TEAM_RED \<or> newTeam = TEAM_BLUE
              then (case h (snd (rm_observerPlayers R ! i)) of
                      None \<Rightarrow> (False, h, R)
                    | Some s \<Rightarrow>
                        if in_match s \<or> length (rm_players R) \<ge> unat (getPlayersPerTeam R) then (False, h, R)
                        else let team = (if Room_isModeTeamBased R then Room_calculateNewPlayerTeam R else TEAM_ALL)
                             in (True, h, R\<lparr>rm_players := rm_players R @ [set_team team (rm_observerPlayers R ! i)],
                                            rm_observerPlayers := erase_at i (rm_observerPlayers R)\<rparr>))
              else (False, h, R)))"

text \<open>\<open>shuffleBlue\<close> and \<open>shuffleRed\<close> are the two calls of \<open>std::shuffle\<close>.\<close>

definition live_in_team :: "u32 \<Rightarrow> room_state \<Rightarrow> nat list" where
  "live_in_team t = (\<lambda>(h, R). filter (\<lambda>i. h (snd (rm_players R ! i)) \<noteq> None \<and> team_of (rm_players R ! i) = t) [0..<length (rm_players R)])"

definition swap_team_step :: "crypt \<Rightarrow> nat \<times> nat \<Rightarrow> packet \<times> room_state \<Rightarrow> packet \<times> room_state" where
  "swap_team_step c = (\<lambda>(b, r) (response, h, R).
     case (h (snd (rm_players R ! b)), h (snd (rm_players R ! r))) of
       (Some session1, Some session2) \<Rightarrow>
         let response = setData (uid_bytes (uid_of session1)) response;
             h = Room_broadcastToRoom c response R h;
             response = setData (uid_bytes (uid_of session2)) response;
             h = Room_broadcastToRoom c response R h;
             teamB = team_of (rm_players R ! b); teamR = team_of (rm_players R ! r)
         in (response, h, R\<lparr>rm_players := map_at r (set_team teamB) (map_at b (set_team teamR) (rm_players R))\<rparr>)
     | _ \<Rightarrow> (response, h, R))"

definition Room_randomizeTeams :: "crypt \<Rightarrow> (nat list \<Rightarrow> nat list) \<Rightarrow> (nat list \<Rightarrow> nat list) \<Rightarrow> room_state \<Rightarrow> room_state" where
  "Room_randomizeTeams c shuffleBlue shuffleRed st =
     (let blueTeam = shuffleBlue (live_in_team TEAM_BLUE st);
          redTeam = shuffleRed (live_in_team TEAM_RED st);
          response = packet_setExtra 1 (packet_setOrder 313 (setTcpHeader 0 0 packet_new))
      in snd (fold (swap_team_step c) (zip blueTeam redTeam) (response, st)))"

section \<open>Assassins\<close>

text \<open>The branch for a ready player of the blue team evaluates \<open>blueReady\<close> and does not increase it.\<close>

definition assassin_step :: "mheap \<Rightarrow> entry \<Rightarrow> nat \<times> u32 \<times> u32 \<Rightarrow> nat \<times> u32 \<times> u32" where
  "assassin_step h e = (\<lambda>(i, redReady, blueReady).
     if team_of e \<noteq> TEAM_RED \<and> team_of e \<noteq> TEAM_BLUE then (i, redReady, blueReady)
     else if i = 0
     then (if team_of e = TEAM_RED then (i + 1, redReady + 1, blueReady) else (i + 1, redReady, blueReady + 1))
     else case h (snd e) of
            None \<Rightarrow> (i, redReady, blueReady)
          | Some s \<Rightarrow>
              if state_of s = STATE_READY \<and> team_of e = TEAM_RED then (i, redReady + 1, blueReady)
              else (i, redReady, blueReady))"

definition Room_assassinModeEnoughPlayers :: "room_state \<Rightarrow> bool" where
  "Room_assassinModeEnoughPlayers = (\<lambda>(h, R).
     case fold (assassin_step h) (rm_players R) (0, 0, 0) of
       (_, redReady, blueReady) \<Rightarrow> redReady \<ge> 4 \<and> blueReady \<ge> 4)"

text \<open>\<open>draw n\<close> is the uniform draw from \<open>0\<close> to \<open>n - 1\<close>.\<close>

definition assassin_candidates :: "u32 \<Rightarrow> bool \<Rightarrow> room_state \<Rightarrow> (UniqueId \<times> bytes) list" where
  "assassin_candidates team fromReadyPlayers = (\<lambda>(h, R).
     concat (map (\<lambda>idx. let e = rm_players R ! idx in
         if team_of e \<noteq> team then []
         else case h (snd e) of
                None \<Rightarrow> []
              | Some s \<Rightarrow>
                  if (if fromReadyPlayers then state_of s = STATE_READY \<or> idx = 0 else in_match s)
                  then [(entry_uid e, name_of s)] else [])
       [0..<length (rm_players R)]))"

definition Room_getRandomAssassinFrom :: "(nat \<Rightarrow> nat) \<Rightarrow> u32 \<Rightarrow> bool \<Rightarrow> room_state \<Rightarrow> (UniqueId \<times> bytes) option" where
  "Room_getRandomAssassinFrom draw team fromReadyPlayers st =
     (let candidates = assassin_candidates team fromReadyPlayers st
      in if candidates = [] then None else Some (candidates ! draw (length candidates)))"

section \<open>Settings\<close>

record RoomSettingsUpdateBase =
  ru_maxPlayers :: "5 word"
  ru_time :: "5 word"
  ru_weaponRestriction :: "4 word"
  ru_isItemOn :: "1 word"
  ru_isOpen :: "1 word"
  ru_map :: "6 word"
  ru_specificSetting :: "5 word"
  ru_isTeamBalanceOn :: "1 word"

abbreviation on_settings :: "(RoomSettings \<Rightarrow> RoomSettings) \<Rightarrow> main_room \<Rightarrow> main_room" where
  "on_settings f R \<equiv> R\<lparr>rm_settings := f (rm_settings R)\<rparr>"

definition Room_setPlayersPerTeam :: "u16 \<Rightarrow> main_room \<Rightarrow> main_room" where
  "Room_setPlayersPerTeam n = on_settings (\<lambda>s. s\<lparr>rs_playersPerTeam := ucast n\<rparr>)"

definition Room_setTime :: "u16 \<Rightarrow> main_room \<Rightarrow> main_room" where
  "Room_setTime t = on_settings (\<lambda>s. s\<lparr>rs_time := ucast t\<rparr>)"

definition Room_updateMap :: "u16 \<Rightarrow> main_room \<Rightarrow> main_room" where
  "Room_updateMap newMap = on_settings (\<lambda>s. s\<lparr>rs_map := ucast newMap\<rparr>)"

definition Room_updateRoomSettings :: "RoomSettingsUpdateBase \<Rightarrow> u16 \<Rightarrow> main_room \<Rightarrow> main_room" where
  "Room_updateRoomSettings u newMode R =
     (let R = on_settings (\<lambda>s. s\<lparr>rs_isItemOn := ru_isItemOn u, rs_isOpen := ru_isOpen u, rs_map := ucast (ru_map u)\<rparr>) R;
          R = Room_setPlayersPerTeam (ucast (ru_maxPlayers u) div 2) R;
          R = on_settings (\<lambda>s. s\<lparr>rs_time := ru_time u, rs_weaponRestriction := ru_weaponRestriction u\<rparr>) R
      in on_settings (\<lambda>s. s\<lparr>rs_mode := ucast newMode\<rparr>)
           (R\<lparr>rm_specificSetting := ucast (ru_specificSetting u), rm_isTeamBalanceOn := False\<rparr>))"

text \<open>The update that is sent to the clients; title and password are cut to their arrays.\<close>

definition Room_getRoomSettingsUpdate :: "main_room \<Rightarrow> RoomSettingsUpdateBase \<times> bytes \<times> bytes" where
  "Room_getRoomSettingsUpdate R =
     (let s = rm_settings R
      in (\<lparr>ru_maxPlayers = (if rs_playersPerTeam s = 1 then 1 else ucast (rs_playersPerTeam s) * 2), ru_time = rs_time s,
           ru_weaponRestriction = rs_weaponRestriction s, ru_isItemOn = rs_isItemOn s, ru_isOpen = rs_isOpen s,
           ru_map = ucast (rs_map s), ru_specificSetting = ucast (rm_specificSetting R), ru_isTeamBalanceOn = 0\<rparr>,
          take 30 (rm_title R @ replicate 30 0), take 9 (rm_password R @ replicate 9 0)))"

definition Room_updateTitle :: "bytes \<Rightarrow> main_room \<Rightarrow> main_room" where
  "Room_updateTitle newTitle R = R\<lparr>rm_title := newTitle\<rparr>"

definition Room_setPassword :: "bytes \<Rightarrow> main_room \<Rightarrow> main_room" where
  "Room_setPassword password R = R\<lparr>rm_password := password\<rparr>"

definition Room_updatePassword :: "bytes \<Rightarrow> main_room \<Rightarrow> main_room" where
  "Room_updatePassword newPassword R =
     (on_settings (\<lambda>s. s\<lparr>rs_hasPassword := (if newPassword \<noteq> [] then 1 else 0)\<rparr>) R)\<lparr>rm_password := newPassword\<rparr>"

definition Room_setSpecificSetting :: "u8 \<Rightarrow> main_room \<Rightarrow> main_room" where
  "Room_setSpecificSetting setting R = R\<lparr>rm_specificSetting := setting\<rparr>"

definition Room_addPoint :: "u32 \<Rightarrow> main_room \<Rightarrow> main_room" where
  "Room_addPoint team R =
     (if team = TEAM_RED then R\<lparr>rm_redPoints := rm_redPoints R + 1\<rparr> else R\<lparr>rm_bluePoints := rm_bluePoints R + 1\<rparr>)"

definition Room_setMuted :: "bool \<Rightarrow> main_room \<Rightarrow> main_room" where
  "Room_setMuted b R = R\<lparr>rm_isMuted := b\<rparr>"

definition Room_generateMapIfRandom :: "u32 \<Rightarrow> main_room \<Rightarrow> main_room" where
  "Room_generateMapIfRandom randomMap R = (if rs_map (rm_settings R) = 0 then R\<lparr>rm_actualMap := randomMap\<rparr> else R)"

definition Room_getActualMap :: "main_room \<Rightarrow> u32" where
  "Room_getActualMap R = (if rs_map (rm_settings R) = 0 then rm_actualMap R else ucast (rs_map (rm_settings R)))"

datatype RoomSimpleSetting = SETTING_ITEM | SETTING_OPEN | SETTING_TEAMBALANCE | SETTING_OBSERVER

definition Room_switchSimpleSetting :: "crypt \<Rightarrow> RoomSimpleSetting \<Rightarrow> room_state \<Rightarrow> room_state" where
  "Room_switchSimpleSetting c setting = (\<lambda>(h, R).
     case setting of
       SETTING_ITEM \<Rightarrow> (h, on_settings (\<lambda>s. s\<lparr>rs_isItemOn := NOT (rs_isItemOn s)\<rparr>) R)
     | SETTING_OPEN \<Rightarrow> (h, on_settings (\<lambda>s. s\<lparr>rs_isOpen := NOT (rs_isOpen s)\<rparr>) R)
     | SETTING_TEAMBALANCE \<Rightarrow> (h, R\<lparr>rm_isTeamBalanceOn := \<not> rm_isTeamBalanceOn R\<rparr>)
     | SETTING_OBSERVER \<Rightarrow>
         let R = on_settings (\<lambda>s. s\<lparr>rs_isObserverModeOn := NOT (rs_isObserverModeOn s)\<rparr>) R
         in if rs_isObserverModeOn (rm_settings R) = 0 then Room_removeAllObserverPlayers c 1 (h, R) else (h, R))"

definition Room_setAssassinMode :: "main_room \<Rightarrow> bool \<times> main_room" where
  "Room_setAssassinMode R = (let b = \<not> rm_isAssassinMode R in (b, R\<lparr>rm_isAssassinMode := b\<rparr>))"

definition Room_isAssassinMode :: "main_room \<Rightarrow> bool" where
  "Room_isAssassinMode R \<longleftrightarrow> rm_isAssassinMode R \<and> ucast (rs_mode (rm_settings R)) = Elimination"

definition Room_setCsdMode :: "main_room \<Rightarrow> bool \<times> main_room" where
  "Room_setCsdMode R = (let b = \<not> rm_isCsdMode R in (b, R\<lparr>rm_isCsdMode := b\<rparr>))"

end
