(* ===== verification/MainRoomInv.thy ===== *)
theory MainRoomInv
  imports MainRoomMatch
begin

text \<open>
  The invariant of a room of the main server: nobody is a member twice, every entry belongs to its
  session, and the observers are in the observers' team. Most operations only move entries around
  or drop some; \<open>shrinks\<close> says so, and such operations compose.
\<close>

section \<open>The invariant\<close>

definition person :: "main_session \<Rightarrow> nat \<times> AccountInfo" where
  "person s = (m_id s, getAccountInfo s)"

definition same_people :: "mheap \<Rightarrow> mheap \<Rightarrow> bool" where
  "same_people h h' \<longleftrightarrow> (\<forall>r. map_option person (h' r) = map_option person (h r))"

text \<open>Session numbers are unique and are those of the accounts.\<close>

definition heap_ok :: "mheap \<Rightarrow> bool" where
  "heap_ok h \<longleftrightarrow>
     (\<forall>r s. h r = Some s \<longrightarrow> m_id s = unat (uid_session (uid_of s))) \<and>
     (\<forall>r r' s s'. h r = Some s \<and> h r' = Some s' \<and> m_id s = m_id s' \<longrightarrow> r = r')"

definition ids :: "main_room \<Rightarrow> (UniqueId \<times> mref) list" where
  "ids R = map (\<lambda>e. (entry_uid e, snd e)) (members R)"

definition observers_ok :: "main_room \<Rightarrow> bool" where
  "observers_ok R \<longleftrightarrow> (\<forall>e \<in> set (rm_observerPlayers R). team_of e = TEAM_OBSERVER)"

definition room_wf :: "room_state \<Rightarrow> bool" where
  "room_wf = (\<lambda>(h, R). heap_ok h \<and> distinct (map snd (ids R)) \<and> observers_ok R \<and>
     (\<forall>(u, r) \<in> set (ids R). \<forall>s. h r = Some s \<longrightarrow> u = uid_of s))"

definition shrinks :: "room_state \<Rightarrow> room_state \<Rightarrow> bool" where
  "shrinks = (\<lambda>(h, R) (h', R'). same_people h h' \<and> mset (ids R') \<subseteq># mset (ids R) \<and>
     (observers_ok R \<longrightarrow> observers_ok R'))"

lemma same_people_refl [simp]: "same_people h h"
  by (simp add: same_people_def)

lemma same_people_trans: "same_people h h' \<Longrightarrow> same_people h' h'' \<Longrightarrow> same_people h h''"
  by (simp add: same_people_def)

lemma same_people_lookup:
  assumes "same_people h h'" "h' r = Some s'"
  obtains s where "h r = Some s" "m_id s' = m_id s" "getAccountInfo s' = getAccountInfo s"
proof -
  have "map_option person (h r) = Some (person s')"
    using assms unfolding same_people_def by (metis option.simps(9))
  then show ?thesis using that by (auto simp: person_def)
qed

lemma same_people_dom: "same_people h h' \<Longrightarrow> (h' r = None) = (h r = None)"
  unfolding same_people_def by (metis option.map_disc_iff)

lemma heap_ok_same: "same_people h h' \<Longrightarrow> heap_ok h \<Longrightarrow> heap_ok h'"
  unfolding heap_ok_def
  by (intro conjI allI impI; elim conjE) (metis same_people_lookup)+

lemma shrinks_refl [simp]: "shrinks st st"
  by (simp add: shrinks_def split: prod.split)

lemma shrinks_trans [trans]: "shrinks a b \<Longrightarrow> shrinks b c \<Longrightarrow> shrinks a c"
  by (auto simp: shrinks_def intro: same_people_trans subset_mset.order_trans split: prod.splits)

lemma distinct_mset_subset:
  assumes "distinct xs" "mset ys \<subseteq># mset xs"
  shows "distinct ys"
proof -
  obtain zs where "mset zs = mset xs - mset ys" using ex_mset by blast
  then have "mset xs = mset (ys @ zs)" using assms(2) by simp
  then show ?thesis using assms(1) mset_eq_imp_distinct_iff by fastforce
qed

lemma shrinks_wf:
  assumes "shrinks st st'" "room_wf st"
  shows "room_wf st'"
proof -
  obtain h R h' R' where st: "st = (h, R)" "st' = (h', R')" by fastforce
  have s: "same_people h h'" "mset (ids R') \<subseteq># mset (ids R)" and o: "observers_ok R'"
    using assms by (simp_all add: st shrinks_def room_wf_def)
  have w: "heap_ok h" "distinct (map snd (ids R))" "\<forall>(u, r) \<in> set (ids R). \<forall>s. h r = Some s \<longrightarrow> u = uid_of s"
    using assms(2) by (simp_all add: st room_wf_def)
  have "mset (map snd (ids R')) \<subseteq># mset (map snd (ids R))" using s(2) image_mset_subseteq_mono by fastforce
  then have "distinct (map snd (ids R'))" by (rule distinct_mset_subset [OF w(2)])
  moreover have "u = uid_of s'" if mem: "(u, r) \<in> set (ids R')" and live: "h' r = Some s'" for u r s'
  proof -
    have "(u, r) \<in> set (ids R)" using mem mset_subset_eqD [OF s(2)] by (metis set_mset_mset)
    moreover obtain s0 where "h r = Some s0" "getAccountInfo s' = getAccountInfo s0"
      using live s(1) by (elim same_people_lookup)
    ultimately show ?thesis using w(3) by auto
  qed
  ultimately show ?thesis using heap_ok_same [OF s(1) w(1)] o by (auto simp: st room_wf_def)
qed

section \<open>The operations shrink\<close>

named_theorems shrink

lemma person_simps [simp]:
  "person (send c p s) = person s" "person (sendMessage c msg e s) = person s"
  "person (session_leaveRoom s) = person s" "person (session_setIsInMatch b s) = person s"
  "person (session_setRoomNumber n s) = person s" "person (session_setPlayerState st s) = person s"
  by (simp_all add: person_def)

lemma person_respawns [simp]: "person (setBossBattleRespawns n s) = person s"
  by (simp add: person_def setBossBattleRespawns_def getAccountInfo_def getPlayer_def)

lemma same_people_for_live: "(\<And>s. person (f s) = person s) \<Longrightarrow> same_people h (for_live P f es h)"
  by (simp add: same_people_def for_live_keeps)

lemma same_people_upd: "h r = Some s \<Longrightarrow> person s' = person s \<Longrightarrow> same_people h (h(r \<mapsto> s'))"
  by (simp add: same_people_def)

lemma shrinks_heap: "same_people h h' \<Longrightarrow> shrinks (h, R) (h', R)"
  by (simp add: shrinks_def)

lemma shrinks_room:
  "mset (ids R') \<subseteq># mset (ids R) \<Longrightarrow> (observers_ok R \<Longrightarrow> observers_ok R') \<Longrightarrow> shrinks (h, R) (h, R')"
  by (simp add: shrinks_def)

text \<open>Fields other than the two lists do not matter.\<close>

lemma shrinks_fields:
  "rm_players R' = rm_players R \<Longrightarrow> rm_observerPlayers R' = rm_observerPlayers R \<Longrightarrow> shrinks (h, R) (h, R')"
  by (simp add: shrinks_def ids_def observers_ok_def)

lemma broadcast_same_people [simp]:
  "same_people h (Room_broadcastToRoom c p R h)" "same_people h (Room_broadcastMessage c msg R h)"
  "same_people h (Room_broadcastToRoomExceptSelf c p u R h)" "same_people h (Room_sendTo c u p R h)"
  unfolding Room_broadcastToRoom_def Room_broadcastMessage_def Room_broadcastToRoomExceptSelf_def Room_sendTo_def Let_def
  by (auto intro!: same_people_for_live intro: same_people_trans [OF same_people_for_live same_people_for_live]
      split: option.split simp del: for_live_simps)

lemma ids_append: "ids R = map (\<lambda>e. (entry_uid e, snd e)) (rm_players R) @ map (\<lambda>e. (entry_uid e, snd e)) (rm_observerPlayers R)"
  by (simp add: ids_def)

lemma remove_step_same: "same_people h (fst (remove_step c x e (h, pkt)))"
  by (auto simp: remove_step_def Let_def split: option.split intro!: same_people_upd)

lemma fold_remove_same: "same_people h (fst (fold (remove_step c x) es (h, pkt)))"
proof (induction es arbitrary: h pkt)
  case (Cons e es)
  obtain h1 pkt1 where 1: "remove_step c x e (h, pkt) = (h1, pkt1)" by fastforce
  then show ?case using remove_step_same [of h c x e pkt] Cons [of h1 pkt1] by (auto intro: same_people_trans)
qed simp

lemma fold_remove_observer_same: "same_people h (fst (fold (remove_observer_step c x) es (h, pkt, i)))"
proof (induction es arbitrary: h pkt i)
  case (Cons e es)
  obtain h1 pkt1 i1 where 1: "remove_observer_step c x e (h, pkt, i) = (h1, pkt1, i1)" by (metis prod_cases3)
  then have "same_people h h1"
    by (auto simp: remove_observer_step_def Let_def split: option.splits intro!: same_people_upd)
  then show ?case using 1 Cons [of h1 pkt1 i1] by (auto intro: same_people_trans)
qed simp

lemma removeAllPlayers_shrinks [shrink]: "shrinks st (Room_removeAllPlayers c x st)"
proof -
  obtain h R where st: "st = (h, R)" by fastforce
  obtain h1 p1 where 1: "fold (remove_step c x) (rm_players R) (h, rm_packet R) = (h1, p1)" by fastforce
  obtain h2 p2 where 2: "fold (remove_step c x) (rm_observerPlayers R) (h1, p1) = (h2, p2)" by fastforce
  have "same_people h h2"
    using fold_remove_same [of h c x "rm_players R" "rm_packet R"] fold_remove_same [of h1 c x "rm_observerPlayers R" p1] 1 2
    by (auto intro: same_people_trans)
  then show ?thesis by (simp add: st Room_removeAllPlayers_def 1 2 shrinks_def ids_def observers_ok_def)
qed

lemma removeAllObserverPlayers_shrinks [shrink]: "shrinks st (Room_removeAllObserverPlayers c x st)"
proof -
  obtain h R where st: "st = (h, R)" by fastforce
  obtain h1 p1 i where 1: "fold (remove_observer_step c x) (rm_observerPlayers R) (h, rm_packet R, 0) = (h1, p1, i)"
    by (metis prod_cases3)
  then have "same_people h h1" using fold_remove_observer_same [of h c x "rm_observerPlayers R" "rm_packet R" 0] by simp
  then show ?thesis by (simp add: st Room_removeAllObserverPlayers_def 1 shrinks_def ids_append observers_ok_def)
qed

lemma breakroom_shrinks [shrink]: "shrinks st (Room_breakroom st)"
  by (cases st) (simp add: Room_breakroom_def shrinks_def ids_def observers_ok_def same_people_for_live del: for_live_simps)

lemma mset_swap_pop:
  assumes "i < length xs"
  shows "mset xs = add_mset (xs ! i) (mset (butlast (swap_at (length xs - 1) i xs)))"
proof -
  let ?s = "swap_at (length xs - 1) i xs"
  have "?s \<noteq> []" using assms by (metis length_swap_at list.size(3) not_less_zero)
  moreover have "last ?s = xs ! i" using assms \<open>?s \<noteq> []\<close> by (auto simp: last_conv_nth swap_at_def nth_list_update)
  moreover have "mset (butlast ?s @ [last ?s]) = mset ?s"
    by (rule arg_cong [OF append_butlast_last_id [OF \<open>?s \<noteq> []\<close>]])
  moreover have "mset ?s = mset xs" using assms by (intro mset_swap_at) auto
  ultimately show ?thesis by simp
qed

lemma mset_take_out:
  assumes "i < length (container_of obs R)"
  shows "mset (ids R) = add_mset (entry_uid (container_of obs R ! i), snd (container_of obs R ! i)) (mset (ids (take_out i obs R)))"
  using assms mset_erase_at [of i "rm_observerPlayers R"] mset_swap_pop [of i "rm_players R"]
  by (cases obs) (simp_all add: container_of_def take_out_def ids_append)

lemma take_out_shrinks [shrink]:
  assumes "i < length (container_of obs R)"
  shows "shrinks (h, R) (h, take_out i obs R)"
proof (rule shrinks_room)
  show "mset (ids (take_out i obs R)) \<subseteq># mset (ids R)" using mset_take_out [OF assms] by simp
  show "observers_ok R \<Longrightarrow> observers_ok (take_out i obs R)"
    using set_erase_at_subset [of i "rm_observerPlayers R"] by (auto simp: observers_ok_def take_out_def)
qed

lemma notification_shrinks [shrink]: "shrinks st (Room_playerRoomLeaveNotification c u i obs x st)"
proof -
  obtain h R where st: "st = (h, R)" by fastforce
  show ?thesis
  proof (cases "i \<ge> length (container_of obs R)")
    case True
    let ?h = "for_live (\<lambda>_ _. True) (sendMessage c (ascii ''[Room::playerRoomLeaveNotification] some weird logic error happened, the room is closed'') 1) (members R) h"
    have "shrinks (h, R) (?h, R)" by (intro shrinks_heap same_people_for_live) simp
    also have "shrinks (?h, R) (Room_removeAllPlayers c 1 (?h, R))" by (rule shrink)
    finally show ?thesis using True by (simp add: st Room_playerRoomLeaveNotification_def del: for_live_simps)
  next
    case False
    let ?pkt = "setData (uid_bytes u) (setCommand 422 0 0 (of_nat i) (rm_packet R))"
    let ?h1 = "Room_broadcastToRoomExceptSelf c ?pkt u R h"
    let ?h2 = "for_live (\<lambda>_ _. True) (\<lambda>s. send c (leave_packet x s) (session_leaveRoom s)) [container_of obs R ! i] ?h1"
    let ?R = "R\<lparr>rm_packet := ?pkt\<rparr>"
    have "shrinks (h, R) (?h2, R)"
      by (rule shrinks_heap, rule same_people_trans [of h ?h1]) (simp_all add: same_people_for_live del: for_live_simps)
    also have "shrinks (?h2, R) (?h2, ?R)" by (rule shrinks_fields) simp_all
    also have "shrinks (?h2, ?R) (?h2, take_out i obs ?R)"
      by (rule shrink) (use False in \<open>simp add: container_of_def split: if_splits\<close>)
    finally show ?thesis using False by (simp add: st Room_playerRoomLeaveNotification_def Let_def del: for_live_simps)
  qed
qed

lemma mset_swap_ids:
  "i < length (rm_players R) \<Longrightarrow> j < length (rm_players R) \<Longrightarrow>
    mset (ids (R\<lparr>rm_players := swap_at i j (rm_players R)\<rparr>)) = mset (ids R)"
  by (simp add: ids_append mset_swap_at)

lemma changeHost_shrinks: "Room_changeHost n R = (b, R') \<Longrightarrow> shrinks (h, R) (h, R')"
  by (auto simp: Room_changeHost_def observers_ok_def mset_swap_ids split: if_splits intro!: shrinks_room)

lemma hostChangePacket_shrinks [shrink]: "shrinks st (sendHostChangePacket c i r st)"
  by (cases st) (auto simp: sendHostChangePacket_def Let_def split: option.split intro: shrinks_heap)

lemma removeFromMatch_shrinks [shrink]: "shrinks st (removePlayerFromRoomAndMatch c i u x st)"
proof -
  obtain h R where st: "st = (h, R)" by fastforce
  obtain h1 where 1: "removePlayerFromRoomAndMatch c i u x st = Room_playerRoomLeaveNotification c u (unat i) False x (h1, R)"
    "same_people h h1"
    unfolding st removePlayerFromRoomAndMatch_def Let_def
    by (cases "unat i < length (rm_players R)"; cases "h (snd (rm_players R ! unat i))") auto
  then have "shrinks (h, R) (h1, R)" by (simp add: shrinks_heap)
  also have "shrinks (h1, R) (removePlayerFromRoomAndMatch c i u x st)" unfolding 1 by (rule shrink)
  finally show ?thesis by (simp add: st)
qed

lemma hand_over_shrinks:
  assumes "\<And>R. rm_players (finish R) = rm_players R \<and> rm_observerPlayers (finish R) = rm_observerPlayers R"
  shows "shrinks st (snd (hand_over c i u x finish st))"
proof -
  obtain h R where st: "st = (h, R)" by fastforce
  obtain b R1 where 1: "Room_changeHost (unat i) R = (b, R1)" by fastforce
  have 2: "shrinks (h, R) (h, R1)" by (rule changeHost_shrinks [OF 1])
  show ?thesis
  proof (cases b)
    case True
    let ?st = "sendHostChangePacket c i CHANGE_HOST_SUCCESS (h, R1)"
    obtain h2 R2 where 3: "removePlayerFromRoomAndMatch c i u x ?st = (h2, R2)" by fastforce
    note 2
    also have "shrinks (h, R1) ?st" by (rule shrink)
    also have "shrinks ?st (removePlayerFromRoomAndMatch c i u x ?st)" by (rule shrink)
    also have "shrinks \<dots> (h2, finish R2)" unfolding 3 by (rule shrinks_fields) (simp_all add: assms)
    finally show ?thesis using True 1 3 by (simp add: st hand_over_def)
  next
    case False
    note 2
    also have "shrinks (h, R1) (sendHostChangePacket c 0 CHANGE_HOST_FAIL (h, R1))" by (rule shrink)
    finally show ?thesis using False 1 by (simp add: st hand_over_def)
  qed
qed

lemma removeHostFromMatch_shrinks [shrink]: "shrinks st (snd (Room_removeHostFromMatch c x st))"
proof -
  obtain h R where st: "st = (h, R)" by fastforce
  show ?thesis
  proof (cases "rm_players R")
    case Nil
    then show ?thesis by (simp add: st Room_removeHostFromMatch_def)
  next
    case (Cons e es)
    show ?thesis
    proof (cases "h (snd e)")
      case None
      then show ?thesis by (simp add: st Room_removeHostFromMatch_def Cons)
    next
      case (Some s)
      let ?h = "h(snd e \<mapsto> session_setIsInMatch False s)"
      have "shrinks (h, R) (?h, R)" by (intro shrinks_heap same_people_upd [of h "snd e" s]) (simp_all add: Some)
      then show ?thesis
        using shrinks_trans [OF _ hand_over_shrinks]
        by (simp add: st Room_removeHostFromMatch_def Cons Some Let_def split: if_split)
    qed
  qed
qed

lemma leave_found_shrinks [shrink]: "shrinks st (snd (leave_found c i x st))"
  by (cases st) (auto simp: leave_found_def Let_def split: option.split intro: shrink)

lemma removePlayer_shrinks [shrink]: "shrinks st (snd (Room_removePlayer c session x st))"
proof -
  obtain h R where st: "st = (h, R)" by fastforce
  have host: "shrinks (h, R) (snd (leave_found c i x (Room_broadcastToRoom c p R1 h, R1)))"
    if "Room_changeHost n R = (b, R1)" for i n b p R1
  proof -
    have "shrinks (h, R) (h, R1)" by (rule changeHost_shrinks [OF that])
    also have "shrinks (h, R1) (Room_broadcastToRoom c p R1 h, R1)" by (simp add: shrinks_heap)
    also note leave_found_shrinks
    finally show ?thesis .
  qed
  have fail: "R1 = R" if "Room_changeHost n R = (False, R1)" for n R1
    using that by (simp add: Room_changeHost_def split: if_splits)
  have won: "shrinks (h, R) (Room_broadcastToRoom c p R1 h, R1)" if "Room_changeHost n R = (b, R1)" for n b p R1
    using changeHost_shrinks [OF that, of h] by (rule shrinks_trans) (simp add: shrinks_heap)
  show ?thesis
  proof (cases "findPlayer (of_nat (m_id session)) (h, R)")
    case None
    then show ?thesis
      by (auto simp: st Room_removePlayer_def split: option.split intro: shrink)
  next
    case (Some i)
    show ?thesis
    proof (cases "h (snd (rm_players R ! i))")
      case None
      then show ?thesis by (simp add: st Room_removePlayer_def Some)
    next
      case p: (Some p)
      obtain b R1 where c: "Room_changeHost (unat (getBestMsIndexExceptSelf (of_nat (m_id p)) False (h, R))) R = (b, R1)"
        by fastforce
      show ?thesis
      proof (cases b)
        case True
        then show ?thesis
          using c host [OF c] won [OF c]
          by (auto simp: st Room_removePlayer_def Some p Let_def split: option.split intro: shrink)
      next
        case False
        with c fail [of _ R1] have "Room_changeHost (unat (getBestMsIndexExceptSelf (of_nat (m_id p)) False (h, R))) R = (False, R)"
          by metis
        then show ?thesis
          by (auto simp: st Room_removePlayer_def Some p Let_def shrinks_heap intro: shrink)
      qed
    qed
  qed
qed

lemma kickImpl_shrinks [shrink]: "shrinks st (snd (Room_kickPlayerImpl c s x st))"
  by (simp add: Room_kickPlayerImpl_def shrink)

lemma kick_session_shrinks: "shrinks st (snd (kick_session c x target st))"
proof -
  obtain h R where st: "st = (h, R)" by fastforce
  show ?thesis
  proof (cases target)
    case (Some s)
    let ?R = "R\<lparr>rm_kickedPlayerAccountIds := rm_kickedPlayerAccountIds R @ [(ai_accountID (getAccountInfo s), name_of s)]\<rparr>"
    have "shrinks (h, R) (h, ?R)" by (rule shrinks_fields) simp_all
    from shrinks_trans [OF this kickImpl_shrinks] show ?thesis
      by (simp add: st kick_session_def Some Let_def)
  qed (simp add: st kick_session_def)
qed

lemma kick_shrinks [shrink]:
  "shrinks st (snd (Room_kickPlayer c name st))" "shrinks st (snd (Room_votekickPlayer c u st))"
  by (simp_all add: Room_kickPlayer_def Room_votekickPlayer_def kick_session_shrinks)

lemma changeHostByNickname_shrinks [shrink]: "shrinks st (snd (Room_changeHostByNickname c n st))"
proof -
  obtain h R where st: "st = (h, R)" by fastforce
  have "shrinks (h, R) (sendHostChangePacket c j x (h, R1))" if "Room_changeHost k R = (True, R1)" for j k x R1
    using changeHost_shrinks [OF that] by (rule shrinks_trans) (rule shrink)
  moreover have "shrinks (h, R) (h, R1)" if "Room_changeHost k R = (False, R1)" for k R1
    using that by (rule changeHost_shrinks)
  ultimately show ?thesis by (auto simp: st Room_changeHostByNickname_def Let_def split: prod.split bool.split)
qed

text \<open>Rewriting an entry in place: the person and the session stay.\<close>

definition same_entry :: "entry \<Rightarrow> entry \<Rightarrow> bool" where
  "same_entry e e' \<longleftrightarrow> entry_uid e' = entry_uid e \<and> snd e' = snd e"

lemma ids_map_at:
  assumes "same_entry (xs ! i) (f (xs ! i))"
  shows "map (\<lambda>e. (entry_uid e, snd e)) (map_at i f xs) = map (\<lambda>e. (entry_uid e, snd e)) xs"
proof (cases "i < length xs")
  case True
  then show ?thesis
    using assms by (intro nth_equalityI) (auto simp: map_at_def nth_list_update same_entry_def)
qed (simp add: map_at_def list_update_beyond)

lemma same_entry_simps [simp]:
  "same_entry e (refresh_info s e)" "same_entry e (set_state_at st e)" "same_entry e (set_team t e)"
  by (simp_all add: same_entry_def refresh_info_def set_state_at_def set_team_def entry_uid_def)

lemma team_of_simps [simp]:
  "team_of (refresh_info s e) = team_of e" "team_of (set_state_at st e) = team_of e"
  by (simp_all add: team_of_def refresh_info_def set_state_at_def)

lemma findPlayer_Some: "findPlayer n (h, R) = Some i \<Longrightarrow> i < length (rm_players R)"
  by (auto simp: findPlayer_def dest: find_index_Some)

lemma findObserverPlayer_Some: "findObserverPlayer n (h, R) = Some i \<Longrightarrow> i < length (rm_observerPlayers R)"
  by (auto simp: findObserverPlayer_def dest: find_index_Some)

lemma map_at_players_shrinks:
  "(\<And>e. same_entry e (f e)) \<Longrightarrow>
    shrinks (h, R) (h, R\<lparr>rm_players := map_at i f (rm_players R)\<rparr>)"
  by (rule shrinks_room) (simp_all add: ids_append ids_map_at observers_ok_def)

lemma map_at_observers_shrinks:
  assumes "i < length (rm_observerPlayers R)" "\<And>e. same_entry e (f e) \<and> team_of (f e) = team_of e"
  shows "shrinks (h, R) (h, R\<lparr>rm_observerPlayers := map_at i f (rm_observerPlayers R)\<rparr>)"
proof (rule shrinks_room)
  show "mset (ids (R\<lparr>rm_observerPlayers := map_at i f (rm_observerPlayers R)\<rparr>)) \<subseteq># mset (ids R)"
    using ids_map_at [of "rm_observerPlayers R" i f] assms by (simp add: ids_append del: mset_map)
  have "set (map_at i f (rm_observerPlayers R)) \<subseteq> insert (f (rm_observerPlayers R ! i)) (set (rm_observerPlayers R))"
    unfolding map_at_def by (rule set_update_subset_insert)
  moreover have "team_of (f (rm_observerPlayers R ! i)) = TEAM_OBSERVER" if "observers_ok R"
    using that assms(1) by (simp add: assms(2) observers_ok_def)
  ultimately show "observers_ok (R\<lparr>rm_observerPlayers := map_at i f (rm_observerPlayers R)\<rparr>)" if "observers_ok R"
    using that by (auto simp: observers_ok_def)
qed

lemma updatePlayerInfo_shrinks [shrink]: "shrinks st (Room_updatePlayerInfo r st)"
  by (cases st)
    (auto simp: Room_updatePlayerInfo_def split: option.split
      intro!: map_at_players_shrinks map_at_observers_shrinks findObserverPlayer_Some)

lemma setStateFor_shrinks [shrink]: "shrinks st (Room_setStateFor u x st)"
proof -
  obtain h R where st: "st = (h, R)" by fastforce
  let ?h = "\<lambda>e. for_live (\<lambda>_ _. True) (session_setPlayerState x) [e] h"
  have "shrinks (h, R) (?h e, R)" for e by (intro shrinks_heap same_people_for_live) simp
  note 1 = shrinks_trans [OF this]
  show ?thesis
    by (auto simp: st Room_setStateFor_def simp del: for_live_simps split: option.split
        intro!: 1 map_at_players_shrinks map_at_observers_shrinks findObserverPlayer_Some)
qed

text \<open>The loops that rewrite every entry in place.\<close>

definition same_row :: "entry \<Rightarrow> entry \<Rightarrow> bool" where
  "same_row e e' \<longleftrightarrow> same_entry e e' \<and> team_of e' = team_of e"

lemma same_row_ids:
  "list_all2 same_row xs ys \<Longrightarrow> map (\<lambda>e. (entry_uid e, snd e)) ys = map (\<lambda>e. (entry_uid e, snd e)) xs"
  by (induction rule: list_all2_induct) (auto simp: same_row_def same_entry_def)

lemma same_row_team: "list_all2 same_row xs ys \<Longrightarrow> map team_of ys = map team_of xs"
  by (induction rule: list_all2_induct) (auto simp: same_row_def)

lemma rows_shrink:
  assumes "list_all2 same_row (rm_players R) ps" "list_all2 same_row (rm_observerPlayers R) os"
    and "same_people h h'" "rm_players R' = ps" "rm_observerPlayers R' = os"
  shows "shrinks (h, R) (h', R')"
proof -
  have "set (map team_of os) = set (map team_of (rm_observerPlayers R))" by (simp only: same_row_team [OF assms(2)])
  then have "team_of ` set os = team_of ` set (rm_observerPlayers R)" by simp
  then have "observers_ok R'" if "observers_ok R"
    using that assms(5) unfolding observers_ok_def by (metis (mono_tags) imageE imageI)
  moreover have "ids R' = ids R" unfolding ids_append assms(4,5) same_row_ids [OF assms(1)] same_row_ids [OF assms(2)] ..
  ultimately show ?thesis using assms(3) by (simp add: shrinks_def)
qed

lemma rewrite_entries_same:
  assumes "\<And>h e. same_people h (fst (f h e)) \<and> same_row e (snd (f h e))"
  shows "same_people h (fst (rewrite_entries f es h)) \<and> list_all2 same_row es (snd (rewrite_entries f es h))"
proof (induction es arbitrary: h)
  case (Cons e es)
  obtain h1 e1 where 1: "f h e = (h1, e1)" by (metis surj_pair)
  obtain h2 es2 where 2: "rewrite_entries f es h1 = (h2, es2)" by (metis surj_pair)
  show ?case using assms [of h e] Cons [of h1] by (auto simp: 1 2 intro: same_people_trans)
qed simp

lemma set_entry_state_same: "same_people h (fst (set_entry_state st h e)) \<and> same_row e (snd (set_entry_state st h e))"
  by (auto simp: set_entry_state_def same_row_def same_entry_def split: option.split intro!: same_people_upd)
    (auto simp: set_state_at_def entry_uid_def)

lemma end_match_entry_same: "same_people h (fst (end_match_entry h e)) \<and> same_row e (snd (end_match_entry h e))"
  using set_entry_state_same [of h STATE_WAITING e]
  by (auto simp: end_match_entry_def same_row_def same_entry_def split: option.split)

lemma endMatch_shrinks [shrink]: "shrinks st (Room_endMatch st)"
proof -
  obtain h R where st: "st = (h, R)" by fastforce
  obtain h1 ps where 1: "rewrite_entries end_match_entry (rm_players R) h = (h1, ps)" by (metis surj_pair)
  obtain h2 os where 2: "rewrite_entries end_match_entry (rm_observerPlayers R) h1 = (h2, os)" by (metis surj_pair)
  note r = rewrite_entries_same [OF end_match_entry_same]
  show ?thesis
    using r [of h "rm_players R"] r [of h1 "rm_observerPlayers R"]
    by (auto simp: st Room_endMatch_def 1 2 Room_resetVotekick_def intro!: rows_shrink [of R ps os] intro: same_people_trans)
qed

lemma start_entry_same:
  "same_people h (fst (fst (start_entry i e (h, b)))) \<and> same_row e (snd (start_entry i e (h, b)))"
proof (cases "h (snd e)")
  case (Some s)
  have "same_people h (h(snd e \<mapsto> setBossBattleRespawns 3 s))"
    by (rule same_people_upd [of h "snd e" s]) (simp_all add: Some)
  then show ?thesis
    using set_entry_state_same [of "h(snd e \<mapsto> setBossBattleRespawns 3 s)" STATE_NORMAL e]
    by (auto simp: start_entry_def Some Let_def same_row_def same_entry_def split: prod.split intro: same_people_trans)
qed (simp add: start_entry_def same_row_def same_entry_def)

lemma start_entries_same:
  "same_people h (fst (fst (start_entries i es (h, b)))) \<and> list_all2 same_row es (snd (start_entries i es (h, b)))"
proof (induction es arbitrary: h b)
  case (Cons e es)
  obtain h1 b1 e1 where 1: "start_entry i e (h, b) = ((h1, b1), e1)" by (metis surj_pair)
  obtain h2 b2 es2 where 2: "start_entries i es (h1, b1) = ((h2, b2), es2)" by (metis surj_pair)
  show ?case using start_entry_same [of h i e b] Cons [of h1 b1] by (auto simp: 1 2 intro: same_people_trans)
qed simp

lemma same_row_trans: "same_row a b \<Longrightarrow> same_row b c \<Longrightarrow> same_row a c"
  by (simp add: same_row_def same_entry_def)

lemma startMatch_shrinks:
  assumes "Room_startMatch now st = Inr (st', batch)"
  shows "shrinks st st'"
proof -
  obtain h R where st: "st = (h, R)" by fastforce
  obtain e es where p: "rm_players R = e # es"
    using assms by (cases "rm_players R") (auto simp: st Room_startMatch_def)
  show ?thesis
  proof (cases "h (snd e)")
    case None
    then show ?thesis using assms by (simp add: st p Room_startMatch_def)
  next
    case (Some s)
    obtain h1 e1 where 1: "set_entry_state STATE_NORMAL h e = (h1, e1)" by (metis surj_pair)
    obtain h2 b2 ps where 2: "start_entries (m_id s) (e1 # es) (h1, []) = ((h2, b2), ps)" by (metis surj_pair)
    obtain h3 b3 os where 3: "start_entries (m_id s) (rm_observerPlayers R) (h2, b2) = ((h3, b3), os)" by (metis surj_pair)
    have s1: "same_people h h1" "same_row e e1" using set_entry_state_same [of h STATE_NORMAL e] 1 by simp_all
    have s2: "same_people h1 h2" "list_all2 same_row (e1 # es) ps" using start_entries_same [of h1 "m_id s" "e1 # es" "[]"] 2 by simp_all
    have s3: "same_people h2 h3" "list_all2 same_row (rm_observerPlayers R) os"
      using start_entries_same [of h2 "m_id s" "rm_observerPlayers R" b2] 3 by simp_all
    have "list_all2 same_row (rm_players R) ps"
      using s2(2) same_row_trans [OF s1(2)] unfolding p list_all2_Cons1 by blast
    moreover have "same_people h h3" using s1(1) s2(1) s3(1) by (blast intro: same_people_trans)
    moreover have "st' = (h3, snd st')" "rm_players (snd st') = ps" "rm_observerPlayers (snd st') = os"
      using assms 2 3 by (auto simp: st p Some 1 Room_startMatch_def Let_def Room_resetVotekick_def simp del: start_entries.simps)
    ultimately show ?thesis using rows_shrink [OF _ s3(2)] st by metis
  qed
qed

lemma list_all2_mapI: "(\<And>x. P x (f x)) \<Longrightarrow> list_all2 P xs (map f xs)"
  by (induction xs) auto

lemma alternate_ids: "map (\<lambda>e. (entry_uid e, snd e)) (alternate i es) = map (\<lambda>e. (entry_uid e, snd e)) es"
  by (induction es arbitrary: i) (simp_all add: set_team_def entry_uid_def)

lemma teamBased_shrinks [shrink]:
  "shrinks (h, R) (h, Room_updatePlayersTeamToTeamBased R)"
  "shrinks (h, R) (h, Room_updatePlayersTeamToNonTeamBased R)"
proof -
  have "ids (Room_updatePlayersTeamToTeamBased R) = ids R"
    by (simp only: ids_append Room_updatePlayersTeamToTeamBased_def) (simp add: alternate_ids)
  moreover have "ids (Room_updatePlayersTeamToNonTeamBased R) = ids R"
    by (simp add: ids_append Room_updatePlayersTeamToNonTeamBased_def set_team_def entry_uid_def)
  ultimately show "shrinks (h, R) (h, Room_updatePlayersTeamToTeamBased R)"
    "shrinks (h, R) (h, Room_updatePlayersTeamToNonTeamBased R)"
    by (simp_all add: shrinks_def observers_ok_def Room_updatePlayersTeamToTeamBased_def Room_updatePlayersTeamToNonTeamBased_def)
qed

lemma team_of_set_team: "team_of (set_team t e) = ucast (ucast t :: 3 word)"
  by (simp add: team_of_def set_team_def)

lemma set_team_ids [simp]: "entry_uid (set_team t e) = entry_uid e" "snd (set_team t e) = snd e"
  by (simp_all add: set_team_def entry_uid_def)

lemma team_of_set_teams [simp]:
  "team_of (set_team TEAM_ALL e) = TEAM_ALL" "team_of (set_team TEAM_RED e) = TEAM_RED"
  "team_of (set_team TEAM_BLUE e) = TEAM_BLUE" "team_of (set_team TEAM_OBSERVER e) = TEAM_OBSERVER"
  by (simp_all add: team_of_set_team TEAM_ALL_def TEAM_RED_def TEAM_BLUE_def TEAM_OBSERVER_def)

lemma changePlayerTeam_shrinks [shrink]: "shrinks st (snd (Room_changePlayerTeam u t st))"
proof -
  obtain h R where st: "st = (h, R)" by fastforce
  let ?n = "ucast (uid_session u) :: u32"
  have zombie: "shrinks (h, R) (h, R\<lparr>rm_players := map_at i f (rm_players R)\<rparr>)"
    if "findPlayer ?n (h, R) = Some i" "\<And>e. same_entry e (f e)" for i f
    using that(2) by (rule map_at_players_shrinks)
  have swapped: "shrinks (h, R) (h, R\<lparr>rm_players := swap_at (length (rm_players R) - 1) i (rm_players R)\<rparr>)"
    if "findPlayer ?n (h, R) = Some i" for i
    using findPlayer_Some [OF that] by (intro shrinks_room) (simp_all add: mset_swap_ids observers_ok_def)
  have moved: "shrinks (h, R) (h, R1\<lparr>rm_observerPlayers := rm_observerPlayers R1 @ [set_team t (rm_players R1 ! j)],
      rm_players := erase_at j (rm_players R1)\<rparr>)"
    if "findPlayer ?n (h, R) = Some i" "R1 = R\<lparr>rm_players := swap_at (length (rm_players R) - 1) i (rm_players R)\<rparr>"
      "findPlayer ?n (h, R1) = Some j" "t = TEAM_OBSERVER" for i j R1
  proof -
    have j: "j < length (rm_players R1)" using findPlayer_Some that(3) by blast
    have "shrinks (h, R) (h, R1)" unfolding that(2) using that(1) by (rule swapped)
    also have "shrinks (h, R1) (h, R1\<lparr>rm_observerPlayers := rm_observerPlayers R1 @ [set_team t (rm_players R1 ! j)],
      rm_players := erase_at j (rm_players R1)\<rparr>)"
      using mset_erase_at [OF j] that(4)
      by (intro shrinks_room) (auto simp: ids_append observers_ok_def)
    finally show ?thesis .
  qed
  have reentry: "shrinks (h, R) (h, R\<lparr>rm_players := rm_players R @ [set_team x (rm_observerPlayers R ! i)],
      rm_observerPlayers := erase_at i (rm_observerPlayers R)\<rparr>)"
    if "findObserverPlayer ?n (h, R) = Some i" for i x
    using mset_erase_at [OF findObserverPlayer_Some [OF that]] set_erase_at_subset [of i "rm_observerPlayers R"]
    by (intro shrinks_room) (auto simp: ids_append observers_ok_def)
  let ?z = "ucast (rs_mode (rm_settings R)) = ZombieMode \<and> (t = 1 \<or> t = 2)"
  show ?thesis
  proof (cases "findPlayer ?n (h, R)")
    case p: (Some i)
    show ?thesis
    proof (cases ?z)
      case True
      then show ?thesis using zombie [OF p, of "set_team t"] by (simp add: st Room_changePlayerTeam_def p Let_def)
    next
      case False
      show ?thesis
      proof (cases "h (snd (rm_players R ! i))")
        case None
        then show ?thesis using False by (simp add: st Room_changePlayerTeam_def p Let_def)
      next
        case (Some s)
        let ?R1 = "R\<lparr>rm_players := swap_at (length (rm_players R) - 1) i (rm_players R)\<rparr>"
        let ?f = "\<lambda>e. set_team (if team_of e = TEAM_BLUE then TEAM_RED else TEAM_BLUE) e"
        show ?thesis
          using False zombie [OF p, of ?f] zombie [OF p, of "set_team t"] swapped [OF p] moved [OF p refl]
          by (cases "findPlayer ?n (h, ?R1)") (simp_all add: st Room_changePlayerTeam_def p Some Let_def)
      qed
    qed
  next
    case p: None
    show ?thesis
    proof (cases "findObserverPlayer ?n (h, R)")
      case None
      then show ?thesis by (simp add: st Room_changePlayerTeam_def p Let_def)
    next
      case (Some i)
      then show ?thesis using reentry [OF Some]
        by (cases "h (snd (rm_observerPlayers R ! i))") (simp_all add: st Room_changePlayerTeam_def p Let_def)
    qed
  qed
qed

lemma swap_team_step_shrinks: "shrinks st (snd (swap_team_step c br (p, st)))"
proof -
  obtain b r h R where st: "st = (h, R)" "br = (b, r)" by (metis surj_pair)
  show ?thesis
  proof (cases "h (snd (rm_players R ! b)) = None \<or> h (snd (rm_players R ! r)) = None")
    case True
    then show ?thesis by (auto simp: st swap_team_step_def split: option.split)
  next
    case False
    then obtain s1 s2 where s: "h (snd (rm_players R ! b)) = Some s1" "h (snd (rm_players R ! r)) = Some s2" by auto
    let ?p1 = "setData (uid_bytes (uid_of s1)) p" and ?tb = "team_of (rm_players R ! b)" and ?tr = "team_of (rm_players R ! r)"
    let ?h1 = "Room_broadcastToRoom c ?p1 R h"
    let ?h2 = "Room_broadcastToRoom c (setData (uid_bytes (uid_of s2)) ?p1) R ?h1"
    let ?R1 = "R\<lparr>rm_players := map_at b (set_team ?tr) (rm_players R)\<rparr>"
    have "shrinks (h, R) (?h1, R)" by (simp add: shrinks_heap)
    also have "shrinks (?h1, R) (?h2, R)" by (simp add: shrinks_heap)
    also have "shrinks (?h2, R) (?h2, ?R1)" by (rule map_at_players_shrinks) simp
    also have "shrinks (?h2, ?R1) (?h2, ?R1\<lparr>rm_players := map_at r (set_team ?tb) (rm_players ?R1)\<rparr>)"
      by (rule map_at_players_shrinks) simp
    finally show ?thesis by (simp add: st swap_team_step_def s Let_def)
  qed
qed

lemma randomizeTeams_shrinks [shrink]: "shrinks st (Room_randomizeTeams c f g st)"
proof -
  have "shrinks st (snd (fold (swap_team_step c) brs (p, st)))" for brs p
  proof (induction brs arbitrary: p st)
    case (Cons br brs)
    obtain p1 st1 where 1: "swap_team_step c br (p, st) = (p1, st1)" by (metis surj_pair)
    then show ?case using swap_team_step_shrinks [of st c br p] Cons [of st1 p1] by (auto intro: shrinks_trans)
  qed simp
  then show ?thesis by (simp add: Room_randomizeTeams_def Let_def)
qed

lemma switchSimpleSetting_shrinks [shrink]: "shrinks st (Room_switchSimpleSetting c x st)"
proof -
  obtain h R where st: "st = (h, R)" by fastforce
  let ?R = "on_settings (\<lambda>s. s\<lparr>rs_isObserverModeOn := NOT (rs_isObserverModeOn s)\<rparr>) R"
  have "shrinks (h, R) (h, ?R)" by (rule shrinks_fields) simp_all
  from shrinks_trans [OF this removeAllObserverPlayers_shrinks [of "(h, ?R)" c 1]] this
  show ?thesis
    by (auto simp: st Room_switchSimpleSetting_def Let_def split: RoomSimpleSetting.split intro: shrinks_fields)
qed

section \<open>Joining keeps the invariant\<close>

lemma not_duplicate:
  assumes "heap_ok h" "h r = Some s" "\<not> isDuplicate h (uid_of s) es"
  shows "r \<notin> snd ` set es"
proof
  assume "r \<in> snd ` set es"
  then obtain e where "e \<in> set es" "snd e = r" by blast
  then have "isDuplicate h (uid_of s) es" using assms(2) by (auto simp: isDuplicate_def list_ex_iff intro!: bexI [of _ e])
  with assms(3) show False ..
qed

text \<open>The entry is made from the session itself.\<close>

lemma createRoomPlayerInfo_ids [simp]:
  "entry_uid (Room_createRoomPlayerInfo s t, r) = uid_of s"
  "team_of (Room_createRoomPlayerInfo s TEAM_OBSERVER, r) = TEAM_OBSERVER"
  by (simp_all add: Room_createRoomPlayerInfo_def RoomPlayerInfo_make_def Let_def entry_uid_def team_of_def TEAM_OBSERVER_def)

lemma wf_heap_cong: "same_people h h' \<Longrightarrow> room_wf (h, R) \<Longrightarrow> room_wf (h', R)"
  by (rule shrinks_wf [OF shrinks_heap])

lemma addPlayer_wf: "room_wf st \<Longrightarrow> room_wf (Room_addPlayer r t st)"
proof -
  assume wf: "room_wf st"
  obtain h R where st: "st = (h, R)" by fastforce
  show ?thesis
  proof (cases "Room_addPlayer r t (h, R) = (h, R)")
    case False
    then obtain q s where q: "r = Some q" "h q = Some s" and
      d: "\<not> isDuplicate h (uid_of s) (rm_players R)" "\<not> isDuplicate h (uid_of s) (rm_observerPlayers R)"
      by (auto simp: Room_addPlayer_def split: option.splits if_splits)
    have "heap_ok h" using wf by (simp add: st room_wf_def)
    then have fresh: "q \<notin> snd ` set (rm_players R)" "q \<notin> snd ` set (rm_observerPlayers R)"
      using not_duplicate q(2) d by blast+
    let ?R = "R\<lparr>rm_players := rm_players R @ [(Room_createRoomPlayerInfo s t, q)]\<rparr>"
    have "room_wf (h, ?R)"
      using wf fresh q(2) by (auto simp: st room_wf_def ids_append observers_ok_def comp_def)
    then have "room_wf (h(q \<mapsto> session_setRoomNumber (rm_number R) s), ?R)"
      using q(2) by (intro wf_heap_cong [OF same_people_upd [of h q s]]) simp_all
    then show ?thesis using q d by (simp add: st Room_addPlayer_def)
  qed (use wf st in simp)
qed

lemma addObserverPlayer_wf: "room_wf st \<Longrightarrow> room_wf (Room_addObserverPlayer r st)"
proof -
  assume wf: "room_wf st"
  obtain h R where st: "st = (h, R)" by fastforce
  show ?thesis
  proof (cases "Room_addObserverPlayer r (h, R) = (h, R)")
    case False
    then obtain q s where q: "r = Some q" "h q = Some s" and
      d: "\<not> isDuplicate h (uid_of s) (rm_players R)" "\<not> isDuplicate h (uid_of s) (rm_observerPlayers R)"
      by (auto simp: Room_addObserverPlayer_def split: option.splits if_splits)
    have "heap_ok h" using wf by (simp add: st room_wf_def)
    then have fresh: "q \<notin> snd ` set (rm_players R)" "q \<notin> snd ` set (rm_observerPlayers R)"
      using not_duplicate q(2) d by blast+
    let ?R = "R\<lparr>rm_observerPlayers := rm_observerPlayers R @ [(Room_createRoomPlayerInfo s TEAM_OBSERVER, q)]\<rparr>"
    have "room_wf (h, ?R)"
      using wf fresh q(2) by (auto simp: st room_wf_def ids_append observers_ok_def comp_def)
    then have "room_wf (h(q \<mapsto> session_setRoomNumber (rm_number R) s), ?R)"
      using q(2) by (intro wf_heap_cong [OF same_people_upd [of h q s]]) simp_all
    then show ?thesis using q d by (simp add: st Room_addObserverPlayer_def)
  qed (use wf st in simp)
qed

section \<open>Runs of a room\<close>

text \<open>
  A room starts with its host. Between two operations of the room the sessions go on living: a member
  changes in any way that keeps the identity the login gave him (level, money, items, ping, grade and
  all the rest may change), sessions expire, and new ones connect.
\<close>

inductive room_run :: "crypt \<Rightarrow> room_state \<Rightarrow> bool" for c where
  run_new: "heap_ok h \<Longrightarrow> h r = Some s \<Longrightarrow> rpi_uniqueId info = uid_of s \<Longrightarrow>
    room_run c (h, fst (Room_new title settings info r clan m g))"
| run_sessions: "room_run c (h, R) \<Longrightarrow> heap_ok h' \<Longrightarrow>
    (\<And>r s'. r \<in> snd ` set (members R) \<Longrightarrow> h' r = Some s' \<Longrightarrow> \<exists>s. h r = Some s \<and> uid_of s' = uid_of s) \<Longrightarrow>
    room_run c (h', R)"
| run_join: "room_run c st \<Longrightarrow> room_run c (Room_addPlayer r t st)"
| run_observe: "room_run c st \<Longrightarrow> room_run c (Room_addObserverPlayer r st)"
| run_leave: "room_run c st \<Longrightarrow> room_run c (snd (Room_removePlayer c s x st))"
| run_host_leaves: "room_run c st \<Longrightarrow> room_run c (snd (Room_removeHostFromMatch c x st))"
| run_kick: "room_run c st \<Longrightarrow> room_run c (snd (Room_kickPlayer c name st))"
| run_votekick: "room_run c st \<Longrightarrow> room_run c (snd (Room_votekickPlayer c u st))"
| run_host: "room_run c (h, R) \<Longrightarrow> room_run c (h, snd (Room_changeHost n R))"
| run_host_name: "room_run c st \<Longrightarrow> room_run c (snd (Room_changeHostByNickname c name st))"
| run_team: "room_run c st \<Longrightarrow> room_run c (snd (Room_changePlayerTeam u t st))"
| run_team_based: "room_run c (h, R) \<Longrightarrow> room_run c (h, Room_updatePlayersTeamToTeamBased R)"
| run_not_team_based: "room_run c (h, R) \<Longrightarrow> room_run c (h, Room_updatePlayersTeamToNonTeamBased R)"
| run_randomize: "room_run c st \<Longrightarrow> room_run c (Room_randomizeTeams c f g st)"
| run_state: "room_run c st \<Longrightarrow> room_run c (Room_setStateFor u x st)"
| run_start: "room_run c st \<Longrightarrow> Room_startMatch now st = Inr (st', batch) \<Longrightarrow> room_run c st'"
| run_end: "room_run c st \<Longrightarrow> room_run c (Room_endMatch st)"
| run_refresh: "room_run c st \<Longrightarrow> room_run c (Room_updatePlayerInfo r st)"
| run_close: "room_run c st \<Longrightarrow> room_run c (Room_removeAllPlayers c x st)"
| run_break: "room_run c st \<Longrightarrow> room_run c (Room_breakroom st)"
| run_switch: "room_run c st \<Longrightarrow> room_run c (Room_switchSimpleSetting c x st)"
| run_settings: "room_run c (h, R) \<Longrightarrow> rm_players R' = rm_players R \<Longrightarrow>
    rm_observerPlayers R' = rm_observerPlayers R \<Longrightarrow> room_run c (h, R')"

lemma new_wf:
  assumes "heap_ok h" "h r = Some s" "rpi_uniqueId info = uid_of s"
  shows "room_wf (h, fst (Room_new title settings info r clan m g))"
  using assms by (simp add: room_wf_def Room_new_def ids_append observers_ok_def entry_uid_def split: prod.split)

lemma sessions_wf:
  assumes "room_wf (h, R)" "heap_ok h'"
    and "\<And>r s'. r \<in> snd ` set (members R) \<Longrightarrow> h' r = Some s' \<Longrightarrow> \<exists>s. h r = Some s \<and> uid_of s' = uid_of s"
  shows "room_wf (h', R)"
proof -
  have "u = uid_of s'" if m: "(u, r) \<in> set (ids R)" and l: "h' r = Some s'" for u r s'
  proof -
    have "r \<in> snd ` set (members R)" using m by (force simp: ids_def)
    then obtain s where "h r = Some s" "uid_of s' = uid_of s" using assms(3) l by blast
    then show ?thesis using assms(1) m by (auto simp: room_wf_def)
  qed
  then show ?thesis using assms(1,2) by (auto simp: room_wf_def)
qed

lemma room_run_wf: "room_run c st \<Longrightarrow> room_wf st"
proof (induction rule: room_run.induct)
  case (run_host h R n)
  have "shrinks (h, R) (h, snd (Room_changeHost n R))"
    using changeHost_shrinks by (metis prod.exhaust_sel)
  then show ?case using run_host.IH by (rule shrinks_wf)
next
  case (run_start st now st' batch)
  show ?case using startMatch_shrinks [OF run_start.hyps(2)] run_start.IH by (rule shrinks_wf)
next
  case (run_settings h R R')
  then show ?case using shrinks_wf [OF shrinks_fields] by blast
next
  case (run_sessions h R h')
  show ?case using run_sessions.IH run_sessions.hyps(2,3) by (rule sessions_wf)
qed (auto intro: new_wf addPlayer_wf addObserverPlayer_wf shrinks_wf [OF shrink(1)] shrinks_wf [OF shrink(2)]
      intro: shrink [THEN shrinks_wf])

end
