(* ===== verification/MainRoomHost.thy ===== *)
theory MainRoomHost
  imports MainRoomInv
begin

text \<open>
  Who hears a broadcast, what leaving a room does, and who becomes the host: the lemmas and the
  properties of the room of the main server.
\<close>

section \<open>Searching by number\<close>

lemma find_index_Some_intro:
  "i < length xs \<Longrightarrow> P (xs ! i) \<Longrightarrow> (\<And>j. j < i \<Longrightarrow> \<not> P (xs ! j)) \<Longrightarrow> find_index P xs = Some i"
proof (induction xs arbitrary: i)
  case (Cons x xs)
  show ?case
  proof (cases i)
    case 0
    then show ?thesis using Cons.prems by simp
  next
    case (Suc k)
    have "\<not> P x" using Cons.prems(3) [of 0] Suc by simp
    moreover have "\<not> P (xs ! j)" if "j < k" for j using Cons.prems(3) [of "Suc j"] that Suc by simp
    ultimately show ?thesis using Cons.IH [of k] Cons.prems(1,2) Suc by simp
  qed
qed simp

lemma heap_ok_small: "heap_ok h \<Longrightarrow> h r = Some s \<Longrightarrow> m_id s < 2 ^ 16"
  using unsigned_less [of "uid_session (uid_of s)", where ?'a = nat] by (auto simp: heap_ok_def)

lemma unat_id: "heap_ok h \<Longrightarrow> h r = Some s \<Longrightarrow> unat (of_nat (m_id s) :: u32) = m_id s"
  using heap_ok_small [of h r s] by (simp add: unsigned_of_nat take_bit_nat_eq_self)

lemma unat_id64: "heap_ok h \<Longrightarrow> h r = Some s \<Longrightarrow> unat (of_nat (m_id s) :: u64) = m_id s"
  using heap_ok_small [of h r s] by (simp add: unsigned_of_nat take_bit_nat_eq_self)

lemma wf_refs: "room_wf (h, R) \<Longrightarrow> distinct (map snd (rm_players R)) \<and> distinct (map snd (rm_observerPlayers R)) \<and>
    distinct (map snd (members R)) \<and> heap_ok h"
  by (simp add: room_wf_def ids_append comp_def)

lemma wf_uid:
  assumes "room_wf (h, R)" "e \<in> set (members R)" "h (snd e) = Some s"
  shows "entry_uid e = uid_of s"
proof -
  have "(entry_uid e, snd e) \<in> set (ids R)" unfolding ids_def set_map using assms(2) by (rule imageI)
  then show ?thesis using assms(1,3) by (fastforce simp: room_wf_def)
qed

lemma findPlayer_at:
  assumes "room_wf (h, R)" "i < length (rm_players R)" "h (snd (rm_players R ! i)) = Some s"
  shows "findPlayer (of_nat (m_id s)) (h, R) = Some i"
proof -
  note w = wf_refs [OF assms(1)]
  then have ok: "heap_ok h" by blast
  have "\<not> live_with h (of_nat (m_id s)) (rm_players R ! j)" if "j < i" for j
  proof
    assume "live_with h (of_nat (m_id s)) (rm_players R ! j)"
    then obtain s' where "h (snd (rm_players R ! j)) = Some s'" "m_id s' = m_id s"
      using unat_id [OF ok assms(3)] by (auto simp: live_with_def split: option.splits)
    then have "snd (rm_players R ! j) = snd (rm_players R ! i)" using ok assms(3) unfolding heap_ok_def by blast
    moreover have "j < length (rm_players R)" using that assms(2) by simp
    ultimately show False using w that assms(2) nth_eq_iff_index_eq [of "map snd (rm_players R)" j i] by simp
  qed
  then show ?thesis
    unfolding findPlayer_def prod.case
    using assms(2,3) unat_id [OF ok assms(3)] by (intro find_index_Some_intro) (simp_all add: live_with_def)
qed

lemma wf_numbers:
  assumes "room_wf (h, R)" "e \<in> set (members R)" "e' \<in> set (members R)"
    and "h (snd e) = Some s" "h (snd e') = Some s'" "uid_session (uid_of s) = uid_session (uid_of s')"
  shows "e = e'"
proof -
  have ok: "heap_ok h" "distinct (map snd (members R))" using wf_refs [OF assms(1)] by blast+
  have "m_id s = m_id s'" using ok(1) assms(4-6) unfolding heap_ok_def by metis
  then have "snd e = snd e'" using ok(1) assms(4,5) unfolding heap_ok_def by blast
  then show ?thesis using ok(2) assms(2,3) by (metis distinct_map inj_onD)
qed

section \<open>Who hears what\<close>

lemma two_loops:
  assumes "distinct (map snd (xs @ ys))"
  shows "for_live P f ys (for_live P f xs h) r = (if chosen_in P (xs @ ys) h r then map_option f (h r) else h r)"
  using for_live_apply [OF assms, of P f h r] by simp

lemma broadcastToRoom_apply:
  "distinct (map snd (members R)) \<Longrightarrow>
    Room_broadcastToRoom c p R h r = (if r \<in> snd ` set (members R) then map_option (send c p) (h r) else h r)"
  unfolding Room_broadcastToRoom_def
  by (subst two_loops) (cases "h r"; force simp: chosen_in_def)+

lemma broadcastExceptSelf_apply:
  "distinct (map snd (members R)) \<Longrightarrow>
    Room_broadcastToRoomExceptSelf c p u R h r =
      (if \<exists>e \<in> set (members R). snd e = r \<and> uid_session (entry_uid e) \<noteq> uid_session u
       then map_option (send c p) (h r) else h r)"
  unfolding Room_broadcastToRoomExceptSelf_def Let_def
  by (subst two_loops) (cases "h r"; force simp: chosen_in_def entry_uid_def)+

section \<open>The election of a host\<close>

definition eligible :: "mheap \<Rightarrow> u64 \<Rightarrow> bool \<Rightarrow> entry \<Rightarrow> bool" where
  "eligible h selfId inMatch e \<longleftrightarrow> (\<exists>s. h (snd e) = Some s \<and> m_id s \<noteq> unat selfId \<and> in_match s = inMatch)"

definition ping_at :: "mheap \<Rightarrow> entry \<Rightarrow> nat" where
  "ping_at h e = (case h (snd e) of None \<Rightarrow> 0 | Some s \<Rightarrow> unat (p_ping (getPlayer s)))"

lemma ping_small: "ping_at h e < 2 ^ 16"
  using unsigned_less [where ?'b = 16 and ?'a = nat] by (auto simp: ping_at_def split: option.split)

text \<open>What the loop has found in the entries it has passed, when none of them has expired.\<close>

definition found_so_far :: "mheap \<Rightarrow> u64 \<Rightarrow> bool \<Rightarrow> entry list \<Rightarrow> u32 \<times> u32 \<times> u32 \<times> bool \<Rightarrow> bool" where
  "found_so_far h selfId inMatch es = (\<lambda>(currentIdx, bestMs, bestIdx, found).
     currentIdx = of_nat (length es) \<and>
     (if found
      then \<exists>j < length es. bestIdx = of_nat j \<and> eligible h selfId inMatch (es ! j) \<and> unat bestMs = ping_at h (es ! j) \<and>
             (\<forall>e \<in> set es. eligible h selfId inMatch e \<longrightarrow> ping_at h (es ! j) \<le> ping_at h e)
      else bestMs = -1 \<and> (\<forall>e \<in> set es. \<not> eligible h selfId inMatch e)))"

lemma best_step_found:
  assumes "found_so_far h i m es acc" "h (snd e) = Some s"
  shows "found_so_far h i m (es @ [e]) (best_step h i m e acc)"
proof -
  obtain cur best idx found where acc: "acc = (cur, best, idx, found)" by (metis prod_cases4)
  let ?p = "ucast (p_ping (getPlayer s)) :: u32"
  have p: "unat ?p = ping_at h e"
    using ping_small [of h e] by (simp add: ping_at_def assms(2) unsigned_ucast_eq)
  have el: "eligible h i m e \<longleftrightarrow> unat i \<noteq> m_id s \<and> in_match s = m" using assms(2) by (auto simp: eligible_def)
  have less: "?p < best \<longleftrightarrow> ping_at h e < unat best" by (simp only: word_less_nat_alt p)
  have new: "found_so_far h i m (es @ [e]) (cur + 1, ?p, cur, True)"
    if "cur = of_nat (length es)" "eligible h i m e" "\<forall>f \<in> set es. eligible h i m f \<longrightarrow> ping_at h e \<le> ping_at h f"
    using that p [simplified] by (auto simp: found_so_far_def intro!: exI [of _ "length es"])
  show ?thesis
  proof (cases found)
    case False
    then have a: "cur = of_nat (length es)" "best = -1" "\<forall>e \<in> set es. \<not> eligible h i m e"
      using assms(1) by (simp_all add: acc found_so_far_def)
    have "ping_at h e < unat best"
      using ping_small [of h e] by (simp add: a(2) unsigned_minus_1_eq_mask mask_eq_exp_minus_1)
    then show ?thesis using a False el less new
      by (auto simp: acc best_step_def assms(2) found_so_far_def)
  next
    case True
    then obtain j where j: "j < length es" "idx = of_nat j" "eligible h i m (es ! j)" "unat best = ping_at h (es ! j)"
      "\<forall>e \<in> set es. eligible h i m e \<longrightarrow> ping_at h (es ! j) \<le> ping_at h e" and c: "cur = of_nat (length es)"
      using assms(1) by (auto simp: acc found_so_far_def)
    show ?thesis
    proof (cases "eligible h i m e \<and> ping_at h e < unat best")
      case True
      then have "\<forall>f \<in> set es. eligible h i m f \<longrightarrow> ping_at h e \<le> ping_at h f" using j(4,5) by fastforce
      then show ?thesis using True c el less new by (simp add: acc best_step_def assms(2))
    next
      case False
      then show ?thesis using \<open>found\<close> j c el less
        by (auto simp: acc best_step_def assms(2) found_so_far_def nth_append intro!: exI [of _ j])
    qed
  qed
qed

lemma fold_best_found:
  "(\<forall>e \<in> set es. h (snd e) \<noteq> None) \<Longrightarrow> found_so_far h i m es (fold (best_step h i m) es (0, -1, -1, False))"
proof (induction es rule: rev_induct)
  case Nil
  then show ?case by (simp add: found_so_far_def)
next
  case (snoc e es)
  obtain s where "h (snd e) = Some s" using snoc.prems by auto
  then show ?case using best_step_found [OF snoc.IH] snoc.prems by simp
qed

text \<open>Nobody is found when nobody is eligible, expired entries or not.\<close>

lemma fold_best_none:
  "(\<forall>e \<in> set es. \<not> eligible h i m e) \<Longrightarrow> \<not> snd (snd (snd acc)) \<Longrightarrow> \<not> snd (snd (snd (fold (best_step h i m) es acc)))"
proof (induction es arbitrary: acc)
  case (Cons e es)
  then have "\<not> snd (snd (snd (best_step h i m e acc)))"
    by (auto simp: best_step_def eligible_def split: option.splits prod.splits)
  then show ?case using Cons by simp
qed simp

lemma best_none:
  assumes "\<forall>e \<in> set (rm_players R). \<not> eligible h i m e"
  shows "getBestMsIndexExceptSelf i m (h, R) = -1"
  using fold_best_none [OF assms, of "(0, -1, -1, False)"]
  by (auto simp: getBestMsIndexExceptSelf_def split: prod.splits)

lemma best_some:
  assumes "\<forall>e \<in> set (rm_players R). h (snd e) \<noteq> None" "e \<in> set (rm_players R)" "eligible h i m e"
    and "1 < length (rm_players R)" "length (rm_players R) < 2 ^ 32"
  obtains j where "j < length (rm_players R)" "unat (getBestMsIndexExceptSelf i m (h, R)) = j"
    "eligible h i m (rm_players R ! j)"
    "\<forall>e \<in> set (rm_players R). eligible h i m e \<longrightarrow> ping_at h (rm_players R ! j) \<le> ping_at h e"
proof -
  obtain cur best idx found where f: "fold (best_step h i m) (rm_players R) (0, -1, -1, False) = (cur, best, idx, found)"
    by (metis prod_cases4)
  have "found_so_far h i m (rm_players R) (cur, best, idx, found)" using fold_best_found [OF assms(1), of i m] f by simp
  moreover have found: "found" using calculation assms(2,3) by (auto simp: found_so_far_def split: if_splits)
  ultimately obtain j where j: "j < length (rm_players R)" "idx = of_nat j" "eligible h i m (rm_players R ! j)"
    "\<forall>e \<in> set (rm_players R). eligible h i m e \<longrightarrow> ping_at h (rm_players R ! j) \<le> ping_at h e"
    by (auto simp: found_so_far_def)
  have "getBestMsIndexExceptSelf i m (h, R) = of_nat j"
    using assms(4) f found j(2) by (simp add: getBestMsIndexExceptSelf_def)
  moreover have "unat (of_nat j :: u32) = j" using j(1) assms(5) by (simp add: unsigned_of_nat take_bit_nat_eq_self)
  ultimately show ?thesis using that j by simp
qed

section \<open>Leaving\<close>

definition leave_notice :: "UniqueId \<Rightarrow> nat \<Rightarrow> main_room \<Rightarrow> packet" where
  "leave_notice u i R = setData (uid_bytes u) (setCommand 422 0 0 (of_nat i) (rm_packet R))"

text \<open>The notification in a room without duplicates: the leaver gets the answer, the others the notice.\<close>

lemma notification_effect:
  assumes "room_wf (h, R)" "i < length (rm_players R)" "h (snd (rm_players R ! i)) = Some s"
  shows "\<exists>h'. Room_playerRoomLeaveNotification c (uid_of s) i False x (h, R) =
      (h', take_out i False (R\<lparr>rm_packet := leave_notice (uid_of s) i R\<rparr>)) \<and>
    (\<forall>r. h' r = (if r = snd (rm_players R ! i) then Some (send c (leave_packet x s) (session_leaveRoom s))
       else if \<exists>e \<in> set (members R). snd e = r \<and> uid_session (entry_uid e) \<noteq> uid_session (uid_of s)
       then map_option (send c (leave_notice (uid_of s) i R)) (h r) else h r))"
proof -
  have d: "distinct (map snd (members R))" using wf_refs [OF assms(1)] by blast
  let ?e = "rm_players R ! i"
  let ?h1 = "Room_broadcastToRoomExceptSelf c (leave_notice (uid_of s) i R) (uid_of s) R h"
  let ?h2 = "for_live (\<lambda>_ _. True) (\<lambda>s. send c (leave_packet x s) (session_leaveRoom s)) [?e] ?h1"
  have m: "?e \<in> set (members R)" using assms(2) by simp
  have "entry_uid e = uid_of s" if "e \<in> set (members R)" "snd e = snd ?e" for e
    using wf_uid [OF assms(1) that(1)] that(2) assms(3) by simp
  then have "\<not> (\<exists>e \<in> set (members R). snd e = snd ?e \<and> uid_session (entry_uid e) \<noteq> uid_session (uid_of s))" by metis
  then have h1: "?h1 (snd ?e) = Some s" unfolding broadcastExceptSelf_apply [OF d] using assms(3) by (simp only: if_False)
  have "?h2 r = (if r = snd ?e then map_option (\<lambda>s. send c (leave_packet x s) (session_leaveRoom s)) (?h1 r) else ?h1 r)" for r
    by (auto simp: on_live_def split: prod.splits option.splits)
  then have "?h2 r = (if r = snd ?e then Some (send c (leave_packet x s) (session_leaveRoom s)) else ?h1 r)" for r
    using h1 by simp
  moreover have "Room_playerRoomLeaveNotification c (uid_of s) i False x (h, R) =
      (?h2, take_out i False (R\<lparr>rm_packet := leave_notice (uid_of s) i R\<rparr>))"
    using assms(2) by (simp add: Room_playerRoomLeaveNotification_def container_of_def leave_notice_def Let_def del: for_live_simps)
  ultimately show ?thesis using broadcastExceptSelf_apply [OF d] by (intro exI [of _ ?h2]) simp
qed

section \<open>The host leaves\<close>

lemma hd_swap_pop:
  assumes "0 < i" "i < length xs"
  shows "hd (butlast (swap_at (length xs - 1) i xs)) = xs ! 0"
proof -
  let ?qs = "butlast (swap_at (length xs - 1) i xs)"
  have l: "0 < length ?qs" using assms by simp
  then have "?qs \<noteq> []" by (metis length_greater_0_conv)
  then have "hd ?qs = ?qs ! 0" by (rule hd_conv_nth)
  also have "\<dots> = swap_at (length xs - 1) i xs ! 0" using l by (rule nth_butlast)
  also have "\<dots> = xs ! 0" using assms by (auto simp: swap_at_def nth_list_update)
  finally show ?thesis .
qed

lemma promote_lists:
  assumes "ps = e # rest" "0 < j" "j < length ps" "qs = butlast (swap_at (length ps - 1) j (swap_at 0 j ps))"
  shows "mset qs = mset rest" "qs \<noteq> []" "hd qs = ps ! j"
proof -
  let ?s = "swap_at 0 j ps"
  have s: "?s ! j = e" "?s ! 0 = ps ! j" "length ?s = length ps" using assms(1-3) by (cases j; simp add: swap_at_def)+
  have "add_mset e (mset rest) = mset ?s" using assms(1,3) mset_swap_at [of 0 ps j] by simp
  then show "mset qs = mset rest" using mset_swap_pop [of j ?s] assms(3,4) s by simp
  have l: "length qs = length ps - 1" "1 \<le> length qs" using assms by simp_all
  then show "qs \<noteq> []" by auto
  show "hd qs = ps ! j" using hd_swap_pop [of j ?s] assms(2-4) s by simp
qed

lemma isHost_first: "rm_players R = e # es \<Longrightarrow> entry_uid e = u \<Longrightarrow> Room_isHost u R"
  by (simp add: Room_isHost_def)

lemma leave_found_effect:
  assumes "room_wf (h, R)" "i < length (rm_players R)" "h (snd (rm_players R ! i)) = Some s"
  obtains h' where "leave_found c i x (h, R) =
      (rm_players (take_out i False R) = [], h', take_out i False (R\<lparr>rm_packet := leave_notice (uid_of s) i R\<rparr>))"
    "h' (snd (rm_players R ! i)) = Some (send c (leave_packet x s) (session_leaveRoom s))"
    "\<And>r. r \<noteq> snd (rm_players R ! i) \<Longrightarrow> h' r =
      (if \<exists>e \<in> set (members R). snd e = r \<and> uid_session (entry_uid e) \<noteq> uid_session (uid_of s)
       then map_option (send c (leave_notice (uid_of s) i R)) (h r) else h r)"
  using notification_effect [OF assms, of c x] assms(3)
  by (auto simp: leave_found_def take_out_def)

lemma leave_after_promotion:
  assumes wf: "room_wf (h, R)" and p: "rm_players R = e # rest" "h (snd e) = Some s"
    and j: "0 < j" "j < length (rm_players R)"
    and best: "unat (getBestMsIndexExceptSelf (of_nat (m_id s)) False (h, R)) = j"
  obtains h' R' where "Room_removePlayer c s x (h, R) = (False, h', R')"
    "mset (rm_players R') = mset rest" "hd (rm_players R') = rm_players R ! j"
    "\<exists>s'. h' (snd e) = Some s' \<and> p_roomNumber (getPlayer s') = 0"
proof -
  let ?R1 = "R\<lparr>rm_players := swap_at 0 j (rm_players R)\<rparr>"
  let ?h1 = "Room_broadcastToRoom c (host_change_packet s CHANGE_HOST_SUCCESS (getBestMsIndexExceptSelf (of_nat (m_id s)) False (h, R))) ?R1 h"
  have change: "Room_changeHost j R = (True, ?R1)" using j p(1) by (simp add: Room_changeHost_def)
  have wf1: "room_wf (?h1, ?R1)"
    using shrinks_wf [OF changeHost_shrinks [OF change] wf] by (rule wf_heap_cong [rotated]) simp
  have at: "rm_players ?R1 ! j = e" using j p(1) by (cases j) (simp_all add: swap_at_def)
  have "map_option person (?h1 (snd e)) = map_option person (h (snd e))"
    using broadcast_same_people(1) [of h c _ ?R1] unfolding same_people_def by blast
  then obtain s1 where s1: "?h1 (snd e) = Some s1" "m_id s1 = m_id s" using p(2) by (auto simp: person_def)
  have find1: "findPlayer (of_nat (m_id s)) (?h1, ?R1) = Some j"
    using findPlayer_at [OF wf1, of j s1] at s1 j(2) by simp
  have find0: "findPlayer (of_nat (m_id s)) (h, R) = Some 0"
    using findPlayer_at [OF wf, of 0 s] p by simp
  have "entry_uid e = uid_of s" using wf_uid [OF wf, of e s] p by simp
  then have host: "Room_isHost (uid_of s) R" using isHost_first [OF p(1)] by simp
  have j1: "j < length (rm_players ?R1)" using j(2) by simp
  have "?h1 (snd (rm_players ?R1 ! j)) = Some s1" using at s1(1) by simp
  from leave_found_effect [OF wf1 j1 this, of c x] obtain h' where l:
    "leave_found c j x (?h1, ?R1) = (rm_players (take_out j False ?R1) = [], h',
       take_out j False (?R1\<lparr>rm_packet := leave_notice (uid_of s1) j ?R1\<rparr>))"
    "h' (snd e) = Some (send c (leave_packet x s1) (session_leaveRoom s1))" unfolding at by metis
  let ?qs = "butlast (swap_at (length (rm_players R) - 1) j (swap_at 0 j (rm_players R)))"
  have q: "rm_players (take_out j False (?R1\<lparr>rm_packet := k\<rparr>)) = ?qs" "rm_players (take_out j False ?R1) = ?qs" for k
    by (simp_all add: take_out_def)
  note lists = promote_lists [OF p(1) j refl]
  have "Room_removePlayer c s x (h, R) = leave_found c j x (?h1, ?R1)"
    using p find0 host change find1 by (simp add: Room_removePlayer_def Let_def best)
  then show ?thesis
    using that l q lists by simp
qed

lemma count_in_match:
  assumes "h (snd e) = Some s" "e \<in> set es" "in_match s" "h (snd e0) = Some s0"
  shows "1 \<le> length (filter (\<lambda>e. case (h(snd e0 \<mapsto> session_setIsInMatch b s0)) (snd e) of None \<Rightarrow> False | Some s \<Rightarrow> in_match s) es)"
proof -
  have "e \<in> set (filter (\<lambda>e. case (h(snd e0 \<mapsto> session_setIsInMatch b s0)) (snd e) of None \<Rightarrow> False | Some s \<Rightarrow> in_match s) es)"
    using assms by (auto split: option.split)
  then show ?thesis by (metis One_nat_def Suc_leI length_pos_if_in_set)
qed

lemma changeHost_none:
  "length (rm_players R) < 2 ^ 32 - 1 \<Longrightarrow> Room_changeHost (unat (-1 :: u32)) R = (False, R)"
  by (simp add: Room_changeHost_def unsigned_minus_1_eq_mask mask_eq_exp_minus_1)

lemma host_alone:
  assumes "room_wf (h, R)" "rm_players R = e # rest" "h (snd e) = Some s" "in_match s"
    and "\<And>f s'. f \<in> set rest \<Longrightarrow> h (snd f) = Some s' \<Longrightarrow> \<not> in_match s'"
    and "length (rm_players R) < 2 ^ 32 - 1"
  obtains h' where "Room_removeHostFromMatch c x (h, R) = (True, h', R)"
proof -
  let ?h = "h(snd e \<mapsto> session_setIsInMatch False s)"
  have ok: "heap_ok h" using wf_refs [OF assms(1)] by blast
  have "\<not> eligible ?h (of_nat (m_id s)) True f" if "f \<in> set (rm_players R)" for f
  proof (cases "snd f = snd e")
    case True
    then show ?thesis using unat_id64 [OF ok assms(3)] by (auto simp: eligible_def)
  next
    case False
    then have "f \<in> set rest" using that assms(2) by auto
    then show ?thesis using False assms(5) by (auto simp: eligible_def)
  qed
  then have "getBestMsIndexExceptSelf (of_nat (m_id s)) True (?h, R) = -1" by (intro best_none) simp
  moreover note count_in_match [of h e s "rm_players R" e s False]
  ultimately show ?thesis
    using that assms(2-4) changeHost_none [OF assms(6)]
    by (cases "sendHostChangePacket c 0 CHANGE_HOST_FAIL (?h, R)")
      (auto simp: Room_removeHostFromMatch_def Let_def hand_over_def sendHostChangePacket_def split: option.splits)
qed

section \<open>Kicking\<close>

lemma removeAll_kicked [simp]: "rm_kickedPlayerAccountIds (snd (Room_removeAllPlayers c x st)) = rm_kickedPlayerAccountIds (snd st)"
  by (simp add: Room_removeAllPlayers_def split: prod.split)

lemma take_out_kicked [simp]: "rm_kickedPlayerAccountIds (take_out i obs R) = rm_kickedPlayerAccountIds R"
  by (simp add: take_out_def)

lemma notification_kicked [simp]:
  "rm_kickedPlayerAccountIds (snd (Room_playerRoomLeaveNotification c u i obs x st)) = rm_kickedPlayerAccountIds (snd st)"
  by (simp add: Room_playerRoomLeaveNotification_def Let_def split: prod.split)

lemma changeHost_kicked: "Room_changeHost n R = (b, R') \<Longrightarrow> rm_kickedPlayerAccountIds R' = rm_kickedPlayerAccountIds R"
  by (auto simp: Room_changeHost_def split: if_splits)

lemma hostChangePacket_room [simp]: "snd (sendHostChangePacket c i r st) = snd st"
  by (auto simp: sendHostChangePacket_def Let_def split: prod.split option.split)

lemma removeFromMatch_kicked [simp]:
  "rm_kickedPlayerAccountIds (snd (removePlayerFromRoomAndMatch c i u x st)) = rm_kickedPlayerAccountIds (snd st)"
  by (simp add: removePlayerFromRoomAndMatch_def Let_def split: prod.split)

lemma hand_over_kicked:
  assumes "\<And>R. rm_kickedPlayerAccountIds (finish R) = rm_kickedPlayerAccountIds R"
  shows "rm_kickedPlayerAccountIds (snd (snd (hand_over c i u x finish st))) = rm_kickedPlayerAccountIds (snd st)"
proof -
  obtain h R where st: "st = (h, R)" by fastforce
  obtain b R1 where 1: "Room_changeHost (unat i) R = (b, R1)" by fastforce
  have k: "rm_kickedPlayerAccountIds R1 = rm_kickedPlayerAccountIds R" by (rule changeHost_kicked [OF 1])
  let ?st = "sendHostChangePacket c i CHANGE_HOST_SUCCESS (h, R1)"
  obtain h2 R2 where 2: "removePlayerFromRoomAndMatch c i u x ?st = (h2, R2)" by fastforce
  have "rm_kickedPlayerAccountIds R2 = rm_kickedPlayerAccountIds R1"
    using removeFromMatch_kicked [of c i u x ?st] 2 by simp
  then show ?thesis using 1 2 k by (cases b) (simp_all add: st hand_over_def assms)
qed

lemma removeHost_kicked [simp]:
  "rm_kickedPlayerAccountIds (snd (snd (Room_removeHostFromMatch c x st))) = rm_kickedPlayerAccountIds (snd st)"
  by (auto simp: Room_removeHostFromMatch_def Let_def hand_over_kicked split: prod.split list.split option.split)

lemma leave_found_kicked [simp]:
  "rm_kickedPlayerAccountIds (snd (snd (leave_found c i x st))) = rm_kickedPlayerAccountIds (snd st)"
  by (auto simp: leave_found_def Let_def split: prod.split option.split)

lemma removePlayer_kicked [simp]:
  "rm_kickedPlayerAccountIds (snd (snd (Room_removePlayer c s x st))) = rm_kickedPlayerAccountIds (snd st)"
  by (auto simp: Room_removePlayer_def Let_def changeHost_kicked split: prod.split list.split option.split bool.split)

lemma kickImpl_kicked [simp]:
  "rm_kickedPlayerAccountIds (snd (snd (Room_kickPlayerImpl c s x st))) = rm_kickedPlayerAccountIds (snd st)"
  by (simp add: Room_kickPlayerImpl_def)

lemma first_live_Some:
  assumes "first_live P es h = Some s"
  obtains e where "e \<in> set es" "h (snd e) = Some s" "P s"
proof -
  obtain i where i: "find_index (\<lambda>e. case h (snd e) of None \<Rightarrow> False | Some s \<Rightarrow> P s) es = Some i" "h (snd (es ! i)) = Some s"
    using assms by (auto simp: first_live_def bind_eq_Some_conv)
  then show ?thesis using that [of "es ! i"] find_index_Some [OF i(1)] by simp
qed

text \<open>Who leaves: the identities of the members before and after.\<close>

definition uids :: "main_room \<Rightarrow> UniqueId list" where
  "uids R = map entry_uid (members R)"

definition gone :: "UniqueId \<Rightarrow> main_room \<Rightarrow> main_room \<Rightarrow> bool" where
  "gone u R R' \<longleftrightarrow> mset (uids R) = add_mset u (mset (uids R'))"

lemma uids_fields: "rm_players R' = rm_players R \<Longrightarrow> rm_observerPlayers R' = rm_observerPlayers R \<Longrightarrow> uids R' = uids R"
  by (simp add: uids_def)

lemma uids_ids: "mset (uids R) = image_mset fst (mset (ids R))"
  by (simp add: uids_def ids_def comp_def flip: mset_map)

lemma take_out_gone: "i < length (container_of obs R) \<Longrightarrow> gone (entry_uid (container_of obs R ! i)) R (take_out i obs R)"
  by (simp add: gone_def uids_ids mset_take_out)

lemma notification_gone:
  assumes "i < length (container_of obs R)"
  shows "gone (entry_uid (container_of obs R ! i)) R (snd (Room_playerRoomLeaveNotification c u i obs x (h, R)))"
proof -
  let ?R = "R\<lparr>rm_packet := setData (uid_bytes u) (setCommand 422 0 0 (of_nat i) (rm_packet R))\<rparr>"
  have "container_of obs ?R = container_of obs R" by (simp add: container_of_def)
  then have "gone (entry_uid (container_of obs R ! i)) ?R (take_out i obs ?R)" using take_out_gone [of i obs ?R] assms by simp
  moreover have "uids ?R = uids R" by (rule uids_fields) simp_all
  ultimately show ?thesis using assms by (simp add: Room_playerRoomLeaveNotification_def Let_def gone_def)
qed

lemma changeHost_uids: "Room_changeHost n R = (b, R') \<Longrightarrow> mset (uids R') = mset (uids R)"
  by (auto simp: Room_changeHost_def uids_ids mset_swap_ids split: if_splits)

lemma removeFromMatch_gone:
  assumes "unat i < length (rm_players R)"
  shows "gone (entry_uid (rm_players R ! unat i)) R (snd (removePlayerFromRoomAndMatch c i u x (h, R)))"
proof -
  obtain h1 where "removePlayerFromRoomAndMatch c i u x (h, R) = Room_playerRoomLeaveNotification c u (unat i) False x (h1, R)"
    unfolding removePlayerFromRoomAndMatch_def Let_def by (cases "h (snd (rm_players R ! unat i))") auto
  then show ?thesis using notification_gone [of "unat i" False R c u x h1] assms by (simp add: container_of_def)
qed

lemma hand_over_gone:
  assumes "rm_players R = e # es"
    and "\<And>R. rm_players (finish R) = rm_players R \<and> rm_observerPlayers (finish R) = rm_observerPlayers R"
  shows "mset (uids (snd (snd (hand_over c i u x finish (h, R))))) = mset (uids R) \<or>
    gone (entry_uid e) R (snd (snd (hand_over c i u x finish (h, R))))"
proof -
  obtain b R1 where 1: "Room_changeHost (unat i) R = (b, R1)" by fastforce
  note u = changeHost_uids [OF 1]
  show ?thesis
  proof (cases b)
    case True
    let ?st = "sendHostChangePacket c i CHANGE_HOST_SUCCESS (h, R1)"
    obtain h2 R2 where 3: "removePlayerFromRoomAndMatch c i u x ?st = (h2, R2)" by fastforce
    obtain h1 where st: "?st = (h1, R1)" by (metis hostChangePacket_room prod.collapse snd_conv)
    have R1: "R1 = R\<lparr>rm_players := swap_at 0 (unat i) (rm_players R)\<rparr>" "unat i < length (rm_players R)"
      using 1 True by (auto simp: Room_changeHost_def split: if_splits)
    have R1l: "unat i < length (rm_players R1)" using R1 by simp
    have at: "rm_players R1 ! unat i = e" using R1 assms(1) by (cases "unat i") (simp_all add: swap_at_def)
    have "gone (entry_uid (rm_players R1 ! unat i)) R1 R2"
      using removeFromMatch_gone [of i R1 c u x h1] R1l 3 [unfolded st] by simp
    then have "gone (entry_uid e) R1 R2" by (simp add: at)
    moreover have "uids (finish R2) = uids R2" by (rule uids_fields) (simp_all add: assms(2))
    ultimately have "gone (entry_uid e) R (finish R2)" using u by (simp add: gone_def)
    then show ?thesis using True 1 3 by (simp add: hand_over_def)
  next
    case False
    then show ?thesis using 1 u by (simp add: hand_over_def)
  qed
qed

lemma removeHost_gone:
  assumes "rm_players R = e # es"
  shows "mset (uids (snd (snd (Room_removeHostFromMatch c x (h, R))))) = mset (uids R) \<or>
    gone (entry_uid e) R (snd (snd (Room_removeHostFromMatch c x (h, R))))"
proof (cases "h (snd e)")
  case None
  then show ?thesis by (simp add: Room_removeHostFromMatch_def assms)
next
  case (Some s)
  have "mset (uids (snd (snd (hand_over c i u x id (h1, R))))) = mset (uids R) \<or>
      gone (entry_uid e) R (snd (snd (hand_over c i u x id (h1, R))))" for i u h1
    by (rule hand_over_gone [OF assms]) simp
  moreover have "mset (uids (snd (snd (hand_over c i u x (\<lambda>R. R\<lparr>rm_hasMatchStarted := False\<rparr>) (h1, R))))) = mset (uids R) \<or>
      gone (entry_uid e) R (snd (snd (hand_over c i u x (\<lambda>R. R\<lparr>rm_hasMatchStarted := False\<rparr>) (h1, R))))" for i u h1
    by (rule hand_over_gone [OF assms]) simp
  ultimately show ?thesis by (simp only: Room_removeHostFromMatch_def assms Some prod.case list.case option.case Let_def split: if_split) simp
qed

lemma leave_found_gone:
  assumes "i < length (rm_players R)" "h (snd (rm_players R ! i)) \<noteq> None"
  shows "gone (entry_uid (rm_players R ! i)) R (snd (snd (leave_found c i x (h, R))))"
  using assms notification_gone [of i False R c _ x h]
  by (auto simp: leave_found_def Let_def container_of_def)

text \<open>The entry found by a number is that of the session with the number.\<close>

lemma found_entry:
  assumes "room_wf (h, R)" "h r = Some s"
    and "findPlayer (of_nat (m_id s)) (h, R) = Some i"
  shows "i < length (rm_players R)" "snd (rm_players R ! i) = r" "entry_uid (rm_players R ! i) = uid_of s"
proof -
  have ok: "heap_ok h" using wf_refs [OF assms(1)] by blast
  note f = find_index_Some [OF assms(3) [unfolded findPlayer_def prod.case]]
  then show i: "i < length (rm_players R)" by blast
  obtain s' where s': "h (snd (rm_players R ! i)) = Some s'" "m_id s' = m_id s"
    using f unat_id [OF ok assms(2)] by (auto simp: live_with_def split: option.splits)
  then show r: "snd (rm_players R ! i) = r" using ok assms(2) unfolding heap_ok_def by blast
  show "entry_uid (rm_players R ! i) = uid_of s"
    by (rule wf_uid [OF assms(1)]) (use i r assms(2) in simp_all)
qed


lemma found_observer:
  assumes "room_wf (h, R)" "h r = Some s"
    and "findObserverPlayer (of_nat (m_id s)) (h, R) = Some i"
  shows "i < length (rm_observerPlayers R)" "snd (rm_observerPlayers R ! i) = r" "entry_uid (rm_observerPlayers R ! i) = uid_of s"
proof -
  have ok: "heap_ok h" using wf_refs [OF assms(1)] by blast
  note f = find_index_Some [OF assms(3) [unfolded findObserverPlayer_def prod.case]]
  then show i: "i < length (rm_observerPlayers R)" by blast
  obtain s' where s': "h (snd (rm_observerPlayers R ! i)) = Some s'" "m_id s' = m_id s"
    using f unat_id [OF ok assms(2)] by (auto simp: live_with_def split: option.splits)
  then show r: "snd (rm_observerPlayers R ! i) = r" using ok assms(2) unfolding heap_ok_def by blast
  show "entry_uid (rm_observerPlayers R ! i) = uid_of s"
    by (rule wf_uid [OF assms(1)]) (use i r assms(2) in simp_all)
qed

text \<open>The host leaves: the number is looked up again after the change.\<close>

lemma removePlayer_host_gone:
  assumes wf: "room_wf (h, R)" and t: "h (snd e) = Some s" "Room_isHost (uid_of s) R" "rm_players R \<noteq> []"
    and i: "findPlayer (of_nat (m_id s)) (h, R) = Some i"
    and R': "R' = snd (snd (Room_removePlayer c s x (h, R)))"
  shows "mset (uids R') = mset (uids R) \<or> gone (uid_of s) R R'"
proof -
  note f = found_entry [OF wf t(1) i]
  let ?best = "getBestMsIndexExceptSelf (of_nat (m_id s)) False (h, R)"
  obtain b R1 where 1: "Room_changeHost (unat ?best) R = (b, R1)" by fastforce
  note u = changeHost_uids [OF 1]
  show ?thesis
  proof (cases b)
    case True
    let ?h = "Room_broadcastToRoom c (host_change_packet s CHANGE_HOST_SUCCESS ?best) R1 h"
    have wf1: "room_wf (?h, R1)"
      using shrinks_wf [OF changeHost_shrinks [OF 1] wf] by (rule wf_heap_cong [rotated]) simp
    have "map_option person (?h (snd e)) = map_option person (h (snd e))"
      using broadcast_same_people(1) [of h c _ R1] unfolding same_people_def by blast
    then obtain s1 where s1: "?h (snd e) = Some s1" "m_id s1 = m_id s" "uid_of s1 = uid_of s"
      using t(1) by (auto simp: person_def)
    have "R' = (case findPlayer (of_nat (m_id s)) (?h, R1) of None \<Rightarrow> R1 | Some k \<Rightarrow> snd (snd (leave_found c k x (?h, R1))))"
      using i f t 1 True by (simp add: R' Room_removePlayer_def Let_def split: option.split)
    then show ?thesis
      using u found_entry [OF wf1 s1(1)] leave_found_gone [of _ R1 ?h c x] s1
      by (cases "findPlayer (of_nat (m_id s)) (?h, R1)") (auto simp: gone_def)
  next
    case False
    then have "R1 = R" using 1 by (auto simp: Room_changeHost_def split: if_splits)
    then have "R' = (if length (rm_players R) > 1 then R else snd (snd (leave_found c i x (h, R))))"
      using i f t 1 False by (simp add: R' Room_removePlayer_def Let_def)
    then show ?thesis using leave_found_gone [of i R h c x] f t(1) by simp
  qed
qed

lemma removePlayer_observer:
  assumes wf: "room_wf (h, R)" and t: "e \<in> set (members R)" "h (snd e) = Some s"
    and None: "findPlayer (of_nat (m_id s)) (h, R) = None" and "rm_players R \<noteq> []"
  shows "gone (uid_of s) R (snd (snd (Room_removePlayer c s x (h, R))))"
proof -
  have "live_with h (of_nat (m_id s)) e"
    using t(2) unat_id [OF conjunct2 [OF conjunct2 [OF conjunct2 [OF wf_refs [OF wf]]]] t(2)] by (simp add: live_with_def)
  then have "\<exists>i. findObserverPlayer (of_nat (m_id s)) (h, R) = Some i"
    using t(1) None find_index_None [of "live_with h (of_nat (m_id s))" "rm_players R"]
      find_index_None [of "live_with h (of_nat (m_id s))" "rm_observerPlayers R"]
    by (auto simp: findPlayer_def findObserverPlayer_def)
  then obtain i where i: "findObserverPlayer (of_nat (m_id s)) (h, R) = Some i" by blast
  note f = found_observer [OF wf t(2) i]
  then show ?thesis using notification_gone [of i True R c "uid_of s" x h] assms(5) None i t(2)
    by (simp add: Room_removePlayer_def container_of_def)
qed

text \<open>Who is not the host is always removed.\<close>

lemma removePlayer_other:
  assumes wf: "room_wf (h, R)" and t: "e \<in> set (members R)" "h (snd e) = Some s"
    and o: "\<not> Room_isHost (uid_of s) R" "rm_players R \<noteq> []"
  shows "gone (uid_of s) R (snd (snd (Room_removePlayer c s x (h, R))))"
proof (cases "findPlayer (of_nat (m_id s)) (h, R)")
  case (Some i)
  note f = found_entry [OF wf t(2) Some]
  then show ?thesis using leave_found_gone [of i R h c x] o Some t(2) by (simp add: Room_removePlayer_def)
next
  case None
  then show ?thesis using removePlayer_observer [OF wf t _ o(2)] by simp
qed

lemma removePlayer_gone:
  assumes wf: "room_wf (h, R)" and t: "e \<in> set (members R)" "h (snd e) = Some s"
    and R': "R' = snd (snd (Room_removePlayer c s x (h, R)))"
  shows "mset (uids R') = mset (uids R) \<or> gone (uid_of s) R R'"
proof -
  consider "rm_players R = []" | "\<not> Room_isHost (uid_of s) R" "rm_players R \<noteq> []"
    | i where "Room_isHost (uid_of s) R" "rm_players R \<noteq> []" "findPlayer (of_nat (m_id s)) (h, R) = Some i"
    | "rm_players R \<noteq> []" "findPlayer (of_nat (m_id s)) (h, R) = None"
    by (cases "findPlayer (of_nat (m_id s)) (h, R)") auto
  then show ?thesis
  proof cases
    case 1
    then show ?thesis by (simp add: R' Room_removePlayer_def)
  next
    case 2
    then show ?thesis using removePlayer_other [OF wf t] R' by simp
  next
    case 3
    then show ?thesis using removePlayer_host_gone [OF wf t(2)] R' by simp
  next
    case 4
    then show ?thesis using removePlayer_observer [OF wf t 4(2,1)] R' by simp
  qed
qed

text \<open>Kicking somebody removes at most him, and certainly him when he is not the host.\<close>

lemma kickImpl_gone:
  assumes wf: "room_wf (h, R)" and t: "e \<in> set (members R)" "h (snd e) = Some s"
    and R': "R' = snd (snd (Room_kickPlayerImpl c s x (h, R)))"
  shows "mset (uids R') = mset (uids R) \<or> gone (uid_of s) R R'"
    "\<not> Room_isHost (uid_of s) R \<Longrightarrow> rm_players R \<noteq> [] \<Longrightarrow> gone (uid_of s) R R'"
proof -
  show "\<not> Room_isHost (uid_of s) R \<Longrightarrow> rm_players R \<noteq> [] \<Longrightarrow> gone (uid_of s) R R'"
    using removePlayer_other [OF wf t] R' by (simp add: Room_kickPlayerImpl_def)
  show "mset (uids R') = mset (uids R) \<or> gone (uid_of s) R R'"
  proof (cases "in_match s \<and> Room_isHost (uid_of s) R")
    case True
    then obtain e0 es where e0: "rm_players R = e0 # es" "uid_session (entry_uid e0) = uid_session (uid_of s)"
      by (auto simp: Room_isHost_def split: list.splits)
    have R'h: "R' = snd (snd (Room_removeHostFromMatch c x (h, R)))" using True R' by (simp add: Room_kickPlayerImpl_def)
    show ?thesis
    proof (cases "h (snd e0)")
      case None
      then show ?thesis by (simp add: R'h Room_removeHostFromMatch_def e0)
    next
      case (Some s0)
      have m: "e0 \<in> set (members R)" using e0(1) by simp
      have "entry_uid e0 = uid_of s0" by (rule wf_uid [OF wf m Some])
      then have "e0 = e" using wf_numbers [OF wf m t(1) Some t(2)] e0(2) by simp
      then have "entry_uid e0 = uid_of s" using wf_uid [OF wf t] by simp
      then show ?thesis using removeHost_gone [OF e0(1), of c x h] R'h by simp
    qed
  next
    case False
    then show ?thesis using removePlayer_gone [OF wf t] R' by (auto simp: Room_kickPlayerImpl_def)
  qed
qed

text \<open>What a kick of a target may do.\<close>

definition kicked_only :: "mheap \<Rightarrow> main_room \<Rightarrow> main_session option \<Rightarrow> bool \<times> room_state \<Rightarrow> bool" where
  "kicked_only h R target result =
     (case target of
        None \<Rightarrow> result = (False, h, R)
      | Some s \<Rightarrow>
          if is_staff s then result = (False, h, R)
          else let R' = snd (snd result) in
            fst result \<and> Room_wasPreviouslyKicked (ai_accountID (getAccountInfo s)) R' \<and>
            (if rm_players R = [] then mset (uids R') = mset (uids R)
             else if Room_isHost (uid_of s) R then mset (uids R') = mset (uids R) \<or> gone (uid_of s) R R'
             else gone (uid_of s) R R'))"

lemma kick_session_only:
  assumes wf: "room_wf (h, R)" and t: "\<And>s. target = Some s \<Longrightarrow> \<exists>e \<in> set (members R). h (snd e) = Some s"
  shows "kicked_only h R target (kick_session c x target (h, R))"
proof (cases target)
  case (Some s)
  then obtain e where e: "e \<in> set (members R)" "h (snd e) = Some s" using t by blast
  let ?R = "R\<lparr>rm_kickedPlayerAccountIds := rm_kickedPlayerAccountIds R @ [(ai_accountID (getAccountInfo s), name_of s)]\<rparr>"
  have wf': "room_wf (h, ?R)" using wf by (simp add: room_wf_def ids_def observers_ok_def)
  have e': "e \<in> set (members ?R)" using e(1) by simp
  have same: "uids ?R = uids R" by (rule uids_fields) simp_all
  have host: "Room_isHost (uid_of s) ?R = Room_isHost (uid_of s) R" by (simp add: Room_isHost_def)
  note k = kickImpl_gone [OF wf' e' e(2) refl, of c x]
  have empty: "rm_players R = [] \<Longrightarrow> snd (snd (Room_kickPlayerImpl c s x (h, ?R))) = ?R"
    by (simp add: Room_kickPlayerImpl_def Room_isHost_def Room_removePlayer_def)
  have "rm_kickedPlayerAccountIds (snd (snd (Room_kickPlayerImpl c s x (h, ?R)))) =
      rm_kickedPlayerAccountIds R @ [(ai_accountID (getAccountInfo s), name_of s)]" by simp
  then have "Room_wasPreviouslyKicked (ai_accountID (getAccountInfo s)) (snd (snd (Room_kickPlayerImpl c s x (h, ?R))))"
    by (simp add: Room_wasPreviouslyKicked_def)
  then show ?thesis
    using k same host empty by (simp add: kicked_only_def kick_session_def Some gone_def)
qed (simp add: kicked_only_def kick_session_def)

section \<open>Teams\<close>

lemma in_team_append:
  "in_team t (R\<lparr>rm_players := rm_players R @ [e]\<rparr>) = in_team t R + (if team_of e = t then 1 else 0)"
  by (simp add: in_team_def)

lemma team_of_created: "team_of (Room_createRoomPlayerInfo s t, r) = team_of (set_team t undefined)"
  by (simp add: team_of_def set_team_def Room_createRoomPlayerInfo_def RoomPlayerInfo_make_def Let_def)

lemma team_created [simp]:
  "team_of (Room_createRoomPlayerInfo s TEAM_RED, r) = TEAM_RED"
  "team_of (Room_createRoomPlayerInfo s TEAM_BLUE, r) = TEAM_BLUE"
  unfolding team_of_created by simp_all

lemma red_blue [simp]: "TEAM_RED \<noteq> TEAM_BLUE" "TEAM_BLUE \<noteq> TEAM_RED"
  by (simp_all add: TEAM_RED_def TEAM_BLUE_def)

lemma alternate_teams:
  "length (filter (\<lambda>e. team_of e = TEAM_BLUE) (alternate i es)) = (length es + (i + 1) mod 2) div 2 \<and>
   length (filter (\<lambda>e. team_of e = TEAM_RED) (alternate i es)) = (length es + i mod 2) div 2"
proof (induction es arbitrary: i)
  case (Cons e es)
  show ?case using Cons [of "i + 1"] by (cases "even i") (auto simp: even_iff_mod_2_eq_zero mod_Suc)
qed simp

lemma filter_count: "length (filter (\<lambda>e. f e = t) es) = count (mset (map f es)) t"
  by (induction es) auto

lemma mset_teams: "in_team t R = count (mset (map team_of (rm_players R))) t"
  unfolding in_team_def by (rule filter_count)

text \<open>Exchanging the teams of two players.\<close>

lemma ucast_3_32 [simp]: "ucast (ucast (x :: 3 word) :: u32) = x"
  by (rule bit_word_eqI) (simp add: bit_ucast_iff)

lemma team_of_back [simp]: "team_of (set_team (team_of e) f) = team_of e"
  by (simp add: team_of_def set_team_def)

lemma exchange_teams:
  assumes "b < length es" "r < length es"
  shows "map team_of (map_at r (set_team (team_of (es ! b))) (map_at b (set_team (team_of (es ! r))) es)) =
    swap_at b r (map team_of es)"
  using assms by (intro nth_equalityI) (auto simp: map_at_def swap_at_def nth_list_update)

lemma swap_team_step_teams:
  assumes "b < length (rm_players (snd st))" "r < length (rm_players (snd st))"
  shows "mset (map team_of (rm_players (snd (snd (swap_team_step c (b, r) (p, st)))))) = mset (map team_of (rm_players (snd st)))"
    "length (rm_players (snd (snd (swap_team_step c (b, r) (p, st))))) = length (rm_players (snd st))"
proof -
  obtain h R where st: "st = (h, R)" by fastforce
  have "mset (map team_of (map_at r (set_team (team_of (rm_players R ! b))) (map_at b (set_team (team_of (rm_players R ! r))) (rm_players R)))) =
      mset (map team_of (rm_players R))"
    using assms by (simp only: exchange_teams st snd_conv) (simp add: mset_swap_at)
  then show "mset (map team_of (rm_players (snd (snd (swap_team_step c (b, r) (p, st)))))) = mset (map team_of (rm_players (snd st)))"
    by (auto simp: st swap_team_step_def Let_def simp del: mset_map split: option.split)
  show "length (rm_players (snd (snd (swap_team_step c (b, r) (p, st))))) = length (rm_players (snd st))"
    by (auto simp: st swap_team_step_def Let_def map_at_def split: option.split)
qed

lemma fold_swap_teams:
  assumes "\<forall>(b, r) \<in> set brs. b < length (rm_players (snd st)) \<and> r < length (rm_players (snd st))"
  shows "mset (map team_of (rm_players (snd (snd (fold (swap_team_step c) brs (p, st)))))) = mset (map team_of (rm_players (snd st)))"
  using assms
proof (induction brs arbitrary: p st)
  case (Cons br brs)
  obtain b r where br: "br = (b, r)" by fastforce
  have bounds: "b < length (rm_players (snd st))" "r < length (rm_players (snd st))" using Cons.prems br by simp_all
  obtain p1 st1 where 1: "swap_team_step c (b, r) (p, st) = (p1, st1)" by (metis surj_pair)
  note s = swap_team_step_teams [OF bounds, of c p]
  have "mset (map team_of (rm_players (snd (snd (fold (swap_team_step c) brs (p1, st1)))))) = mset (map team_of (rm_players (snd st1)))"
    by (rule Cons.IH) (use Cons.prems s(2) 1 in auto)
  then show ?case using s(1) 1 br by simp
qed simp

lemma exchange_step:
  assumes "b < length (rm_players R)" "r < length (rm_players R)" "b \<noteq> r"
    and "h (snd (rm_players R ! b)) \<noteq> None" "h (snd (rm_players R ! r)) \<noteq> None"
    and "swap_team_step c (b, r) (p, h, R) = (p', h', R')"
  shows "length (rm_players R') = length (rm_players R)"
    "i < length (rm_players R) \<Longrightarrow> rm_players R' ! i = (if i = b then set_team (team_of (rm_players R ! r)) (rm_players R ! b)
       else if i = r then set_team (team_of (rm_players R ! b)) (rm_players R ! r) else rm_players R ! i)"
    "(h' q = None) = (h q = None)"
proof -
  obtain s1 s2 where s: "h (snd (rm_players R ! b)) = Some s1" "h (snd (rm_players R ! r)) = Some s2" using assms(4,5) by auto
  show "length (rm_players R') = length (rm_players R)"
    "i < length (rm_players R) \<Longrightarrow> rm_players R' ! i = (if i = b then set_team (team_of (rm_players R ! r)) (rm_players R ! b)
       else if i = r then set_team (team_of (rm_players R ! b)) (rm_players R ! r) else rm_players R ! i)"
    using assms(1-3,6) s by (auto simp: swap_team_step_def Let_def map_at_def nth_list_update)
  obtain p1 p2 where "h' = Room_broadcastToRoom c p2 R (Room_broadcastToRoom c p1 R h)"
    using assms(6) s by (auto simp: swap_team_step_def Let_def)
  then show "(h' q = None) = (h q = None)"
    using same_people_dom [OF broadcast_same_people(1)] by metis
qed

lemma exchange_all:
  assumes "distinct (map fst brs @ map snd brs)"
    and "\<forall>(b, r) \<in> set brs. b < length (rm_players R) \<and> r < length (rm_players R) \<and>
      h (snd (rm_players R ! b)) \<noteq> None \<and> h (snd (rm_players R ! r)) \<noteq> None \<and>
      team_of (rm_players R ! b) = TEAM_BLUE \<and> team_of (rm_players R ! r) = TEAM_RED"
    and "R' = snd (snd (fold (swap_team_step c) brs (p, h, R)))"
  shows "length (rm_players R') = length (rm_players R)"
    "i < length (rm_players R) \<Longrightarrow> rm_players R' ! i =
      (if i \<in> fst ` set brs then set_team TEAM_RED (rm_players R ! i)
       else if i \<in> snd ` set brs then set_team TEAM_BLUE (rm_players R ! i) else rm_players R ! i)"
proof -
  have "length (rm_players R') = length (rm_players R) \<and>
    (i < length (rm_players R) \<longrightarrow> rm_players R' ! i =
      (if i \<in> fst ` set brs then set_team TEAM_RED (rm_players R ! i)
       else if i \<in> snd ` set brs then set_team TEAM_BLUE (rm_players R ! i) else rm_players R ! i))"
    using assms
  proof (induction brs arbitrary: p h R)
    case (Cons br brs)
    obtain b r where br: "br = (b, r)" by fastforce
    obtain p1 h1 R1 where 1: "swap_team_step c (b, r) (p, h, R) = (p1, h1, R1)" by (metis surj_pair)
    have c: "b < length (rm_players R)" "r < length (rm_players R)" "b \<noteq> r"
      "h (snd (rm_players R ! b)) \<noteq> None" "h (snd (rm_players R ! r)) \<noteq> None"
      "team_of (rm_players R ! b) = TEAM_BLUE" "team_of (rm_players R ! r) = TEAM_RED"
      and out: "b \<notin> fst ` set brs" "b \<notin> snd ` set brs" "r \<notin> fst ` set brs" "r \<notin> snd ` set brs"
      using Cons.prems(1,2) br by auto
    note e = exchange_step [OF c(1-5) 1]
    have R': "R' = snd (snd (fold (swap_team_step c) brs (p1, h1, R1)))" using Cons.prems(3) br 1 by simp
    have d: "distinct (map fst brs @ map snd brs)" using Cons.prems(1) by simp
    have rest: "\<forall>(b, r) \<in> set brs. b < length (rm_players R1) \<and> r < length (rm_players R1) \<and>
      h1 (snd (rm_players R1 ! b)) \<noteq> None \<and> h1 (snd (rm_players R1 ! r)) \<noteq> None \<and>
      team_of (rm_players R1 ! b) = TEAM_BLUE \<and> team_of (rm_players R1 ! r) = TEAM_RED"
    proof clarify
      fix b' r' assume m: "(b', r') \<in> set brs"
      then have "b' \<noteq> b" "b' \<noteq> r" "r' \<noteq> b" "r' \<noteq> r" using out by force+
      then show "b' < length (rm_players R1) \<and> r' < length (rm_players R1) \<and>
        h1 (snd (rm_players R1 ! b')) \<noteq> None \<and> h1 (snd (rm_players R1 ! r')) \<noteq> None \<and>
        team_of (rm_players R1 ! b') = TEAM_BLUE \<and> team_of (rm_players R1 ! r') = TEAM_RED"
        using Cons.prems(2) m e by auto
    qed
    show ?case using Cons.IH [OF d rest R'] e(1) e(2) [of i] c out br by (auto simp: e(1))
  qed simp
  then show "length (rm_players R') = length (rm_players R)"
    "i < length (rm_players R) \<Longrightarrow> rm_players R' ! i =
      (if i \<in> fst ` set brs then set_team TEAM_RED (rm_players R ! i)
       else if i \<in> snd ` set brs then set_team TEAM_BLUE (rm_players R ! i) else rm_players R ! i)" by blast+
qed

section \<open>The end of a match\<close>

lemma rewrite_entries_other:
  assumes "\<And>h e r. r \<noteq> snd e \<Longrightarrow> fst (f h e) r = h r" "r \<notin> snd ` set es"
  shows "fst (rewrite_entries f es h) r = h r"
  using assms(2)
proof (induction es arbitrary: h)
  case (Cons e es)
  obtain h1 e1 where 1: "f h e = (h1, e1)" by (metis surj_pair)
  obtain h2 es2 where 2: "rewrite_entries f es h1 = (h2, es2)" by (metis surj_pair)
  show ?case using Cons.IH [of h1] Cons.prems assms(1) [of r e h] 1 2 by simp
qed simp

lemma rewrite_entries_all:
  assumes "\<And>h e r. r \<noteq> snd e \<Longrightarrow> fst (f h e) r = h r" "\<And>h e s. fst (f h e) (snd e) = Some s \<Longrightarrow> P s"
    and "distinct (map snd es)" "e \<in> set es" "fst (rewrite_entries f es h) (snd e) = Some s"
  shows "P s"
  using assms(3-5)
proof (induction es arbitrary: h)
  case (Cons e0 es)
  obtain h1 e1 where 1: "f h e0 = (h1, e1)" by (metis surj_pair)
  obtain h2 es2 where 2: "rewrite_entries f es h1 = (h2, es2)" by (metis surj_pair)
  show ?case
  proof (cases "snd e = snd e0")
    case True
    then have "snd e \<notin> snd ` set es" using Cons.prems(1) by simp
    then have "fst (rewrite_entries f es h1) (snd e) = h1 (snd e)"
      using rewrite_entries_other [of f "snd e" es h1] assms(1) by blast
    then show ?thesis using Cons.prems(3) True assms(2) [of h e0 s] 1 2 by simp
  next
    case False
    then show ?thesis using Cons.IH [of h1] Cons.prems 1 2 by auto
  qed
qed simp

lemma end_match_entry_other: "r \<noteq> snd e \<Longrightarrow> fst (end_match_entry h e) r = h r"
  by (auto simp: end_match_entry_def set_entry_state_def split: option.split)

lemma end_match_entry_self: "fst (end_match_entry h e) (snd e) = Some s \<Longrightarrow> \<not> in_match s"
  by (auto simp: end_match_entry_def set_entry_state_def player_isInMatch_def states split: option.splits if_splits)

section \<open>A room for the examples\<close>

definition demo_main :: "nat \<Rightarrow> u16 \<Rightarrow> u32 \<Rightarrow> main_session" where
  "demo_main i ping st =
     \<lparr>m_reader = [], m_crypt = Crypt_new [] [], m_id = i, m_ip = [], m_isOpen = True, m_checkValidSession = False,
      m_isValidSession = True, m_isFirstRead = False, m_written = [],
      sess_app = \<lparr>mf_player = (Player_new 0)\<lparr>p_ping := ping, p_playerState := st, p_accountInfo :=
           AccountInfo_default\<lparr>ai_uniqueId := UniqueId_make (of_nat i) 1 0, ai_nickname := [of_nat i, 0]\<rparr>\<rparr>,
         mf_packet = packet_new, mf_eventMissions = [], mf_hasBeenMatchBanned = False,
         mf_isInvisible = False, mf_totalBossBattleRespawnsLeft = 3, mf_matchStartTime = 0\<rparr>\<rparr>"

definition demo_sessions :: "u32 \<Rightarrow> mheap" where
  "demo_sessions st = [1 \<mapsto> demo_main 10 50 st, 2 \<mapsto> demo_main 20 40 STATE_WAITING, 3 \<mapsto> demo_main 30 20 STATE_WAITING]"

definition demo_entry :: "nat \<Rightarrow> u16 \<Rightarrow> u32 \<Rightarrow> u32 \<Rightarrow> mref \<Rightarrow> entry" where
  "demo_entry i ping st team r = (Room_createRoomPlayerInfo (demo_main i ping st) team, r)"

definition demo_settings :: RoomSettings where
  "demo_settings = \<lparr>rs_time = 0, rs_weaponRestriction = 7, rs_isItemOn = 1, rs_mode = 0, rs_isOpen = 1,
     rs_hasPassword = 0, rs_playersPerTeam = 4, rs_map = 1, rs_isObserverModeOn = 1\<rparr>"

definition demo_main_room :: main_room where
  "demo_main_room =
     (fst (Room_new [] demo_settings (fst (demo_entry 10 50 STATE_WAITING TEAM_BLUE 1)) 1 False 0 (RoomNumberGenerator_new Room 600)))
       \<lparr>rm_players := [demo_entry 10 50 STATE_WAITING TEAM_BLUE 1, demo_entry 20 40 STATE_WAITING TEAM_RED 2],
        rm_observerPlayers := [demo_entry 30 20 STATE_WAITING TEAM_OBSERVER 3]\<rparr>"

lemma demo_main_simps [simp]:
  "m_id (demo_main i p st) = i" "state_of (demo_main i p st) = st" "p_ping (getPlayer (demo_main i p st)) = p"
  "uid_of (demo_main i p st) = UniqueId_make (of_nat i) 1 0" "is_staff (demo_main i p st) = False"
  "name_of (demo_main i p st) = takeWhile (\<lambda>b. b \<noteq> 0) [of_nat i, 0]"
  by (simp_all add: demo_main_def getPlayer_def getAccountInfo_def is_staff_def GRADE_ES_def AccountInfo_default_def name_of_def)

lemma demo_entry_simps [simp]:
  "snd (demo_entry i p st t r) = r" "entry_uid (demo_entry i p st t r) = UniqueId_make (of_nat i) 1 0"
  "team_of (demo_entry i p st TEAM_OBSERVER r) = TEAM_OBSERVER" "team_of (demo_entry i p st TEAM_BLUE r) = TEAM_BLUE"
  "team_of (demo_entry i p st TEAM_RED r) = TEAM_RED"
  by (simp_all add: demo_entry_def)

lemma demo_room_lists [simp]:
  "rm_players demo_main_room = [demo_entry 10 50 STATE_WAITING TEAM_BLUE 1, demo_entry 20 40 STATE_WAITING TEAM_RED 2]"
  "rm_observerPlayers demo_main_room = [demo_entry 30 20 STATE_WAITING TEAM_OBSERVER 3]"
  by (simp_all add: demo_main_room_def)

lemma demo_sessions_simps [simp]:
  "demo_sessions st 1 = Some (demo_main 10 50 st)" "demo_sessions st 2 = Some (demo_main 20 40 STATE_WAITING)"
  "demo_sessions st 3 = Some (demo_main 30 20 STATE_WAITING)"
  "demo_sessions st (Suc 0) = Some (demo_main 10 50 st)"
  by (simp_all add: demo_sessions_def)

lemma demo_sessions_ok: "heap_ok (demo_sessions st)"
proof -
  have "r = 1 \<or> r = 2 \<or> r = 3" if "demo_sessions st r = Some s" for r s
    using that by (auto simp: demo_sessions_def split: if_splits)
  then show ?thesis
    unfolding heap_ok_def by (intro conjI allI impI) (fastforce simp: UniqueId_make_def demo_sessions_def split: if_splits)+
qed

lemma demo_room_wf: "room_wf (demo_sessions st, demo_main_room)"
  by (simp add: room_wf_def demo_sessions_ok ids_def observers_ok_def)

section \<open>Properties\<close>

text \<open>C5: In every state a room can reach - joins, leaves, kicks, changes of host, of teams and of
  states, matches, closing, and sessions that change, expire or connect in between - nobody is a
  member twice: the entries refer to different sessions, those of two live sessions have different
  numbers, an entry carries the number of its session, and the observers are in their team.\<close>

theorem main_room_consistent:
  assumes "room_run c (h, R)"
  shows "distinct (map snd (members R)) \<and>
    (\<forall>e \<in> set (members R). \<forall>s. h (snd e) = Some s \<longrightarrow> entry_uid e = uid_of s) \<and>
    (\<forall>e \<in> set (members R). \<forall>e' \<in> set (members R). \<forall>s s'.
       h (snd e) = Some s \<and> h (snd e') = Some s' \<and> uid_session (uid_of s) = uid_session (uid_of s') \<longrightarrow> e = e') \<and>
    (\<forall>e \<in> set (rm_observerPlayers R). team_of e = TEAM_OBSERVER)"
proof -
  have wf: "room_wf (h, R)" by (rule room_run_wf [OF assms])
  then have "\<forall>e \<in> set (rm_observerPlayers R). team_of e = TEAM_OBSERVER" by (simp add: room_wf_def observers_ok_def)
  then show ?thesis using wf_refs [OF wf] wf_uid [OF wf] wf_numbers [OF wf] by blast
qed

theorem main_room_consistent_witness:
  "distinct (map snd (members (snd (Room_addPlayer (Some 2) TEAM_RED (demo_sessions STATE_WAITING,
     fst (Room_new [] demo_settings (fst (demo_entry 10 50 STATE_WAITING TEAM_BLUE 1)) 1 False 0 (RoomNumberGenerator_new Room 600)))))))"
proof -
  let ?st = "Room_addPlayer (Some 2) TEAM_RED (demo_sessions STATE_WAITING,
     fst (Room_new [] demo_settings (fst (demo_entry 10 50 STATE_WAITING TEAM_BLUE 1)) 1 False 0 (RoomNumberGenerator_new Room 600)))"
  have "rpi_uniqueId (fst (demo_entry 10 50 STATE_WAITING TEAM_BLUE 1)) = uid_of (demo_main 10 50 STATE_WAITING)"
    using demo_entry_simps(2) [of 10 50 STATE_WAITING TEAM_BLUE 1] by (simp only: entry_uid_def demo_main_simps(4))
  from run_join [OF run_new [OF demo_sessions_ok demo_sessions_simps(1) this]]
  have "room_run (Crypt_new [] []) ?st" .
  then have "room_run (Crypt_new [] []) (fst ?st, snd ?st)" by simp
  from main_room_consistent [OF this] show ?thesis by blast
qed

text \<open>C6: The host leaves a room all of whose sessions are alive, and somebody else is outside the
  match. Then the room stays open, the new host is one of those others outside the match with the
  smallest ping among them, exactly the old host is gone, and he is in no room. (Players in the match
  are not considered, whatever their ping, and an expired session shifts the index that is counted.)\<close>

theorem host_succession:
  assumes "room_wf (h, R)" "rm_players R = e # rest" "h (snd e) = Some s"
    and "\<forall>f \<in> set rest. h (snd f) \<noteq> None" "length (rm_players R) < 2 ^ 32"
    and "\<exists>f \<in> set rest. \<exists>s'. h (snd f) = Some s' \<and> \<not> in_match s'"
  shows "case Room_removePlayer c s x (h, R) of (closed, h', R') \<Rightarrow>
    \<not> closed \<and> mset (rm_players R') = mset rest \<and>
    (\<exists>s'. h (snd (hd (rm_players R'))) = Some s' \<and> \<not> in_match s' \<and>
       (\<forall>f \<in> set rest. \<forall>s''. h (snd f) = Some s'' \<and> \<not> in_match s'' \<longrightarrow>
          p_ping (getPlayer s') \<le> p_ping (getPlayer s''))) \<and>
    (\<exists>s'. h' (snd e) = Some s' \<and> p_roomNumber (getPlayer s') = 0)"
proof -
  have ok: "heap_ok h" "distinct (map snd (rm_players R))" using wf_refs [OF assms(1)] by blast+
  have el: "eligible h (of_nat (m_id s)) False f \<longleftrightarrow> (\<exists>s'. h (snd f) = Some s' \<and> \<not> in_match s')"
    if "f \<in> set rest" for f
  proof -
    have "snd f \<in> snd ` set rest" using that by (rule imageI)
    then have "snd f \<noteq> snd e" using ok(2) assms(2) by (metis distinct.simps(2) list.simps(9) set_map)
    then show ?thesis using ok(1) assms(3) unat_id64 [OF ok(1) assms(3)] by (auto simp: eligible_def heap_ok_def)
  qed
  have self: "\<not> eligible h (of_nat (m_id s)) False e"
    using assms(3) unat_id64 [OF ok(1) assms(3)] by (simp add: eligible_def)
  obtain f where f: "f \<in> set rest" "\<exists>s'. h (snd f) = Some s' \<and> \<not> in_match s'" using assms(6) by blast
  have alive: "\<forall>g \<in> set (rm_players R). h (snd g) \<noteq> None" using assms(2-4) by simp
  have "f \<in> set (rm_players R)" "1 < length (rm_players R)" using f(1) assms(2) by (auto intro: length_pos_if_in_set)
  with best_some [OF alive, of f "of_nat (m_id s)" False] assms(5) el [OF f(1)] f(2)
  obtain j where j: "j < length (rm_players R)" "unat (getBestMsIndexExceptSelf (of_nat (m_id s)) False (h, R)) = j"
    "eligible h (of_nat (m_id s)) False (rm_players R ! j)"
    "\<forall>g \<in> set (rm_players R). eligible h (of_nat (m_id s)) False g \<longrightarrow> ping_at h (rm_players R ! j) \<le> ping_at h g"
    by metis
  have "0 < j" using j(3) self assms(2) by (cases j) auto
  from leave_after_promotion [OF assms(1-3) this j(1,2), of c x] obtain h' R' where
    l: "Room_removePlayer c s x (h, R) = (False, h', R')" "mset (rm_players R') = mset rest"
      "hd (rm_players R') = rm_players R ! j" "\<exists>s'. h' (snd e) = Some s' \<and> p_roomNumber (getPlayer s') = 0"
    by metis
  obtain s' where s': "h (snd (rm_players R ! j)) = Some s'" "\<not> in_match s'" using j(3) by (auto simp: eligible_def)
  have "p_ping (getPlayer s') \<le> p_ping (getPlayer s'')"
    if "g \<in> set rest" "h (snd g) = Some s''" "\<not> in_match s''" for g s''
  proof -
    have "ping_at h (rm_players R ! j) \<le> ping_at h g" using j(4) el [OF that(1)] that assms(2) by simp
    then show ?thesis using s'(1) that(2) by (simp add: ping_at_def word_le_nat_alt)
  qed
  then show ?thesis using l s' by auto
qed

theorem host_succession_witness:
  "fst (Room_removePlayer (Crypt_new [] []) (demo_main 10 50 STATE_WAITING) 1 (demo_sessions STATE_WAITING, demo_main_room)) = False"
  using host_succession [OF demo_room_wf, of "demo_entry 10 50 STATE_WAITING TEAM_BLUE 1"
      "[demo_entry 20 40 STATE_WAITING TEAM_RED 2]" STATE_WAITING "demo_main 10 50 STATE_WAITING" "Crypt_new [] []" 1]
  by (auto simp: player_isInMatch_def states split: prod.splits)

text \<open>C18: A player other than the host leaves a room whose host is alive. The last player takes his index
  and all the others keep theirs, the host among them, the room stays open; he is told so and is in no room; every other member gets one notice, which
  carries his number and the index he had, and nobody else hears of it.\<close>

theorem leaving_notifies_others:
  assumes "room_wf (h, R)" "0 < i" "i < length (rm_players R)" "h (snd (rm_players R ! i)) = Some s"
    and "h (snd (rm_players R ! 0)) \<noteq> None"
  shows "case Room_removePlayer c s x (h, R) of (closed, h', R') \<Rightarrow>
    \<not> closed \<and> rm_players R' = butlast (swap_at (length (rm_players R) - 1) i (rm_players R)) \<and>
    hd (rm_players R') = hd (rm_players R) \<and> rm_observerPlayers R' = rm_observerPlayers R \<and>
    (\<forall>r. h' r =
       (if r = snd (rm_players R ! i) then Some (send c (leave_packet x s) (session_leaveRoom s))
        else if \<exists>e \<in> set (members R). snd e = r \<and> uid_session (entry_uid e) \<noteq> uid_session (uid_of s)
        then map_option (send c (leave_notice (uid_of s) i R)) (h r) else h r))"
proof -
  obtain e es where p: "rm_players R = e # es" using assms(3) by (cases "rm_players R") auto
  obtain s0 where s0: "h (snd e) = Some s0" using assms(5) p by auto
  have "rm_players R ! i \<in> set (rm_players R)" using assms(3) by (rule nth_mem)
  then have m: "e \<in> set (members R)" "rm_players R ! i \<in> set (members R)" using p by auto
  have ne: "e \<noteq> rm_players R ! i"
    using wf_refs [OF assms(1)] p assms(2,3) by (cases i) (auto dest: nth_mem)
  have "uid_session (uid_of s0) \<noteq> uid_session (uid_of s)"
    using wf_numbers [OF assms(1) m s0 assms(4)] ne by blast
  then have host: "\<not> Room_isHost (uid_of s) R"
    using wf_uid [OF assms(1) m(1) s0] p by (simp add: Room_isHost_def)
  obtain h' where l: "leave_found c i x (h, R) =
      (rm_players (take_out i False R) = [], h', take_out i False (R\<lparr>rm_packet := leave_notice (uid_of s) i R\<rparr>))"
    "h' (snd (rm_players R ! i)) = Some (send c (leave_packet x s) (session_leaveRoom s))"
    "\<And>r. r \<noteq> snd (rm_players R ! i) \<Longrightarrow> h' r =
      (if \<exists>e \<in> set (members R). snd e = r \<and> uid_session (entry_uid e) \<noteq> uid_session (uid_of s)
       then map_option (send c (leave_notice (uid_of s) i R)) (h r) else h r)"
    by (rule leave_found_effect [OF assms(1,3,4), of c x], rule that) assumption+
  let ?qs = "butlast (swap_at (length (rm_players R) - 1) i (rm_players R))"
  have len: "length ?qs = length (rm_players R) - 1" "1 \<le> length ?qs" using assms(2,3) by simp_all
  then have "?qs \<noteq> []" by (metis list.size(3) not_one_le_zero)
  moreover have "hd ?qs = hd (rm_players R)"
    using hd_swap_pop [OF assms(2,3)] p by (simp add: hd_conv_nth)
  moreover have "Room_removePlayer c s x (h, R) = leave_found c i x (h, R)"
    using p host findPlayer_at [OF assms(1,3,4)] assms(4) by (simp add: Room_removePlayer_def)
  ultimately show ?thesis using l by (simp add: take_out_def)
qed

theorem leaving_notifies_others_witness:
  "fst (Room_removePlayer (Crypt_new [] []) (demo_main 20 40 STATE_WAITING) 1 (demo_sessions STATE_WAITING, demo_main_room)) = False"
  using leaving_notifies_others [OF demo_room_wf, of 1 STATE_WAITING "demo_main 20 40 STATE_WAITING" "Crypt_new [] []" 1]
  by (auto split: prod.splits)

text \<open>A host who is in the match while nobody else is, closes the room by leaving, however many
  players wait in it: taking him out of the match before counting has no effect, because the test
  reads his state, so the search runs among the players in the match and finds nobody.\<close>

theorem host_alone_closes_room:
  assumes "room_wf (h, R)" "rm_players R = e # rest" "h (snd e) = Some s" "in_match s"
    and "\<forall>f \<in> set rest. \<forall>s'. h (snd f) = Some s' \<longrightarrow> \<not> in_match s'"
    and "length (rm_players R) < 2 ^ 32 - 1"
  shows "fst (Room_removeHostFromMatch c x (h, R)) \<and> snd (snd (Room_removeHostFromMatch c x (h, R))) = R"
  using host_alone [OF assms(1-4) _ assms(6)] assms(5) by (metis fst_conv snd_conv)

theorem host_alone_closes_room_witness:
  "fst (Room_removeHostFromMatch (Crypt_new [] []) 1 (demo_sessions STATE_NORMAL, demo_main_room))"
  using host_alone_closes_room [OF demo_room_wf, of "demo_entry 10 50 STATE_WAITING TEAM_BLUE 1"
      "[demo_entry 20 40 STATE_WAITING TEAM_RED 2]" STATE_NORMAL "demo_main 10 50 STATE_NORMAL" "Crypt_new [] []" 1]
  by (simp add: player_isInMatch_def states)

text \<open>Who hears a chat. In a match the players and the staff among the observers are heard by
  all others who are in the match, other observers by the observers in the match only. What a dead
  player says, unless he is staff, reaches dead players only, on every channel, and team chat stays
  among the players of the sender's team.\<close>

theorem chat_audience:
  assumes "distinct (map snd (members R))"
  shows "Room_broadcastToMatchExceptSelf c p s ChatExtra_NORMAL R h r =
      (if chosen_in (\<lambda>info s'. rpi_uniqueId info \<noteq> uid_of s \<and> in_match s')
            (if uid_of s \<in> entry_uid ` set (rm_players R) \<or> uid_of s \<in> entry_uid ` set (rm_observerPlayers R) \<and> is_staff s
             then members R
             else if uid_of s \<in> entry_uid ` set (rm_observerPlayers R) then rm_observerPlayers R else []) h r
       then map_option (send c p) (h r) else h r) \<and>
    (\<not> is_staff s \<and> Room_broadcastToDeadExceptSelf c p s extra R h r \<noteq> h r \<longrightarrow>
       (\<exists>s'. h r = Some s' \<and> state_of s' = STATE_DYING)) \<and>
    (Room_broadcastToTeamExceptSelf c p s R h r \<noteq> h r \<longrightarrow>
       (\<exists>i e. findPlayer (ucast (uid_session (uid_of s))) (h, R) = Some i \<and> e \<in> set (rm_players R) \<and> snd e = r \<and>
          team_of e = team_of (rm_players R ! i)))"
proof (intro conjI impI)
  have d: "distinct (map snd (rm_players R))" "distinct (map snd (rm_observerPlayers R))" using assms by simp_all
  show "Room_broadcastToMatchExceptSelf c p s ChatExtra_NORMAL R h r =
      (if chosen_in (\<lambda>info s'. rpi_uniqueId info \<noteq> uid_of s \<and> in_match s')
            (if uid_of s \<in> entry_uid ` set (rm_players R) \<or> uid_of s \<in> entry_uid ` set (rm_observerPlayers R) \<and> is_staff s
             then members R
             else if uid_of s \<in> entry_uid ` set (rm_observerPlayers R) then rm_observerPlayers R else []) h r
       then map_option (send c p) (h r) else h r)"
    using two_loops [OF assms] for_live_apply [OF d(2)]
    by (auto simp: Room_broadcastToMatchExceptSelf_def toMatchExceptSelfHelper_def Let_def image_iff
        ChatExtra_NORMAL_def ChatExtra_TEAM_def chosen_in_def)
  show "\<exists>s'. h r = Some s' \<and> state_of s' = STATE_DYING"
    if "\<not> is_staff s \<and> Room_broadcastToDeadExceptSelf c p s extra R h r \<noteq> h r"
    using that for_live_apply [OF d(1)]
    by (auto simp: Room_broadcastToDeadExceptSelf_def Room_broadcastToDeadTeamExceptSelf_def toMatchDeadExceptSelfHelper_def
        Let_def chosen_in_def split: option.splits if_splits)
  show "\<exists>i e. findPlayer (ucast (uid_session (uid_of s))) (h, R) = Some i \<and> e \<in> set (rm_players R) \<and> snd e = r \<and>
          team_of e = team_of (rm_players R ! i)"
    if heard: "Room_broadcastToTeamExceptSelf c p s R h r \<noteq> h r"
  proof -
    obtain i where i: "findPlayer (ucast (uid_session (uid_of s))) (h, R) = Some i"
      using heard by (auto simp: Room_broadcastToTeamExceptSelf_def split: option.splits)
    obtain s0 where s0: "h (snd (rm_players R ! i)) = Some s0"
      using heard i by (auto simp: Room_broadcastToTeamExceptSelf_def split: option.splits)
    let ?P = "\<lambda>info s'. uid_session (rpi_uniqueId info) \<noteq> uid_session (uid_of s) \<and>
       rpi_team info = rpi_team (fst (rm_players R ! i)) \<and> in_match s' = in_match s0"
    have "Room_broadcastToTeamExceptSelf c p s R h r = for_live ?P (send c p) (rm_players R) h r"
      by (simp add: Room_broadcastToTeamExceptSelf_def i s0)
    then have "chosen_in ?P (rm_players R) h r" using heard for_live_apply [OF d(1), of ?P "send c p" h r] by (simp split: if_splits)
    then obtain info where "(info, r) \<in> set (rm_players R)" "rpi_team info = rpi_team (fst (rm_players R ! i))"
      by (auto simp: chosen_in_def)
    then show ?thesis using i by (intro exI [of _ i] exI [of _ "(info, r)"]) (simp add: team_of_def)
  qed
qed

theorem chat_audience_witness:
  "Room_broadcastToMatchExceptSelf (Crypt_new [] []) packet_new (demo_main 10 50 STATE_NORMAL) ChatExtra_NORMAL
      demo_main_room (demo_sessions STATE_NORMAL) 2 = demo_sessions STATE_NORMAL 2"
  using chat_audience [of demo_main_room "Crypt_new [] []" packet_new "demo_main 10 50 STATE_NORMAL" "demo_sessions STATE_NORMAL" 2 0]
  by (simp add: chosen_in_def player_isInMatch_def states)



text \<open>C20: Teams stay balanced. A player who joins in the team the room computes keeps the numbers of
  blue and red players within one of each other, and the assignment when the mode becomes team
  based makes them equal or puts one more in blue.\<close>

theorem teams_stay_balanced:
  assumes "in_team TEAM_RED R \<le> in_team TEAM_BLUE R + 1" "in_team TEAM_BLUE R \<le> in_team TEAM_RED R + 1"
  shows "(let R' = snd (Room_addPlayer r (Room_calculateNewPlayerTeam R) (h, R)) in
      in_team TEAM_RED R' \<le> in_team TEAM_BLUE R' + 1 \<and> in_team TEAM_BLUE R' \<le> in_team TEAM_RED R' + 1) \<and>
    (let R' = Room_updatePlayersTeamToTeamBased R; n = length (rm_players R) in
      in_team TEAM_BLUE R' = (n + 1) div 2 \<and> in_team TEAM_RED R' = n div 2)"
proof
  show "let R' = snd (Room_addPlayer r (Room_calculateNewPlayerTeam R) (h, R)) in
      in_team TEAM_RED R' \<le> in_team TEAM_BLUE R' + 1 \<and> in_team TEAM_BLUE R' \<le> in_team TEAM_RED R' + 1"
    using assms
    by (auto simp: Let_def Room_addPlayer_def Room_calculateNewPlayerTeam_def in_team_append split: option.split)
  show "let R' = Room_updatePlayersTeamToTeamBased R; n = length (rm_players R) in
      in_team TEAM_BLUE R' = (n + 1) div 2 \<and> in_team TEAM_RED R' = n div 2"
    using alternate_teams [of 0 "rm_players R"] by (simp add: Let_def Room_updatePlayersTeamToTeamBased_def in_team_def)
qed

theorem teams_stay_balanced_witness:
  "let R' = snd (Room_addPlayer (Some 3) (Room_calculateNewPlayerTeam demo_main_room) (demo_sessions 8, demo_main_room)) in
     in_team TEAM_RED R' \<le> in_team TEAM_BLUE R' + 1 \<and> in_team TEAM_BLUE R' \<le> in_team TEAM_RED R' + 1"
  using teams_stay_balanced [of demo_main_room "Some 3" "demo_sessions 8"] by (simp add: in_team_def Let_def)

text \<open>C21: Shuffling the teams exchanges players one for one. Whatever permutations the two shuffles are,
  the first \<open>n\<close> live players of the shuffled blue team go to red and the first \<open>n\<close> of the shuffled red
  team go to blue, where \<open>n\<close> is the size of the smaller team; everybody else keeps the team, nobody moves
  in the list, and so every team keeps its size.\<close>

theorem randomize_keeps_team_sizes:
  assumes "\<And>xs. mset (shuffleBlue xs) = mset xs" "\<And>xs. mset (shuffleRed xs) = mset xs"
  shows "let n = min (length (live_in_team TEAM_BLUE (h, R))) (length (live_in_team TEAM_RED (h, R)));
      blue = take n (shuffleBlue (live_in_team TEAM_BLUE (h, R))); red = take n (shuffleRed (live_in_team TEAM_RED (h, R)));
      R' = snd (Room_randomizeTeams c shuffleBlue shuffleRed (h, R)) in
    length (rm_players R') = length (rm_players R) \<and> length blue = n \<and> length red = n \<and>
    (\<forall>i < length (rm_players R). rm_players R' ! i =
      (if i \<in> set blue then set_team TEAM_RED (rm_players R ! i)
       else if i \<in> set red then set_team TEAM_BLUE (rm_players R ! i) else rm_players R ! i)) \<and>
    (\<forall>t. in_team t R' = in_team t R)"
proof -
  let ?n = "min (length (live_in_team TEAM_BLUE (h, R))) (length (live_in_team TEAM_RED (h, R)))"
  let ?bs = "shuffleBlue (live_in_team TEAM_BLUE (h, R))" and ?rs = "shuffleRed (live_in_team TEAM_RED (h, R))"
  let ?brs = "zip ?bs ?rs" and ?R' = "snd (Room_randomizeTeams c shuffleBlue shuffleRed (h, R))"
  note b = assms(1) [of "live_in_team TEAM_BLUE (h, R)"] and r = assms(2) [of "live_in_team TEAM_RED (h, R)"]
  have live: "distinct (live_in_team t (h, R))" for t by (simp add: live_in_team_def)
  have s: "set ?bs = set (live_in_team TEAM_BLUE (h, R))" "set ?rs = set (live_in_team TEAM_RED (h, R))"
    "distinct ?bs" "distinct ?rs" "length ?bs = length (live_in_team TEAM_BLUE (h, R))" "length ?rs = length (live_in_team TEAM_RED (h, R))"
    using mset_eq_setD [OF b] mset_eq_setD [OF r] mset_eq_length [OF b] mset_eq_length [OF r]
      mset_eq_imp_distinct_iff [OF b] mset_eq_imp_distinct_iff [OF r] live by simp_all
  have m: "map fst ?brs = take ?n ?bs" "map snd ?brs = take ?n ?rs"
    using s(5,6) by (simp_all add: map_fst_zip_take map_snd_zip_take)
  have live_in: "i < length (rm_players R) \<and> h (snd (rm_players R ! i)) \<noteq> None \<and> team_of (rm_players R ! i) = t"
    if "i \<in> set (live_in_team t (h, R))" for i t
    using that by (simp add: live_in_team_def)
  have ok: "\<forall>(b, r) \<in> set ?brs. b < length (rm_players R) \<and> r < length (rm_players R) \<and>
      h (snd (rm_players R ! b)) \<noteq> None \<and> h (snd (rm_players R ! r)) \<noteq> None \<and>
      team_of (rm_players R ! b) = TEAM_BLUE \<and> team_of (rm_players R ! r) = TEAM_RED"
  proof clarify
    fix b r assume m: "(b, r) \<in> set ?brs"
    note b = live_in [of b TEAM_BLUE] and r = live_in [of r TEAM_RED]
    show "b < length (rm_players R) \<and> r < length (rm_players R) \<and>
      h (snd (rm_players R ! b)) \<noteq> None \<and> h (snd (rm_players R ! r)) \<noteq> None \<and>
      team_of (rm_players R ! b) = TEAM_BLUE \<and> team_of (rm_players R ! r) = TEAM_RED"
      using set_zip_leftD [OF m] set_zip_rightD [OF m] b r unfolding s(1,2) by blast
  qed
  have "\<not> (x \<in> set ?bs \<and> x \<in> set ?rs)" for x
    using live_in [of x TEAM_BLUE] live_in [of x TEAM_RED] unfolding s(1,2) by auto
  then have "set (take ?n ?bs) \<inter> set (take ?n ?rs) = {}"
    by (auto dest: in_set_takeD)
  then have d: "distinct (map fst ?brs @ map snd ?brs)" unfolding m using s(3,4) by simp
  obtain p where R': "?R' = snd (snd (fold (swap_team_step c) ?brs (p, h, R)))"
    by (simp add: Room_randomizeTeams_def Let_def)
  note e = exchange_all [OF d ok R']
  have sets: "fst ` set ?brs = set (take ?n ?bs)" "snd ` set ?brs = set (take ?n ?rs)"
    unfolding m [symmetric] set_map by (rule refl)+
  have "in_team t ?R' = in_team t R" for t
    using fold_swap_teams [of ?brs "(h, R)" c p] ok R' by (fastforce simp: mset_teams simp del: mset_map)
  then show ?thesis using e s(5,6) unfolding Let_def sets by simp
qed

theorem randomize_keeps_team_sizes_witness:
  "in_team TEAM_BLUE (snd (Room_randomizeTeams (Crypt_new [] []) rev id (demo_sessions 8, demo_main_room))) = in_team TEAM_BLUE demo_main_room"
  using randomize_keeps_team_sizes [of rev id "demo_sessions 8" demo_main_room "Crypt_new [] []"] by (simp add: Let_def)
text \<open>When a match ends, no live member is in a match any more, no match has started, and the
  votekick is reset; nobody has left.\<close>

theorem match_end_resets:
  assumes "room_wf (h, R)"
  shows "case Room_endMatch (h, R) of (h', R') \<Rightarrow>
    (\<forall>e \<in> set (members R). \<forall>s. h' (snd e) = Some s \<longrightarrow> \<not> in_match s) \<and>
    \<not> rm_hasMatchStarted R' \<and> rm_votekickYesses R' = 0 \<and> ids R' = ids R"
proof -
  have d: "distinct (map snd (rm_players R))" "distinct (map snd (rm_observerPlayers R))"
    "snd ` set (rm_players R) \<inter> snd ` set (rm_observerPlayers R) = {}"
    using wf_refs [OF assms] by simp_all
  obtain h1 ps where 1: "rewrite_entries end_match_entry (rm_players R) h = (h1, ps)" by fastforce
  obtain h2 os where 2: "rewrite_entries end_match_entry (rm_observerPlayers R) h1 = (h2, os)" by fastforce
  have all: "\<not> in_match s" if "distinct (map snd es)" "e \<in> set es" "fst (rewrite_entries end_match_entry es h0) (snd e) = Some s"
    for es e h0 s
    using rewrite_entries_all [of end_match_entry "\<lambda>s. \<not> in_match s", OF end_match_entry_other end_match_entry_self that] .
  have "\<not> in_match s" if "e \<in> set (members R)" "h2 (snd e) = Some s" for e s
  proof (cases "e \<in> set (rm_observerPlayers R)")
    case True
    then show ?thesis using all [OF d(2), of e h1 s] that(2) 2 by simp
  next
    case False
    then have e: "e \<in> set (rm_players R)" using that(1) by simp
    then have "snd e \<notin> snd ` set (rm_observerPlayers R)" using d(3) by blast
    then have "h2 (snd e) = h1 (snd e)"
      using rewrite_entries_other [of end_match_entry, OF end_match_entry_other, of "snd e" "rm_observerPlayers R" h1] 2 by simp
    then show ?thesis using all [OF d(1) e, of h s] that(2) 1 by simp
  qed
  moreover have "list_all2 same_row (rm_players R) ps" "list_all2 same_row (rm_observerPlayers R) os"
    using rewrite_entries_same [OF end_match_entry_same, of h "rm_players R"]
      rewrite_entries_same [OF end_match_entry_same, of h1 "rm_observerPlayers R"] 1 2 by simp_all
  from this [THEN same_row_ids] have "ids (R\<lparr>rm_players := ps, rm_observerPlayers := os\<rparr>) = ids R"
    by (simp add: ids_append)
  moreover have "ids (Room_resetVotekick R0) = ids R0" for R0 by (simp add: ids_def Room_resetVotekick_def)
  ultimately show ?thesis
    using 1 2 by (simp add: Room_endMatch_def) (simp add: Room_resetVotekick_def)
qed

theorem match_end_resets_witness:
  "ids (snd (Room_endMatch (demo_sessions STATE_NORMAL, demo_main_room))) = ids demo_main_room"
  using match_end_resets [OF demo_room_wf, of STATE_NORMAL] by (simp add: case_prod_unfold)

text \<open>C33: The assassin mode never has enough players: a ready player of the blue team is not counted,
  so at most the host is on that side, and the answer is no for every room.\<close>

theorem assassin_mode_never_ready: "\<not> Room_assassinModeEnoughPlayers st"
proof -
  obtain h R where st: "st = (h, R)" by fastforce
  have "snd (snd (fold (assassin_step h) es (i, r, b))) \<le> 1"
    if "b \<le> 1" "i = 0 \<Longrightarrow> b = 0" for es i r and b :: u32
    using that
  proof (induction es arbitrary: i r b)
    case (Cons e es)
    obtain i1 r1 b1 where 1: "assassin_step h e (i, r, b) = (i1, r1, b1)" by (metis prod_cases3)
    then have "b1 \<le> 1" "i1 = 0 \<Longrightarrow> b1 = 0"
      using Cons.prems by (auto simp: assassin_step_def split: if_splits option.splits)
    then show ?case using Cons.IH 1 by simp
  qed simp
  note blue = this [of 0 0 "rm_players R" 0]
  obtain i r b where f: "fold (assassin_step h) (rm_players R) (0, 0, 0) = (i, r, b)" by (metis prod_cases3)
  then have "b \<le> 1" using blue by simp
  then have "\<not> 4 \<le> b" by (simp add: word_le_nat_alt)
  then show ?thesis by (simp add: st Room_assassinModeEnoughPlayers_def f)
qed

end
