(* ===== verification/Inventory.thy ===== *)
theory Inventory
  imports Player "HOL-Library.Multiset"
begin

text \<open>
  The items of a player, the second half of \<open>MainServer/src/Classes/Player.cpp\<close>, with the
  conversions between stored and worn items of \<open>MainServer/include/Structures/Item\<close>. The
  constant database of the game is data: its lookups are the parameter \<open>item_db\<close>. What the code
  asks the scheduler to write to the account database is a log of calls.
\<close>

unbundle bit_operations_syntax

section \<open>The item database and the conversions\<close>

record SetItemInfo =
  si_hair :: u32
  si_face :: u32
  si_top :: u32
  si_under :: u32
  si_pants :: u32
  si_arms :: u32
  si_boots :: u32
  si_acce_A :: u32
  si_acce_B :: u32
  si_acce_C :: u32

record item_db =
  db_stocks :: "u32 \<Rightarrow> u16 option"
  db_durability :: "u32 \<Rightarrow> u16 option"
  db_type :: "u32 \<Rightarrow> u32 option"
  db_tradeable :: "u32 \<Rightarrow> bool option"
  db_set :: "u32 \<Rightarrow> SetItemInfo option"

definition MELEE :: nat where "MELEE = 10"
definition GRENADE :: nat where "GRENADE = 16"
definition SET :: nat where "SET = 17"
definition COUPON_ID :: "23 word" where "COUPON_ID = 1000000"

definition isWeapon :: "nat \<Rightarrow> bool" where
  "isWeapon t \<longleftrightarrow> MELEE \<le> t \<and> t \<le> GRENADE"

definition getPartTypes :: "SetItemInfo \<Rightarrow> nat list" where
  "getPartTypes e =
     (if si_hair e \<noteq> -1 then [0] else []) @ (if si_face e \<noteq> -1 then [1] else []) @
     (if si_top e \<noteq> -1 then [2] else []) @ (if si_under e \<noteq> -1 then [3] else []) @
     (if si_pants e \<noteq> -1 then [4] else []) @ (if si_boots e \<noteq> -1 then [6] else []) @
     (if si_arms e \<noteq> -1 then [5] else []) @ (if si_acce_A e \<noteq> -1 then [7] else []) @
     (if si_acce_B e \<noteq> -1 then [9] else []) @ (if si_acce_C e \<noteq> -1 then [8] else [])"

definition ItemId_new :: "item_db \<Rightarrow> u32 \<Rightarrow> ItemId" where
  "ItemId_new db wholeId =
     (let i = ucast (wholeId AND 0x7FFFFF) :: 23 word
      in \<lparr>iid_itemId = i, iid_stock = ucast (case db_stocks db (ucast i) of None \<Rightarrow> 1 | Some n \<Rightarrow> n)\<rparr>)"

definition Item_of_EquippedItem :: "item_db \<Rightarrow> EquippedItem \<Rightarrow> Item" where
  "Item_of_EquippedItem db e =
     \<lparr>it_itemId = ItemId_new db (ucast (eq_id e)), it_expirationDate = eq_expirationDate e,
      it_serialInfo = eq_serialInfo e, it_durability = eq_durability e, it_energy = eq_energy e,
      it_isSealed = eq_isSealed e, it_sealLevel = eq_sealLevel e,
      it_experienceEnhancement = eq_experienceEnhancement e, it_mpEnhancement = eq_mpEnhancement e,
      it_unknown = 0\<rparr>"

text \<open>
  The type is stored in nine bits before it is compared with \<open>-1\<close> as 32 bits: an unknown type
  is 511 there.
\<close>

definition EquippedItem_of_Item :: "item_db \<Rightarrow> Item \<Rightarrow> EquippedItem" where
  "EquippedItem_of_Item db i =
     (let whole = ucast (iid_itemId (it_itemId i)) :: u32;
          t = ucast (case db_type db whole of None \<Rightarrow> (-1 :: u32) | Some t \<Rightarrow> t) :: 9 word;
          t = (if (ucast t :: u32) \<noteq> -1 \<and> t \<ge> 17
               then (if db_set db whole = None then -1 else of_nat SET) else t)
      in \<lparr>eq_type = t, eq_id = iid_itemId (it_itemId i), eq_expirationDate = it_expirationDate i,
          eq_serialInfo = it_serialInfo i, eq_durability = it_durability i, eq_energy = it_energy i,
          eq_isSealed = it_isSealed i, eq_sealLevel = it_sealLevel i,
          eq_experienceEnhancement = it_experienceEnhancement i, eq_mpEnhancement = it_mpEnhancement i\<rparr>)"

definition Item_of_TradeBasicItem :: "item_db \<Rightarrow> TradeBasicItem \<Rightarrow> Item" where
  "Item_of_TradeBasicItem db t =
     \<lparr>it_itemId = tbi_itemId t, it_expirationDate = 0,
      it_serialInfo = (tbi_itemSerialInfo t)\<lparr>si_itemOrigin := 8\<rparr>,
      it_durability = (case db_durability db (ucast (iid_itemId (tbi_itemId t))) of None \<Rightarrow> 0 | Some d \<Rightarrow> d),
      it_energy = 0, it_isSealed = 0, it_sealLevel = 0, it_experienceEnhancement = 0,
      it_mpEnhancement = 0, it_unknown = 0\<rparr>"

abbreviation item_no :: "Item \<Rightarrow> u64" where
  "item_no i \<equiv> ucast (si_itemNumber (it_serialInfo i))"

abbreviation slot_no :: "EquippedItem \<Rightarrow> u64" where
  "slot_no e \<equiv> ucast (si_itemNumber (eq_serialInfo e))"

section \<open>The stock of items\<close>

definition addItem :: "Item \<Rightarrow> player \<Rightarrow> player" where
  "addItem i p = p\<lparr>p_itemsByItemNumber := AList.update (item_no i) i (p_itemsByItemNumber p)\<rparr>"

definition addItems :: "Item list \<Rightarrow> player \<Rightarrow> player" where
  "addItems is p = fold addItem is p"

definition addTotalCouponItems :: "Item \<Rightarrow> player \<Rightarrow> player" where
  "addTotalCouponItems i p = p\<lparr>p_couponItems := p_couponItems p @ [i]\<rparr>"

definition getTotalCoupons :: "player \<Rightarrow> nat" where
  "getTotalCoupons p = fold (\<lambda>i n. n + unat (iid_stock (it_itemId i))) (p_couponItems p) 0"

definition setUnequippedItems :: "Item list \<Rightarrow> player \<Rightarrow> player" where
  "setUnequippedItems is p =
     fold (\<lambda>i p. if iid_itemId (it_itemId i) = COUPON_ID then addTotalCouponItems i (addItem i p) else addItem i p) is p"

text \<open>Unsigned 64-bit arithmetic: a difference below zero is a very large number.\<close>

definition hasEnoughInventorySpace :: "u16 \<Rightarrow> player \<Rightarrow> bool" where
  "hasEnoughInventorySpace totalNewItems p \<longleftrightarrow>
     (ucast (ai_inventorySpace (p_accountInfo p)) - p_totalEquippedItems p
        + of_nat (length (p_couponItems p)) - of_nat (length (p_itemsByItemNumber p)) :: u64) \<ge> ucast totalNewItems"

datatype CouponItemAction =
  COUPON_ITEM_DO_NOTHING | COUPON_ITEM_DELETE | COUPON_ITEM_STOCKS_REDUCED_SUCCESS | COUPON_ITEM_STOCK_IS_ZERO

datatype AddCouponAction =
  EXISTING_COUPON_STOCK_UPDATED | MUST_CREATE_NEW_COUPON | UNKNOWN_COUPON_ADD_ERROR

datatype MatchItemAction =
  MATCHITEM_DO_NOTHING | MATCHITEM_DELETE | MATCHITEM_STOCKS_REDUCED_SUCCESS | MATCHITEM_STOCK_ZERO

definition set_stock :: "9 word \<Rightarrow> Item \<Rightarrow> Item" where
  "set_stock n i = i\<lparr>it_itemId := (it_itemId i)\<lparr>iid_stock := n\<rparr>\<rparr>"

definition find_coupon :: "player \<Rightarrow> (u64 \<times> Item) option" where
  "find_coupon p = find (\<lambda>(k, i). iid_itemId (it_itemId i) = COUPON_ID) (p_itemsByItemNumber p)"

definition put_item :: "u64 \<Rightarrow> Item \<Rightarrow> player \<Rightarrow> player" where
  "put_item k i p = p\<lparr>p_itemsByItemNumber := AList.update k i (p_itemsByItemNumber p)\<rparr>"

definition tryRemoveCoupons :: "u32 \<Rightarrow> u32 \<Rightarrow> player \<Rightarrow> (CouponItemAction \<times> u32 \<times> ItemSerialInfo) \<times> player" where
  "tryRemoveCoupons now needed p =
     (case find_coupon p of
        None \<Rightarrow> ((COUPON_ITEM_DO_NOTHING, 0, ItemSerialInfo_default now), p)
      | Some (k, coupon) \<Rightarrow>
          let stock = ucast (iid_stock (it_itemId coupon)) :: u32;
              left = ucast (stock - needed) :: 9 word;
              p' = put_item k (set_stock left coupon) p
          in if stock = 0 then ((COUPON_ITEM_STOCK_IS_ZERO, 0, it_serialInfo coupon), p)
             else if stock > needed then ((COUPON_ITEM_STOCKS_REDUCED_SUCCESS, ucast left, it_serialInfo coupon), p')
             else if stock = needed then ((COUPON_ITEM_DELETE, 0, it_serialInfo coupon), p')
             else ((COUPON_ITEM_DO_NOTHING, 0, ItemSerialInfo_default now), p))"

definition addCoupon :: "u32 \<Rightarrow> u32 \<Rightarrow> player \<Rightarrow> (AddCouponAction \<times> u32 \<times> ItemSerialInfo) \<times> player" where
  "addCoupon now stockToAdd p =
     (case find_coupon p of
        None \<Rightarrow> ((MUST_CREATE_NEW_COUPON, 0, ItemSerialInfo_default now), p)
      | Some (k, coupon) \<Rightarrow>
          let stock = ucast (iid_stock (it_itemId coupon)) :: u32;
              total = ucast (stock + stockToAdd) :: 9 word
          in if stock = 0 \<or> stock + stockToAdd > 250
             then ((UNKNOWN_COUPON_ADD_ERROR, 0, ItemSerialInfo_default now), p)
             else ((EXISTING_COUPON_STOCK_UPDATED, ucast total, it_serialInfo coupon),
                   put_item k (set_stock total coupon) p))"

definition useInstantRespawn :: "u64 \<Rightarrow> player \<Rightarrow> (MatchItemAction \<times> u32) \<times> player" where
  "useInstantRespawn itemNum p =
     (case map_of (p_itemsByItemNumber p) itemNum of
        None \<Rightarrow> ((MATCHITEM_DO_NOTHING, 0), p)
      | Some i \<Rightarrow>
          let stock = iid_stock (it_itemId i)
          in if stock > 0
             then if stock = 1 then ((MATCHITEM_DELETE, 0), p)
                  else ((MATCHITEM_STOCKS_REDUCED_SUCCESS, ucast (stock - 1)), put_item itemNum (set_stock (stock - 1) i) p)
             else ((MATCHITEM_STOCK_ZERO, 0), p))"

definition getBossBattleTicket :: "player \<Rightarrow> ItemSerialInfo option" where
  "getBossBattleTicket p =
     map_option (\<lambda>(k, i). it_serialInfo i)
       (find (\<lambda>(k, i). 4811300 \<le> iid_itemId (it_itemId i) \<and> iid_itemId (it_itemId i) \<le> 4811600) (p_itemsByItemNumber p))"

text \<open>The search over the worn items, by number.\<close>

definition find_slot :: "ItemSerialInfo \<Rightarrow> player \<Rightarrow> nat option" where
  "find_slot si p = find_index (\<lambda>e. si_itemNumber (eq_serialInfo e) = si_itemNumber si) (p_equippedItemByCharacter p)"

definition stored :: "ItemSerialInfo \<Rightarrow> player \<Rightarrow> Item option" where
  "stored si p = map_of (p_itemsByItemNumber p) (ucast (si_itemNumber si))"

definition findItemIdAndDurabilityBySerialInfo :: "ItemSerialInfo \<Rightarrow> player \<Rightarrow> (u32 \<times> u32) option" where
  "findItemIdAndDurabilityBySerialInfo si p =
     (case stored si p of
        Some i \<Rightarrow> Some (ucast (iid_itemId (it_itemId i)), ucast (it_durability i))
      | None \<Rightarrow>
          map_option (\<lambda>n. let e = p_equippedItemByCharacter p ! n in (ucast (eq_id e), ucast (eq_durability e))) (find_slot si p))"

definition findItemIdBySerialInfo :: "ItemSerialInfo \<Rightarrow> player \<Rightarrow> u32 option" where
  "findItemIdBySerialInfo si p =
     (case stored si p of
        Some i \<Rightarrow> Some (ucast (iid_itemId (it_itemId i)))
      | None \<Rightarrow> map_option (\<lambda>n. ucast (eq_id (p_equippedItemByCharacter p ! n))) (find_slot si p))"

definition tradeable_id :: "item_db \<Rightarrow> 23 word \<Rightarrow> u32 \<Rightarrow> bool" where
  "tradeable_id db i expirationDate \<longleftrightarrow>
     (case db_tradeable db (ucast i) of None \<Rightarrow> False | Some b \<Rightarrow> b) \<and> i \<noteq> COUPON_ID \<and> expirationDate = 0"

definition isItemTradeable :: "item_db \<Rightarrow> ItemSerialInfo \<Rightarrow> player \<Rightarrow> bool" where
  "isItemTradeable db si p =
     (case stored si p of
        Some i \<Rightarrow> tradeable_id db (iid_itemId (it_itemId i)) (it_expirationDate i)
      | None \<Rightarrow>
          (case find_slot si p of
             None \<Rightarrow> False
           | Some n \<Rightarrow> tradeable_id db (eq_id (p_equippedItemByCharacter p ! n)) (eq_expirationDate (p_equippedItemByCharacter p ! n))))"

definition update_slot :: "nat \<Rightarrow> (EquippedItem \<Rightarrow> EquippedItem) \<Rightarrow> player \<Rightarrow> player" where
  "update_slot n f p =
     p\<lparr>p_equippedItemByCharacter := (p_equippedItemByCharacter p)[n := f (p_equippedItemByCharacter p ! n)]\<rparr>"

definition prolongItem :: "ItemSerialInfo \<Rightarrow> player \<Rightarrow> bool \<times> player" where
  "prolongItem si p =
     (case stored si p of
        Some i \<Rightarrow> (True, put_item (ucast (si_itemNumber si)) (i\<lparr>it_serialInfo := si\<rparr>) p)
      | None \<Rightarrow>
          (case find_slot si p of
             None \<Rightarrow> (False, p)
           | Some n \<Rightarrow> (True, update_slot n (\<lambda>e. e\<lparr>eq_serialInfo := si\<rparr>) p)))"

definition clear_number :: "EquippedItem \<Rightarrow> EquippedItem" where
  "clear_number e = e\<lparr>eq_serialInfo := (eq_serialInfo e)\<lparr>si_itemNumber := 0\<rparr>\<rparr>"

definition deleteItemBasic :: "ItemSerialInfo \<Rightarrow> player \<Rightarrow> bool \<times> player" where
  "deleteItemBasic si p =
     (case stored si p of
        Some i \<Rightarrow> (True, p\<lparr>p_itemsByItemNumber := AList.delete (ucast (si_itemNumber si)) (p_itemsByItemNumber p)\<rparr>)
      | None \<Rightarrow>
          (case find_slot si p of
             None \<Rightarrow> (False, p)
           | Some n \<Rightarrow> (True, update_slot n clear_number p)))"

text \<open>The largest element of a list, as \<open>std::max_element\<close> finds it; the array of worn items is
  never empty.\<close>

definition max_element :: "u64 list \<Rightarrow> u64 option" where
  "max_element xs = (case xs of [] \<Rightarrow> None | k # ks \<Rightarrow> Some (fold max ks k))"

definition findMaxItemNumber :: "player \<Rightarrow> u64 option" where
  "findMaxItemNumber p =
     (let stored_max = max_element (map fst (p_itemsByItemNumber p));
          worn_max = max_element (map slot_no (p_equippedItemByCharacter p))
      in case worn_max of
           None \<Rightarrow> stored_max
         | Some w \<Rightarrow> (case stored_max of None \<Rightarrow> Some w | Some m \<Rightarrow> if w > m then Some w else Some m))"

definition getLatestItemNumber :: "player \<Rightarrow> u64" where
  "getLatestItemNumber p = (case findMaxItemNumber p of None \<Rightarrow> 0 | Some n \<Rightarrow> n)"

definition addItemFromTrade :: "item_db \<Rightarrow> TradeBasicItem \<Rightarrow> player \<Rightarrow> Item \<times> player" where
  "addItemFromTrade db t p =
     (let t = t\<lparr>tbi_itemSerialInfo := (tbi_itemSerialInfo t)\<lparr>si_itemNumber := ucast (getLatestItemNumber p + 1)\<rparr>\<rparr>;
          i = Item_of_TradeBasicItem db t
      in (i, put_item (ucast (si_itemNumber (tbi_itemSerialInfo t))) i p))"

section \<open>Worn items\<close>

text \<open>The flattened array has \<open>MAX_ITEMTYPE\<close> slots per character.\<close>

abbreviation slots :: "player \<Rightarrow> EquippedItem list" where
  "slots p \<equiv> p_equippedItemByCharacter p"

definition worn :: "EquippedItem \<Rightarrow> bool" where
  "worn e \<longleftrightarrow> si_itemNumber (eq_serialInfo e) \<noteq> 0"

definition slots_of :: "nat \<Rightarrow> player \<Rightarrow> EquippedItem list" where
  "slots_of c p = map (\<lambda>i. slots p ! i) (filter (\<lambda>i. i < length (slots p)) [c * MAX_ITEMTYPE..<c * MAX_ITEMTYPE + MAX_ITEMTYPE])"

definition getEquippedItemsFor :: "u16 \<Rightarrow> player \<Rightarrow> EquippedItem list" where
  "getEquippedItemsFor characterID p =
     (if unat characterID \<ge> MAX_CHARACTERS then [] else filter (\<lambda>e. eq_id e \<noteq> 0) (slots_of (unat characterID) p))"

definition getUnlimitedEquippedWeaponsFor :: "u16 \<Rightarrow> player \<Rightarrow> EquippedItem list" where
  "getUnlimitedEquippedWeaponsFor characterID p =
     (if unat characterID \<ge> MAX_CHARACTERS then []
      else filter (\<lambda>e. eq_id e \<noteq> 0 \<and> eq_expirationDate e = 0 \<and> isWeapon (unat (eq_type e))) (slots_of (unat characterID) p))"

definition set_equipped_step :: "u16 \<Rightarrow> EquippedItem \<Rightarrow> player \<Rightarrow> player" where
  "set_equipped_step characterID e p =
     (let i = unat characterID * MAX_ITEMTYPE + unat (eq_type e)
      in if i \<ge> length (slots p) then p
         else (update_slot i (\<lambda>_. e) p)\<lparr>p_totalEquippedItems := p_totalEquippedItems p + 1\<rparr>)"

definition setEquippedItems :: "(u16 \<times> EquippedItem list) list \<Rightarrow> player \<Rightarrow> player" where
  "setEquippedItems eqs p = fold (\<lambda>(c, es) p. fold (set_equipped_step c) es p) eqs p"

datatype db_call =
  DbUnequip u32 u64
| DbSwap u32 u64 u64 u16
| DbEquip u32 u64 u16

text \<open>The default argument of the character is \<open>-1\<close>: the one that is selected.\<close>

definition chosen :: "u32 \<Rightarrow> player \<Rightarrow> u32" where
  "chosen character p =
     (if character = -1 then ucast (ai_latestSelectedCharacter (p_accountInfo p)) else character)"

definition stash_slot :: "item_db \<Rightarrow> nat \<Rightarrow> player \<Rightarrow> player" where
  "stash_slot db i p =
     (update_slot i clear_number (put_item (slot_no (slots p ! i)) (Item_of_EquippedItem db (slots p ! i)) p))
       \<lparr>p_totalEquippedItems := p_totalEquippedItems p - 1\<rparr>"

definition unequipItemImpl :: "item_db \<Rightarrow> u64 \<Rightarrow> u32 \<Rightarrow> player \<times> db_call list \<Rightarrow> player \<times> db_call list" where
  "unequipItemImpl db itemType character = (\<lambda>(p, log).
     let i = unat ((ucast (chosen character p * of_nat MAX_ITEMTYPE) :: u64) + itemType)
     in if i \<ge> length (slots p) \<or> \<not> worn (slots p ! i) then (p, log)
        else (stash_slot db i p, log @ [DbUnequip (ai_accountID (p_accountInfo p)) (slot_no (slots p ! i))]))"

definition unequipItem :: "item_db \<Rightarrow> u64 \<Rightarrow> player \<Rightarrow> u64 option \<times> player" where
  "unequipItem db itemType p =
     (let i = unat ((ucast (ai_latestSelectedCharacter (p_accountInfo p)) :: u64) * of_nat MAX_ITEMTYPE + itemType)
      in if i \<ge> length (slots p) then (None, p)
         else if \<not> worn (slots p ! i) then (None, p)
         else (Some (slot_no (slots p ! i)), stash_slot db i p))"

text \<open>Taking off the parts that a set brings along.\<close>

definition unequip_parts :: "item_db \<Rightarrow> SetItemInfo \<Rightarrow> u32 \<Rightarrow> player \<times> db_call list \<Rightarrow> player \<times> db_call list" where
  "unequip_parts db entry character = fold (\<lambda>t. unequipItemImpl db (of_nat t) character) (getPartTypes entry)"

text \<open>The last part of \<open>equipItem\<close>: the item leaves the stock and goes into its slot.\<close>

definition place_item :: "item_db \<Rightarrow> u64 \<Rightarrow> EquippedItem \<Rightarrow> u32 \<Rightarrow> player \<times> db_call list \<Rightarrow> player \<times> db_call list" where
  "place_item db itemNumber e character = (\<lambda>(p, log).
     let p = p\<lparr>p_itemsByItemNumber := AList.delete itemNumber (p_itemsByItemNumber p)\<rparr>;
         c = chosen character p;
         i = unat (ucast c * of_nat MAX_ITEMTYPE + ucast (eq_type e) :: u64);
         aid = ai_accountID (p_accountInfo p)
     in if i \<ge> length (slots p) then (p, log)
        else if worn (slots p ! i)
        then let n = slot_no (slots p ! i)
             in (update_slot i (\<lambda>_. e) (put_item n (Item_of_EquippedItem db (slots p ! i)) p),
                 log @ [DbSwap aid n (slot_no e) (ucast c)])
        else ((update_slot i (\<lambda>_. e) p)\<lparr>p_totalEquippedItems := p_totalEquippedItems p + 1\<rparr>,
              log @ [DbEquip aid (slot_no e) (ucast c)]))"

definition equipItem :: "item_db \<Rightarrow> u16 \<Rightarrow> u32 \<Rightarrow> player \<times> db_call list \<Rightarrow> player \<times> db_call list" where
  "equipItem db itemNumber character = (\<lambda>(p, log).
     case map_of (p_itemsByItemNumber p) (ucast itemNumber) of
       None \<Rightarrow> (p, log)
     | Some it \<Rightarrow>
         let e = EquippedItem_of_Item db it;
             st = (case db_set db (ucast (iid_itemId (it_itemId it))) of
                     None \<Rightarrow> (p, log)
                   | Some entry \<Rightarrow>
                       if eq_type e = of_nat SET then unequip_parts db entry character (p, log) else (p, log));
             i = unat (ucast (chosen character p) * of_nat MAX_ITEMTYPE + of_nat SET :: u64)
         in if i \<ge> length (slots (fst st)) then st
            else let set = slots (fst st) ! i;
                     st = (case db_set db (ucast (eq_id set)) of
                             None \<Rightarrow> st
                           | Some entry \<Rightarrow>
                               if worn set \<and> unat (eq_type e) \<in> List.set (getPartTypes entry)
                               then unequipItemImpl db (of_nat SET) character st else st)
                 in place_item db (ucast itemNumber) e character st)"

definition unequipItemIfEquipped :: "item_db \<Rightarrow> u64 \<Rightarrow> u32 \<Rightarrow> player \<times> db_call list \<Rightarrow> bool \<times> player \<times> db_call list" where
  "unequipItemIfEquipped db itemNumber characterId = (\<lambda>(p, log).
     if unat characterId \<ge> MAX_CHARACTERS then (False, p, log)
     else case find_index (\<lambda>e. slot_no e = itemNumber) (slots_of (unat characterId) p) of
            None \<Rightarrow> (False, p, log)
          | Some i \<Rightarrow> (True, unequipItemImpl db (of_nat i) characterId (p, log)))"

definition equipItemIfNotEquipped :: "item_db \<Rightarrow> u64 \<Rightarrow> u32 \<Rightarrow> player \<times> db_call list \<Rightarrow> player \<times> db_call list" where
  "equipItemIfNotEquipped db itemNumber characterId = (\<lambda>(p, log).
     if unat characterId \<ge> MAX_CHARACTERS then (p, log)
     else if list_ex (\<lambda>e. slot_no e = itemNumber) (slots_of (unat characterId) p) then (p, log)
     else equipItem db (ucast itemNumber) characterId (p, log))"

section \<open>Durability and energy\<close>

definition restricted_type :: "u32 \<Rightarrow> nat option" where
  "restricted_type r = (if r \<le> 6 then Some (MELEE + unat r) else None)"

definition reduces :: "u32 \<Rightarrow> EquippedItem \<Rightarrow> bool" where
  "reduces r e \<longleftrightarrow>
     \<not> (eq_id e = 0 \<or> eq_expirationDate e \<noteq> 0 \<or> \<not> isWeapon (unat (eq_type e))) \<and>
     (r \<noteq> 7 \<and> r \<noteq> 9 \<longrightarrow> restricted_type r = Some (unat (eq_type e)))"

text \<open>One round of the loop; the two result vectors are the damages and the item numbers.\<close>

definition reduce_step ::
  "item_db \<Rightarrow> u32 \<Rightarrow> nat \<Rightarrow> player \<times> (ItemSerialInfo \<times> u32) list \<times> (u32 \<times> u64) list
     \<Rightarrow> player \<times> (ItemSerialInfo \<times> u32) list \<times> (u32 \<times> u64) list" where
  "reduce_step db r i = (\<lambda>(p, damages, ids).
     let e = slots p ! i
     in if \<not> reduces r e then (p, damages, ids)
        else case db_durability db (ucast (eq_id e)) of
               None \<Rightarrow> (p, damages, ids)
             | Some base \<Rightarrow>
                 if base = 0 then (p, damages, ids)
                 else let reduction = unat base div 100;
                          new = (if unat base > reduction then unat base - reduction else 0)
                      in (update_slot i (\<lambda>e. e\<lparr>eq_durability := of_nat new\<rparr>) p,
                          damages @ [(eq_serialInfo e, of_nat reduction)],
                          ids @ [(ucast (eq_id e), slot_no e)]))"

definition reduceEquippedItemsDurabilities ::
  "item_db \<Rightarrow> nat \<Rightarrow> u32 \<Rightarrow> player \<Rightarrow> player \<times> (ItemSerialInfo \<times> u32) list \<times> (u32 \<times> u64) list" where
  "reduceEquippedItemsDurabilities db characterID r p =
     fold (reduce_step db r)
       (filter (\<lambda>i. i < length (slots p)) [characterID * MAX_ITEMTYPE..<characterID * MAX_ITEMTYPE + MAX_ITEMTYPE])
       (p, [], [])"

definition selected :: "player \<Rightarrow> nat" where
  "selected p = unat (ai_latestSelectedCharacter (p_accountInfo p))"

definition updateItemDurabilityByNumber :: "u32 \<Rightarrow> u32 \<Rightarrow> player \<Rightarrow> bool \<times> player" where
  "updateItemDurabilityByNumber itemNumber newDurability p =
     (case map_of (p_itemsByItemNumber p) (ucast itemNumber) of
        Some i \<Rightarrow> (True, put_item (ucast itemNumber) (i\<lparr>it_durability := ucast newDurability\<rparr>) p)
      | None \<Rightarrow>
          if selected p * MAX_ITEMTYPE + MAX_ITEMTYPE > length (slots p) then (False, p)
          else case find_index (\<lambda>e. ucast (si_itemNumber (eq_serialInfo e)) = itemNumber) (slots_of (selected p) p) of
                 None \<Rightarrow> (False, p)
               | Some i \<Rightarrow>
                   (True, update_slot (selected p * MAX_ITEMTYPE + i) (\<lambda>e. e\<lparr>eq_durability := ucast newDurability\<rparr>) p))"

definition addEnergyToItem :: "ItemSerialInfo \<Rightarrow> u32 \<Rightarrow> player \<Rightarrow> (u16 \<times> u64) option \<times> player" where
  "addEnergyToItem si energyAdded p =
     (let b = ucast ((ucast (ai_battery (p_accountInfo p)) :: u32) - energyAdded) :: 14 word;
          pay = on_account (\<lambda>a. a\<lparr>ai_battery := b\<rparr>)
      in case stored si p of
           Some i \<Rightarrow>
             let n = ucast ((ucast (it_energy i) :: u32) + energyAdded) :: u16
             in (Some (n, ucast b), pay (put_item (ucast (si_itemNumber si)) (i\<lparr>it_energy := n\<rparr>) p))
         | None \<Rightarrow>
             (case find_index (\<lambda>e. si_itemNumber (eq_serialInfo e) = si_itemNumber si) (slots_of (selected p) p) of
                None \<Rightarrow> (None, p)
              | Some i \<Rightarrow>
                  let k = selected p * MAX_ITEMTYPE + i;
                      n = ucast ((ucast (eq_energy (slots p ! k)) :: u32) + energyAdded) :: u16
                  in (Some (n, ucast b), pay (update_slot k (\<lambda>e. e\<lparr>eq_energy := n\<rparr>) p))))"

definition getItemEnergy :: "ItemSerialInfo \<Rightarrow> player \<Rightarrow> u16 option" where
  "getItemEnergy si p =
     (case stored si p of
        Some i \<Rightarrow> Some (it_energy i)
      | None \<Rightarrow>
          map_option (\<lambda>i. eq_energy (slots_of (selected p) p ! i))
            (find_index (\<lambda>e. si_itemNumber (eq_serialInfo e) = si_itemNumber si) (slots_of (selected p) p)))"

definition separate_step :: "(nat \<times> EquippedItem) \<Rightarrow> u32 list \<times> u32 list \<Rightarrow> u32 list \<times> u32 list" where
  "separate_step = (\<lambda>(i, e) (is, ws).
     if \<not> worn e then (is, ws)
     else if i < MELEE then (is[i := ucast (eq_id e)], ws)
     else if i - 10 < length ws then (is, ws[i - 10 := ucast (eq_id e)])
     else (is, ws))"

definition getEquippedItemsSeparated :: "item_db \<Rightarrow> player \<Rightarrow> u32 list \<times> u32 list" where
  "getEquippedItemsSeparated db p =
     (let items = replicate 10 0; weapons = replicate 7 0;
          start = selected p * MAX_ITEMTYPE
      in if start + SET \<ge> length (slots p) then (items, weapons)
         else let set = slots p ! (start + SET);
                  items = (if worn set
                           then (case db_set db (ucast (eq_id set)) of
                                   None \<Rightarrow> items
                                 | Some entry \<Rightarrow> fold (\<lambda>t is. is[t := ucast (eq_id set)]) (getPartTypes entry) items)
                           else items)
              in fold separate_step (enumerate 0 (slots_of (selected p) p)) (items, weapons))"

section \<open>Ownership\<close>

text \<open>
  The numbers of the items a player has, in stock or worn. In a consistent inventory the key of
  a stored item is its number, no number occurs twice, and the counter agrees with the slots.
\<close>

abbreviation keys :: "player \<Rightarrow> u64 set" where
  "keys p \<equiv> fst ` set (p_itemsByItemNumber p)"

definition worn_slots :: "player \<Rightarrow> nat set" where
  "worn_slots p = {i. i < length (slots p) \<and> worn (slots p ! i)}"

definition owned :: "player \<Rightarrow> u64 set" where
  "owned p = keys p \<union> (\<lambda>i. slot_no (slots p ! i)) ` worn_slots p"

definition inventory_ok :: "player \<Rightarrow> bool" where
  "inventory_ok p \<longleftrightarrow>
     length (slots p) = MAX_ITEMTYPE * MAX_CHARACTERS \<and>
     (\<forall>(k, i) \<in> set (p_itemsByItemNumber p). k = item_no i \<and> k \<noteq> 0) \<and>
     distinct (map fst (p_itemsByItemNumber p)) \<and>
     keys p \<inter> (\<lambda>i. slot_no (slots p ! i)) ` worn_slots p = {} \<and>
     inj_on (\<lambda>i. slot_no (slots p ! i)) (worn_slots p) \<and>
     p_totalEquippedItems p = of_nat (card (worn_slots p))"

lemma unat_number [simp]: "unat (ucast (x :: 20 word) :: u64) = unat x"
  using unsigned_less [of x, where ?'a = nat] by simp

lemma number_inject [simp]: "(ucast (x :: 20 word) :: u64) = ucast y \<longleftrightarrow> x = y"
  by (metis unat_number word_unat_eq_iff)

lemma slot_no_zero [simp]: "slot_no e = 0 \<longleftrightarrow> \<not> worn e"
  using number_inject [of "si_itemNumber (eq_serialInfo e)" 0] by (simp add: worn_def del: number_inject)

lemma clear_number_not_worn [simp]: "\<not> worn (clear_number e)"
  by (simp add: worn_def clear_number_def)

lemma finite_worn_slots [simp]: "finite (worn_slots p)"
  by (simp add: worn_slots_def)

lemma conversions_keep_number [simp]:
  "item_no (Item_of_EquippedItem db e) = slot_no e" "slot_no (EquippedItem_of_Item db i) = item_no i"
  by (simp_all add: Item_of_EquippedItem_def EquippedItem_of_Item_def Let_def)

text \<open>Writing a slot, seen on the set of worn slots.\<close>

lemma worn_slots_set:
  assumes "slots p' = (slots p)[i := e]" "i < length (slots p)"
  shows "worn_slots p' = (if worn e then insert i (worn_slots p) else worn_slots p - {i})"
  using assms by (auto simp: worn_slots_def nth_list_update)

subsection \<open>Taking an item off\<close>

lemma stash_slot_fields:
  "slots (stash_slot db i p) = (slots p)[i := clear_number (slots p ! i)]"
  "p_accountInfo (stash_slot db i p) = p_accountInfo p"
  "p_itemsByItemNumber (stash_slot db i p) =
     AList.update (slot_no (slots p ! i)) (Item_of_EquippedItem db (slots p ! i)) (p_itemsByItemNumber p)"
  "p_totalEquippedItems (stash_slot db i p) = p_totalEquippedItems p - 1"
  by (simp_all add: stash_slot_def update_slot_def put_item_def)

lemma keys_update: "fst ` set (AList.update k v al) = insert k (fst ` set al)"
  by (induction al) auto

lemma set_update_subset: "set (AList.update k v al) \<subseteq> insert (k, v) (set al)"
  by (induction al) auto

lemma stash_slot_ok:
  assumes ok: "inventory_ok p" and i: "i \<in> worn_slots p"
  shows "inventory_ok (stash_slot db i p)" "owned (stash_slot db i p) = owned p"
    "worn_slots (stash_slot db i p) = worn_slots p - {i}"
proof -
  let ?p = "stash_slot db i p" and ?n = "\<lambda>i. slot_no (slots p ! i)"
  have li: "i < length (slots p)" "worn (slots p ! i)" using i by (auto simp: worn_slots_def)
  show w: "worn_slots ?p = worn_slots p - {i}"
    using worn_slots_set [of ?p p i "clear_number (slots p ! i)"] li by (simp add: stash_slot_fields)
  have n: "slot_no (slots ?p ! j) = ?n j" if "j \<in> worn_slots p - {i}" for j
    using that by (simp add: stash_slot_fields nth_list_update)
  have img: "(\<lambda>j. slot_no (slots ?p ! j)) ` worn_slots ?p = ?n ` worn_slots p - {?n i}"
    using ok n i by (auto simp: w inventory_ok_def inj_on_def image_iff)
  have k: "keys ?p = insert (?n i) (keys p)" by (simp add: stash_slot_fields keys_update)
  show "owned ?p = owned p" using i by (auto simp: owned_def img k)
  have "card (worn_slots p) = Suc (card (worn_slots ?p))" using card_Suc_Diff1 [OF finite_worn_slots i] by (simp add: w)
  then have "p_totalEquippedItems ?p = of_nat (card (worn_slots ?p))"
    using ok by (simp add: stash_slot_fields inventory_ok_def)
  moreover have "inj_on (\<lambda>j. slot_no (slots ?p ! j)) (worn_slots ?p)"
    using ok n by (auto simp: w inventory_ok_def inj_on_def)
  moreover have "\<forall>(k, it) \<in> set (p_itemsByItemNumber ?p). k = item_no it \<and> k \<noteq> 0"
    using ok li(2) set_update_subset [of "?n i" "Item_of_EquippedItem db (slots p ! i)" "p_itemsByItemNumber p"]
    by (fastforce simp: stash_slot_fields inventory_ok_def)
  moreover have "keys ?p \<inter> (\<lambda>j. slot_no (slots ?p ! j)) ` worn_slots ?p = {}"
    using ok by (auto simp: img k inventory_ok_def)
  ultimately show "inventory_ok ?p"
    using ok by (simp add: inventory_ok_def stash_slot_fields distinct_update)
qed

lemma unequipItemImpl_ok:
  assumes "inventory_ok (fst st)"
  shows "inventory_ok (fst (unequipItemImpl db t c st))" "owned (fst (unequipItemImpl db t c st)) = owned (fst st)"
    "p_accountInfo (fst (unequipItemImpl db t c st)) = p_accountInfo (fst st)"
    "worn_slots (fst (unequipItemImpl db t c st)) =
       worn_slots (fst st) - {unat ((ucast (chosen c (fst st) * of_nat MAX_ITEMTYPE) :: u64) + t)}"
    "p_equippedItemByCharacter (fst (unequipItemImpl db t c st)) ! j =
       (if j \<in> worn_slots (fst st) \<and> j = unat ((ucast (chosen c (fst st) * of_nat MAX_ITEMTYPE) :: u64) + t)
        then clear_number (slots (fst st) ! j) else slots (fst st) ! j)"
  using assms stash_slot_ok [OF assms, of _ db]
  by (auto simp: unequipItemImpl_def Let_def split_beta worn_slots_def stash_slot_fields nth_list_update)

lemma stock_of_stash:
  "map_of (p_itemsByItemNumber (fst (unequipItemImpl db t c st))) k =
     (let i = unat ((ucast (chosen c (fst st) * of_nat MAX_ITEMTYPE) :: u64) + t)
      in if i \<in> worn_slots (fst st) \<and> k = slot_no (slots (fst st) ! i)
         then Some (Item_of_EquippedItem db (slots (fst st) ! i))
         else map_of (p_itemsByItemNumber (fst st)) k)"
  by (auto simp: unequipItemImpl_def Let_def split_beta worn_slots_def stash_slot_fields update_conv')

text \<open>The arithmetic of the slot index.\<close>

lemma slot_index32:
  assumes "unat c < MAX_CHARACTERS" "t < 1000"
  shows "unat ((ucast (c * of_nat MAX_ITEMTYPE :: u32) :: u64) + of_nat t) = unat c * MAX_ITEMTYPE + t"
  using assms by (simp add: MAX_CHARACTERS_def MAX_ITEMTYPE_def unat_word_ariths unat_of_nat)

lemma slot_index64:
  assumes "unat (c :: u32) < MAX_CHARACTERS" "unat (t :: u64) < 1000"
  shows "unat (ucast c * of_nat MAX_ITEMTYPE + t :: u64) = unat c * MAX_ITEMTYPE + unat t"
  using assms by (simp add: MAX_CHARACTERS_def MAX_ITEMTYPE_def unat_word_ariths)

lemma part_types_less: "t \<in> set (getPartTypes e) \<Longrightarrow> t < 10"
  by (auto simp: getPartTypes_def split: if_splits)

lemma chosen_account: "p_accountInfo q = p_accountInfo p \<Longrightarrow> chosen c q = chosen c p"
  by (simp add: chosen_def)

abbreviation who :: "u32 \<Rightarrow> player \<Rightarrow> nat" where
  "who c p \<equiv> unat (chosen c p)"

text \<open>What taking off some types of one character does, as one relation that composes.\<close>

definition took_off :: "nat set \<Rightarrow> player \<Rightarrow> player \<Rightarrow> bool" where
  "took_off I p q \<longleftrightarrow> inventory_ok q \<and> owned q = owned p \<and> p_accountInfo q = p_accountInfo p \<and>
     worn_slots q = worn_slots p - I \<and> length (slots q) = length (slots p) \<and>
     (\<forall>j. eq_id (slots q ! j) = eq_id (slots p ! j)) \<and>
     (\<forall>k it. map_of (p_itemsByItemNumber p) k = Some it \<longrightarrow> map_of (p_itemsByItemNumber q) k = Some it)"

lemma took_off_refl: "inventory_ok p \<Longrightarrow> took_off {} p p"
  by (simp add: took_off_def)

lemma took_off_trans: "took_off I p q \<Longrightarrow> took_off J q r \<Longrightarrow> took_off (I \<union> J) p r"
  by (auto simp: took_off_def)

lemma stored_not_worn:
  assumes "inventory_ok p" "map_of (p_itemsByItemNumber p) k = Some it" "i \<in> worn_slots p"
  shows "k \<noteq> slot_no (slots p ! i)"
proof -
  have "k \<in> keys p" using map_of_SomeD [OF assms(2)] by force
  then show ?thesis using assms(1,3) by (auto simp: inventory_ok_def)
qed

lemma took_off_unequipItemImpl:
  assumes ok: "inventory_ok (fst st)" and c: "who c (fst st) < MAX_CHARACTERS" and t: "t < 1000"
  shows "took_off {who c (fst st) * MAX_ITEMTYPE + t} (fst st) (fst (unequipItemImpl db (of_nat t) c st))"
proof -
  note i = slot_index32 [OF c t]
  have "length (slots (fst (unequipItemImpl db (of_nat t) c st))) = length (slots (fst st))"
    using ok unequipItemImpl_ok(1) [OF ok] by (simp add: inventory_ok_def)
  moreover have "eq_id (slots (fst (unequipItemImpl db (of_nat t) c st)) ! j) = eq_id (slots (fst st) ! j)" for j
    by (simp add: unequipItemImpl_ok(5) [OF ok] clear_number_def)
  moreover have "map_of (p_itemsByItemNumber (fst (unequipItemImpl db (of_nat t) c st))) k = Some it"
    if "map_of (p_itemsByItemNumber (fst st)) k = Some it" for k it
    using stored_not_worn [OF ok that] that by (auto simp: stock_of_stash Let_def)
  ultimately show ?thesis
    using unequipItemImpl_ok [OF ok, of db "of_nat t" c] unfolding i took_off_def by blast
qed

lemma took_off_unequip_list:
  assumes "inventory_ok (fst st)" "who c (fst st) < MAX_CHARACTERS" "\<forall>t \<in> set ts. t < 1000"
  shows "took_off ((\<lambda>t. who c (fst st) * MAX_ITEMTYPE + t) ` set ts) (fst st)
           (fst (fold (\<lambda>t. unequipItemImpl db (of_nat t) c) ts st))"
  using assms
proof (induction ts arbitrary: st)
  case Nil
  then show ?case by (simp add: took_off_refl)
next
  case (Cons t ts)
  let ?st = "unequipItemImpl db (of_nat t) c st"
  have a: "took_off {who c (fst st) * MAX_ITEMTYPE + t} (fst st) (fst ?st)"
    using Cons.prems by (intro took_off_unequipItemImpl) auto
  then have e: "chosen c (fst ?st) = chosen c (fst st)" "inventory_ok (fst ?st)"
    using chosen_account [of "fst ?st" "fst st" c] by (simp_all add: took_off_def)
  have "took_off ((\<lambda>t. who c (fst st) * MAX_ITEMTYPE + t) ` set ts) (fst ?st) (fst (fold (\<lambda>t. unequipItemImpl db (of_nat t) c) ts ?st))"
  proof -
    have "who c (fst ?st) < MAX_CHARACTERS" "\<forall>t \<in> set ts. t < 1000" using Cons.prems(2,3) by (simp_all only: e(1)) simp
    from Cons.IH [OF e(2) this] show ?thesis by (simp only: e(1))
  qed
  from took_off_trans [OF a this] show ?case by (simp only: list.set image_insert insert_is_Un [symmetric] Un_insert_left fold_Cons o_apply fold_simps Un_empty_left)
qed

lemma took_off_unequip_parts:
  assumes "inventory_ok (fst st)" "who c (fst st) < MAX_CHARACTERS"
  shows "took_off ((\<lambda>t. who c (fst st) * MAX_ITEMTYPE + t) ` set (getPartTypes e)) (fst st)
           (fst (unequip_parts db e c st))"
  unfolding unequip_parts_def using assms by (intro took_off_unequip_list) (auto dest: part_types_less)

subsection \<open>Putting an item on\<close>

lemma nine_bits: "(ucast (x :: 9 word) :: u32) \<noteq> -1"
proof
  assume "(ucast x :: u32) = -1"
  then have "unat (ucast x :: u32) = unat (-1 :: u32)" by (simp only:)
  moreover have "unat (-1 :: u32) = 4294967295" by (simp add: unsigned_minus_1_eq_mask mask_eq_exp_minus_1)
  ultimately show False using unsigned_less [of x, where ?'a = nat] by simp
qed

lemma EquippedItem_type:
  "eq_type (EquippedItem_of_Item db i) = -1 \<or> unat (eq_type (EquippedItem_of_Item db i)) < MAX_ITEMTYPE"
  by (auto simp: EquippedItem_of_Item_def Let_def MAX_ITEMTYPE_def SET_def word_le_nat_alt nine_bits)

lemma place_index:
  "who c p < MAX_CHARACTERS \<Longrightarrow>
     unat (ucast (chosen c p) * of_nat MAX_ITEMTYPE + ucast (eq_type e) :: u64) = who c p * MAX_ITEMTYPE + unat (eq_type e)"
  using slot_index64 [of "chosen c p" "ucast (eq_type e)"] unsigned_less [of "eq_type e", where ?'a = nat] by simp

text \<open>The new state differs in the stock, one slot and the counter.\<close>

lemma place_item_fields:
  fixes db k log
  assumes ok: "inventory_ok p" and c: "who c p < MAX_CHARACTERS" and t: "unat (eq_type e) < MAX_ITEMTYPE"
  defines "i \<equiv> who c p * MAX_ITEMTYPE + unat (eq_type e)"
  defines "q \<equiv> fst (place_item db k e c (p, log))"
  shows "i < length (slots p)" "slots q = (slots p)[i := e]" "p_accountInfo q = p_accountInfo p"
    "p_itemsByItemNumber q =
       (if i \<in> worn_slots p
        then AList.update (slot_no (slots p ! i)) (Item_of_EquippedItem db (slots p ! i)) (AList.delete k (p_itemsByItemNumber p))
        else AList.delete k (p_itemsByItemNumber p))"
    "p_totalEquippedItems q = p_totalEquippedItems p + (if i \<in> worn_slots p then 0 else 1)"
proof -
  have ix: "unat (ucast (chosen c p) * of_nat MAX_ITEMTYPE + ucast (eq_type e) :: u64) = i"
    using place_index [OF c, of e] by (simp add: i_def)
  show l: "i < length (slots p)"
    using ok c t by (auto simp: i_def inventory_ok_def MAX_ITEMTYPE_def MAX_CHARACTERS_def)
  have ch: "chosen c (p\<lparr>p_itemsByItemNumber := x\<rparr>) = chosen c p" for x by (simp add: chosen_def)
  show "slots q = (slots p)[i := e]" "p_accountInfo q = p_accountInfo p"
    "p_itemsByItemNumber q =
       (if i \<in> worn_slots p
        then AList.update (slot_no (slots p ! i)) (Item_of_EquippedItem db (slots p ! i)) (AList.delete k (p_itemsByItemNumber p))
        else AList.delete k (p_itemsByItemNumber p))"
    "p_totalEquippedItems q = p_totalEquippedItems p + (if i \<in> worn_slots p then 0 else 1)"
    using l by (simp_all add: q_def place_item_def Let_def ch ix worn_slots_def update_slot_def put_item_def)
qed

lemma keys_delete: "fst ` set (AList.delete k al) = fst ` set al - {k}"
  by (induction al) auto

lemma set_delete_subset: "set (AList.delete k al) \<subseteq> set al"
  by (induction al) auto

lemma place_item_ok:
  fixes db log
  assumes ok: "inventory_ok p" and c: "who c p < MAX_CHARACTERS" and t: "unat (eq_type e) < MAX_ITEMTYPE"
    and k: "k \<in> keys p" "slot_no e = k"
  defines "i \<equiv> who c p * MAX_ITEMTYPE + unat (eq_type e)"
  defines "q \<equiv> fst (place_item db k e c (p, log))"
  shows "inventory_ok q" "owned q = owned p" "worn_slots q = insert i (worn_slots p)"
proof -
  note f = place_item_fields(1) [OF ok c t, folded i_def]
    place_item_fields(2-5) [OF ok c t, where db = db and k = k and log = log, folded i_def q_def]
  let ?n = "\<lambda>i. slot_no (slots p ! i)"
  have k0: "k \<noteq> 0" using ok k(1) by (auto simp: inventory_ok_def)
  then have we: "worn e" using k(2) by (metis slot_no_zero)
  show w: "worn_slots q = insert i (worn_slots p)" using worn_slots_set [OF f(2,1)] we by simp
  have kn: "k \<noteq> ?n j" if "j \<in> worn_slots p" for j
    using ok k(1) that unfolding inventory_ok_def by blast
  have n: "slot_no (slots q ! j) = (if j = i then k else ?n j)" for j
    using f(1) k(2) by (simp add: f(2) nth_list_update)
  have ks: "keys q = (if i \<in> worn_slots p then insert (?n i) (keys p - {k}) else keys p - {k})"
    by (simp add: f(4) keys_update keys_delete)
  have img: "(\<lambda>j. slot_no (slots q ! j)) ` worn_slots q = insert k (?n ` (worn_slots p - {i}))"
    unfolding w by (auto simp only: n image_iff split: if_splits)
  have inj: "inj_on ?n (worn_slots p)" and disj: "keys p \<inter> ?n ` worn_slots p = {}"
    using ok by (auto simp: inventory_ok_def)
  show "owned q = owned p"
    unfolding owned_def img ks using k(1) by auto
  have "keys q \<inter> (\<lambda>j. slot_no (slots q ! j)) ` worn_slots q = {}"
    unfolding img ks using disj kn inj by (auto simp: inj_on_def)
  moreover have "inj_on (\<lambda>j. slot_no (slots q ! j)) (worn_slots q)"
    unfolding w n using inj kn by (auto simp: inj_on_def)
  moreover have "\<forall>(k, it) \<in> set (p_itemsByItemNumber q). k = item_no it \<and> k \<noteq> 0"
  proof -
    have "\<forall>(k, it) \<in> set (AList.delete k (p_itemsByItemNumber p)). k = item_no it \<and> k \<noteq> 0"
      using ok set_delete_subset [of k "p_itemsByItemNumber p"] by (auto simp: inventory_ok_def)
    moreover have "?n i \<noteq> 0" if "i \<in> worn_slots p" using that by (simp add: worn_slots_def)
    ultimately show ?thesis
      using set_update_subset [of "?n i" "Item_of_EquippedItem db (slots p ! i)" "AList.delete k (p_itemsByItemNumber p)"]
      unfolding f(4) by (cases "i \<in> worn_slots p") auto
  qed
  moreover have "p_totalEquippedItems q = of_nat (card (worn_slots q))"
    using ok by (auto simp: f(5) w inventory_ok_def insert_absorb)
  ultimately show "inventory_ok q"
    using ok by (simp add: inventory_ok_def f(2,4) distinct_update distinct_delete)
qed

text \<open>
  Equipping is: take off what does not go with the new item, then place it. What is taken off are
  the parts of a new set, and the worn set when the new item is one of its parts.
\<close>

lemma equipItem_steps:
  fixes db log
  assumes ok: "inventory_ok p" and c: "who c p < MAX_CHARACTERS"
    and it: "map_of (p_itemsByItemNumber p) (ucast n) = Some it"
  defines "e \<equiv> EquippedItem_of_Item db it" and "b \<equiv> who c p * MAX_ITEMTYPE"
  obtains I q log' where
    "took_off I p q" "equipItem db n c (p, log) = place_item db (ucast n) e c (q, log')"
    "\<And>entry t. eq_type e = of_nat SET \<Longrightarrow> db_set db (ucast (eq_id e)) = Some entry \<Longrightarrow>
       t \<in> set (getPartTypes entry) \<Longrightarrow> b + t \<in> I"
    "\<And>entry. db_set db (ucast (eq_id (slots p ! (b + SET)))) = Some entry \<Longrightarrow>
       unat (eq_type e) \<in> set (getPartTypes entry) \<Longrightarrow> b + SET \<notin> worn_slots q"
    "\<And>i. i \<in> I \<Longrightarrow> b \<le> i \<and> i < b + MAX_ITEMTYPE"
proof -
  have ide: "eq_id e = iid_itemId (it_itemId it)" by (simp add: e_def EquippedItem_of_Item_def Let_def)
  define st where "st = (case db_set db (ucast (eq_id e)) of
      None \<Rightarrow> (p, log)
    | Some entry \<Rightarrow> if eq_type e = of_nat SET then unequip_parts db entry c (p, log) else (p, log))"
  define I where "I = (case db_set db (ucast (eq_id e)) of
      None \<Rightarrow> {}
    | Some entry \<Rightarrow> if eq_type e = of_nat SET then (\<lambda>t. b + t) ` set (getPartTypes entry) else {})"
  have st: "took_off I p (fst st)"
    using took_off_unequip_parts [of "(p, log)" c] took_off_refl [OF ok] ok c
    by (auto simp: st_def I_def b_def split: option.split)
  then have ok1: "inventory_ok (fst st)" and w1: "chosen c (fst st) = chosen c p" and l1: "length (slots (fst st)) = length (slots p)"
    and id1: "\<And>j. eq_id (slots (fst st) ! j) = eq_id (slots p ! j)"
    using chosen_account [of "fst st" p c] by (simp_all add: took_off_def)
  define st2 where "st2 = (case db_set db (ucast (eq_id (slots (fst st) ! (b + SET)))) of
      None \<Rightarrow> st
    | Some entry \<Rightarrow>
        if worn (slots (fst st) ! (b + SET)) \<and> unat (eq_type e) \<in> set (getPartTypes entry)
        then unequipItemImpl db (of_nat SET) c st else st)"
  define J where "J = (case db_set db (ucast (eq_id (slots (fst st) ! (b + SET)))) of
      None \<Rightarrow> {}
    | Some entry \<Rightarrow>
        if worn (slots (fst st) ! (b + SET)) \<and> unat (eq_type e) \<in> set (getPartTypes entry) then {b + SET} else {})"
  have st2: "took_off J (fst st) (fst st2)"
    using took_off_unequipItemImpl [OF ok1, of c SET db] took_off_refl [OF ok1] c
    by (auto simp: st2_def J_def w1 b_def SET_def split: option.split)
  have ix: "unat (ucast (chosen c p) * of_nat MAX_ITEMTYPE + of_nat SET :: u64) = b + SET"
    using slot_index64 [OF c, of "of_nat SET"] by (simp add: SET_def b_def)
  have lt: "b + SET < length (slots p)"
    using ok c by (auto simp: b_def inventory_ok_def MAX_ITEMTYPE_def MAX_CHARACTERS_def SET_def)
  have eq: "equipItem db n c (p, log) = place_item db (ucast n) e c (fst st2, snd st2)"
    using lt l1 unfolding st2_def st_def by (simp add: equipItem_def it Let_def ix not_le flip: ide e_def)
  show thesis
  proof (rule that [OF took_off_trans [OF st st2] eq])
    fix entry t assume "eq_type e = of_nat SET" "db_set db (ucast (eq_id e)) = Some entry" "t \<in> set (getPartTypes entry)"
    then show "b + t \<in> I \<union> J" by (simp add: I_def)
  next
    fix entry assume "db_set db (ucast (eq_id (slots p ! (b + SET)))) = Some entry" "unat (eq_type e) \<in> set (getPartTypes entry)"
    then show "b + SET \<notin> worn_slots (fst st2)"
      using st2 by (auto simp: took_off_def J_def id1 worn_slots_def split: if_splits)
  next
    fix i assume "i \<in> I \<union> J"
    then show "b \<le> i \<and> i < b + MAX_ITEMTYPE"
      by (auto simp: I_def J_def MAX_ITEMTYPE_def SET_def dest: part_types_less split: option.splits if_splits)
  qed
qed

lemma place_item_unknown:
  assumes ok: "inventory_ok p" and c: "who c p < MAX_CHARACTERS" and t: "eq_type e = -1" and k: "k \<in> keys p"
  shows "owned (fst (place_item db k e c (p, log))) = owned p - {k}"
    "worn_slots (fst (place_item db k e c (p, log))) = worn_slots p"
    "slots (fst (place_item db k e c (p, log))) = slots p"
proof -
  have "unat (eq_type e) = 511" by (simp add: t unsigned_minus_1_eq_mask mask_eq_exp_minus_1)
  then have ix: "length (slots p) \<le> unat (ucast (chosen c p) * of_nat MAX_ITEMTYPE + ucast (eq_type e) :: u64)"
    using place_index [OF c, of e] ok by (simp add: inventory_ok_def MAX_ITEMTYPE_def MAX_CHARACTERS_def)
  have ch: "chosen c (p\<lparr>p_itemsByItemNumber := x\<rparr>) = chosen c p" for x by (simp add: chosen_def)
  have e: "fst (place_item db k e c (p, log)) = p\<lparr>p_itemsByItemNumber := AList.delete k (p_itemsByItemNumber p)\<rparr>"
    using ix by (simp add: place_item_def Let_def ch)
  then show s: "slots (fst (place_item db k e c (p, log))) = slots p"
    "worn_slots (fst (place_item db k e c (p, log))) = worn_slots p" by (simp_all add: worn_slots_def)
  have "k \<notin> (\<lambda>i. slot_no (slots p ! i)) ` worn_slots p" using ok k unfolding inventory_ok_def by blast
  then show "owned (fst (place_item db k e c (p, log))) = owned p - {k}"
    unfolding owned_def s by (auto simp: e keys_delete)
qed

lemma took_off_who: "took_off I p q \<Longrightarrow> who c q = who c p"
  by (simp add: took_off_def chosen_def)

lemma took_off_stored: "took_off I p q \<Longrightarrow> map_of (p_itemsByItemNumber p) k = Some it \<Longrightarrow> k \<in> keys q"
  by (metis took_off_def map_of_SomeD image_eqI fst_conv)

lemma block_inject:
  assumes "d * MAX_ITEMTYPE + a = w * MAX_ITEMTYPE + b" "a < MAX_ITEMTYPE" "b < MAX_ITEMTYPE"
  shows "d = w" "a = b"
proof -
  have "(d * MAX_ITEMTYPE + a) div MAX_ITEMTYPE = (w * MAX_ITEMTYPE + b) div MAX_ITEMTYPE" using assms(1) by (simp only:)
  then show "d = w" using assms(2,3) by (simp add: MAX_ITEMTYPE_def)
  then show "a = b" using assms(1) by simp
qed

text \<open>A set is worn alone: none of its parts is worn beside it.\<close>

definition outfit_ok :: "item_db \<Rightarrow> player \<Rightarrow> bool" where
  "outfit_ok db p \<longleftrightarrow>
     (\<forall>c < MAX_CHARACTERS. \<forall>entry. c * MAX_ITEMTYPE + SET \<in> worn_slots p \<longrightarrow>
        db_set db (ucast (eq_id (slots p ! (c * MAX_ITEMTYPE + SET)))) = Some entry \<longrightarrow>
        (\<forall>t \<in> set (getPartTypes entry). c * MAX_ITEMTYPE + t \<notin> worn_slots p))"

lemma outfit_fewer:
  assumes "outfit_ok db p" "worn_slots q \<subseteq> worn_slots p" "\<And>j. eq_id (slots q ! j) = eq_id (slots p ! j)"
  shows "outfit_ok db q"
  using assms by (auto simp: outfit_ok_def)

subsection \<open>New items\<close>

lemma worn_slots_new [simp]: "worn_slots (Player_new now) = {}"
  by (auto simp: worn_slots_def Player_new_def worn_def EquippedItem_default_def ItemSerialInfo_default_def nth_replicate)

lemma inventory_new [inv_intros]: "inventory_ok (Player_new now)" "owned (Player_new now) = {}"
  by (simp_all add: inventory_ok_def owned_def) (simp_all add: Player_new_def)

lemma put_item_fields [simp]:
  "slots (put_item k i p) = slots p" "worn_slots (put_item k i p) = worn_slots p"
  "p_accountInfo (put_item k i p) = p_accountInfo p"
  "p_totalEquippedItems (put_item k i p) = p_totalEquippedItems p"
  "keys (put_item k i p) = insert k (keys p)"
  by (simp_all add: put_item_def worn_slots_def keys_update)

lemma put_item_ok:
  assumes "inventory_ok p" "item_no i \<notin> owned p" "item_no i \<noteq> 0"
  shows "inventory_ok (put_item (item_no i) i p)" "owned (put_item (item_no i) i p) = insert (item_no i) (owned p)"
proof -
  have "\<forall>(k, it) \<in> set (p_itemsByItemNumber (put_item (item_no i) i p)). k = item_no it \<and> k \<noteq> 0"
    using assms(1,3) set_update_subset [of "item_no i" i "p_itemsByItemNumber p"]
    unfolding inventory_ok_def put_item_def by auto
  moreover have "keys (put_item (item_no i) i p) \<inter> (\<lambda>j. slot_no (slots p ! j)) ` worn_slots p = {}"
    using assms(1,2) by (auto simp: inventory_ok_def owned_def)
  moreover have "distinct (map fst (p_itemsByItemNumber (put_item (item_no i) i p)))"
    using assms(1) by (simp add: put_item_def inventory_ok_def distinct_update)
  ultimately show "inventory_ok (put_item (item_no i) i p)"
    using assms(1) by (simp add: inventory_ok_def)
  show "owned (put_item (item_no i) i p) = insert (item_no i) (owned p)" by (simp add: owned_def)
qed

lemma addItem_put: "addItem i p = put_item (item_no i) i p"
  by (simp add: addItem_def put_item_def)

lemma max_element_ge:
  assumes "x \<in> set xs" obtains m where "max_element xs = Some m" "x \<le> m"
proof (cases xs)
  case (Cons k ks)
  have "x \<le> Max (set (k # ks))" using assms Cons by simp
  then have "x \<le> fold max ks k" by (simp only: Max.set_eq_fold)
  then show thesis using that Cons by (simp add: max_element_def)
qed (use assms in simp)

lemma latest_is_max:
  assumes "x \<in> owned p" shows "x \<le> getLatestItemNumber p"
proof -
  have "x \<in> set (map fst (p_itemsByItemNumber p)) \<or> x \<in> set (map slot_no (slots p))"
    using assms by (auto simp: owned_def worn_slots_def)
  then show ?thesis
  proof
    assume "x \<in> set (map fst (p_itemsByItemNumber p))"
    then obtain m where "max_element (map fst (p_itemsByItemNumber p)) = Some m" "x \<le> m" by (rule max_element_ge)
    then show ?thesis by (auto simp: getLatestItemNumber_def findMaxItemNumber_def Let_def split: option.split)
  next
    assume "x \<in> set (map slot_no (slots p))"
    then obtain m where "max_element (map slot_no (slots p)) = Some m" "x \<le> m" by (rule max_element_ge)
    then show ?thesis by (auto simp: getLatestItemNumber_def findMaxItemNumber_def Let_def not_less split: option.split)
  qed
qed

section \<open>Properties\<close>

text \<open>C3: Equipping a stored item of a type that can be worn neither loses nor duplicates an item: what
  the player owns is the same set of numbers before and after, the inventory stays consistent, and the
  item is in the slot of its type. An item whose type the database does not know, or whose type is 17
  or more without being a set, is lost: exactly its number is gone from what the player owns.\<close>

theorem equip_conserves_items:
  assumes "inventory_ok p" and "who c p < MAX_CHARACTERS"
    and "map_of (p_itemsByItemNumber p) (ucast n) = Some it"
  shows "let e = EquippedItem_of_Item db it; q = fst (equipItem db n c (p, log)) in
    if eq_type e = -1 then owned q = owned p - {ucast n}
    else inventory_ok q \<and> owned q = owned p \<and> slots q ! (who c p * MAX_ITEMTYPE + unat (eq_type e)) = e"
proof -
  let ?e = "EquippedItem_of_Item db it"
  obtain I q log' where t: "took_off I p q"
    and eq: "equipItem db n c (p, log) = place_item db (ucast n) ?e c (q, log')"
    using equipItem_steps [OF assms, of db log] by metis
  have ok: "inventory_ok q" and o: "owned q = owned p" using t by (auto simp: took_off_def)
  have c: "who c q < MAX_CHARACTERS" using assms(2) took_off_who [OF t] by simp
  have k: "ucast n \<in> keys q" using took_off_stored [OF t assms(3)] .
  have "slot_no ?e = ucast n"
    using assms(1) map_of_SomeD [OF assms(3)] by (auto simp: inventory_ok_def)
  then show ?thesis
    using place_item_unknown(1) [OF ok c _ k, of ?e db log'] place_item_ok(1,2) [OF ok c _ k, of ?e db log']
      place_item_fields(1) [OF ok c, of ?e] place_item_fields(2) [OF ok c, of ?e db "ucast n" log']
      EquippedItem_type [of db it] o took_off_who [OF t, of c]
    by (auto simp: Let_def eq)
qed

text \<open>C12: No operation of \<open>equipItem\<close> leaves a part worn beside a set that covers it, for any
  character: a new set takes the covered parts off, a new part takes the covering set off.\<close>

theorem outfit_preserved:
  assumes "inventory_ok p" and "who c p < MAX_CHARACTERS" and "outfit_ok db p"
  shows "outfit_ok db (fst (equipItem db n c (p, log)))"
proof (cases "map_of (p_itemsByItemNumber p) (ucast n)")
  case None
  then show ?thesis using assms(3) by (simp add: equipItem_def)
next
  case (Some it)
  let ?e = "EquippedItem_of_Item db it" and ?b = "who c p * MAX_ITEMTYPE" and ?r = "fst (equipItem db n c (p, log))"
  obtain I q log' where t: "took_off I p q"
    and eq: "equipItem db n c (p, log) = place_item db (ucast n) ?e c (q, log')"
    and new_set: "\<And>entry t. eq_type ?e = of_nat SET \<Longrightarrow> db_set db (ucast (eq_id ?e)) = Some entry \<Longrightarrow>
       t \<in> set (getPartTypes entry) \<Longrightarrow> ?b + t \<in> I"
    and new_part: "\<And>entry. db_set db (ucast (eq_id (slots p ! (?b + SET)))) = Some entry \<Longrightarrow>
       unat (eq_type ?e) \<in> set (getPartTypes entry) \<Longrightarrow> ?b + SET \<notin> worn_slots q"
    using equipItem_steps [OF assms(1,2) Some, of db log] by metis
  have ok: "inventory_ok q" and w: "worn_slots q = worn_slots p - I"
    and id: "\<And>j. eq_id (slots q ! j) = eq_id (slots p ! j)" using t by (auto simp: took_off_def)
  have c: "who c q < MAX_CHARACTERS" using assms(2) took_off_who [OF t] by simp
  have k: "ucast n \<in> keys q" using took_off_stored [OF t Some] .
  have oq: "outfit_ok db q" using outfit_fewer [OF assms(3) _ id] w by blast
  show ?thesis
  proof (cases "eq_type ?e = -1")
    case True
    from place_item_unknown(2,3) [OF ok c this k, of db log'] show ?thesis
      using outfit_fewer [OF oq] by (simp add: eq)
  next
    case False
    then have ty: "unat (eq_type ?e) < MAX_ITEMTYPE" using EquippedItem_type [of db it] by blast
    have no: "slot_no ?e = ucast n"
      using assms(1) map_of_SomeD [OF Some] by (auto simp: inventory_ok_def)
    let ?i = "?b + unat (eq_type ?e)"
    have wr: "worn_slots ?r = insert ?i (worn_slots q)" and sr: "slots ?r = (slots q)[?i := ?e]" and li: "?i < length (slots q)"
      using place_item_ok(3) [OF ok c ty k no, of db log'] place_item_fields(1) [OF ok c ty]
        place_item_fields(2) [OF ok c ty, of db "ucast n" log'] took_off_who [OF t, of c] by (simp_all add: eq)
    show ?thesis
      unfolding outfit_ok_def
    proof (intro allI impI ballI)
      fix d entry x
      assume d: "d < MAX_CHARACTERS" and s: "d * MAX_ITEMTYPE + SET \<in> worn_slots ?r"
        and en: "db_set db (ucast (eq_id (slots ?r ! (d * MAX_ITEMTYPE + SET)))) = Some entry"
        and x: "x \<in> set (getPartTypes entry)"
      have x10: "x < 10" using part_types_less [OF x] .
      show "d * MAX_ITEMTYPE + x \<notin> worn_slots ?r"
      proof (cases "d * MAX_ITEMTYPE + SET = ?i")
        case True
        then have dc: "d = who c p" "unat (eq_type ?e) = SET"
          using block_inject [OF True _ ty] by (simp_all add: MAX_ITEMTYPE_def SET_def)
        have "eq_type ?e = of_nat SET" using dc(2) by (simp add: word_unat_eq_iff SET_def unat_of_nat)
        then have "?b + x \<in> I" using new_set [OF _ _ x] en True li by (simp add: sr)
        then show ?thesis using dc x10 by (auto simp: wr w SET_def)
      next
        case other: False
        then have sq: "d * MAX_ITEMTYPE + SET \<in> worn_slots q" and enq: "db_set db (ucast (eq_id (slots q ! (d * MAX_ITEMTYPE + SET)))) = Some entry"
          using s en by (simp_all add: wr sr)
        have "d * MAX_ITEMTYPE + x \<noteq> ?i"
        proof
          assume a: "d * MAX_ITEMTYPE + x = ?i"
          then have "d = who c p" "unat (eq_type ?e) = x"
            using block_inject [OF a _ ty] x10 by (simp_all add: MAX_ITEMTYPE_def)
          then show False using new_part [of entry] enq x sq by (simp add: id)
        qed
        then show ?thesis using oq d sq enq x unfolding wr outfit_ok_def by blast
      qed
    qed
  qed
qed

text \<open>A player with one rifle and a database that knows it, for the witnesses.\<close>

definition demo_rifle :: Item where
  "demo_rifle = \<lparr>it_itemId = \<lparr>iid_itemId = 4310000, iid_stock = 1\<rparr>, it_expirationDate = 0,
     it_serialInfo = (ItemSerialInfo_default 0)\<lparr>si_itemNumber := 7\<rparr>, it_durability = 900, it_energy = 0,
     it_isSealed = 0, it_sealLevel = 0, it_experienceEnhancement = 0, it_mpEnhancement = 0, it_unknown = 0\<rparr>"

definition demo_db :: item_db where
  "demo_db = \<lparr>db_stocks = \<lambda>_. Some 1, db_durability = \<lambda>_. Some 900, db_type = \<lambda>_. Some 11,
     db_tradeable = \<lambda>_. Some True, db_set = \<lambda>_. None\<rparr>"

definition demo_player :: player where
  "demo_player = addItem demo_rifle (Player_new 0)"

lemma demo_player_ok: "inventory_ok demo_player" "who (-1) demo_player < MAX_CHARACTERS"
  "map_of (p_itemsByItemNumber demo_player) (ucast (7 :: u16)) = Some demo_rifle" "outfit_ok demo_db demo_player"
proof -
  have "item_no demo_rifle \<noteq> 0" by (simp add: demo_rifle_def)
  then show "inventory_ok demo_player"
    using put_item_ok(1) [of "Player_new 0" demo_rifle] inventory_new by (simp add: demo_player_def addItem_put)
  show "who (-1) demo_player < MAX_CHARACTERS"
    by (simp add: chosen_def demo_player_def addItem_put Player_new_def put_item_def AccountInfo_default_def MAX_CHARACTERS_def)
  show "map_of (p_itemsByItemNumber demo_player) (ucast (7 :: u16)) = Some demo_rifle"
    by (simp add: demo_player_def addItem_def Player_new_def demo_rifle_def ItemSerialInfo_default_def)
  show "outfit_ok demo_db demo_player" by (simp add: outfit_ok_def demo_player_def addItem_put)
qed

theorem equip_conserves_items_witness:
  "let e = EquippedItem_of_Item demo_db demo_rifle; q = fst (equipItem demo_db 7 (-1) (demo_player, [])) in
    if eq_type e = -1 then owned q = owned demo_player - {ucast (7 :: u16)}
    else inventory_ok q \<and> owned q = owned demo_player \<and>
      slots q ! (who (-1) demo_player * MAX_ITEMTYPE + unat (eq_type e)) = e"
  by (rule equip_conserves_items [OF demo_player_ok(1-3)])

text \<open>Here the item is a set of a top and pants.\<close>

definition demo_set_db :: item_db where
  "demo_set_db = demo_db\<lparr>db_type := \<lambda>_. Some 18, db_set := \<lambda>_. Some
     \<lparr>si_hair = -1, si_face = -1, si_top = 3, si_under = -1, si_pants = 5, si_arms = -1, si_boots = -1,
      si_acce_A = -1, si_acce_B = -1, si_acce_C = -1\<rparr>\<rparr>"

theorem outfit_preserved_witness:
  "eq_type (EquippedItem_of_Item demo_set_db demo_rifle) = of_nat SET \<and>
   outfit_ok demo_set_db (fst (equipItem demo_set_db 7 (-1) (demo_player, [])))"
proof
  show "eq_type (EquippedItem_of_Item demo_set_db demo_rifle) = of_nat SET"
    by (simp add: EquippedItem_of_Item_def demo_set_db_def demo_db_def Let_def)
  have "outfit_ok demo_set_db demo_player" by (simp add: outfit_ok_def demo_player_def addItem_put)
  then show "outfit_ok demo_set_db (fst (equipItem demo_set_db 7 (-1) (demo_player, [])))"
    by (rule outfit_preserved [OF demo_player_ok(1,2)])
qed

text \<open>An item that comes from a trade gets a number no item of the receiver has, and the
  inventory stays consistent, as long as the largest number is not the last one of 20 bits.\<close>

theorem trade_item_fresh:
  assumes "inventory_ok p" and "unat (getLatestItemNumber p) < 2 ^ 20 - 1"
  shows "item_no (fst (addItemFromTrade db t p)) \<notin> owned p \<and>
    inventory_ok (snd (addItemFromTrade db t p)) \<and>
    owned (snd (addItemFromTrade db t p)) = insert (item_no (fst (addItemFromTrade db t p))) (owned p)"
proof -
  let ?n = "getLatestItemNumber p + 1" and ?i = "fst (addItemFromTrade db t p)"
  have "unat ?n = unat (getLatestItemNumber p) + 1"
    using assms(2) by (simp add: unat_word_ariths)
  then have gt: "getLatestItemNumber p < ?n" and "unat ?n < 2 ^ 20" using assms(2) by (simp_all add: word_less_nat_alt)
  then have n: "item_no ?i = ?n"
    by (simp add: addItemFromTrade_def Let_def Item_of_TradeBasicItem_def word_unat_eq_iff)
  have fresh: "item_no ?i \<notin> owned p" using latest_is_max gt unfolding n by fastforce
  have "item_no ?i \<noteq> 0" using gt unfolding n by (metis word_not_simps(1))
  moreover have "snd (addItemFromTrade db t p) = put_item (item_no ?i) ?i p"
    by (simp add: addItemFromTrade_def Let_def Item_of_TradeBasicItem_def)
  ultimately show ?thesis using put_item_ok [OF assms(1) fresh] fresh by simp
qed

lemma demo_player_latest: "getLatestItemNumber demo_player = 7"
proof -
  have "fold max (replicate n (0 :: u64)) 0 = 0" for n by (induction n) auto
  then have "max_element (replicate (Suc n) 0) = Some 0" for n by (simp add: max_element_def)
  from this [of 161] have "max_element (replicate (MAX_ITEMTYPE * MAX_CHARACTERS) 0) = Some 0"
    by (simp only: MAX_ITEMTYPE_def MAX_CHARACTERS_def) simp
  moreover have "max_element [7] = Some 7" by (simp add: max_element_def)
  ultimately show ?thesis
    by (simp add: getLatestItemNumber_def findMaxItemNumber_def demo_player_def addItem_def
        Player_new_def demo_rifle_def ItemSerialInfo_default_def EquippedItem_default_def)
qed

definition demo_trade :: TradeBasicItem where
  "demo_trade = \<lparr>tbi_itemId = \<lparr>iid_itemId = 4310000, iid_stock = 1\<rparr>, tbi_itemSerialInfo = ItemSerialInfo_default 0\<rparr>"

theorem trade_item_fresh_witness:
  "item_no (fst (addItemFromTrade demo_db demo_trade demo_player)) \<notin> owned demo_player"
  using trade_item_fresh [OF demo_player_ok(1), of demo_db demo_trade] by (simp add: demo_player_latest)

text \<open>The test for free inventory space is exact while the player is within its limit, and says
  yes to everything as soon as it is over: the unsigned difference wraps.\<close>

theorem overfull_inventory_accepted:
  fixes p
  defines "room \<equiv> unat (ai_inventorySpace (p_accountInfo p)) + length (p_couponItems p)"
    and "used \<equiv> unat (p_totalEquippedItems p) + length (p_itemsByItemNumber p)"
  assumes "room < 2 ^ 32" and "used < 2 ^ 32"
  shows "hasEnoughInventorySpace n p \<longleftrightarrow> used + unat n \<le> room \<or> room < used"
proof -
  let ?d = "ucast (ai_inventorySpace (p_accountInfo p)) - p_totalEquippedItems p
        + of_nat (length (p_couponItems p)) - of_nat (length (p_itemsByItemNumber p)) :: u64"
  have a: "(ucast (ai_inventorySpace (p_accountInfo p)) :: u64) = of_nat (unat (ai_inventorySpace (p_accountInfo p)))"
    by simp
  have d: "?d = of_nat room - of_nat used"
    unfolding a room_def used_def by (simp add: algebra_simps)
  have n: "unat (ucast n :: u64) = unat n" "unat n < 65536"
    using unsigned_less [of n, where ?'a = nat] by simp_all
  show ?thesis
  proof (cases "used \<le> room")
    case True
    then have "?d = of_nat (room - used)" by (simp add: d of_nat_diff)
    then have "unat ?d = room - used" using assms(3) by (simp add: unat_of_nat)
    then show ?thesis using True n unfolding hasEnoughInventorySpace_def word_le_nat_alt by auto
  next
    case False
    then have "?d = of_nat (2 ^ 64 - (used - room))"
      using assms(4) by (simp add: d of_nat_diff)
    then have "unat ?d = 2 ^ 64 - (used - room)"
      using False by (simp add: unat_of_nat)
    then show ?thesis using False n assms(4) unfolding hasEnoughInventorySpace_def word_le_nat_alt by auto
  qed
qed

theorem overfull_inventory_accepted_witness: "hasEnoughInventorySpace 100 demo_player"
proof -
  have "hasEnoughInventorySpace 100 demo_player \<longleftrightarrow>
      1 + unat (100 :: u16) \<le> 0 \<or> (0::nat) < 1"
    using overfull_inventory_accepted [of demo_player 100]
    by (simp add: demo_player_def addItem_def Player_new_def AccountInfo_default_def)
  then show ?thesis by simp
qed

end
