(* ===== verification/ConstantDb.thy ===== *)
theory ConstantDb
  imports Inventory
begin

text \<open>
  The constant database of the game: the tables of \<open>Common/include/ConstantDatabase\<close>, which are
  read from binary files, and the queries of \<open>MainServer/include/Detail/CdbUtils.h\<close> and
  \<open>MainServer/include/Detail/Utilities.h\<close> over them. A table is an association list in the
  iteration order of the map.
\<close>

section \<open>Tables\<close>

type_synonym 't cdb = "(u32 \<times> 't) list"

definition Cdb_getEntry :: "u64 \<Rightarrow> 't cdb \<Rightarrow> 't option" where
  "Cdb_getEntry key t = map_of t (ucast key)"

definition Cdb_addEntry :: "u32 \<Rightarrow> 't \<Rightarrow> 't cdb \<Rightarrow> 't cdb" where
  "Cdb_addEntry k v t = AList.update k v t"

definition Cdb_insert_many :: "u32 \<Rightarrow> 't \<Rightarrow> 't list cdb \<Rightarrow> 't list cdb" where
  "Cdb_insert_many k v t = AList.update k ((case map_of t k of None \<Rightarrow> [] | Some vs \<Rightarrow> vs) @ [v]) t"

text \<open>
  The file has the number of columns, 34 bytes for each of them, and then the records one after
  the other. A last record that is cut short is completed by what the buffer, which is not
  initialised, happens to hold: the parameter \<open>garbage\<close>.
\<close>

definition header_bytes_num :: "u32 \<Rightarrow> nat" where
  "header_bytes_num total_keys = unat (4 + total_keys * 34)"

function cdb_chunks :: "nat \<Rightarrow> bytes \<Rightarrow> bytes \<Rightarrow> bytes list" where
  "cdb_chunks n garbage bs =
     (if bs = [] \<or> n = 0 then []
      else if length bs < n then [bs @ drop (length bs) garbage]
      else take n bs # cdb_chunks n garbage (drop n bs))"
  by pat_completeness auto
termination by (relation "measure (\<lambda>(n, g, bs). length bs)") auto

declare cdb_chunks.simps [simp del]

definition cdb_records :: "nat \<Rightarrow> bytes \<Rightarrow> bytes \<Rightarrow> bytes list" where
  "cdb_records n garbage file =
     (if length file < 4 then []
      else cdb_chunks n garbage (drop (header_bytes_num (le_load (take 4 file))) file))"

definition cdb_parse :: "(bytes \<Rightarrow> u32 \<times> 't) \<Rightarrow> nat \<Rightarrow> bytes \<Rightarrow> bytes \<Rightarrow> 't cdb \<Rightarrow> 't cdb" where
  "cdb_parse decode n garbage file t = fold (\<lambda>r. case decode r of (k, v) \<Rightarrow> Cdb_addEntry k v) (cdb_records n garbage file) t"

definition cdb_parse_non_unique_key :: "(bytes \<Rightarrow> u32 \<times> 't) \<Rightarrow> nat \<Rightarrow> bytes \<Rightarrow> bytes \<Rightarrow> 't list cdb \<Rightarrow> 't list cdb" where
  "cdb_parse_non_unique_key decode n garbage file t =
     fold (\<lambda>r. case decode r of (k, v) \<Rightarrow> Cdb_insert_many k v) (cdb_records n garbage file) t"

text \<open>The records of the sets: eleven 32-bit numbers, packed.\<close>

definition word_at :: "nat \<Rightarrow> bytes \<Rightarrow> u32" where
  "word_at i bs = le_load (take 4 (drop (4 * i) bs))"

definition SetItemInfo_of_bytes :: "bytes \<Rightarrow> u32 \<times> SetItemInfo" where
  "SetItemInfo_of_bytes bs =
     (word_at 0 bs,
      \<lparr>si_hair = word_at 1 bs, si_face = word_at 2 bs, si_top = word_at 3 bs, si_under = word_at 4 bs,
       si_pants = word_at 5 bs, si_arms = word_at 6 bs, si_boots = word_at 7 bs, si_acce_A = word_at 8 bs,
       si_acce_B = word_at 9 bs, si_acce_C = word_at 10 bs\<rparr>)"

section \<open>The tables of the servers\<close>

text \<open>What items and weapons have in common; the numbers are 32-bit integers.\<close>

record CdbItemWeapon =
  iw_buy_coupon :: u32
  iw_buy_cash :: u32
  iw_buy_point :: u32
  iw_durable_value :: u32
  iw_immediately_set :: bool
  iw_limited_time :: u32
  iw_type :: u32
  iw_stocks :: u32
  iw_effect_1 :: u32
  iw_effect_2 :: u32
  iw_effect_3 :: u32
  iw_tradeable :: u32
  iw_type_inven :: u32
  iw_name :: bytes
  iw_option :: bytes

record CdbUpgradeInfo =
  ui_itemid :: u32
  ui_parentid :: u32
  ui_buy_point :: u32
  ui_use_exp :: u32

record CdbMapInfo =
  mi_id :: u32
  mi_mod_tdm :: bool
  mi_mod_ffa :: bool
  mi_mod_itm :: bool
  mi_mod_ctf :: bool
  mi_mod_ctm :: bool
  mi_mod_sab :: bool
  mi_mod_cim :: bool
  mi_mod_zsm :: bool
  mi_mod_grm :: bool
  mi_mod_bmb :: bool
  mi_mod_sni :: bool
  mi_mod_nod :: bool
  mi_mod_pve :: bool
  mi_mod_bot :: bool

record CdbEffectInfo =
  ei_key :: u32
  ei_valueA :: u32

record CdbCapsuleInfo =
  gi_id :: u32
  gi_type :: u32
  gi_infoid :: u32
  gi_price :: u32
  gi_luckypoint :: u32

record game_db =
  cdb_items :: "CdbItemWeapon cdb"
  cdb_sets :: "SetItemInfo cdb"
  cdb_upgrades :: "CdbUpgradeInfo cdb"
  cdb_maps :: "CdbMapInfo cdb"
  cdb_effects :: "CdbEffectInfo cdb"
  cdb_capsules :: "CdbCapsuleInfo cdb"
  cdb_shop :: "u32 list"
  cdb_eventRewards :: "u32 cdb"

section \<open>Queries\<close>

definition item_entry :: "game_db \<Rightarrow> u32 \<Rightarrow> CdbItemWeapon option" where
  "item_entry db itemId = Cdb_getEntry (ucast itemId) (cdb_items db)"

datatype ItemCurrencyType = ITEM_MP | ITEM_RT | ITEM_COUPON | ITEM_COIN

definition getItemPrice :: "game_db \<Rightarrow> u32 \<Rightarrow> (ItemCurrencyType \<times> u32) option" where
  "getItemPrice db itemId =
     (case item_entry db itemId of
        None \<Rightarrow> None
      | Some e \<Rightarrow>
          if iw_buy_coupon e \<noteq> 0 then Some (ITEM_COUPON, iw_buy_coupon e)
          else if iw_buy_cash e \<noteq> 0 then Some (ITEM_RT, iw_buy_cash e)
          else if iw_buy_point e \<noteq> 0 then Some (ITEM_MP, iw_buy_point e)
          else None)"

definition enhancement_step :: "game_db \<Rightarrow> u32 \<Rightarrow> u32 \<times> u32 \<Rightarrow> u32 \<times> u32" where
  "enhancement_step db effectId = (\<lambda>(exp, mp).
     case Cdb_getEntry (ucast effectId) (cdb_effects db) of
       None \<Rightarrow> (exp, mp)
     | Some e \<Rightarrow>
         if ei_valueA e \<ge> 10 \<and> ei_valueA e \<le> 1000
         then (if ei_key e = 122 then (exp + ei_valueA e div 10, mp)
               else if ei_key e = 123 then (exp, mp + ei_valueA e div 10) else (exp, mp))
         else (exp, mp))"

definition getExpAndMpEnhancementFor :: "game_db \<Rightarrow> u32 \<Rightarrow> u32 \<times> u32" where
  "getExpAndMpEnhancementFor db itemId =
     (case item_entry db itemId of
        None \<Rightarrow> (0, 0)
      | Some e \<Rightarrow> fold (enhancement_step db) [iw_effect_1 e, iw_effect_2 e, iw_effect_3 e] (0, 0))"

fun is_infix :: "bytes \<Rightarrow> bytes \<Rightarrow> bool" where
  "is_infix needle [] \<longleftrightarrow> needle = []"
| "is_infix needle (b # bs) \<longleftrightarrow> take (length needle) (b # bs) = needle \<or> is_infix needle bs"

definition isNoOptionItem :: "game_db \<Rightarrow> u32 \<Rightarrow> bool" where
  "isNoOptionItem db itemId =
     (case item_entry db itemId of
        None \<Rightarrow> False
      | Some e \<Rightarrow> is_infix (ascii ''No option'') (takeWhile (\<lambda>b. b \<noteq> 0) (iw_option e)))"

definition getItemDurability :: "game_db \<Rightarrow> u32 \<Rightarrow> u16 option" where
  "getItemDurability db itemId = map_option (\<lambda>e. ucast (iw_durable_value e)) (item_entry db itemId)"

definition getItemStocks :: "game_db \<Rightarrow> u32 \<Rightarrow> u16 option" where
  "getItemStocks db itemId = map_option (\<lambda>e. ucast (iw_stocks e)) (item_entry db itemId)"

definition getItemName :: "game_db \<Rightarrow> u32 \<Rightarrow> bytes option" where
  "getItemName db itemId = map_option iw_name (item_entry db itemId)"

definition isImmediatelySet :: "game_db \<Rightarrow> u32 \<Rightarrow> bool option" where
  "isImmediatelySet db itemId = map_option iw_immediately_set (item_entry db itemId)"

definition getItemDuration :: "game_db \<Rightarrow> u32 \<Rightarrow> u32" where
  "getItemDuration db itemId = (case item_entry db itemId of None \<Rightarrow> 3 | Some e \<Rightarrow> iw_limited_time e)"

definition itemExists :: "game_db \<Rightarrow> u32 \<Rightarrow> bool" where
  "itemExists db itemId \<longleftrightarrow> getItemDuration db itemId \<noteq> 3"

definition getItemType :: "game_db \<Rightarrow> u32 \<Rightarrow> u32 option" where
  "getItemType db itemId = map_option iw_type (item_entry db itemId)"

definition isTradeable :: "game_db \<Rightarrow> u32 \<Rightarrow> bool option" where
  "isTradeable db itemId =
     map_option (\<lambda>e. iw_tradeable e \<noteq> 0 \<and> 1 \<le> sint (iw_type_inven e) \<and> sint (iw_type_inven e) \<le> 21 \<and> iw_type_inven e \<noteq> 10)
       (item_entry db itemId)"

text \<open>The lookups that the inventory uses.\<close>

definition item_db_of :: "game_db \<Rightarrow> item_db" where
  "item_db_of db =
     \<lparr>db_stocks = getItemStocks db, db_durability = getItemDurability db, db_type = getItemType db,
      db_tradeable = isTradeable db, db_set = map_of (cdb_sets db)\<rparr>"

text \<open>The way up from an upgraded weapon; \<open>None\<close> is a loop that never ends.\<close>

partial_function (option) getBaseItemId :: "game_db \<Rightarrow> u32 \<Rightarrow> u32 option option" where
  "getBaseItemId db currentId =
     (case Cdb_getEntry (ucast currentId) (cdb_upgrades db) of
        None \<Rightarrow> Some None
      | Some entry \<Rightarrow>
          if ui_parentid entry = 0 then Some (Some (ui_itemid entry)) else getBaseItemId db (ui_parentid entry))"

declare getBaseItemId.simps [code]

definition map_fits_mode :: "u32 \<Rightarrow> CdbMapInfo \<Rightarrow> bool" where
  "map_fits_mode modeId m \<longleftrightarrow>
     (modeId = TeamDeathMatch \<or> modeId = Clan_TeamDeathMatch) \<and> mi_mod_tdm m \<or>
     modeId = FreeForAll \<and> mi_mod_ffa m \<or>
     modeId = ItemMatch \<and> mi_mod_itm m \<or>
     (modeId = CaptureTheBattery \<or> modeId = Clan_CaptureTheBattery) \<and> mi_mod_ctf m \<or>
     modeId = CloseCombat \<and> mi_mod_ctm m \<or>
     (modeId = Elimination \<or> modeId = Clan_Elimination) \<and> mi_mod_sab m \<or>
     modeId = SuperItemMatch \<and> mi_mod_cim m \<or>
     modeId = ZombieMode \<and> mi_mod_zsm m \<or>
     modeId = ArmsRace \<and> mi_mod_grm m \<or>
     modeId = Scrimmage \<and> mi_mod_grm m \<or>
     (modeId = BombBattle \<or> modeId = Clan_BombBattle) \<and> mi_mod_bmb m \<or>
     modeId = SniperMode \<and> mi_mod_sni m \<or>
     modeId = SquareMode \<and> mi_mod_nod m \<or>
     modeId = BossBattle \<and> mi_mod_pve m \<or>
     modeId = AiBattle \<and> mi_mod_bot m"

text \<open>The argument \<open>dist\<close> is the random index below a bound.\<close>

definition getRandomMapForMode :: "game_db \<Rightarrow> (nat \<Rightarrow> nat) \<Rightarrow> u32 \<Rightarrow> u32" where
  "getRandomMapForMode db dist modeId =
     (let ids = map (\<lambda>(k, m). mi_id m) (filter (\<lambda>(k, m). map_fits_mode modeId m) (cdb_maps db))
      in if ids = [] then 6 else ids ! dist (length ids))"

definition getCapsuleInfoById :: "game_db \<Rightarrow> u32 \<Rightarrow> CdbCapsuleInfo option" where
  "getCapsuleInfoById db i = map_option snd (find (\<lambda>(k, c). gi_id c = i) (cdb_capsules db))"

definition getEventMissionRewardFor :: "game_db \<Rightarrow> u32 \<Rightarrow> u32 option" where
  "getEventMissionRewardFor db i = Cdb_getEntry (ucast i) (cdb_eventRewards db)"

definition itemExistsInShop :: "game_db \<Rightarrow> u32 \<Rightarrow> bool" where
  "itemExistsInShop db itemId \<longleftrightarrow> itemId \<in> set (cdb_shop db)"

section \<open>Equipment of the restricted modes\<close>

definition in_range :: "u32 \<Rightarrow> u32 \<Rightarrow> u32 \<Rightarrow> bool" where
  "in_range a b x \<longleftrightarrow> a \<le> x \<and> x \<le> b"

definition isCsdItem :: "game_db \<Rightarrow> u32 \<Rightarrow> u32 \<Rightarrow> bool" where
  "isCsdItem db itemType itemId =
     (if itemType = 7 then True
      else if itemType = 10
      then in_range 3010000 3010079 itemId \<or> in_range 3010200 3010279 itemId \<or> in_range 3010300 3010379 itemId \<or>
           itemId \<in> set [3010380, 3010390, 3010280, 3010290, 3010080, 3010090, 3010100]
      else if itemType = 11
      then in_range 3020100 3020179 itemId \<or> in_range 3020200 3020279 itemId \<or> in_range 3020300 3020379 itemId \<or>
           itemId \<in> set [3020180, 3020190, 3020280, 3020290, 3020380, 3020390, 3020000]
      else if itemType = 12
      then in_range 3030100 3030179 itemId \<or> in_range 3030200 3030279 itemId \<or> in_range 3030300 3030379 itemId \<or>
           itemId \<in> set [3030180, 3030190, 3030280, 3030290, 3030380, 3030390, 3030000]
      else if itemType = 13
      then in_range 3040100 3040179 itemId \<or> in_range 3040200 3040279 itemId \<or> in_range 3040300 3040379 itemId \<or>
           itemId \<in> set [3040180, 3040190, 3040280, 3040290, 3040301, 3040302, 3040000]
      else if itemType = 14
      then in_range 3050100 3050179 itemId \<or> in_range 3050200 3050279 itemId \<or> in_range 3050300 3050379 itemId \<or>
           itemId \<in> set [3050180, 3050190, 3050280, 3050290, 3050301, 3050302, 3050000]
      else if itemType = 15 then itemId = 3060000 \<or> itemId = 3060001
      else if itemType = 16
      then in_range 3070100 3070179 itemId \<or> in_range 3070200 3070279 itemId \<or> in_range 3070300 3070379 itemId \<or>
           itemId \<in> set [3070180, 3070190, 3070280, 3070290, 3070301, 3070302, 3070000]
      else if itemType = 9 \<or> itemType = 8 then False
      else if itemType \<le> 6 \<or> itemType = 17 then isNoOptionItem db itemId
      else False)"

definition basicItems :: "(u32 \<times> u32 list) list" where
  "basicItems = [(10, [3010100]), (11, [3020000]), (12, [3030000]), (13, [3040000]), (14, [3050000]),
     (15, [3060000, 3060001]), (16, [3070000])]"

definition isBasicItem :: "u32 \<Rightarrow> u32 \<Rightarrow> bool" where
  "isBasicItem itemType itemId =
     (if itemType = 7 then True
      else case map_of basicItems itemType of None \<Rightarrow> False | Some is \<Rightarrow> itemId \<in> set is)"

section \<open>Reading a file\<close>

lemma cdb_chunks_concat:
  assumes "\<forall>r \<in> set rs. length r = n" "0 < n"
  shows "cdb_chunks n garbage (concat rs) = rs"
  using assms
proof (induction rs)
  case Nil
  then show ?case by (simp add: cdb_chunks.simps [of n garbage "[]"])
next
  case (Cons r rs)
  then show ?case by (subst cdb_chunks.simps) (auto simp: Cons.IH)
qed

text \<open>The file the tools of the game write: the number of columns, their names, the records.\<close>

definition cdb_file :: "bytes list \<Rightarrow> bytes list \<Rightarrow> bytes" where
  "cdb_file columns records = le_store 4 (of_nat (length columns) :: u32) @ concat columns @ concat records"

definition bytes_of_set :: "u32 \<times> SetItemInfo \<Rightarrow> bytes" where
  "bytes_of_set = (\<lambda>(k, e). concat (map (le_store 4)
     [k, si_hair e, si_face e, si_top e, si_under e, si_pants e, si_arms e, si_boots e, si_acce_A e, si_acce_B e, si_acce_C e]))"

lemma length_bytes_of_set [simp]: "length (bytes_of_set r) = 44"
  by (cases r) (simp add: bytes_of_set_def)

lemma word_at_append: "length xs = 4 * i \<Longrightarrow> word_at i (xs @ le_store 4 w @ ys) = w"
  by (simp add: word_at_def)

lemma set_of_bytes_of_set [codec, simp]: "SetItemInfo_of_bytes (bytes_of_set r) = r"
proof -
  obtain k e where r: "r = (k, e)" by fastforce
  note a = word_at_append [of "[]"] word_at_append
  show ?thesis
    unfolding r SetItemInfo_of_bytes_def bytes_of_set_def
    by (simp add: word_at_def eval_nat_numeral del: le_store.simps)
qed

lemma header_skipped:
  assumes "\<forall>c \<in> set columns. length c = 34" "4 + 34 * length columns < 2 ^ 32"
  shows "drop (header_bytes_num (le_load (take 4 (cdb_file columns rs)))) (cdb_file columns rs) = concat rs"
proof -
  have l: "le_load (take 4 (cdb_file columns rs)) = (of_nat (length columns) :: u32)"
    using le_load_store [of 4 "of_nat (length columns) :: u32"] by (simp add: cdb_file_def)
  have "4 + of_nat (length columns) * 34 = (of_nat (4 + 34 * length columns) :: u32)" by simp
  moreover have "unat (of_nat (4 + 34 * length columns) :: u32) = 4 + 34 * length columns"
    using assms(2) by (simp only: unsigned_of_nat) (simp add: take_bit_nat_eq_self)
  ultimately have h: "header_bytes_num (of_nat (length columns)) = 4 + 34 * length columns"
    by (simp only: header_bytes_num_def)
  have "length (concat columns) = 34 * length columns"
    using assms(1) by (induction columns) auto
  then show ?thesis unfolding l h by (simp add: cdb_file_def)
qed

section \<open>The way up\<close>

text \<open>The step from a weapon to the one it was upgraded from.\<close>

definition parents :: "game_db \<Rightarrow> (u32 \<times> u32) set" where
  "parents db = {(i, p). \<exists>e. map_of (cdb_upgrades db) i = Some e \<and> ui_parentid e = p \<and> p \<noteq> 0}"

lemma finite_parents: "finite (parents db)"
proof -
  have "parents db \<subseteq> (\<lambda>(k, e). (k, ui_parentid e)) ` set (cdb_upgrades db)"
    by (force simp: parents_def dest: map_of_SomeD)
  then show ?thesis by (rule finite_subset) simp
qed

lemma upgrade_entry [simp]: "Cdb_getEntry (ucast (i :: u32)) t = map_of t i"
proof -
  have "ucast (ucast i :: u64) = i" by (rule bit_word_eqI) (simp add: bit_ucast_iff)
  then show ?thesis by (simp only: Cdb_getEntry_def)
qed

lemma base_item_step:
  "getBaseItemId db i =
     (case map_of (cdb_upgrades db) i of
        None \<Rightarrow> Some None
      | Some e \<Rightarrow> if ui_parentid e = 0 then Some (Some (ui_itemid e)) else getBaseItemId db (ui_parentid e))"
  by (subst getBaseItemId.simps) (simp cong: option.case_cong)

lemma base_item_acyclic:
  assumes "acyclic (parents db)"
  shows "\<exists>r. getBaseItemId db i = Some r"
proof -
  have "wf ((parents db)\<inverse>)" using assms by (intro finite_acyclic_wf_converse finite_parents)
  then show ?thesis
  proof (induction i rule: wf_induct_rule)
    case (less i)
    show ?case
    proof (cases "map_of (cdb_upgrades db) i")
      case (Some e)
      then have "ui_parentid e \<noteq> 0 \<Longrightarrow> (i, ui_parentid e) \<in> parents db" by (simp add: parents_def)
      then show ?thesis using less [of "ui_parentid e"] Some by (subst base_item_step) auto
    qed (subst base_item_step, simp)
  qed
qed

text \<open>A weapon whose way ends is on no cycle, and the result is the end of the way.\<close>

lemma base_item_ends:
  assumes "getBaseItemId db i = Some r"
  shows "(i, i) \<notin> (parents db)\<^sup>+ \<and>
    (\<forall>b. r = Some b \<longrightarrow> (\<exists>k e. (i, k) \<in> (parents db)\<^sup>* \<and> map_of (cdb_upgrades db) k = Some e \<and> ui_parentid e = 0 \<and> ui_itemid e = b))"
proof (rule getBaseItemId.raw_induct [OF _ assms], goal_cases)
  case (1 f db i r)
  show ?case
  proof (cases "map_of (cdb_upgrades db) i")
    case None
    then have "(i, j) \<notin> (parents db)\<^sup>+" for j by (auto simp: parents_def dest: tranclD)
    then show ?thesis using 1(2) None by auto
  next
    case (Some e)
    show ?thesis
    proof (cases "ui_parentid e = 0")
      case True
      then have "(i, j) \<notin> (parents db)\<^sup>+" for j using Some by (auto simp: parents_def dest: tranclD)
      then show ?thesis using 1(2) Some True by auto
    next
      case False
      have next1: "(i, p) \<in> parents db \<longleftrightarrow> p = ui_parentid e" for p using Some False by (auto simp: parents_def)
      have "f db (ui_parentid e) = Some r" using 1(2) Some False by simp
      from 1(1) [OF this] have IH: "(ui_parentid e, ui_parentid e) \<notin> (parents db)\<^sup>+"
        "\<forall>b. r = Some b \<longrightarrow> (\<exists>k e'. (ui_parentid e, k) \<in> (parents db)\<^sup>* \<and> map_of (cdb_upgrades db) k = Some e' \<and> ui_parentid e' = 0 \<and> ui_itemid e' = b)"
        by blast+
      have "(i, i) \<notin> (parents db)\<^sup>+"
      proof
        assume "(i, i) \<in> (parents db)\<^sup>+"
        then obtain p where "(i, p) \<in> parents db" "(p, i) \<in> (parents db)\<^sup>*" by (auto dest: tranclD)
        then have "(ui_parentid e, i) \<in> (parents db)\<^sup>*" "(i, ui_parentid e) \<in> parents db" using next1 by auto
        then have "(ui_parentid e, ui_parentid e) \<in> (parents db)\<^sup>+" by (rule rtrancl_into_trancl1)
        then show False using IH(1) by contradiction
      qed
      moreover have "(ui_parentid e, k) \<in> (parents db)\<^sup>* \<Longrightarrow> (i, k) \<in> (parents db)\<^sup>*" for k
        using next1 [of "ui_parentid e"] by (blast intro: converse_rtrancl_into_rtrancl)
      ultimately show ?thesis using IH(2) by blast
    qed
  qed
qed

section \<open>Properties\<close>

text \<open>C26: A file that holds the names of its columns and a sequence of set records is read as exactly
  these records; where an identifier occurs twice the later record counts.\<close>

theorem cdb_roundtrip:
  assumes "\<forall>c \<in> set columns. length c = 34" "4 + 34 * length columns < 2 ^ 32"
  shows "Cdb_getEntry (ucast k) (cdb_parse SetItemInfo_of_bytes 44 garbage (cdb_file columns (map bytes_of_set rs)) []) =
    map_of (rev rs) k"
proof -
  have "4 \<le> length (cdb_file columns (map bytes_of_set rs))" by (simp add: cdb_file_def)
  then have "cdb_records 44 garbage (cdb_file columns (map bytes_of_set rs)) = map bytes_of_set rs"
    using header_skipped [OF assms, of "map bytes_of_set rs"] cdb_chunks_concat [of "map bytes_of_set rs" 44 garbage]
    by (simp add: cdb_records_def)
  moreover have "map_of (fold (\<lambda>(k, v). Cdb_addEntry k v) rs t) = map_of t ++ map_of (rev rs)" for t :: "SetItemInfo cdb"
    by (induction rs arbitrary: t) (auto simp: Cdb_addEntry_def update_conv' map_add_def fun_eq_iff split: option.splits)
  ultimately show ?thesis by (simp add: cdb_parse_def fold_map comp_def)
qed

theorem cdb_roundtrip_witness:
  "let e = \<lparr>si_hair = 1, si_face = -1, si_top = 3, si_under = 4, si_pants = 5, si_arms = 6, si_boots = 7,
      si_acce_A = 8, si_acce_B = 9, si_acce_C = 10\<rparr>
   in Cdb_getEntry (ucast (9 :: u32)) (cdb_parse SetItemInfo_of_bytes 44 [] (cdb_file [replicate 34 0] (map bytes_of_set [(9, e)])) []) = Some e"
  unfolding Let_def by (subst cdb_roundtrip) simp_all

text \<open>C25: The search for the base of an upgraded weapon ends for every weapon exactly when the table of
  upgrades has no cycle of parents; on a cycle it runs forever, and where it ends with a weapon,
  this is the one without a parent that the way up from the given weapon leads to.\<close>

theorem base_item_terminates:
  "((\<forall>i. \<exists>r. getBaseItemId db i = Some r) \<longleftrightarrow> acyclic (parents db)) \<and>
   (getBaseItemId db i = Some (Some b) \<longrightarrow>
      (\<exists>k e. (i, k) \<in> (parents db)\<^sup>* \<and> map_of (cdb_upgrades db) k = Some e \<and> ui_parentid e = 0 \<and> ui_itemid e = b))"
  using base_item_acyclic [of db] base_item_ends [of db] unfolding acyclic_def by blast

definition demo_upgrades :: "CdbUpgradeInfo cdb" where
  "demo_upgrades =
     [(3, \<lparr>ui_itemid = 3, ui_parentid = 2, ui_buy_point = 10, ui_use_exp = 5\<rparr>),
      (2, \<lparr>ui_itemid = 2, ui_parentid = 0, ui_buy_point = 10, ui_use_exp = 5\<rparr>)]"

definition demo_game :: game_db where
  "demo_game = \<lparr>cdb_items = [], cdb_sets = [], cdb_upgrades = demo_upgrades, cdb_maps = [], cdb_effects = [],
     cdb_capsules = [], cdb_shop = [], cdb_eventRewards = []\<rparr>"

theorem base_item_terminates_witness:
  "\<exists>k e. (3, k) \<in> (parents demo_game)\<^sup>* \<and> map_of (cdb_upgrades demo_game) k = Some e \<and> ui_parentid e = 0 \<and> ui_itemid e = 2"
proof -
  have "getBaseItemId demo_game 3 = Some (Some 2)"
    by (subst base_item_step, subst base_item_step) (simp add: demo_game_def demo_upgrades_def)
  then show ?thesis using base_item_terminates [of demo_game 3 2] by blast
qed

end
