(* ===== verification/ItemSession.thy ===== *)
theory ItemSession
  imports MainSession ConstantDb
begin

unbundle bit_operations_syntax

text \<open>
  What a session of the main server does with the items and the money of its player,
  \<open>MainServer/src/Network/MainSession.cpp\<close>: every operation changes the player, replies with
  packets and asks the scheduler to write to the account database. The state of an operation is
  the session and the list of the calls to the scheduler.
\<close>

section \<open>Packed structures\<close>

definition serial_bytes :: "ItemSerialInfo \<Rightarrow> bytes" where
  "serial_bytes si = le_store 8
     (ucast (si_itemNumber si) OR push_bit 20 (ucast (si_serverId si)) OR push_bit 24 (ucast (si_unknown si)) OR
      push_bit 28 (ucast (si_itemOrigin si)) OR push_bit 32 (ucast (si_itemCreationDate si)) :: u64)"

definition serial_of_bytes :: "bytes \<Rightarrow> ItemSerialInfo" where
  "serial_of_bytes bs =
     (let w = le_load (take 8 bs) :: u64
      in \<lparr>si_itemNumber = ucast w, si_serverId = ucast (drop_bit 20 w), si_unknown = ucast (drop_bit 24 w),
          si_itemOrigin = ucast (drop_bit 28 w), si_itemCreationDate = ucast (drop_bit 32 w)\<rparr>)"

definition itemId_bytes :: "ItemId \<Rightarrow> bytes" where
  "itemId_bytes i = le_store 4 (ucast (iid_itemId i) OR push_bit 23 (ucast (iid_stock i)) :: u32)"

text \<open>
  \<open>SpawnedItem\<close>, \<open>BoxItem\<close> and \<open>BoughtItem\<close> have the same members, apart from a constant that
  \<open>SpawnedItem\<close> ends with.
\<close>

record SpawnedItem =
  sp_itemId :: ItemId
  sp_expirationDate :: u32
  sp_serialInfo :: ItemSerialInfo

type_synonym BoughtItem = SpawnedItem
type_synonym BoxItem = SpawnedItem

record main_env =
  me_crypt :: crypt
  me_game :: game_db
  me_now :: u32

abbreviation env_items :: "main_env \<Rightarrow> item_db" where
  "env_items e \<equiv> item_db_of (me_game e)"

definition expiration :: "main_env \<Rightarrow> u32 \<Rightarrow> u32 \<Rightarrow> u32" where
  "expiration e itemId creationDate =
     (let duration = getItemDuration (me_game e) itemId
      in if duration \<le> 3 then duration else creationDate + duration)"

definition SpawnedItem_new :: "main_env \<Rightarrow> u32 \<Rightarrow> SpawnedItem" where
  "SpawnedItem_new e i =
     \<lparr>sp_itemId = ItemId_new (env_items e) i, sp_expirationDate = expiration e i (me_now e),
      sp_serialInfo = ItemSerialInfo_default (me_now e)\<rparr>"

text \<open>The shop adds an offset to the identifiers, which does not fit the 23 bits.\<close>

definition BoughtItem_new :: "main_env \<Rightarrow> u32 \<Rightarrow> bool \<Rightarrow> BoughtItem" where
  "BoughtItem_new e i isCouponItem =
     (let itemId = ItemId_new (env_items e) i;
          itemId = (if isCouponItem then itemId else itemId\<lparr>iid_itemId := ucast ((ucast (iid_itemId itemId) :: u32) - 8388608)\<rparr>)
      in \<lparr>sp_itemId = itemId, sp_expirationDate = expiration e (ucast (iid_itemId itemId)) (me_now e),
          sp_serialInfo = ItemSerialInfo_default (me_now e)\<rparr>)"

definition spawned_bytes :: "SpawnedItem \<Rightarrow> bytes" where
  "spawned_bytes sp = itemId_bytes (sp_itemId sp) @ le_store 4 (sp_expirationDate sp) @ serial_bytes (sp_serialInfo sp) @ le_store 4 (0 :: u32)"

definition bought_bytes :: "BoughtItem \<Rightarrow> bytes" where
  "bought_bytes b = itemId_bytes (sp_itemId b) @ le_store 4 (sp_expirationDate b) @ serial_bytes (sp_serialInfo b)"

definition durability_of :: "main_env \<Rightarrow> ItemId \<Rightarrow> u16" where
  "durability_of e i = (case getItemDurability (me_game e) (ucast (iid_itemId i)) of None \<Rightarrow> 0 | Some d \<Rightarrow> d)"

definition Item_of_SpawnedItem :: "main_env \<Rightarrow> SpawnedItem \<Rightarrow> Item" where
  "Item_of_SpawnedItem e sp =
     \<lparr>it_itemId = sp_itemId sp, it_expirationDate = sp_expirationDate sp,
      it_serialInfo = (sp_serialInfo sp)\<lparr>si_itemOrigin := 0\<rparr>, it_durability = durability_of e (sp_itemId sp),
      it_energy = 0, it_isSealed = 0, it_sealLevel = 0, it_experienceEnhancement = 0, it_mpEnhancement = 0, it_unknown = 0\<rparr>"

definition Item_of_BoughtItem :: "main_env \<Rightarrow> BoughtItem \<Rightarrow> Item" where
  "Item_of_BoughtItem e b =
     (Item_of_SpawnedItem e b)\<lparr>it_expirationDate :=
        expiration e (ucast (iid_itemId (sp_itemId b))) (si_itemCreationDate (sp_serialInfo b))\<rparr>"

section \<open>The calls to the scheduler\<close>

record ItemLogInfo =
  il_itemNumber :: u64
  il_itemId :: u64
  il_expirationDate :: u64
  il_action :: bytes

text \<open>The first number is the account.\<close>

datatype sched_call =
  Sched_equip db_call
| Sched_removePlayerItem u32 u64
| Sched_addPlayerItem u32 Item
| Sched_addPlayerBoxItems u32 "BoxItem list"
| Sched_logBoxItems u32 "BoxItem list"
| Sched_addPlayerBoughtItems u32 "BoughtItem list"
| Sched_logBoughtItems u32 "BoughtItem list" bool
| Sched_prolongItems u32 "ItemSerialInfo list" "u64 list"
| Sched_updateItemStock u32 u64 u32
| Sched_replaceItemResetEnergy u32 u64 u32
| Sched_insertItemLog u32 ItemLogInfo
| Sched_updatePlayerCurrency u32 u32 ItemCurrencyType
| Sched_insertEnergyToItem u32 u32 u16 u32
| Sched_updateItemDurability u32 u32 u32
| Sched_reduceDurability u32 "(u32 \<times> u64) list"
| Sched_updatePlayerStats u32 AccountInfo
| Sched_updateBattery u32 u32
| Sched_updateLevel u32 u16
| Sched_updateExperience u32 u32
| Sched_updateLatestSelectedCharacter u32 u16
| Sched_updateClanContribution u32 u32
| Sched_batteryExpansion u32
| Sched_inventoryExpansion u32 u32
| Sched_resetKillDeath u32
| Sched_resetRecord u32
| Sched_deleteReceivedGiftbox u32 u32
| Sched_blockPlayer u32 u32
| Sched_unblockPlayer u32 u32
| Sched_storeMailbox Mailbox u32 bool
| Sched_storeGiftbox Giftbox u32
| Sched_deleteMailbox u32 u32 bool
| Sched_savePlayerMissions u32 "(u32 \<times> u32) list"
| Sched_updatePlayerMissionProgress u32 u32 u32
| Sched_addFriend u32 u32
| Sched_removeFriend u32 u32
| Sched_addPendingFriendRequest u32 bytes
| Sched_addPlayerItems u32 "Item list"
| Sched_updatePlayerName u32 bytes
| Sched_storeOfflineMailbox Mailbox bytes
| Sched_updateReadMailbox u32 u32
| Sched_blockPlayerByNickname u32 bytes
| Sched_updateSuspension bytes bytes bytes u32
| Sched_updateMute bytes bytes bytes bytes u32
| Sched_unmuteAccount bytes
| Sched_updateRoomCreationDisabledUntil bytes bytes
| Sched_resetRoomCreationDisabledUntil bytes
| Sched_updateVotekickDisabledUntil bytes bytes
| Sched_resetVotekickDisabledUntil bytes
| Sched_updatePlayerLuckyPoints u32 u32
| Sched_logMessage u32 bytes
| Sched_updateClanStats u16 MatchEnd
| Sched_unban bytes
| Sched_renamePlayer u32 bytes

type_synonym sess_state = "main_session \<times> sched_call list"

definition on_sess :: "(main_session \<Rightarrow> main_session) \<Rightarrow> sess_state \<Rightarrow> sess_state" where
  "on_sess f = (\<lambda>(s, log). (f s, log))"

definition schedule :: "(u32 \<Rightarrow> sched_call) \<Rightarrow> sess_state \<Rightarrow> sess_state" where
  "schedule call = (\<lambda>(s, log). (s, log @ [call (ai_accountID (getAccountInfo s))]))"

text \<open>An operation of the player, with its result.\<close>

definition run_player :: "(player \<Rightarrow> 'a \<times> player) \<Rightarrow> sess_state \<Rightarrow> 'a \<times> sess_state" where
  "run_player f = (\<lambda>(s, log). case f (getPlayer s) of (x, p) \<Rightarrow> (x, on_player (\<lambda>_. p) s, log))"

abbreviation player_of :: "sess_state \<Rightarrow> player" where
  "player_of st \<equiv> getPlayer (fst st)"

abbreviation account_of :: "sess_state \<Rightarrow> AccountInfo" where
  "account_of st \<equiv> getAccountInfo (fst st)"

definition tell :: "main_env \<Rightarrow> string \<Rightarrow> sess_state \<Rightarrow> sess_state" where
  "tell e msg = on_sess (sendMessage (me_crypt e) (ascii msg) 1)"

text \<open>Changing the packet of the session and sending it.\<close>

definition write_own :: "main_env \<Rightarrow> (packet \<Rightarrow> packet) \<Rightarrow> sess_state \<Rightarrow> sess_state" where
  "write_own e f = on_sess (\<lambda>s. send_own (me_crypt e) (on_packet f s))"

text \<open>The unencrypted header the replies of a session begin with.\<close>

definition own_header :: "sess_state \<Rightarrow> packet \<Rightarrow> packet" where
  "own_header st = setTcpHeader (of_nat (m_id (fst st))) 0"

section \<open>Currency\<close>

definition session_setAccountMicroPoints :: "u32 \<Rightarrow> sess_state \<Rightarrow> bool \<times> sess_state" where
  "session_setAccountMicroPoints mp st =
     (case run_player (setAccountMicroPoints mp) st of
        (False, st) \<Rightarrow> (False, st)
      | (True, st) \<Rightarrow> (True, schedule (\<lambda>a. Sched_updatePlayerCurrency a mp ITEM_MP) st))"

definition session_setAccountRockTotens :: "u32 \<Rightarrow> sess_state \<Rightarrow> bool \<times> sess_state" where
  "session_setAccountRockTotens rt st =
     (case run_player (setAccountRockTotens rt) st of
        (False, st) \<Rightarrow> (False, st)
      | (True, st) \<Rightarrow> (True, schedule (\<lambda>a. Sched_updatePlayerCurrency a rt ITEM_RT) st))"

definition session_setAccountCoins :: "u16 \<Rightarrow> sess_state \<Rightarrow> bool \<times> sess_state" where
  "session_setAccountCoins coins st =
     (case run_player (setAccountCoins coins) st of
        (False, st) \<Rightarrow> (False, st)
      | (True, st) \<Rightarrow> (True, schedule (\<lambda>a. Sched_updatePlayerCurrency a (ucast coins) ITEM_COIN) st))"

definition mp_of :: "sess_state \<Rightarrow> u32" where
  "mp_of st = ucast (ai_microPoints (account_of st))"

definition rt_of :: "sess_state \<Rightarrow> u32" where
  "rt_of st = ucast (ai_rockTotens (account_of st))"

definition sendCurrency :: "main_env \<Rightarrow> sess_state \<Rightarrow> sess_state" where
  "sendCurrency e st =
     write_own e (\<lambda>p. setData (le_store 4 (rt_of st) @ le_store 4 (mp_of st) @ le_store 4 (ucast (ai_coins (account_of st)) :: u32))
       (setCommand 307 0 0 0 p)) st"

definition sendMp :: "main_env \<Rightarrow> u32 \<Rightarrow> sess_state \<Rightarrow> sess_state" where
  "sendMp e mpToAdd st =
     (let mp = mp_of st + mpToAdd
      in snd (session_setAccountMicroPoints mp
           (write_own e (\<lambda>p. setData (le_store 4 (rt_of st) @ le_store 4 mp) (setCommand 307 0 0 0 p)) st)))"

definition sendRt :: "main_env \<Rightarrow> u32 \<Rightarrow> sess_state \<Rightarrow> sess_state" where
  "sendRt e rtToAdd st =
     (let rt = rt_of st + rtToAdd
      in snd (session_setAccountRockTotens rt
           (write_own e (\<lambda>p. setData (le_store 4 rt @ le_store 4 (mp_of st)) (setCommand 307 0 0 0 p)) st)))"

section \<open>Items\<close>

definition logItemInfo :: "u64 \<Rightarrow> u32 \<Rightarrow> u32 \<Rightarrow> bytes \<Rightarrow> sess_state \<Rightarrow> sess_state" where
  "logItemInfo itemNumber itemId expirationDate action =
     schedule (\<lambda>a. Sched_insertItemLog a
       \<lparr>il_itemNumber = itemNumber, il_itemId = ucast itemId, il_expirationDate = ucast expirationDate, il_action = action\<rparr>)"

abbreviation serial_no :: "ItemSerialInfo \<Rightarrow> u64" where
  "serial_no si \<equiv> ucast (si_itemNumber si)"

definition session_deleteItemBasic :: "ItemSerialInfo \<Rightarrow> sess_state \<Rightarrow> bool \<times> sess_state" where
  "session_deleteItemBasic si st =
     (case run_player (deleteItemBasic si) st of
        (False, st) \<Rightarrow> (False, st)
      | (True, st) \<Rightarrow> (True, schedule (\<lambda>a. Sched_removePlayerItem a (serial_no si)) st))"

definition delete_reply :: "main_env \<Rightarrow> bool \<Rightarrow> ItemSerialInfo \<Rightarrow> sess_state \<Rightarrow> sess_state" where
  "delete_reply e removed si st =
     write_own e (\<lambda>p. setData (le_store 4 (1 :: u32) @ serial_bytes si)
       (setCommand 89 0 (if removed then 1 else 0) 0 (own_header st p))) st"

definition session_deleteItem :: "main_env \<Rightarrow> ItemSerialInfo \<Rightarrow> bytes \<Rightarrow> sess_state \<Rightarrow> bool \<times> sess_state" where
  "session_deleteItem e si action st =
     (let st = (case findItemIdBySerialInfo si (player_of st) of
                  None \<Rightarrow> st
                | Some itemId \<Rightarrow> logItemInfo (serial_no si) itemId 0 action st)
      in case session_deleteItemBasic si st of
           (removed, st) \<Rightarrow>
             let st = delete_reply e removed si st
             in (removed, if removed then st
                  else tell e ''[Session::deleteItem] ERROR: Item deletion failed - either a DB error or a server logic error!'' st))"

definition sendDeletePacket :: "main_env \<Rightarrow> ItemSerialInfo \<Rightarrow> sess_state \<Rightarrow> bool \<times> sess_state" where
  "sendDeletePacket e si st =
     (case run_player (deleteItemBasic si) st of (removed, st) \<Rightarrow> (removed, delete_reply e removed si st))"

definition session_addItem :: "main_env \<Rightarrow> Item \<Rightarrow> bool \<Rightarrow> sess_state \<Rightarrow> bool \<times> sess_state" where
  "session_addItem e item isCouponItem st =
     (if \<not> isCouponItem \<and> \<not> hasEnoughInventorySpace 1 (player_of st)
      then (False, tell e ''[error] Not enough inventory space!'' st)
      else (True, on_sess (on_player (addItem item)) (schedule (\<lambda>a. Sched_addPlayerItem a item) st)))"

definition session_addItem_gift :: "main_env \<Rightarrow> Giftbox \<Rightarrow> sess_state \<Rightarrow> bool \<times> sess_state" where
  "session_addItem_gift e gift st =
     (if \<not> hasEnoughInventorySpace 1 (player_of st)
      then (False, tell e ''[error] Not enough inventory space!'' st)
      else let itemId = ItemId_new (env_items e) (gb_id gift);
               serial = (ItemSerialInfo_default (me_now e))\<lparr>si_itemNumber := ucast (getLatestItemNumber (player_of st) + 1)\<rparr>;
               item = \<lparr>it_itemId = itemId, it_expirationDate = expiration e (gb_id gift) (me_now e), it_serialInfo = serial,
                 it_durability = (case getItemDurability (me_game e) (gb_id gift) of None \<Rightarrow> 0 | Some d \<Rightarrow> d),
                 it_energy = 0, it_isSealed = 0, it_sealLevel = 0, it_experienceEnhancement = 0, it_mpEnhancement = 0, it_unknown = 0\<rparr>
           in (True, on_sess (on_player (addItem item)) (schedule (\<lambda>a. Sched_addPlayerItem a item) st)))"

definition session_addItems_bought :: "main_env \<Rightarrow> BoughtItem list \<Rightarrow> bool \<Rightarrow> sess_state \<Rightarrow> bool \<times> sess_state" where
  "session_addItems_bought e boughtItems areCouponItems st =
     (if boughtItems = [] \<or> \<not> hasEnoughInventorySpace (of_nat (length boughtItems)) (player_of st)
      then (False, tell e ''[Session::addItems] fail: boughtItems.empty() || !hasEnoughInventorySpace(boughtItems.size())'' st)
      else (True,
        schedule (\<lambda>a. Sched_logBoughtItems a boughtItems areCouponItems)
          (schedule (\<lambda>a. Sched_addPlayerBoughtItems a boughtItems)
            (on_sess (on_player (addItems (map (Item_of_BoughtItem e) boughtItems)))
              (write_own e (\<lambda>p. setData (concat (map bought_bytes boughtItems))
                 (setCommand (if areCouponItems then 91 else 87) 0 (if areCouponItems then 1 else 0) (of_nat (length boughtItems)) p)) st)))))"

definition session_addItems_box :: "main_env \<Rightarrow> BoxItem list \<Rightarrow> ItemSerialInfo \<Rightarrow> ItemSerialInfo \<Rightarrow> u32 \<Rightarrow> sess_state \<Rightarrow> sess_state" where
  "session_addItems_box e boxItems box capsule extra st =
     (if boxItems = [] \<or> \<not> hasEnoughInventorySpace (of_nat (length boxItems)) (player_of st) then st
      else case session_deleteItem e box (ascii ''The item was deleted after being used (Example: boxes)'') st of
        (False, st) \<Rightarrow> st
      | (True, st) \<Rightarrow>
          (case (if extra = 26 then session_deleteItem e capsule (ascii ''The item was deleted after being used (Example: mystery capsules'') st
                 else (True, st)) of
             (False, st) \<Rightarrow> tell e ''[Session::addItems] fail: failed to delete used capsule item'' st
           | (True, st) \<Rightarrow>
               schedule (\<lambda>a. Sched_logBoxItems a boxItems)
                 (schedule (\<lambda>a. Sched_addPlayerBoxItems a boxItems)
                   (on_sess (on_player (addItems (map (Item_of_SpawnedItem e) boxItems)))
                     (write_own e (\<lambda>p. setData (concat (map bought_bytes boxItems))
                        (setCommand 102 1 (ucast extra) (of_nat (length boxItems)) p)) st)))))"

definition session_prolongItems :: "main_env \<Rightarrow> ItemSerialInfo list \<Rightarrow> u64 list \<Rightarrow> sess_state \<Rightarrow> bool \<times> sess_state" where
  "session_prolongItems e toProlong durations st =
     (if toProlong = [] \<or> length toProlong \<noteq> length durations then (False, st)
      else (True, schedule (\<lambda>a. Sched_prolongItems a toProlong durations)
        (write_own e (\<lambda>p. setData (concat (map (\<lambda>si. serial_bytes si @ le_store 4 (1 :: u32)) toProlong))
           (setCommand 87 1 0 (of_nat (length toProlong)) p)) st)))"

definition spawn_reply :: "main_env \<Rightarrow> u8 \<Rightarrow> SpawnedItem \<Rightarrow> sess_state \<Rightarrow> sess_state" where
  "spawn_reply e opt sp = write_own e (\<lambda>p. setData (spawned_bytes sp) (setCommand 66 0 51 opt p))"

definition number_after_latest :: "sess_state \<Rightarrow> 20 word" where
  "number_after_latest st = ucast (getLatestItemNumber (player_of st) + 1)"

definition spawnItemCommand :: "main_env \<Rightarrow> u32 \<Rightarrow> bytes \<Rightarrow> sess_state \<Rightarrow> bool \<times> sess_state" where
  "spawnItemCommand e itemId action st =
     (if \<not> itemExists (me_game e) itemId then (False, tell e ''[Session::spawnItemCommand] error: itemID not found'' st)
      else let sp = SpawnedItem_new e itemId;
               sp = sp\<lparr>sp_serialInfo := (sp_serialInfo sp)\<lparr>si_itemNumber := number_after_latest st\<rparr>\<rparr>
           in case session_addItem e (Item_of_SpawnedItem e sp) False st of
                (False, st) \<Rightarrow> (False, st)
              | (True, st) \<Rightarrow>
                  (True, logItemInfo (serial_no (sp_serialInfo sp)) itemId (sp_expirationDate sp) action (spawn_reply e 2 sp st)))"

text \<open>Replacing an item keeps its number; the branch without an identifier is never reached.\<close>

definition replaceItem :: "main_env \<Rightarrow> ItemSerialInfo \<Rightarrow> u32 \<Rightarrow> bytes \<Rightarrow> sess_state \<Rightarrow> bool \<times> sess_state" where
  "replaceItem e si newItemId action st =
     (let itemIdOpt = findItemIdBySerialInfo si (player_of st)
      in if \<not> itemExists (me_game e) newItemId then (False, tell e ''[Session::replaceItem] error: itemID not found'' st)
         else if \<not> hasEnoughInventorySpace 1 (player_of st)
         then (False, tell e ''[Session::replaceItem] not enough inventory space!'' st)
         else case sendDeletePacket e si st of
           (False, st) \<Rightarrow> (False, tell e ''[Session::replaceItem] error: failed to delete original item'' st)
         | (True, st) \<Rightarrow>
             (case itemIdOpt of
                None \<Rightarrow> (False, st)
              | Some itemId \<Rightarrow>
                  let sp = (SpawnedItem_new e newItemId)\<lparr>sp_serialInfo := si\<rparr>
                  in (True, logItemInfo (serial_no si) itemId 0 action
                       (schedule (\<lambda>a. Sched_replaceItemResetEnergy a (serial_no si) newItemId)
                         (spawn_reply e 2 sp (on_sess (on_player (addItem (Item_of_SpawnedItem e sp))) st))))))"

definition refundItem :: "main_env \<Rightarrow> ItemSerialInfo \<Rightarrow> u32 \<Rightarrow> sess_state \<Rightarrow> sess_state" where
  "refundItem e si mpToAdd st =
     (let originalItemId = findItemIdBySerialInfo si (player_of st)
      in case session_deleteItemBasic si st of
           (removed, st) \<Rightarrow>
             let st = write_own e (\<lambda>p. setData (serial_bytes si @ le_store 4 mpToAdd)
                        (setCommand 100 0 (if removed then 1 else 21) 0 (own_header st p))) st
             in if \<not> removed then st
                else let st = snd (session_setAccountMicroPoints (mp_of st + mpToAdd) st)
                     in case originalItemId of
                          None \<Rightarrow> st
                        | Some i \<Rightarrow> logItemInfo (serial_no si) i 0 (ascii ''This item was sold'') st)"

section \<open>Upgrades\<close>

definition upgrade_entry_of :: "main_env \<Rightarrow> u32 \<Rightarrow> CdbUpgradeInfo option" where
  "upgrade_entry_of e i = Cdb_getEntry (ucast i) (cdb_upgrades (me_game e))"

text \<open>The argument \<open>roll\<close> is the random number from 1 to 100.\<close>

definition upgradeWeapon ::
  "main_env \<Rightarrow> u32 \<Rightarrow> u32 \<Rightarrow> ItemSerialInfo \<Rightarrow> bool \<Rightarrow> u8 \<Rightarrow> u8 \<Rightarrow> bool \<Rightarrow> bool \<Rightarrow> sess_state \<Rightarrow> bool \<times> sess_state" where
  "upgradeWeapon e roll itemId si hasParent mission opt useEnergyRefund useGlue st =
     (let toAdd = (if hasParent then 1 else ucast mission * 10 + 1) :: u32;
          failed = ascii ''Item upgrade attempt failed for itemID: '' @ digits (unat itemId);
          succeeded = ascii ''Item upgraded successfully from ItemID: '' @ digits (unat itemId) @ ascii '' to ItemID: '' @ digits (unat (itemId + toAdd));
          reply = (\<lambda>extra st. write_own e (\<lambda>p. setData (replicate 72 0) (setCommand 101 mission extra opt (own_header st p))) st)
      in case upgrade_entry_of e (itemId + toAdd) of
           None \<Rightarrow> (False, tell e ''[Session::upgradeWeapon] newItemUpgradeInfo is std::nullopt - report this issue if it's an error'' st)
         | Some info \<Rightarrow>
             if int (unat (mp_of st)) < sint (ui_buy_point info) then (False, reply 14 st)
             else (case getItemEnergy si (player_of st) of
               None \<Rightarrow> (False, tell e ''[Session::upgradeWeapon] could not retrieve the energy for this item, please report this issue'' (reply 6 st))
             | Some energy \<Rightarrow>
                 if int (unat energy) < sint (ui_use_exp info)
                 then (False, tell e ''[Session::upgradeWeapon] error: selected item does not have enough energy for an upgrade!'' (reply 6 st))
                 else let st = snd (session_setAccountMicroPoints (mp_of st - ui_buy_point info) st);
                          st = (if \<not> useGlue \<and> roll \<le> 15
                                then (if useEnergyRefund then reply 6 st else snd (replaceItem e si itemId failed (reply 6 st)))
                                else snd (replaceItem e si (itemId + toAdd) succeeded (reply 1 st)))
                      in (True, sendCurrency e st)))"

text \<open>\<open>None\<close> is the search for the base of the weapon that never ends.\<close>

definition resetUpgrade :: "main_env \<Rightarrow> ItemSerialInfo \<Rightarrow> ItemSerialInfo \<Rightarrow> sess_state \<Rightarrow> sess_state option" where
  "resetUpgrade e weapon resetItem st =
     (let failed = tell e ''[Session::resetUpgrade] itemopt is nullopt or reset upgrade item not found''
      in case findItemIdBySerialInfo weapon (player_of st) of
           None \<Rightarrow> Some (failed st)
         | Some itemId \<Rightarrow>
             (case session_deleteItem e resetItem (ascii ''Item deleted automatically while attempting to use upgrade reset on it'') st of
                (False, st) \<Rightarrow> Some (failed st)
              | (True, st) \<Rightarrow>
                  (case getBaseItemId (me_game e) itemId of
                     None \<Rightarrow> None
                   | Some None \<Rightarrow> Some (tell e ''[Session::resetUpgrade] error: No base item opt found'' st)
                   | Some (Some base) \<Rightarrow>
                       Some (snd (replaceItem e weapon base
                         (ascii ''Item upgrade reset successfully from ItemID: '' @ digits (unat itemId) @ ascii '' to ItemID: '' @ digits (unat base)) st)))))"

definition session_addEnergyToItem :: "main_env \<Rightarrow> ItemSerialInfo \<Rightarrow> u32 \<Rightarrow> u16 \<Rightarrow> u16 \<Rightarrow> sess_state \<Rightarrow> sess_state" where
  "session_addEnergyToItem e si usedEnergy weaponType mission st =
     (case run_player (addEnergyToItem si usedEnergy) st of
        (None, st) \<Rightarrow> st
      | (Some (energy, battery), st) \<Rightarrow>
          schedule (\<lambda>a. Sched_insertEnergyToItem a (ucast (si_itemNumber si)) energy (ucast battery))
            (write_own e (\<lambda>p. setData (serial_bytes si @ le_store 4 usedEnergy)
               (setCommand 101 (ucast mission) 32 (ucast weaponType) (own_header st p))) st))"

section \<open>Items used in a match, coupons\<close>

text \<open>The reply is the request with a new command.\<close>

definition useMatchItem ::
  "main_env \<Rightarrow> (packet \<Rightarrow> packet) \<Rightarrow> (sess_state \<Rightarrow> sess_state) \<Rightarrow> (sess_state \<Rightarrow> sess_state) \<Rightarrow> bytes \<Rightarrow>
     ItemSerialInfo \<Rightarrow> packet \<Rightarrow> sess_state \<Rightarrow> bool \<times> sess_state" where
  "useMatchItem e fill stock_zero not_found action si request st =
     (let response = fill (setCommand 102 1 1 0 request)
      in case run_player (useInstantRespawn (serial_no si)) st of
           ((MATCHITEM_DELETE, _), st) \<Rightarrow> session_deleteItem e si action (on_sess (send (me_crypt e) response) st)
         | ((MATCHITEM_STOCKS_REDUCED_SUCCESS, stock), st) \<Rightarrow>
             (True, schedule (\<lambda>a. Sched_updateItemStock a (serial_no si) stock) (on_sess (send (me_crypt e) response) st))
         | ((MATCHITEM_STOCK_ZERO, _), st) \<Rightarrow> (False, stock_zero st)
         | ((MATCHITEM_DO_NOTHING, _), st) \<Rightarrow> (False, not_found st))"

definition session_useInstantRespawn :: "main_env \<Rightarrow> ItemSerialInfo \<Rightarrow> packet \<Rightarrow> sess_state \<Rightarrow> bool \<times> sess_state" where
  "session_useInstantRespawn e =
     useMatchItem e id
       (tell e ''[Session::useMatchItem] server error - item stock is zero, please report this issue'')
       (tell e ''[Session::useMatchItem] server error - Item not found through ItemNumber, please report this issue'')
       (ascii ''Instant Respawn item deleted automatically after being used and total remaining usages == 0'')"

definition session_useNoPenalty :: "main_env \<Rightarrow> ItemSerialInfo \<Rightarrow> packet \<Rightarrow> sess_state \<Rightarrow> bool \<times> sess_state" where
  "session_useNoPenalty e si =
     useMatchItem e (setData (serial_bytes si)) id id
       (ascii ''In-match item deleted automatically after it was used and total usages left == 0 (Example: No Penalty item'') si"

definition session_tryRemoveCoupons :: "main_env \<Rightarrow> u32 \<Rightarrow> sess_state \<Rightarrow> bool \<times> sess_state" where
  "session_tryRemoveCoupons e totalCouponsNeeded st =
     (case run_player (tryRemoveCoupons (me_now e) totalCouponsNeeded) st of
        ((COUPON_ITEM_DELETE, _, si), st) \<Rightarrow>
          session_deleteItem e si (ascii ''Coupon item deleted automatically after using the item'') st
      | ((COUPON_ITEM_STOCKS_REDUCED_SUCCESS, stock, si), st) \<Rightarrow>
          (True, schedule (\<lambda>a. Sched_updateItemStock a (serial_no si) stock) st)
      | ((COUPON_ITEM_STOCK_IS_ZERO, _, _), st) \<Rightarrow>
          (False, tell e ''[Session::useMatchItem] server error - item stock is zero, please report this issue'' st)
      | ((COUPON_ITEM_DO_NOTHING, _, _), st) \<Rightarrow>
          (False, tell e ''[Session::useMatchItem] server error - Item not found through ItemNumber, please report this issue'' st))"

definition coupon_log :: "ItemSerialInfo \<Rightarrow> SpawnedItem \<Rightarrow> sess_state \<Rightarrow> sess_state" where
  "coupon_log si sp =
     logItemInfo (serial_no si) (ucast (iid_itemId (sp_itemId sp))) (sp_expirationDate sp)
       (ascii ''Coupon item spawned automatically in Session::spawnCouponCommon'')"

definition spawnCouponCommon :: "main_env \<Rightarrow> u32 \<Rightarrow> bool \<Rightarrow> sess_state \<Rightarrow> bool \<times> sess_state" where
  "spawnCouponCommon e amount immediateToAccount st =
     (case run_player (addCoupon (me_now e) amount) st of ((action, stock, si), st) \<Rightarrow>
        let sp = SpawnedItem_new e 1000000;
            sp = sp\<lparr>sp_itemId := (sp_itemId sp)\<lparr>iid_stock := ucast amount\<rparr>,
                    sp_serialInfo := (sp_serialInfo sp)\<lparr>si_itemNumber := number_after_latest st\<rparr>, sp_expirationDate := 0\<rparr>
        in case action of
             MUST_CREATE_NEW_COUPON \<Rightarrow>
               let item = (Item_of_SpawnedItem e sp)\<lparr>it_unknown := 1\<rparr>
               in (case session_addItem e item True st of
                     (False, st) \<Rightarrow> (False, st)
                   | (True, st) \<Rightarrow>
                       if immediateToAccount then (True, coupon_log (sp_serialInfo sp) sp (spawn_reply e 2 sp st))
                       else (True, on_sess (on_player (addTotalCouponItems item)) st))
           | EXISTING_COUPON_STOCK_UPDATED \<Rightarrow>
               let sp0 = sp\<lparr>sp_serialInfo := (sp_serialInfo sp)\<lparr>si_itemNumber := 0\<rparr>\<rparr>;
                   st = (if immediateToAccount then coupon_log (sp_serialInfo sp0) sp0 (spawn_reply e 2 sp0 st) else st)
               in (True, schedule (\<lambda>a. Sched_updateItemStock a (serial_no si) stock) st)
           | UNKNOWN_COUPON_ADD_ERROR \<Rightarrow> (False, st))"

definition removeBossBattleTicket :: "main_env \<Rightarrow> sess_state \<Rightarrow> bool \<times> sess_state" where
  "removeBossBattleTicket e st =
     (case getBossBattleTicket (player_of st) of
        None \<Rightarrow> (False, st)
      | Some si \<Rightarrow> session_deleteItem e si (ascii ''Boss Battle ticket removed automatically after starting Boss Battle match'') st)"

section \<open>Equipment\<close>

definition run_equip :: "(player \<times> db_call list \<Rightarrow> 'a \<times> player \<times> db_call list) \<Rightarrow> sess_state \<Rightarrow> 'a \<times> sess_state" where
  "run_equip f = (\<lambda>(s, log). case f (getPlayer s, []) of (x, p, calls) \<Rightarrow> (x, on_player (\<lambda>_. p) s, log @ map Sched_equip calls))"

definition session_equipItem :: "main_env \<Rightarrow> u16 \<Rightarrow> sess_state \<Rightarrow> sess_state" where
  "session_equipItem e itemNumber st = snd (run_equip (\<lambda>q. ((), equipItem (env_items e) itemNumber (-1) q)) st)"

definition switchItemEquip :: "main_env \<Rightarrow> u32 \<Rightarrow> u64 \<Rightarrow> sess_state \<Rightarrow> sess_state" where
  "switchItemEquip e characterId itemNumber st =
     (if characterId \<noteq> -1 \<and> unat characterId \<ge> MAX_CHARACTERS then st
      else case run_equip (unequipItemIfEquipped (env_items e) itemNumber characterId) st of
             (True, st) \<Rightarrow> st
           | (False, st) \<Rightarrow> snd (run_equip (\<lambda>q. ((), equipItemIfNotEquipped (env_items e) itemNumber characterId q)) st))"

definition session_unequipItem :: "main_env \<Rightarrow> u64 \<Rightarrow> sess_state \<Rightarrow> sess_state" where
  "session_unequipItem e itemType st =
     (if itemType \<ge> 30 then st else snd (run_equip (\<lambda>q. ((), unequipItemImpl (env_items e) itemType (-1) q)) st))"

definition session_reduceDurability :: "main_env \<Rightarrow> u32 \<Rightarrow> sess_state \<Rightarrow> sess_state" where
  "session_reduceDurability e weaponRestriction st =
     (case run_player (\<lambda>p. case reduceEquippedItemsDurabilities (env_items e) (selected p) weaponRestriction p of
          (p, damages, ids) \<Rightarrow> ((damages, ids), p)) st of
        ((damages, ids), st) \<Rightarrow>
          write_own e (\<lambda>p. setData (concat (map (\<lambda>(si, d). serial_bytes si @ le_store 4 d) damages))
            (packet_setOption (of_nat (length damages)) (packet_setOrder 93 p)))
          (schedule (\<lambda>a. Sched_reduceDurability a ids) st))"

definition session_updateItemDurability :: "u32 \<Rightarrow> u32 \<Rightarrow> sess_state \<Rightarrow> sess_state" where
  "session_updateItemDurability itemNumber newDurability st =
     snd (run_player (updateItemDurabilityByNumber itemNumber newDurability)
       (schedule (\<lambda>a. Sched_updateItemDurability a itemNumber newDurability) st))"

definition check_step :: "main_env \<Rightarrow> (u32 \<Rightarrow> u32 \<Rightarrow> bool) \<Rightarrow> string \<Rightarrow> EquippedItem list \<Rightarrow> sess_state \<Rightarrow> bool \<times> sess_state" where
  "check_step e pred failMessage es st =
     (case find (\<lambda>q. worn q \<and> \<not> pred (ucast (eq_type q)) (ucast (eq_id q))) es of
        None \<Rightarrow> (True, st)
      | Some q \<Rightarrow> (False, on_sess (sendMessage (me_crypt e)
                  (ascii ''Item Type '' @ digits (unat (eq_type q)) @ ascii ('' '' @ failMessage)) 1) st))"

definition checkEquippedItems :: "main_env \<Rightarrow> (u32 \<Rightarrow> u32 \<Rightarrow> bool) \<Rightarrow> string \<Rightarrow> sess_state \<Rightarrow> bool \<times> sess_state" where
  "checkEquippedItems e pred failMessage st =
     check_step e pred failMessage (getEquippedItemsFor (ucast (ai_latestSelectedCharacter (account_of st))) (player_of st)) st"

definition hasCsdItems :: "main_env \<Rightarrow> sess_state \<Rightarrow> bool \<times> sess_state" where
  "hasCsdItems e = checkEquippedItems e (isCsdItem (me_game e)) ''is not CSD''"

definition hasBasicItems :: "main_env \<Rightarrow> sess_state \<Rightarrow> bool \<times> sess_state" where
  "hasBasicItems e = checkEquippedItems e isBasicItem ''is not a basic item (Boss Battle requires basic weapons)''"

section \<open>Account\<close>

definition session_sendBattery :: "u32 \<Rightarrow> sess_state \<Rightarrow> sess_state" where
  "session_sendBattery battery st =
     (if battery \<noteq> 500 \<and> battery \<noteq> 1000 then st
      else case run_player (addBattery battery) st of (new, st') \<Rightarrow>
        if new > ucast (ai_battery (account_of st)) then schedule (\<lambda>a. Sched_updateBattery a new) st' else st')"

definition session_resetKillDeath :: "sess_state \<Rightarrow> sess_state" where
  "session_resetKillDeath st = schedule Sched_resetKillDeath (on_sess (on_player resetKillDeath) st)"

definition session_resetRecord :: "sess_state \<Rightarrow> sess_state" where
  "session_resetRecord st = schedule Sched_resetRecord (on_sess (on_player resetRecord) st)"

definition session_expandBattery :: "main_env \<Rightarrow> sess_state \<Rightarrow> sess_state" where
  "session_expandBattery e st =
     (case run_player expandBattery st of
        (True, st) \<Rightarrow> schedule Sched_batteryExpansion st
      | (False, st) \<Rightarrow> tell e ''Error: Maximum possible battery is 5000'' st)"

definition session_expandInventory :: "main_env \<Rightarrow> u32 \<Rightarrow> sess_state \<Rightarrow> sess_state" where
  "session_expandInventory e spaceToAdd st =
     (case run_player (expandInventory spaceToAdd) st of
        (True, st) \<Rightarrow>
          on_sess (sendMessage (me_crypt e) (ascii ''Successfully expanded inventory space, relog'') 12)
            (schedule (\<lambda>a. Sched_inventoryExpansion a spaceToAdd) st)
      | (False, st) \<Rightarrow> tell e ''Error: Maximum possible inventory space is 1000!'' st)"

definition session_setLevel :: "u16 \<Rightarrow> sess_state \<Rightarrow> bool \<times> sess_state" where
  "session_setLevel level st =
     (if level > 105 then (False, st)
      else (True, schedule (\<lambda>a. Sched_updateLevel a level) (on_sess (on_player (setLevel level)) st)))"

definition session_setExperience :: "u32 \<Rightarrow> sess_state \<Rightarrow> bool \<times> sess_state" where
  "session_setExperience experience st =
     (True, schedule (\<lambda>a. Sched_updateExperience a experience) (on_sess (on_player (setExperience experience)) st))"

definition session_setLatestCharacter :: "u16 \<Rightarrow> sess_state \<Rightarrow> sess_state" where
  "session_setLatestCharacter c st =
     schedule (\<lambda>a. Sched_updateLatestSelectedCharacter a c) (on_sess (on_player (setAccountLatestCharacterSelected c)) st)"

definition updateSingleWaveScore :: "u32 \<Rightarrow> u32 \<Rightarrow> sess_state \<Rightarrow> sess_state" where
  "updateSingleWaveScore score stage st =
     (let a = account_of st;
          better_score = ai_highestSingleWaveScore a < score;
          better_stage = ucast (ai_highestSinglewaveStage a) < stage;
          a' = (if better_score then a\<lparr>ai_highestSingleWaveScore := score\<rparr> else a);
          a' = (if better_stage then a'\<lparr>ai_highestSinglewaveStage := ucast stage\<rparr> else a')
      in if better_score \<or> better_stage
         then (case on_sess (on_player (setAccountInfo a')) st of
                 (s, log) \<Rightarrow> (s, log @ [Sched_updatePlayerStats (ai_accountID a) a']))
         else st)"

definition completeTutorial :: "main_env \<Rightarrow> sess_state \<Rightarrow> sess_state" where
  "completeTutorial e st =
     (if ai_isTutorialDone (account_of st) \<noteq> 0 then st
      else let st = on_sess (on_player (on_account (\<lambda>a. a\<lparr>ai_isTutorialDone := 1\<rparr>))) st;
               st = schedule (\<lambda>a. Sched_updatePlayerStats a (account_of st)) st;
               st = snd (session_setAccountMicroPoints (mp_of st + 3000) st)
           in snd (spawnItemCommand e 4500000 (ascii ''Item was automatically spawned after completing the tutorial'') (sendCurrency e st)))"

section \<open>Trading\<close>

definition send_all :: "main_env \<Rightarrow> packet list \<Rightarrow> sess_state \<Rightarrow> sess_state" where
  "send_all e ps = on_sess (\<lambda>s. fold (send (me_crypt e)) ps s)"

definition seal_packet :: "ItemSerialInfo \<Rightarrow> packet" where
  "seal_packet si =
     setData (serial_bytes si @ replicate 8 0 @ serial_bytes si) (packet_setExtra 1 (packet_setOrder 200 (setTcpHeader 0 0 packet_new)))"

definition temporarilySealAllItems :: "main_env \<Rightarrow> sess_state \<Rightarrow> sess_state" where
  "temporarilySealAllItems e st =
     send_all e (map (\<lambda>(k, i). seal_packet (it_serialInfo i))
       (filter (\<lambda>(k, i). tradeable_id (env_items e) (iid_itemId (it_itemId i)) (it_expirationDate i))
         (p_itemsByItemNumber (player_of st)))) st"

definition unsealAllItems :: "main_env \<Rightarrow> sess_state \<Rightarrow> sess_state" where
  "unsealAllItems e st =
     send_all e (map (\<lambda>(k, i). setData (serial_bytes (it_serialInfo i))
         (packet_setExtra 1 (packet_setOrder 201 (setTcpHeader 0 0 packet_new))))
       (p_itemsByItemNumber (player_of st))) st"

definition session_resetTradeInfo :: "main_env \<Rightarrow> sess_state \<Rightarrow> sess_state" where
  "session_resetTradeInfo e st = on_sess (on_player resetTradeInfo) (unsealAllItems e st)"

text \<open>The item gets a number of its own, whatever number the caller has chosen.\<close>

definition spawnItem :: "main_env \<Rightarrow> u32 \<Rightarrow> ItemSerialInfo \<Rightarrow> bytes \<Rightarrow> sess_state \<Rightarrow> bool \<times> sess_state" where
  "spawnItem e itemId si action st =
     (let sp = (SpawnedItem_new e itemId)\<lparr>sp_expirationDate := 0, sp_serialInfo := si\<lparr>si_itemNumber := number_after_latest st\<rparr>\<rparr>;
          response = setData (spawned_bytes sp) (setCommand 66 0 51 2 (setTcpHeader 0 0 packet_new));
          st = on_sess (send (me_crypt e) response) st
      in case session_addItem e (Item_of_SpawnedItem e sp) False st of
           (True, st) \<Rightarrow> (True, logItemInfo (serial_no si) itemId 0 action st)
         | (False, st) \<Rightarrow> (False, tell e ''[Session::spawnItem] error while spawning item - please report this issue'' st))"

definition spawnItems :: "main_env \<Rightarrow> TradeBasicItem list \<Rightarrow> bytes \<Rightarrow> sess_state \<Rightarrow> sess_state" where
  "spawnItems e ts action st =
     fold (\<lambda>t st. snd (spawnItem e (ucast (iid_itemId (tbi_itemId t))) (tbi_itemSerialInfo t) action st)) ts st"

text \<open>The first item that cannot be deleted ends the loop. The function has no result after the loop.\<close>

fun deleteItems :: "main_env \<Rightarrow> TradeBasicItem list \<Rightarrow> bytes \<Rightarrow> sess_state \<Rightarrow> sess_state" where
  "deleteItems e [] action st = st"
| "deleteItems e (t # ts) action st =
     (case session_deleteItem e (tbi_itemSerialInfo t) action st of
        (True, st) \<Rightarrow> deleteItems e ts action st
      | (False, st) \<Rightarrow> st)"

definition session_addItemFromTrade :: "main_env \<Rightarrow> TradeBasicItem \<Rightarrow> sess_state \<Rightarrow> sess_state" where
  "session_addItemFromTrade e t st =
     (case run_player (addItemFromTrade (env_items e) t) st of (item, st) \<Rightarrow> schedule (\<lambda>a. Sched_addPlayerItem a item) st)"

section \<open>What the operations do to the player\<close>

text \<open>
  Replies and scheduler calls leave the player alone, so that the effect of an operation on the
  player is a function of the player.
\<close>

lemma player_on_sess [simp]: "getPlayer (fst (on_sess f st)) = getPlayer (f (fst st))"
  by (simp add: on_sess_def split: prod.split)

lemma schedule_simps [simp]:
  "fst (schedule call st) = fst st" "snd (schedule call st) = snd st @ [call (ai_accountID (account_of st))]"
  by (simp_all add: schedule_def split: prod.split)

lemma tell_simps [simp]: "player_of (tell e msg st) = player_of st" "account_of (tell e msg st) = account_of st"
  by (simp_all add: tell_def on_sess_def split: prod.split)

lemma write_own_simps [simp]:
  "player_of (write_own e f st) = player_of st" "snd (write_own e f st) = snd st"
  by (simp_all add: write_own_def on_sess_def split: prod.split)

lemma run_player_simps [simp]:
  "fst (run_player f st) = fst (f (player_of st))" "player_of (snd (run_player f st)) = snd (f (player_of st))"
  by (simp_all add: run_player_def split: prod.split)

lemma logItemInfo_simps [simp]: "player_of (logItemInfo n i x a st) = player_of st"
  by (simp add: logItemInfo_def)

lemma delete_reply_simps [simp]: "player_of (delete_reply e b si st) = player_of st"
  by (simp add: delete_reply_def)

lemma spawn_reply_simps [simp]: "player_of (spawn_reply e opt sp st) = player_of st"
  by (simp add: spawn_reply_def)

lemma sendCurrency_simps [simp]: "player_of (sendCurrency e st) = player_of st"
  by (simp add: sendCurrency_def)

lemma account_player: "getAccountInfo s = p_accountInfo (getPlayer s)"
  by (simp add: getAccountInfo_def)

lemma send_all_simps [simp]: "player_of (send_all e ps st) = player_of st"
proof -
  have "getPlayer (fold (send c) ps s) = getPlayer s" for c s by (induction ps arbitrary: s) simp_all
  then show ?thesis by (simp add: send_all_def)
qed

lemma mp_player [simp]:
  "getPlayer (fst (snd (session_setAccountMicroPoints mp st))) = snd (setAccountMicroPoints mp (player_of st))"
  "fst (session_setAccountMicroPoints mp st) = fst (setAccountMicroPoints mp (player_of st))"
  by (simp_all add: session_setAccountMicroPoints_def run_player_def split_beta split: bool.splits)

lemma deleteItem_player [simp]:
  "fst (session_deleteItem e si a st) = fst (deleteItemBasic si (player_of st))"
  "player_of (snd (session_deleteItem e si a st)) = snd (deleteItemBasic si (player_of st))"
  by (simp_all add: session_deleteItem_def session_deleteItemBasic_def Let_def split_beta split: bool.splits option.splits)

lemma addItem_player [simp]:
  "fst (session_addItem e i b st) = (b \<or> hasEnoughInventorySpace 1 (player_of st))"
  "player_of (snd (session_addItem e i b st)) =
     (if b \<or> hasEnoughInventorySpace 1 (player_of st) then addItem i (player_of st) else player_of st)"
  by (auto simp: session_addItem_def)

lemma resetTradeInfo_player [simp]: "player_of (session_resetTradeInfo e st) = resetTradeInfo (player_of st)"
  by (simp add: session_resetTradeInfo_def unsealAllItems_def)

lemma seal_player [simp]: "player_of (temporarilySealAllItems e st) = player_of st"
  by (simp add: temporarilySealAllItems_def)

text \<open>Deleting and spawning, on the player.\<close>

fun drop_items :: "TradeBasicItem list \<Rightarrow> player \<Rightarrow> player" where
  "drop_items [] p = p"
| "drop_items (t # ts) p =
     (case deleteItemBasic (tbi_itemSerialInfo t) p of (True, p) \<Rightarrow> drop_items ts p | (False, p) \<Rightarrow> p)"

definition received_item :: "main_env \<Rightarrow> TradeBasicItem \<Rightarrow> player \<Rightarrow> Item" where
  "received_item e t p = Item_of_SpawnedItem e
     ((SpawnedItem_new e (ucast (iid_itemId (tbi_itemId t))))\<lparr>sp_expirationDate := 0,
        sp_serialInfo := (tbi_itemSerialInfo t)\<lparr>si_itemNumber := ucast (getLatestItemNumber p + 1)\<rparr>\<rparr>)"

definition receive_item :: "main_env \<Rightarrow> TradeBasicItem \<Rightarrow> player \<Rightarrow> player" where
  "receive_item e t p = (if hasEnoughInventorySpace 1 p then addItem (received_item e t p) p else p)"

lemma deleteItems_player [simp]: "player_of (deleteItems e ts a st) = drop_items ts (player_of st)"
proof (induction ts arbitrary: st)
  case (Cons t ts)
  obtain b st' where d: "session_deleteItem e (tbi_itemSerialInfo t) a st = (b, st')" by (metis surj_pair)
  then have "deleteItemBasic (tbi_itemSerialInfo t) (player_of st) = (b, player_of st')"
    using deleteItem_player [of e "tbi_itemSerialInfo t" a st] by (simp only: d prod_eq_iff fst_conv snd_conv)
  then show ?case by (simp add: d Cons.IH split: bool.split)
qed simp

lemma spawnItem_player:
  "player_of (snd (spawnItem e (ucast (iid_itemId (tbi_itemId t))) (tbi_itemSerialInfo t) a st)) = receive_item e t (player_of st)"
proof -
  let ?sp = "(SpawnedItem_new e (ucast (iid_itemId (tbi_itemId t))))\<lparr>sp_expirationDate := 0,
      sp_serialInfo := (tbi_itemSerialInfo t)\<lparr>si_itemNumber := number_after_latest st\<rparr>\<rparr>"
  let ?st = "on_sess (send (me_crypt e) (setData (spawned_bytes ?sp) (setCommand 66 0 51 2 (setTcpHeader 0 0 packet_new)))) st"
  have i: "Item_of_SpawnedItem e ?sp = received_item e t (player_of st)"
    by (simp only: received_item_def number_after_latest_def)
  obtain b st' where a: "session_addItem e (Item_of_SpawnedItem e ?sp) False ?st = (b, st')" by (metis surj_pair)
  then have "b = hasEnoughInventorySpace 1 (player_of st)"
    "player_of st' = (if b then addItem (received_item e t (player_of st)) (player_of st) else player_of st)"
    using addItem_player [of e "Item_of_SpawnedItem e ?sp" False ?st] unfolding i by simp_all
  then show ?thesis by (simp add: spawnItem_def Let_def a receive_item_def split: bool.split)
qed

lemma spawnItems_player [simp]: "player_of (spawnItems e ts a st) = fold (receive_item e) ts (player_of st)"
  unfolding spawnItems_def by (induction ts arbitrary: st) (simp_all add: spawnItem_player)

end
