(* ===== verification/Requests.thy ===== *)
theory Requests
  imports ItemSession
begin

text \<open>
  Reading the payload of a request, \<open>MainServer/include/Detail/Utilities.h\<close>.
\<close>

text \<open>
  \<open>parseData\<close>: bytes the request does not have keep the initial value; \<open>initial\<close> are its bytes.
\<close>

definition main_parseData :: "bytes \<Rightarrow> nat \<Rightarrow> packet \<Rightarrow> bytes" where
  "main_parseData initial offset request =
     (let available = take (length initial) (drop offset (m_data request))
      in available @ drop (length available) initial)"

definition parse_serial :: "main_env \<Rightarrow> nat \<Rightarrow> packet \<Rightarrow> ItemSerialInfo" where
  "parse_serial e offset request =
     serial_of_bytes (main_parseData (serial_bytes (ItemSerialInfo_default (me_now e))) offset request)"

definition parse_u32 :: "nat \<Rightarrow> packet \<Rightarrow> u32" where
  "parse_u32 offset request = le_load (main_parseData (replicate 4 0) offset request)"

end
