(* ===== verification/Trade.thy ===== *)
theory Trade
  imports Requests
begin

text \<open>
  Trades between two players, \<open>MainServer/include/Handlers/Trade\<close>: the offer, the items put into
  it and taken out, the confirmations, and the exchange. A handler works on the heap of the
  sessions and on the calls to the scheduler; \<open>getSessionByAccountId\<close> searches the sessions of the
  sessions manager in order.
\<close>

section \<open>The sessions\<close>

type_synonym world = "mheap \<times> sched_call list"

definition at_session :: "mref \<Rightarrow> (sess_state \<Rightarrow> sess_state) \<Rightarrow> world \<Rightarrow> world" where
  "at_session r f = (\<lambda>(h, log).
     case h r of None \<Rightarrow> (h, log) | Some s \<Rightarrow> (case f (s, log) of (s', log') \<Rightarrow> (h(r \<mapsto> s'), log')))"

definition getSessionByAccountId :: "mref list \<Rightarrow> u32 \<Rightarrow> mheap \<Rightarrow> mref option" where
  "getSessionByAccountId sessions aid h =
     find (\<lambda>r. case h r of None \<Rightarrow> False | Some s \<Rightarrow> ai_accountID (getAccountInfo s) = aid) sessions"

definition write_to :: "main_env \<Rightarrow> packet \<Rightarrow> mref \<Rightarrow> world \<Rightarrow> world" where
  "write_to e p r = at_session r (on_sess (send (me_crypt e) p))"

definition tell_to :: "main_env \<Rightarrow> string \<Rightarrow> mref \<Rightarrow> world \<Rightarrow> world" where
  "tell_to e msg r = at_session r (tell e msg)"

definition set_state_of :: "u32 \<Rightarrow> mref \<Rightarrow> world \<Rightarrow> world" where
  "set_state_of st r = at_session r (on_sess (session_setPlayerState st))"

definition reset_trade_of :: "main_env \<Rightarrow> mref \<Rightarrow> world \<Rightarrow> world" where
  "reset_trade_of e r = at_session r (session_resetTradeInfo e)"

section \<open>Requests and replies\<close>

definition trade_response :: "packet \<Rightarrow> packet" where
  "trade_response request =
     packet_setOrder (packet_getOrder request) (setTcpHeader (tcp_getSessionId (m_header request)) 4 packet_new)"

definition TradeAck_bytes :: "UniqueId \<Rightarrow> u32 \<Rightarrow> bytes" where
  "TradeAck_bytes uid aid = uid_bytes uid @ le_store 4 aid"

definition TradeAddedItemDetailed_bytes :: "u32 \<Rightarrow> ItemSerialInfo \<Rightarrow> u32 \<Rightarrow> bytes" where
  "TradeAddedItemDetailed_bytes aid si itemId =
     le_store 4 (0 :: u32) @ le_store 4 aid @ serial_bytes si @ le_store 4 itemId @ replicate 12 0"

definition TradePlayerInfo_bytes :: "u32 \<Rightarrow> u32 \<Rightarrow> u32 \<Rightarrow> u32 \<Rightarrow> bytes" where
  "TradePlayerInfo_bytes aid character hair eyes =
     le_store 4 (0 :: u32) @ le_store 4 aid @ le_store 4 character @ le_store 4 hair @ le_store 4 eyes"

definition TradeUnusedFinalItem_bytes :: "main_env \<Rightarrow> u32 \<Rightarrow> bytes" where
  "TradeUnusedFinalItem_bytes e totalNewMp =
     replicate 8 0 @ le_store 4 totalNewMp @ replicate 4 0 @
     concat (replicate 10 (serial_bytes (ItemSerialInfo_default (me_now e)))) @ replicate 4 0 @ replicate 40 0"

abbreviation aid_of :: "main_session \<Rightarrow> u32" where
  "aid_of s \<equiv> ai_accountID (getAccountInfo s)"

abbreviation banned :: "main_session \<Rightarrow> bool" where
  "banned s \<equiv> mf_hasBeenMatchBanned (sess_app s)"

abbreviation traded_items :: "main_session \<Rightarrow> TradeBasicItem list" where
  "traded_items s \<equiv> p_tradedItems (getPlayer s)"

abbreviation partner_of :: "mref list \<Rightarrow> main_session \<Rightarrow> mheap \<Rightarrow> mref option" where
  "partner_of sessions s h \<equiv> getSessionByAccountId sessions (p_currentlyTradingWithAccountId (getPlayer s)) h"

text \<open>What every handler does when the partner has gone.\<close>

definition partner_gone :: "main_env \<Rightarrow> packet \<Rightarrow> mref \<Rightarrow> world \<Rightarrow> world" where
  "partner_gone e response r w =
     set_state_of STATE_INVENTORY r (reset_trade_of e r (write_to e (packet_setExtra 47 response) r w))"

section \<open>The handlers\<close>

definition handleTradeAck :: "main_env \<Rightarrow> mref list \<Rightarrow> u32 \<Rightarrow> u32 \<Rightarrow> packet \<Rightarrow> mref \<Rightarrow> world \<Rightarrow> world" where
  "handleTradeAck e sessions startDate endDate request r = (\<lambda>(h, log).
     case h r of None \<Rightarrow> (h, log) | Some s \<Rightarrow>
       if banned s then (h, log)
       else let response = trade_response request;
                refuse = (\<lambda>extra p. packet_setExtra extra (packet_setOrder 192 p))
            in if startDate \<le> me_now e \<and> me_now e \<le> endDate
               then let target = parse_u32 4 request
                    in if target = aid_of s then tell_to e ''You cannot trade with yourself!'' r (h, log)
                       else if state_of s \<noteq> STATE_LOBBY \<and> \<not> isInLobby (getPlayer s)
                       then at_session r (on_sess (sendMessage (me_crypt e) (ascii ''You must be inside the lobby to trade!'') 12)) (h, log)
                       else let response = setData (TradeAck_bytes (uid_of s) (aid_of s)) response
                            in (case getSessionByAccountId sessions target h of
                                  None \<Rightarrow> (h, log)
                                | Some t \<Rightarrow> (case h t of None \<Rightarrow> (h, log) | Some s' \<Rightarrow>
                                    if banned s' then write_to e (refuse 47 response) r (h, log)
                                    else if ai_playerLevel (getAccountInfo s') < 16 \<or> ai_playerLevel (getAccountInfo s) < 16
                                    then write_to e (refuse 74 response) r (h, log)
                                    else if state_of s' = STATE_LOBBY \<and> isInLobby (getPlayer s')
                                    then write_to e response t (h, log)
                                    else write_to e (refuse 47 response) r (h, log)))
               else write_to e (refuse 15 response) r (h, log))"

definition equipped_id :: "EquippedItem list \<Rightarrow> u32 \<Rightarrow> u32" where
  "equipped_id es itemType =
     (case find (\<lambda>q. ucast (eq_type q) = itemType) es of
        None \<Rightarrow> 0
      | Some q \<Rightarrow> if si_itemNumber (eq_serialInfo q) = 0 then 0 else ucast (eq_id q))"

definition initial_trade_data :: "main_session \<Rightarrow> bytes" where
  "initial_trade_data s =
     (let a = getAccountInfo s;
          es = getEquippedItemsFor (ucast (ai_latestSelectedCharacter a)) (getPlayer s);
          hair = equipped_id es 0;
          hair = (if hair = 0 then equipped_id es 25 else hair)
      in TradePlayerInfo_bytes (ai_accountID a) (ucast (ai_latestSelectedCharacter a)) hair (equipped_id es 1))"

definition sendInitialTradeInfo :: "main_env \<Rightarrow> mref \<Rightarrow> mref \<Rightarrow> packet \<Rightarrow> world \<Rightarrow> world" where
  "sendInitialTradeInfo e r t response w =
     (case fst w r of None \<Rightarrow> w | Some s \<Rightarrow>
        at_session t (on_sess (on_player (setCurrentlyTradingWithAccountId (aid_of s))))
          (write_to e (setData (initial_trade_data s) response) t w))"

definition handleTradeInitialization :: "main_env \<Rightarrow> mref list \<Rightarrow> packet \<Rightarrow> mref \<Rightarrow> world \<Rightarrow> world" where
  "handleTradeInitialization e sessions request r = (\<lambda>(h, log).
     case h r of None \<Rightarrow> (h, log) | Some s \<Rightarrow>
       if banned s then (h, log)
       else let extra = cmd_getExtra (m_command request);
                response = packet_setExtra (ucast extra) (trade_response request);
                target = parse_u32 4 request
            in (case getSessionByAccountId sessions target h of
                  None \<Rightarrow> (h, log)
                | Some t \<Rightarrow> (case h t of None \<Rightarrow> (h, log) | Some s' \<Rightarrow>
                    if \<not> isFriend target (getPlayer s) then write_to e (packet_setExtra 73 response) r (h, log)
                    else if extra = 31 then sendInitialTradeInfo e r t (packet_setExtra 31 response) (h, log)
                    else if state_of s' = STATE_LOBBY \<and> isInLobby (getPlayer s')
                    then let response = packet_setExtra 1 response
                         in sendInitialTradeInfo e r t response (sendInitialTradeInfo e t r response
                              (at_session t (temporarilySealAllItems e) (at_session r (temporarilySealAllItems e)
                                (set_state_of STATE_TRADE t (set_state_of STATE_TRADE r (h, log))))))
                    else write_to e (packet_setExtra 47 response) r (h, log))))"

text \<open>The reply about a changed offer goes to both.\<close>

definition reply_both :: "main_env \<Rightarrow> packet \<Rightarrow> mref \<Rightarrow> mref \<Rightarrow> world \<Rightarrow> world" where
  "reply_both e p r t w = write_to e p t (write_to e p r w)"

definition handleAddTradeItem ::
  "main_env \<Rightarrow> main_fields on_close \<Rightarrow> mref list \<Rightarrow> packet \<Rightarrow> mref \<Rightarrow> world \<Rightarrow> world" where
  "handleAddTradeItem e cb sessions request r = (\<lambda>(h, log).
     case h r of None \<Rightarrow> (h, log) | Some s \<Rightarrow>
       let si = parse_serial e 8 request;
           response = trade_response request;
           n = length (traded_items s)
       in (case findItemIdBySerialInfo si (getPlayer s) of None \<Rightarrow> (h, log) | Some itemId \<Rightarrow>
            (case partner_of sessions s h of
               None \<Rightarrow> partner_gone e response r (h, log)
             | Some t \<Rightarrow> (case h t of None \<Rightarrow> (h, log) | Some s' \<Rightarrow>
                 let item = (\<lambda>aid. TradeAddedItemDetailed_bytes aid si itemId)
                 in if \<not> hasEnoughInventorySpace (of_nat (n + 1)) (getPlayer s')
                    then reply_both e (setData (item (aid_of s')) (packet_setExtra 7 response)) r t (h, log)
                    else if n > 10
                    then reply_both e (setData (item (aid_of s)) (packet_setExtra 75 response)) r t (h, log)
                    else if unat (ai_microPoints (getAccountInfo s)) < 5000 * (n + 1)
                    then write_to e (setData (replicate 4 0 @ le_store 4 (aid_of s))
                           (packet_setOption 0 (packet_setMission 0 (packet_setExtra 14 (packet_setOrder 193 response))))) r (h, log)
                    else if \<not> isItemTradeable (env_items e) si (getPlayer s)
                    then at_session r (on_sess (closeSocket cb)) (h, log)
                    else case addTradedItem (getItemStocks (me_game e)) itemId si (getPlayer s) of
                           (True, p) \<Rightarrow>
                             reply_both e (setData (item (aid_of s)) (packet_setExtra 1 response)) r t
                               (at_session r (on_sess (on_player (\<lambda>_. p))) (h, log))
                         | (False, _) \<Rightarrow> tell_to e ''Error: This item has already been added to the trade!'' r (h, log)))))"

definition handleTradeItemRemoval :: "main_env \<Rightarrow> mref list \<Rightarrow> packet \<Rightarrow> mref \<Rightarrow> world \<Rightarrow> world" where
  "handleTradeItemRemoval e sessions request r = (\<lambda>(h, log).
     case h r of None \<Rightarrow> (h, log) | Some s \<Rightarrow>
       if banned s then (h, log)
       else let si = parse_serial e 8 request;
                response = trade_response request
            in (case findItemIdBySerialInfo si (getPlayer s) of None \<Rightarrow> (h, log) | Some itemId \<Rightarrow>
                 (case partner_of sessions s h of
                    None \<Rightarrow> partner_gone e response r (h, log)
                  | Some t \<Rightarrow>
                      reply_both e (setData (TradeAddedItemDetailed_bytes (aid_of s) si itemId) (packet_setExtra 1 response)) r t
                        (at_session r (on_sess (on_player (removeTradedItem si))) (h, log)))))"

definition handleTradeLock :: "main_env \<Rightarrow> mref list \<Rightarrow> packet \<Rightarrow> mref \<Rightarrow> world \<Rightarrow> world" where
  "handleTradeLock e sessions request r = (\<lambda>(h, log).
     case h r of None \<Rightarrow> (h, log) | Some s \<Rightarrow>
       if banned s then (h, log)
       else let response = packet_setExtra 1 (trade_response request)
            in (case partner_of sessions s h of
                  Some t \<Rightarrow> write_to e response t (h, log)
                | None \<Rightarrow> reset_trade_of e r (write_to e (packet_setExtra 47 response) r (h, log))))"

definition handleTradeCancellation :: "main_env \<Rightarrow> mref list \<Rightarrow> packet \<Rightarrow> mref \<Rightarrow> world \<Rightarrow> world" where
  "handleTradeCancellation e sessions request r = (\<lambda>(h, log).
     case h r of None \<Rightarrow> (h, log) | Some s \<Rightarrow>
       let response = trade_response request
       in (case partner_of sessions s h of
             None \<Rightarrow> partner_gone e response r (h, log)
           | Some t \<Rightarrow>
               reset_trade_of e t (reset_trade_of e r (set_state_of STATE_INVENTORY t (set_state_of STATE_INVENTORY r
                 (write_to e (packet_setExtra 1 response) t (h, log)))))))"

section \<open>The exchange\<close>

text \<open>The numbers the copies of the items get; the spawning of an item replaces them.\<close>

definition renumber :: "u64 \<Rightarrow> TradeBasicItem list \<Rightarrow> TradeBasicItem list" where
  "renumber latest ts =
     map (\<lambda>(i, t). t\<lparr>tbi_itemSerialInfo := (tbi_itemSerialInfo t)\<lparr>si_itemNumber := ucast (latest + of_nat (i + 1))\<rparr>\<rparr>) (enumerate 0 ts)"

definition charge :: "main_env \<Rightarrow> packet \<Rightarrow> mref \<Rightarrow> world \<Rightarrow> world" where
  "charge e response r =
     at_session r (\<lambda>st.
       let st = sendCurrency e (snd (session_setAccountMicroPoints (mp_of st - 5000 * of_nat (length (p_tradedItems (player_of st)))) st))
       in on_sess (send (me_crypt e) (setData (TradeUnusedFinalItem_bytes e (mp_of st)) response)) st)"

definition gone_action :: "main_session \<Rightarrow> bytes" where
  "gone_action other = ascii ''Item deleted after it was traded to '' @ name_of other @ ascii '' (target AID: '' @ digits (unat (aid_of other)) @ ascii '')''"

definition come_action :: "main_session \<Rightarrow> bytes" where
  "come_action other = ascii ''Item received from trade, from user '' @ name_of other @ ascii '' (AID: '' @ digits (unat (aid_of other)) @ ascii '')''"

definition exchange :: "main_env \<Rightarrow> packet \<Rightarrow> main_session \<Rightarrow> mref \<Rightarrow> main_session \<Rightarrow> mref \<Rightarrow> world \<Rightarrow> world" where
  "exchange e response s r s' t w =
     (let mine = renumber (getLatestItemNumber (getPlayer s')) (traded_items s);
          theirs = renumber (getLatestItemNumber (getPlayer s)) (traded_items s');
          w = charge e response r w;
          w = charge e response t w;
          w = reset_trade_of e r (at_session r (deleteItems e (traded_items s) (gone_action s')) w);
          w = at_session t (deleteItems e (traded_items s') (gone_action s)) w;
          w = at_session t (spawnItems e mine (come_action s)) w;
          w = at_session r (spawnItems e theirs (come_action s')) w
      in reset_trade_of e t w)"

definition handleTradeFinalization :: "main_env \<Rightarrow> mref list \<Rightarrow> packet \<Rightarrow> mref \<Rightarrow> world \<Rightarrow> world" where
  "handleTradeFinalization e sessions request r = (\<lambda>(h, log).
     case h r of None \<Rightarrow> (h, log) | Some s \<Rightarrow>
       if banned s then (h, log)
       else let response = trade_response request
            in (case partner_of sessions s h of
                  None \<Rightarrow> partner_gone e (packet_setOrder 198 response) r (h, log)
                | Some t \<Rightarrow> (case h t of None \<Rightarrow> (h, log) | Some s' \<Rightarrow>
                    if p_hasPlayerLocked (getPlayer s')
                    then let w = set_state_of STATE_INVENTORY t (set_state_of STATE_INVENTORY r (h, log));
                             theirs_full = ''Error: the other player does not have enough inventory space. Cannot proceed!'';
                             yours_full = ''Error: you do not have enough inventory space. Cannot proceed!''
                         in if \<not> hasEnoughInventorySpace (of_nat (length (traded_items s))) (getPlayer s')
                            then tell_to e yours_full t (tell_to e theirs_full r w)
                            else if \<not> hasEnoughInventorySpace (of_nat (length (traded_items s'))) (getPlayer s)
                            then tell_to e yours_full r (tell_to e theirs_full t w)
                            else exchange e (packet_setOrder 199 response) s r s' t w
                    else if p_hasPlayerLocked (getPlayer s)
                    then write_to e (setData (TradeAck_bytes UniqueId_default (aid_of s)) (packet_setExtra 45 response)) r (h, log)
                    else write_to e (packet_setExtra 1 (packet_setOrder 197 response)) t
                           (at_session r (on_sess (on_player lockTrade)) (h, log)))))"

end
