(* ===== verification/Stock.thy ===== *)
theory Stock
  imports ItemSession
begin

text \<open>
  The stock of a player as a multiset of item identifiers, and what deleting and receiving items
  make of it; shared by the trades and the shop.
\<close>

section \<open>The stock as a multiset\<close>

definition stock_ids :: "player \<Rightarrow> 23 word multiset" where
  "stock_ids p = image_mset (\<lambda>(k, i). iid_itemId (it_itemId i)) (mset (p_itemsByItemNumber p))"

definition ids_of :: "TradeBasicItem list \<Rightarrow> 23 word multiset" where
  "ids_of ts = image_mset (\<lambda>t. iid_itemId (tbi_itemId t)) (mset ts)"

lemma ids_of_simps [simp]: "ids_of [] = {#}" "ids_of (t # ts) = add_mset (iid_itemId (tbi_itemId t)) (ids_of ts)"
  by (simp_all add: ids_of_def)

text \<open>The items of an offer are different items of the stock.\<close>

definition in_stock :: "TradeBasicItem list \<Rightarrow> player \<Rightarrow> bool" where
  "in_stock ts p \<longleftrightarrow> distinct (map (\<lambda>t. si_itemNumber (tbi_itemSerialInfo t)) ts) \<and>
     (\<forall>t \<in> set ts. \<exists>i. stored (tbi_itemSerialInfo t) p = Some i \<and> iid_itemId (it_itemId i) = iid_itemId (tbi_itemId t))"

text \<open>The space, without the wrap-around of the unsigned difference.\<close>

definition has_room :: "nat \<Rightarrow> player \<Rightarrow> bool" where
  "has_room n p \<longleftrightarrow>
     unat (p_totalEquippedItems p) + length (p_itemsByItemNumber p) + n
       \<le> unat (ai_inventorySpace (p_accountInfo p)) + length (p_couponItems p) \<and>
     unat (ai_inventorySpace (p_accountInfo p)) + length (p_couponItems p) < 2 ^ 32"

lemma room_enough: "has_room m p \<Longrightarrow> unat n \<le> m \<Longrightarrow> hasEnoughInventorySpace n p"
  using overfull_inventory_accepted [of p n] by (simp add: has_room_def)

definition only_stock :: "player \<Rightarrow> player \<Rightarrow> bool" where
  "only_stock p q \<longleftrightarrow> q = p\<lparr>p_itemsByItemNumber := p_itemsByItemNumber q\<rparr>"

lemma only_stock_refl [simp]: "only_stock p p"
  by (simp add: only_stock_def)

lemma only_stock_trans: "only_stock p q \<Longrightarrow> only_stock q r \<Longrightarrow> only_stock p r"
  by (cases p, cases q, cases r) (simp add: only_stock_def)

lemma only_stock_fields:
  "only_stock p q \<Longrightarrow> slots q = slots p \<and> p_accountInfo q = p_accountInfo p \<and> p_couponItems q = p_couponItems p \<and>
     p_totalEquippedItems q = p_totalEquippedItems p \<and> p_tradedItems q = p_tradedItems p \<and> worn_slots q = worn_slots p \<and>
     p_hasPlayerLocked q = p_hasPlayerLocked p \<and> p_currentlyTradingWithAccountId q = p_currentlyTradingWithAccountId p"
  by (cases p, cases q) (simp add: only_stock_def worn_slots_def)

section \<open>Deleting\<close>

lemma mset_delete:
  "distinct (map fst al) \<Longrightarrow> map_of al k = Some v \<Longrightarrow> add_mset (k, v) (mset (AList.delete k al)) = mset al"
proof (induction al)
  case (Cons x al)
  obtain k' v' where x: "x = (k', v')" by fastforce
  show ?case
  proof (cases "k' = k")
    case True
    then have "AList.delete k al = al" using Cons.prems(1) by (intro delete_id) (auto simp: x)
    then show ?thesis using True Cons.prems(2) by (simp add: x)
  next
    case False
    then show ?thesis using Cons by (simp add: x)
  qed
qed simp

lemma delete_stored:
  assumes "inventory_ok p" "stored si p = Some i"
  shows "fst (deleteItemBasic si p)" "stock_ids p = add_mset (iid_itemId (it_itemId i)) (stock_ids (snd (deleteItemBasic si p)))"
    "only_stock p (snd (deleteItemBasic si p))" "inventory_ok (snd (deleteItemBasic si p))"
    "Suc (length (p_itemsByItemNumber (snd (deleteItemBasic si p)))) = length (p_itemsByItemNumber p)"
    "keys (snd (deleteItemBasic si p)) \<subseteq> keys p"
    "stored sj (snd (deleteItemBasic si p)) = (if si_itemNumber sj = si_itemNumber si then None else stored sj p)"
proof -
  let ?k = "ucast (si_itemNumber si) :: u64"
  have q: "deleteItemBasic si p = (True, p\<lparr>p_itemsByItemNumber := AList.delete ?k (p_itemsByItemNumber p)\<rparr>)"
    using assms(2) by (simp add: deleteItemBasic_def)
  have m: "add_mset (?k, i) (mset (AList.delete ?k (p_itemsByItemNumber p))) = mset (p_itemsByItemNumber p)"
    using assms by (intro mset_delete) (simp_all add: inventory_ok_def stored_def)
  then have "image_mset (\<lambda>(k, i). iid_itemId (it_itemId i)) (add_mset (?k, i) (mset (AList.delete ?k (p_itemsByItemNumber p)))) = stock_ids p"
    by (simp only: stock_ids_def)
  then show "stock_ids p = add_mset (iid_itemId (it_itemId i)) (stock_ids (snd (deleteItemBasic si p)))"
    by (simp add: q stock_ids_def)
  have "size (add_mset (?k, i) (mset (AList.delete ?k (p_itemsByItemNumber p)))) = length (p_itemsByItemNumber p)"
    by (simp only: m size_mset)
  then show "Suc (length (p_itemsByItemNumber (snd (deleteItemBasic si p)))) = length (p_itemsByItemNumber p)" by (simp add: q)
  let ?worn = "(\<lambda>i. slot_no (slots p ! i)) ` worn_slots p"
  show k: "keys (snd (deleteItemBasic si p)) \<subseteq> keys p" by (auto simp: q keys_delete)
  have "keys p \<inter> ?worn = {}" using assms(1) unfolding inventory_ok_def by blast
  with k have "keys (snd (deleteItemBasic si p)) \<inter> ?worn = {}" by blast
  moreover have "\<forall>(k, i) \<in> set (AList.delete ?k (p_itemsByItemNumber p)). k = item_no i \<and> k \<noteq> 0"
    using assms(1) set_delete_subset [of ?k "p_itemsByItemNumber p"] unfolding inventory_ok_def by blast
  moreover have "worn_slots (snd (deleteItemBasic si p)) = worn_slots p" by (simp add: q worn_slots_def)
  ultimately show "inventory_ok (snd (deleteItemBasic si p))"
    using assms(1) by (simp add: inventory_ok_def q distinct_delete)
  show "fst (deleteItemBasic si p)" "only_stock p (snd (deleteItemBasic si p))" by (simp_all add: q only_stock_def)
  show "stored sj (snd (deleteItemBasic si p)) = (if si_itemNumber sj = si_itemNumber si then None else stored sj p)"
    by (simp add: q stored_def delete_conv')
qed

lemma drop_items_all:
  assumes "inventory_ok p" "in_stock ts p"
  shows "stock_ids p = stock_ids (drop_items ts p) + ids_of ts \<and> only_stock p (drop_items ts p) \<and> inventory_ok (drop_items ts p) \<and>
    length (p_itemsByItemNumber (drop_items ts p)) \<le> length (p_itemsByItemNumber p) \<and> keys (drop_items ts p) \<subseteq> keys p"
  using assms
proof (induction ts arbitrary: p)
  case (Cons t ts)
  obtain i where i: "stored (tbi_itemSerialInfo t) p = Some i" "iid_itemId (it_itemId i) = iid_itemId (tbi_itemId t)"
    using Cons.prems(2) by (auto simp: in_stock_def)
  let ?q = "snd (deleteItemBasic (tbi_itemSerialInfo t) p)"
  note d = delete_stored [OF Cons.prems(1) i(1)]
  have "in_stock ts ?q" using Cons.prems(2) by (auto simp: in_stock_def d(7) intro: rev_image_eqI)
  note IH = Cons.IH [OF d(4) this]
  have s: "drop_items (t # ts) p = drop_items ts ?q" using d(1) by (simp add: split_beta split: bool.split)
  have "only_stock p (drop_items ts ?q)" using d(3) IH only_stock_trans by blast
  moreover have "keys (drop_items ts ?q) \<subseteq> keys p" using IH d(6) by blast
  ultimately show ?case unfolding s using d(2,5) IH i(2) by (auto simp del: image_subset_iff)
qed simp

lemmas drop_items_stock = drop_items_all [THEN conjunct1] drop_items_all [THEN conjunct2, THEN conjunct1]
  drop_items_all [THEN conjunct2, THEN conjunct2, THEN conjunct1]
  drop_items_all [THEN conjunct2, THEN conjunct2, THEN conjunct2, THEN conjunct1]
  drop_items_all [THEN conjunct2, THEN conjunct2, THEN conjunct2, THEN conjunct2]

section \<open>Receiving\<close>

lemma update_new: "map_of al k = None \<Longrightarrow> AList.update k v al = al @ [(k, v)]"
  by (induction al) (auto split: if_splits)

lemma max_element_in: "max_element xs = Some m \<Longrightarrow> m \<in> set xs"
proof (cases xs)
  case (Cons k ks)
  assume "max_element xs = Some m"
  then have "m = Max (set xs)" using Cons Max.set_eq_fold [of k ks] by (simp add: max_element_def)
  moreover have "Max (set xs) \<in> set xs" using Cons by (intro Max_in) auto
  ultimately show ?thesis by simp
qed (simp add: max_element_def)

lemma latest_le:
  assumes "\<And>x. x \<in> keys p \<Longrightarrow> x \<le> m" "\<And>q. q \<in> set (slots p) \<Longrightarrow> slot_no q \<le> m"
  shows "getLatestItemNumber p \<le> m"
proof -
  have s: "max_element (map fst (p_itemsByItemNumber p)) = Some x \<Longrightarrow> x \<le> m" for x
    using max_element_in [of "map fst (p_itemsByItemNumber p)" x] assms(1) by simp
  have w: "max_element (map slot_no (slots p)) = Some x \<Longrightarrow> x \<le> m" for x
    using max_element_in [of "map slot_no (slots p)" x] assms(2) by auto
  show ?thesis
    using s w by (auto simp: getLatestItemNumber_def findMaxItemNumber_def Let_def split: option.split)
qed

lemma slot_le_latest: "q \<in> set (slots p) \<Longrightarrow> slot_no q \<le> getLatestItemNumber p"
proof (cases "worn q")
  case True
  assume "q \<in> set (slots p)"
  then have "slot_no q \<in> owned p" using True by (force simp: owned_def worn_slots_def in_set_conv_nth)
  then show ?thesis by (rule latest_is_max)
qed (metis slot_no_zero word_zero_le)

lemma received_id: "iid_itemId (it_itemId (received_item e t p)) = iid_itemId (tbi_itemId t)"
proof -
  have "ucast ((ucast (x :: 23 word) :: u32) AND 0x7FFFFF) = x" for x
  proof -
    have m: "(0x7FFFFF :: u32) = mask 23" by (simp add: mask_eq_exp_minus_1)
    show ?thesis unfolding m by (rule bit_word_eqI) (auto simp: bit_ucast_iff bit_and_iff bit_mask_iff)
  qed
  then show ?thesis by (simp add: received_item_def Item_of_SpawnedItem_def SpawnedItem_new_def ItemId_new_def Let_def)
qed

text \<open>An item with the number after the largest one is new.\<close>

lemma add_next:
  assumes "inventory_ok p" "item_no i = getLatestItemNumber p + 1" "unat (getLatestItemNumber p) + 1 < 2 ^ 20"
  shows "stock_ids (addItem i p) = add_mset (iid_itemId (it_itemId i)) (stock_ids p)"
    "only_stock p (addItem i p)" "inventory_ok (addItem i p)"
    "length (p_itemsByItemNumber (addItem i p)) = Suc (length (p_itemsByItemNumber p))"
    "getLatestItemNumber (addItem i p) = getLatestItemNumber p + 1"
proof -
  let ?n = "getLatestItemNumber p + 1"
  have un: "unat ?n = unat (getLatestItemNumber p) + 1" using assms(3) by (simp add: unat_word_ariths)
  then have gt: "getLatestItemNumber p < ?n" using assms(3) by (simp add: word_less_nat_alt)
  have fresh: "?n \<notin> owned p" using latest_is_max gt by fastforce
  have nz: "?n \<noteq> 0" using gt by (metis word_not_simps(1))
  have r: "addItem i p = put_item ?n i p" by (simp add: addItem_put assms(2))
  have "map_of (p_itemsByItemNumber p) ?n = None" using fresh by (auto simp: owned_def map_of_eq_None_iff)
  then have u: "AList.update ?n i (p_itemsByItemNumber p) = p_itemsByItemNumber p @ [(?n, i)]"
    by (rule update_new)
  show "stock_ids (addItem i p) = add_mset (iid_itemId (it_itemId i)) (stock_ids p)"
    by (simp add: r stock_ids_def put_item_def u)
  show "only_stock p (addItem i p)" by (simp add: r only_stock_def put_item_def)
  show "inventory_ok (addItem i p)" using put_item_ok(1) [OF assms(1), of i] fresh nz by (simp add: r assms(2))
  show "length (p_itemsByItemNumber (addItem i p)) = Suc (length (p_itemsByItemNumber p))" by (simp add: r put_item_def u)
  have "getLatestItemNumber (addItem i p) \<le> ?n"
  proof (rule latest_le)
    fix x assume "x \<in> keys (addItem i p)"
    then have "x = ?n \<or> x \<in> owned p" by (auto simp: r owned_def)
    then show "x \<le> ?n" using gt latest_is_max [of x p] by auto
  next
    fix q assume "q \<in> set (slots (addItem i p))"
    then show "slot_no q \<le> ?n" using gt slot_le_latest [of q p] by (simp add: r)
  qed
  moreover have "?n \<in> owned (addItem i p)" by (simp add: r owned_def put_item_def u)
  then have "?n \<le> getLatestItemNumber (addItem i p)" by (rule latest_is_max)
  ultimately show "getLatestItemNumber (addItem i p) = ?n" by simp
qed

lemma receive_item_stock:
  assumes "inventory_ok p" "has_room (Suc n) p" "unat (getLatestItemNumber p) + Suc n < 2 ^ 20"
  shows "stock_ids (receive_item e t p) = add_mset (iid_itemId (tbi_itemId t)) (stock_ids p)"
    "only_stock p (receive_item e t p)" "inventory_ok (receive_item e t p)" "has_room n (receive_item e t p)"
    "unat (getLatestItemNumber (receive_item e t p)) + n < 2 ^ 20"
proof -
  let ?n = "getLatestItemNumber p + 1" and ?i = "received_item e t p"
  have un: "unat ?n = unat (getLatestItemNumber p) + 1" using assms(3) by (simp add: unat_word_ariths)
  then have "unat ?n < 2 ^ 20" using assms(3) by simp
  then have k: "item_no ?i = ?n" by (simp add: received_item_def Item_of_SpawnedItem_def word_unat_eq_iff)
  have r: "receive_item e t p = addItem ?i p"
    using room_enough [OF assms(2), of 1] by (simp add: receive_item_def)
  have "unat (getLatestItemNumber p) + 1 < 2 ^ 20" using assms(3) by simp
  note a = add_next [OF assms(1) k this]
  show "stock_ids (receive_item e t p) = add_mset (iid_itemId (tbi_itemId t)) (stock_ids p)"
    "only_stock p (receive_item e t p)" "inventory_ok (receive_item e t p)"
    using a by (simp_all add: r received_id)
  show "has_room n (receive_item e t p)"
    using assms(2) a(4) only_stock_fields [OF a(2)] by (simp add: r has_room_def)
  show "unat (getLatestItemNumber (receive_item e t p)) + n < 2 ^ 20"
    using un assms(3) a(5) by (simp add: r)
qed

lemma receive_items_all:
  assumes "inventory_ok p" "has_room (length ts) p" "unat (getLatestItemNumber p) + length ts < 2 ^ 20"
  shows "stock_ids (fold (receive_item e) ts p) = stock_ids p + ids_of ts \<and> only_stock p (fold (receive_item e) ts p) \<and>
    inventory_ok (fold (receive_item e) ts p)"
  using assms
proof (induction ts arbitrary: p)
  case (Cons t ts)
  from Cons.prems have r: "has_room (Suc (length ts)) p" "unat (getLatestItemNumber p) + Suc (length ts) < 2 ^ 20" by simp_all
  note s = receive_item_stock [OF Cons.prems(1) r, of e t]
  show ?case using Cons.IH [OF s(3-5)] s(1) only_stock_trans [OF s(2)] by simp
qed simp

section \<open>Players with the same items\<close>

text \<open>The money, the state and the trade fields do not matter to the stock.\<close>

definition same_items :: "player \<Rightarrow> player \<Rightarrow> bool" where
  "same_items p q \<longleftrightarrow> p_itemsByItemNumber q = p_itemsByItemNumber p \<and> slots q = slots p \<and>
     p_totalEquippedItems q = p_totalEquippedItems p \<and> p_couponItems q = p_couponItems p \<and>
     ai_inventorySpace (p_accountInfo q) = ai_inventorySpace (p_accountInfo p)"

lemma same_items_facts:
  assumes "same_items p q"
  shows "inventory_ok q = inventory_ok p" "stock_ids q = stock_ids p" "in_stock ts q = in_stock ts p"
    "has_room n q = has_room n p" "getLatestItemNumber q = getLatestItemNumber p" "slots q = slots p" "keys q = keys p"
  using assms
  by (simp_all add: same_items_def inventory_ok_def worn_slots_def stock_ids_def in_stock_def stored_def has_room_def
      getLatestItemNumber_def findMaxItemNumber_def)

lemma same_items_trans: "same_items p q \<Longrightarrow> same_items q r \<Longrightarrow> same_items p r"
  by (simp add: same_items_def)

text \<open>A session for the witnesses: a player with items, money and room.\<close>

definition trader :: "u32 \<Rightarrow> u32 \<Rightarrow> player \<Rightarrow> TradeBasicItem list \<Rightarrow> main_session" where
  "trader aid partner p offer =
     \<lparr>m_reader = [], m_crypt = Crypt_new [] [], m_id = unat aid, m_ip = [], m_isOpen = True, m_checkValidSession = False,
      m_isValidSession = True, m_isFirstRead = False, m_written = [],
      sess_app = \<lparr>mf_player = p\<lparr>p_accountInfo := AccountInfo_default\<lparr>ai_accountID := aid, ai_microPoints := 20000, ai_inventorySpace := 50\<rparr>,
           p_tradedItems := offer, p_hasPlayerLocked := True, p_currentlyTradingWithAccountId := partner\<rparr>,
         mf_packet = packet_new, mf_eventMissions = [], mf_hasBeenMatchBanned = False,
         mf_isInvisible = False, mf_totalBossBattleRespawnsLeft = 3, mf_matchStartTime = 0\<rparr>\<rparr>"

definition demo_env :: main_env where
  "demo_env = \<lparr>me_crypt = Crypt_new [] [], me_game = demo_game, me_now = 0\<rparr>"

lemma trader_inventory [simp]: "inventory_ok (getPlayer (trader a b p offer)) = inventory_ok p"
  "getLatestItemNumber (getPlayer (trader a b p offer)) = getLatestItemNumber p"
  by (simp_all add: trader_def getPlayer_def inventory_ok_def worn_slots_def getLatestItemNumber_def findMaxItemNumber_def)

lemma new_latest [simp]: "getLatestItemNumber (Player_new 0) = 0"
proof -
  have "getLatestItemNumber (Player_new 0) \<le> 0"
    by (rule latest_le) (auto simp: Player_new_def EquippedItem_default_def ItemSerialInfo_default_def)
  then show ?thesis by simp
qed

end
