(* ===== verification/TradeProps.thy ===== *)
theory TradeProps
  imports Trade Stock
begin

text \<open>
  What a trade does to the items of the two players: the effect of the operations of a trade on one
  player, and the effect of the handlers on both.
\<close>

lemma renumber_simps [simp]: "ids_of (renumber n ts) = ids_of ts" "length (renumber n ts) = length ts"
proof -
  have "map (\<lambda>t. iid_itemId (tbi_itemId t)) (renumber n ts) = map (\<lambda>t. iid_itemId (tbi_itemId t)) ts"
    by (rule nth_equalityI) (auto simp: renumber_def nth_enumerate_eq)
  then show "ids_of (renumber n ts) = ids_of ts" unfolding ids_of_def by (metis mset_map)
qed (simp add: renumber_def)

section \<open>One side of a trade\<close>

definition charged :: "player \<Rightarrow> player" where
  "charged p = snd (setAccountMicroPoints (ucast (ai_microPoints (p_accountInfo p)) - 5000 * of_nat (length (p_tradedItems p))) p)"

lemma same_items_steps:
  "same_items p (charged p)" "same_items p (player_setPlayerState st p)" "same_items p (resetTradeInfo p)"
  "p_tradedItems (charged p) = p_tradedItems p" "p_tradedItems (player_setPlayerState st p) = p_tradedItems p"
  by (simp_all add: same_items_def charged_def setAccountMicroPoints_def on_account_def player_setPlayerState_def resetTradeInfo_def)

lemma charged_mp:
  assumes "length (p_tradedItems p) \<le> 11"
  shows "unat (ai_microPoints (p_accountInfo (charged p))) =
    (let m = unat (ai_microPoints (p_accountInfo p)); n = 5000 * length (p_tradedItems p) in if n \<le> m then m - n else m)"
proof -
  let ?n = "5000 * length (p_tradedItems p)" and ?mp = "ai_microPoints (p_accountInfo p)"
  let ?left = "(ucast ?mp :: u32) - 5000 * of_nat (length (p_tradedItems p))"
  have m: "unat ?mp < 2 ^ 31" using unsigned_less [of ?mp, where ?'a = nat] by simp
  have "(5000 * of_nat (length (p_tradedItems p)) :: u32) = of_nat ?n" by simp
  moreover have "unat (of_nat ?n :: u32) = ?n"
    using assms by (simp only: unsigned_of_nat) (simp add: take_bit_nat_eq_self)
  ultimately have n: "unat (5000 * of_nat (length (p_tradedItems p)) :: u32) = ?n" by simp
  have um: "unat (ucast ?mp :: u32) = unat ?mp" using m by simp
  show ?thesis
  proof (cases "?n \<le> unat ?mp")
    case True
    then have "unat ?left = unat ?mp - ?n" using n um by (subst unat_sub) (simp_all add: word_le_nat_alt)
    moreover from this have "\<not> ?left > 0x7FFFFFFF" using m by (simp add: word_less_nat_alt)
    ultimately show ?thesis using True m by (simp add: charged_def setAccountMicroPoints_def)
  next
    case False
    then have "(ucast ?mp :: u32) < 5000 * of_nat (length (p_tradedItems p))" using n um by (simp add: word_less_nat_alt)
    then have "unat ?left = 2 ^ 32 + unat ?mp - ?n" using n um by (simp add: unat_sub_if' word_less_nat_alt word_le_nat_alt)
    then have "?left > 0x7FFFFFFF" using assms by (simp add: word_less_nat_alt)
    then show ?thesis using False by (simp add: charged_def setAccountMicroPoints_def Let_def)
  qed
qed

text \<open>A player who gives the items \<open>gone\<close> and gets the items \<open>come\<close>.\<close>

definition can_trade :: "TradeBasicItem list \<Rightarrow> nat \<Rightarrow> player \<Rightarrow> bool" where
  "can_trade gone n p \<longleftrightarrow> inventory_ok p \<and> in_stock gone p \<and> has_room n p \<and> unat (getLatestItemNumber p) + n < 2 ^ 20"

lemma trade_side:
  assumes "can_trade gone (length come) p" "same_items p p1" "same_items (drop_items gone p1) p2"
  shows "stock_ids (fold (receive_item e) come p2) + ids_of gone = stock_ids p + ids_of come"
    "only_stock p2 (fold (receive_item e) come p2)" "inventory_ok (fold (receive_item e) come p2)" "slots p2 = slots p"
proof -
  note f1 = same_items_facts [OF assms(2)] and f2 = same_items_facts [OF assms(3)]
  have c: "inventory_ok p1" "in_stock gone p1" using assms(1) by (simp_all add: can_trade_def f1)
  note d = drop_items_stock [OF c]
  note o = only_stock_fields [OF d(2)]
  have "has_room (length come) p1" using assms(1) by (simp add: can_trade_def f1)
  then have "has_room (length come) (drop_items gone p1)" using d(4) o by (simp add: has_room_def)
  moreover have "getLatestItemNumber (drop_items gone p1) \<le> getLatestItemNumber p1"
  proof (rule latest_le)
    fix x assume "x \<in> keys (drop_items gone p1)"
    then have "x \<in> owned p1" using d(5) by (auto simp: owned_def)
    then show "x \<le> getLatestItemNumber p1" by (rule latest_is_max)
  qed (use o slot_le_latest [of _ p1] in simp)
  then have "unat (getLatestItemNumber (drop_items gone p1)) + length come < 2 ^ 20"
    using assms(1) f1(5) by (simp add: can_trade_def word_le_nat_alt)
  ultimately have r: "inventory_ok p2" "has_room (length come) p2" "unat (getLatestItemNumber p2) + length come < 2 ^ 20"
    using d(3) by (simp_all add: f2)
  note a = receive_items_all [OF r, of e]
  show "stock_ids (fold (receive_item e) come p2) + ids_of gone = stock_ids p + ids_of come"
    using a d(1) f1(2) f2(2) by simp
  show "only_stock p2 (fold (receive_item e) come p2)" "inventory_ok (fold (receive_item e) come p2)" using a by simp_all
  show "slots p2 = slots p" using f1(6) f2(6) o by simp
qed

section \<open>Both sides\<close>

definition player_at :: "world \<Rightarrow> mref \<Rightarrow> player option" where
  "player_at w r = map_option getPlayer (fst w r)"

lemma at_player:
  assumes "\<And>st. player_of (f st) = g (player_of st)"
  shows "player_at (at_session r f w) q = (if q = r then map_option g (player_at w q) else player_at w q)"
proof -
  obtain h log where w: "w = (h, log)" by fastforce
  show ?thesis
  proof (cases "h r")
    case None
    then show ?thesis by (simp add: w player_at_def at_session_def)
  next
    case (Some s)
    obtain s' log' where "f (s, log) = (s', log')" by fastforce
    then show ?thesis using assms [of "(s, log)"] Some by (simp add: w player_at_def at_session_def)
  qed
qed

lemma handler_players:
  "player_at (write_to e p r w) q = player_at w q" "player_at (tell_to e msg r w) q = player_at w q"
  "player_at (reset_trade_of e r w) q = (if q = r then map_option resetTradeInfo (player_at w q) else player_at w q)"
  "player_at (set_state_of STATE_INVENTORY r w) q =
     (if q = r then map_option (player_setPlayerState STATE_INVENTORY) (player_at w q) else player_at w q)"
  "player_at (at_session r (deleteItems e ts a) w) q = (if q = r then map_option (drop_items ts) (player_at w q) else player_at w q)"
  "player_at (at_session r (spawnItems e ts a) w) q = (if q = r then map_option (fold (receive_item e) ts) (player_at w q) else player_at w q)"
  "player_at (charge e response r w) q = (if q = r then map_option charged (player_at w q) else player_at w q)"
proof -
  show "player_at (write_to e p r w) q = player_at w q"
    unfolding write_to_def by (subst at_player [where g = id]) (simp_all add: option.map_id)
  show "player_at (tell_to e msg r w) q = player_at w q"
    unfolding tell_to_def by (subst at_player [where g = id]) (simp_all add: option.map_id)
  show "player_at (reset_trade_of e r w) q = (if q = r then map_option resetTradeInfo (player_at w q) else player_at w q)"
    unfolding reset_trade_of_def by (rule at_player) simp
  show "player_at (set_state_of STATE_INVENTORY r w) q =
     (if q = r then map_option (player_setPlayerState STATE_INVENTORY) (player_at w q) else player_at w q)"
    unfolding set_state_of_def by (rule at_player) (simp add: session_setPlayerState_def states)
  show "player_at (at_session r (deleteItems e ts a) w) q = (if q = r then map_option (drop_items ts) (player_at w q) else player_at w q)"
    by (rule at_player) simp
  show "player_at (at_session r (spawnItems e ts a) w) q = (if q = r then map_option (fold (receive_item e) ts) (player_at w q) else player_at w q)"
    by (rule at_player) simp
  show "player_at (charge e response r w) q = (if q = r then map_option charged (player_at w q) else player_at w q)"
    unfolding charge_def by (rule at_player) (simp add: charged_def mp_of_def account_player Let_def)
qed

text \<open>What the exchange makes of the two players.\<close>

lemma exchange_players:
  assumes "r \<noteq> t"
  shows "player_at (exchange e response s r s' t w) r =
      map_option (\<lambda>p. fold (receive_item e) (renumber (getLatestItemNumber (getPlayer s)) (traded_items s'))
        (resetTradeInfo (drop_items (traded_items s) (charged p)))) (player_at w r)"
    "player_at (exchange e response s r s' t w) t =
      map_option (\<lambda>p. resetTradeInfo (fold (receive_item e) (renumber (getLatestItemNumber (getPlayer s')) (traded_items s))
        (drop_items (traded_items s') (charged p)))) (player_at w t)"
  using assms by (simp_all add: exchange_def Let_def handler_players option.map_comp comp_def)

text \<open>The last confirmation starts the exchange.\<close>

lemma finalization_exchanges:
  assumes "h r = Some s" "\<not> banned s" "partner_of sessions s h = Some t" "h t = Some s'" "p_hasPlayerLocked (getPlayer s')"
    and "has_room (length (traded_items s')) (getPlayer s)" "has_room (length (traded_items s)) (getPlayer s')"
    and "length (traded_items s) \<le> 11" "length (traded_items s') \<le> 11"
  shows "handleTradeFinalization e sessions request r (h, log) =
    exchange e (packet_setOrder 199 (trade_response request)) s r s' t
      (set_state_of STATE_INVENTORY t (set_state_of STATE_INVENTORY r (h, log)))"
proof -
  have n: "n \<le> 11 \<Longrightarrow> unat (of_nat n :: u16) = n" for n
    by (simp only: unsigned_of_nat) (simp add: take_bit_nat_eq_self)
  have "hasEnoughInventorySpace (of_nat (length (traded_items s))) (getPlayer s')"
    by (rule room_enough [OF assms(7)]) (simp add: n [OF assms(8)])
  moreover have "hasEnoughInventorySpace (of_nat (length (traded_items s'))) (getPlayer s)"
    by (rule room_enough [OF assms(6)]) (simp add: n [OF assms(9)])
  ultimately show ?thesis using assms(1-5) by (simp add: handleTradeFinalization_def Let_def)
qed

lemma start_players:
  assumes "h r = Some s" "h t = Some s'" "r \<noteq> t"
  shows "player_at (set_state_of STATE_INVENTORY t (set_state_of STATE_INVENTORY r (h, log))) r =
      Some (player_setPlayerState STATE_INVENTORY (getPlayer s))"
    "player_at (set_state_of STATE_INVENTORY t (set_state_of STATE_INVENTORY r (h, log))) t =
      Some (player_setPlayerState STATE_INVENTORY (getPlayer s'))"
proof -
  have "player_at (h, log) r = Some (getPlayer s)" "player_at (h, log) t = Some (getPlayer s')"
    using assms by (simp_all add: player_at_def)
  then show "player_at (set_state_of STATE_INVENTORY t (set_state_of STATE_INVENTORY r (h, log))) r =
      Some (player_setPlayerState STATE_INVENTORY (getPlayer s))"
    "player_at (set_state_of STATE_INVENTORY t (set_state_of STATE_INVENTORY r (h, log))) t =
      Some (player_setPlayerState STATE_INVENTORY (getPlayer s'))"
    using assms(3) by (simp_all add: handler_players)
qed

text \<open>The player after the trade fields are reset.\<close>

lemma reset_trade_fields [simp]:
  "p_tradedItems (resetTradeInfo p) = []" "\<not> p_hasPlayerLocked (resetTradeInfo p)"
  "p_accountInfo (resetTradeInfo p) = p_accountInfo p" "stock_ids (resetTradeInfo p) = stock_ids p"
  "slots (resetTradeInfo p) = slots p" "inventory_ok (resetTradeInfo p) = inventory_ok p"
  using same_items_facts [OF same_items_steps(3) [of p]]
  by (simp_all add: resetTradeInfo_def player_setPlayerState_def)

lemma prepared: "same_items p (charged (player_setPlayerState st p))"
  by (rule same_items_trans [OF same_items_steps(2) same_items_steps(1)])

text \<open>Both sides of an exchange in one statement; \<open>gone\<close> is what really leaves the stock of the first player.\<close>

lemma exchange_result:
  assumes "h r = Some s" "h t = Some s'" "r \<noteq> t"
    and "can_trade gone (length (traded_items s')) (getPlayer s)"
    and "drop_items (traded_items s) (charged (player_setPlayerState STATE_INVENTORY (getPlayer s))) =
         drop_items gone (charged (player_setPlayerState STATE_INVENTORY (getPlayer s)))"
    and "can_trade (traded_items s') (length (traded_items s)) (getPlayer s')"
  obtains p q where
    "player_at (exchange e response s r s' t (set_state_of STATE_INVENTORY t (set_state_of STATE_INVENTORY r (h, log)))) r = Some p"
    "player_at (exchange e response s r s' t (set_state_of STATE_INVENTORY t (set_state_of STATE_INVENTORY r (h, log)))) t = Some q"
    "stock_ids p + ids_of gone = stock_ids (getPlayer s) + ids_of (traded_items s')"
    "stock_ids q + ids_of (traded_items s') = stock_ids (getPlayer s') + ids_of (traded_items s)"
    "slots p = slots (getPlayer s)" "slots q = slots (getPlayer s')" "inventory_ok p" "inventory_ok q"
    "p_tradedItems p = []" "p_tradedItems q = []" "\<not> p_hasPlayerLocked p" "\<not> p_hasPlayerLocked q"
    "p_accountInfo p = p_accountInfo (charged (player_setPlayerState STATE_INVENTORY (getPlayer s)))"
    "p_accountInfo q = p_accountInfo (charged (player_setPlayerState STATE_INVENTORY (getPlayer s')))"
proof -
  let ?s = "charged (player_setPlayerState STATE_INVENTORY (getPlayer s))"
    and ?s' = "charged (player_setPlayerState STATE_INVENTORY (getPlayer s'))"
  let ?come = "renumber (getLatestItemNumber (getPlayer s)) (traded_items s')"
    and ?come' = "renumber (getLatestItemNumber (getPlayer s')) (traded_items s)"
  let ?p = "fold (receive_item e) ?come (resetTradeInfo (drop_items gone ?s))"
    and ?q = "fold (receive_item e) ?come' (drop_items (traded_items s') ?s')"
  have c: "can_trade gone (length ?come) (getPlayer s)" "can_trade (traded_items s') (length ?come') (getPlayer s')"
    using assms(4,6) by simp_all
  have refl: "same_items (drop_items (traded_items s') ?s') (drop_items (traded_items s') ?s')" by (simp add: same_items_def)
  note p = trade_side(1-3) [OF c(1) prepared same_items_steps(3), where e = e] trade_side(4) [OF c(1) prepared same_items_steps(3)]
  note q = trade_side(1-3) [OF c(2) prepared refl, where e = e] trade_side(4) [OF c(2) prepared refl]
  note op = only_stock_fields [OF p(2)] and oq = only_stock_fields [OF q(2)]
  have d: "only_stock ?s (drop_items gone ?s)" "only_stock ?s' (drop_items (traded_items s') ?s')"
    using assms(4,6) same_items_facts [OF prepared] by (auto simp: can_trade_def intro!: drop_items_stock(2))
  note a = only_stock_fields [OF d(1)] only_stock_fields [OF d(2)]
  note players = exchange_players [OF assms(3), of e response s s'] and start = start_players [OF assms(1-3)]
  show thesis
  proof (rule that [of ?p "resetTradeInfo ?q"])
    show "player_at (exchange e response s r s' t (set_state_of STATE_INVENTORY t (set_state_of STATE_INVENTORY r (h, log)))) r = Some ?p"
      by (simp only: players(1) start assms(5) option.map)
    show "player_at (exchange e response s r s' t (set_state_of STATE_INVENTORY t (set_state_of STATE_INVENTORY r (h, log)))) t = Some (resetTradeInfo ?q)"
      by (simp only: players(2) start option.map)
  qed (use p q op oq a in simp_all)
qed

text \<open>The trade that the request completes: the partner has confirmed before.\<close>

definition confirmed :: "mref list \<Rightarrow> mheap \<Rightarrow> mref \<Rightarrow> main_session \<Rightarrow> mref \<Rightarrow> main_session \<Rightarrow> bool" where
  "confirmed sessions h r s t s' \<longleftrightarrow>
     h r = Some s \<and> \<not> banned s \<and> r \<noteq> t \<and> partner_of sessions s h = Some t \<and> h t = Some s' \<and> p_hasPlayerLocked (getPlayer s') \<and>
     length (traded_items s) \<le> 11 \<and> length (traded_items s') \<le> 11"

text \<open>The fee, 5000 micro points an item, is not taken from a player who cannot pay it.\<close>

definition paid :: "player \<Rightarrow> player \<Rightarrow> bool" where
  "paid p q \<longleftrightarrow> unat (ai_microPoints (p_accountInfo q)) =
     (let m = unat (ai_microPoints (p_accountInfo p)); n = 5000 * length (p_tradedItems p) in if n \<le> m then m - n else m)"

text \<open>The end of a trade on one side: its stock, with what has gone and what has come.\<close>

definition traded :: "player \<Rightarrow> 23 word multiset \<Rightarrow> 23 word multiset \<Rightarrow> player \<Rightarrow> bool" where
  "traded p gone come q \<longleftrightarrow> stock_ids q + gone = stock_ids p + come \<and> slots q = slots p \<and> inventory_ok q \<and> paid p q \<and>
     p_tradedItems q = [] \<and> \<not> p_hasPlayerLocked q"

lemma paid_charged:
  assumes "p_accountInfo q = p_accountInfo (charged (player_setPlayerState st p))" "length (p_tradedItems p) \<le> 11"
  shows "paid p q"
  using charged_mp [of "player_setPlayerState st p"] assms by (simp add: paid_def same_items_steps player_setPlayerState_def)

lemma finalization_result:
  assumes "confirmed sessions h r s t s'"
    and "can_trade gone (length (traded_items s')) (getPlayer s)"
    and "drop_items (traded_items s) (charged (player_setPlayerState STATE_INVENTORY (getPlayer s))) =
         drop_items gone (charged (player_setPlayerState STATE_INVENTORY (getPlayer s)))"
    and "can_trade (traded_items s') (length (traded_items s)) (getPlayer s')"
  shows "\<exists>p q. player_at (handleTradeFinalization e sessions request r (h, log)) r = Some p \<and>
    player_at (handleTradeFinalization e sessions request r (h, log)) t = Some q \<and>
    traded (getPlayer s) (ids_of gone) (ids_of (traded_items s')) p \<and>
    traded (getPlayer s') (ids_of (traded_items s')) (ids_of (traded_items s)) q"
proof -
  have c: "h r = Some s" "\<not> banned s" "r \<noteq> t" "partner_of sessions s h = Some t" "h t = Some s'" "p_hasPlayerLocked (getPlayer s')"
    "length (traded_items s) \<le> 11" "length (traded_items s') \<le> 11"
    using assms(1) by (simp_all add: confirmed_def)
  have room: "has_room (length (traded_items s')) (getPlayer s)" "has_room (length (traded_items s)) (getPlayer s')"
    using assms(2,4) by (simp_all add: can_trade_def)
  note x = finalization_exchanges [OF c(1,2,4,5,6) room c(7,8), where e = e and request = request and log = log]
  obtain p q where
    "player_at (handleTradeFinalization e sessions request r (h, log)) r = Some p"
    "player_at (handleTradeFinalization e sessions request r (h, log)) t = Some q"
    and f: "stock_ids p + ids_of gone = stock_ids (getPlayer s) + ids_of (traded_items s')"
    "stock_ids q + ids_of (traded_items s') = stock_ids (getPlayer s') + ids_of (traded_items s)"
    "slots p = slots (getPlayer s)" "slots q = slots (getPlayer s')" "inventory_ok p" "inventory_ok q"
    "p_tradedItems p = []" "p_tradedItems q = []" "\<not> p_hasPlayerLocked p" "\<not> p_hasPlayerLocked q"
    and a: "p_accountInfo p = p_accountInfo (charged (player_setPlayerState STATE_INVENTORY (getPlayer s)))"
    "p_accountInfo q = p_accountInfo (charged (player_setPlayerState STATE_INVENTORY (getPlayer s')))"
    using exchange_result [OF c(1,5,3) assms(2-4), where e = e and log = log and response = "packet_setOrder 199 (trade_response request)"]
    unfolding x by blast
  then show ?thesis using f paid_charged [OF a(1) c(7)] paid_charged [OF a(2) c(8)] by (auto simp: traded_def)
qed

text \<open>An offered item the player does not have any more: nothing is taken from then on.\<close>

definition missing :: "TradeBasicItem \<Rightarrow> player \<Rightarrow> bool" where
  "missing x p \<longleftrightarrow> stored (tbi_itemSerialInfo x) p = None \<and> find_slot (tbi_itemSerialInfo x) p = None"

lemma drop_missing: "missing x p \<Longrightarrow> drop_items (x # ts) p = p"
  by (simp add: missing_def deleteItemBasic_def)

lemma missing_same: "same_items p q \<Longrightarrow> missing x q = missing x p"
  by (simp add: same_items_def missing_def stored_def find_slot_def)

text \<open>The partner is found by account numbers, which no operation here changes.\<close>

lemma find_session_cong:
  assumes "\<And>q. map_option aid_of (h' q) = map_option aid_of (h q)"
  shows "getSessionByAccountId sessions aid h' = getSessionByAccountId sessions aid h"
proof -
  have "(case h' q of None \<Rightarrow> False | Some s \<Rightarrow> aid_of s = aid) = (case h q of None \<Rightarrow> False | Some s \<Rightarrow> aid_of s = aid)" for q
    using assms [of q] by (cases "h' q"; cases "h q") auto
  then show ?thesis by (simp add: getSessionByAccountId_def)
qed

text \<open>What a session is to the trade of others: its player and whether it is banned.\<close>

definition view :: "main_session \<Rightarrow> player \<times> bool" where
  "view s = (getPlayer s, banned s)"

lemma at_session_view:
  assumes "\<And>s log. view (fst (f (s, log))) = apfst g (view s)"
  shows "map_option view (fst (at_session r f w) q) = (if q = r then map_option (apfst g) (map_option view (fst w q)) else map_option view (fst w q))"
proof -
  obtain h log where w: "w = (h, log)" by fastforce
  show ?thesis
  proof (cases "h r")
    case (Some s)
    obtain s' log' where "f (s, log) = (s', log')" by fastforce
    then show ?thesis using assms [of s log] Some by (simp add: w at_session_def)
  qed (simp add: w at_session_def)
qed

lemma removal_views:
  assumes "h t = Some s'" "\<not> banned s'" "findItemIdBySerialInfo (parse_serial e 8 request) (getPlayer s') = Some i"
    "partner_of sessions s' h = Some r"
  shows "map_option view (fst (handleTradeItemRemoval e sessions request t (h, log)) q) =
    (if q = t then map_option (apfst (removeTradedItem (parse_serial e 8 request))) (map_option view (h q)) else map_option view (h q))"
proof -
  have "map_option view (fst (write_to e p x w) q) = map_option view (fst w q)" for p x w
    unfolding write_to_def
    by (subst at_session_view [where g = id]) (simp_all add: on_sess_def view_def apfst_id option.map_id)
  moreover have "view (fst (on_sess (on_player g) (s, log))) = apfst g (view s)" for g s log
    by (simp add: on_sess_def view_def on_player_def getPlayer_def)
  note at_session_view [OF this]
  ultimately show ?thesis using assms
    by (simp add: handleTradeItemRemoval_def Let_def reply_both_def)
qed

lemma removeTradedItem_fields [simp]:
  "p_hasPlayerLocked (removeTradedItem si p) = p_hasPlayerLocked p" "p_accountInfo (removeTradedItem si p) = p_accountInfo p"
  "length (p_tradedItems (removeTradedItem si p)) \<le> length (p_tradedItems p)"
  by (auto simp: removeTradedItem_def erase_at_def split: option.split)

lemma removal_same: "same_items p (removeTradedItem si p)"
  by (simp add: same_items_def removeTradedItem_def split: option.split)

section \<open>Properties\<close>

text \<open>C7: The confirmation that completes a trade, between two players with consistent inventories who
  still have what they offer and have room for what they get, moves exactly the offered items: each
  stock loses its own offer and gains the other one, as multisets of item identifiers; worn items stay
  as they are, the inventories stay consistent, the offers and locks are gone. The fee of 5000 micro
  points an item is taken from a player who has it.\<close>

theorem trade_exchanges_items:
  assumes "confirmed sessions h r s t s'"
    and "can_trade (traded_items s) (length (traded_items s')) (getPlayer s)"
    and "can_trade (traded_items s') (length (traded_items s)) (getPlayer s')"
  shows "let w = handleTradeFinalization e sessions request r (h, log) in
    \<exists>p q. player_at w r = Some p \<and> player_at w t = Some q \<and>
      traded (getPlayer s) (ids_of (traded_items s)) (ids_of (traded_items s')) p \<and>
      traded (getPlayer s') (ids_of (traded_items s')) (ids_of (traded_items s)) q"
  unfolding Let_def by (rule finalization_result [OF assms(1,2) refl assms(3)])

text \<open>C28: The exchange does not look at whether the offered items could be taken. When the player who
  completes the trade does not have the first item of his offer any more, he keeps everything he has
  and the partner still gets the whole offer: the two stocks together grow by it.\<close>

theorem trade_duplicates_missing_item:
  assumes "confirmed sessions h r s t s'"
    and "traded_items s = x # xs" "missing x (getPlayer s)"
    and "can_trade [] (length (traded_items s')) (getPlayer s)"
    and "can_trade (traded_items s') (length (traded_items s)) (getPlayer s')"
  shows "let w = handleTradeFinalization e sessions request r (h, log) in
    \<exists>p q. player_at w r = Some p \<and> player_at w t = Some q \<and>
      stock_ids p + stock_ids q = stock_ids (getPlayer s) + stock_ids (getPlayer s') + ids_of (traded_items s)"
proof -
  let ?s = "charged (player_setPlayerState STATE_INVENTORY (getPlayer s))"
  have "missing x ?s" using assms(3) missing_same [OF prepared] by blast
  then have "drop_items (traded_items s) ?s = drop_items [] ?s" by (simp add: assms(2) drop_missing del: drop_items.simps(2))
  from finalization_result [OF assms(1,4) this assms(5), where e = e and request = request and log = log]
  show ?thesis by (fastforce simp: Let_def traded_def union_commute union_assoc)
qed

text \<open>C27: A confirmation does not bind: a player who has confirmed can take an item out of his offer,
  stays confirmed, and the other player's confirmation then gives away its items for what is left of
  the offer.\<close>

theorem trade_lock_not_binding:
  assumes "confirmed sessions h r s t s'" "\<not> banned s'" "partner_of sessions s' h = Some r"
    and "findItemIdBySerialInfo (parse_serial e 8 removal) (getPlayer s') = Some i"
    and "rest = p_tradedItems (removeTradedItem (parse_serial e 8 removal) (getPlayer s'))"
    and "can_trade (traded_items s) (length rest) (getPlayer s)"
    and "can_trade rest (length (traded_items s)) (getPlayer s')"
  shows "let w = handleTradeFinalization e sessions request r (handleTradeItemRemoval e sessions removal t (h, log)) in
    \<exists>p q. player_at w r = Some p \<and> player_at w t = Some q \<and>
      stock_ids p + ids_of (traded_items s) = stock_ids (getPlayer s) + ids_of rest \<and>
      stock_ids q + ids_of rest = stock_ids (getPlayer s') + ids_of (traded_items s)"
proof -
  let ?si = "parse_serial e 8 removal"
  obtain h1 log1 where w: "handleTradeItemRemoval e sessions removal t (h, log) = (h1, log1)" by fastforce
  have c: "h r = Some s" "\<not> banned s" "r \<noteq> t" "partner_of sessions s h = Some t" "h t = Some s'" "p_hasPlayerLocked (getPlayer s')"
    "length (traded_items s) \<le> 11" "length (traded_items s') \<le> 11"
    using assms(1) by (simp_all add: confirmed_def)
  note v = removal_views [OF c(5) assms(2,4,3), where log = log, unfolded w fst_conv]
  obtain s1 where s1: "h1 r = Some s1" "getPlayer s1 = getPlayer s" "banned s1 = banned s"
    using v [of r] c(1,3) by (auto simp: view_def)
  obtain t1 where t1: "h1 t = Some t1" "getPlayer t1 = removeTradedItem ?si (getPlayer s')"
    using v [of t] c(5) by (auto simp: view_def)
  have "map_option aid_of (h1 q) = map_option aid_of (h q)" for q
    using v [of q] by (cases "h1 q"; cases "h q") (auto simp: view_def getAccountInfo_def split: if_splits)
  then have "partner_of sessions s1 h1 = Some t" using find_session_cong [of h1 h] c(4) s1(2) by simp
  moreover have "length rest \<le> 11" using c(8) removeTradedItem_fields(3) [of ?si "getPlayer s'"] unfolding assms(5) by linarith
  ultimately have "confirmed sessions h1 r s1 t t1" using c s1 t1 by (simp add: confirmed_def assms(5))
  moreover have "can_trade (traded_items t1) (length (traded_items s1)) (getPlayer t1)"
    using assms(7) same_items_facts [OF removal_same] by (simp add: can_trade_def t1 s1 assms(5))
  moreover have "can_trade (traded_items s1) (length (traded_items t1)) (getPlayer s1)"
    using assms(6) by (simp add: s1 t1 assms(5))
  ultimately have "\<exists>p q. player_at (handleTradeFinalization e sessions request r (h1, log1)) r = Some p \<and>
      player_at (handleTradeFinalization e sessions request r (h1, log1)) t = Some q \<and>
      traded (getPlayer s1) (ids_of (traded_items s1)) (ids_of (traded_items t1)) p \<and>
      traded (getPlayer t1) (ids_of (traded_items t1)) (ids_of (traded_items s1)) q"
    by (intro finalization_result) simp_all
  then show ?thesis using same_items_facts(2) [OF removal_same]
    by (auto simp: Let_def w traded_def s1 t1 assms(5))
qed

text \<open>Two traders, one with a rifle he offers, for the witnesses.\<close>

definition demo_offer :: "TradeBasicItem list" where
  "demo_offer = [\<lparr>tbi_itemId = it_itemId demo_rifle, tbi_itemSerialInfo = it_serialInfo demo_rifle\<rparr>]"

lemma trader_confirmed:
  "h 1 = Some (trader 10 20 p o1) \<Longrightarrow> h 2 = Some (trader 20 10 p' o2) \<Longrightarrow> length o1 \<le> 11 \<Longrightarrow> length o2 \<le> 11 \<Longrightarrow>
    confirmed [1, 2] h 1 (trader 10 20 p o1) 2 (trader 20 10 p' o2) \<and>
    partner_of [1, 2] (trader 20 10 p' o2) h = Some 1"
  by (simp add: confirmed_def getSessionByAccountId_def getAccountInfo_def getPlayer_def trader_def)

lemma trader_offer [simp]: "traded_items (trader a b p offer) = offer" "\<not> banned (trader a b p offer)"
  by (simp_all add: trader_def getPlayer_def)

lemma trader_can_trade:
  assumes "inventory_ok p" "in_stock ts p" "p_totalEquippedItems p = 0" "length (p_itemsByItemNumber p) + n \<le> 50"
    "p_couponItems p = []" "unat (getLatestItemNumber p) + n < 2 ^ 20"
  shows "can_trade ts n (getPlayer (trader a b p offer))"
proof -
  let ?q = "getPlayer (trader a b p offer)"
  have "inventory_ok ?q = inventory_ok p" "in_stock ts ?q = in_stock ts p" "getLatestItemNumber ?q = getLatestItemNumber p"
    by (simp_all add: trader_def getPlayer_def inventory_ok_def worn_slots_def in_stock_def
        stored_def getLatestItemNumber_def findMaxItemNumber_def)
  moreover have "has_room n ?q" using assms(3-5) by (simp add: has_room_def trader_def getPlayer_def)
  ultimately show ?thesis using assms(1,2,6) by (simp add: can_trade_def)
qed

lemma demo_can_trade:
  "n \<le> 40 \<Longrightarrow> can_trade demo_offer n (getPlayer (trader a b demo_player offer))"
  "n \<le> 40 \<Longrightarrow> can_trade [] n (getPlayer (trader a b demo_player offer))"
  "n \<le> 40 \<Longrightarrow> can_trade [] n (getPlayer (trader a b (Player_new 0) offer))"
proof -
  have l: "length (p_itemsByItemNumber demo_player) = 1" "p_totalEquippedItems demo_player = 0" "p_couponItems demo_player = []"
    by (simp_all add: demo_player_def addItem_def Player_new_def)
  have "in_stock demo_offer demo_player"
    using demo_player_ok(3) by (simp add: in_stock_def demo_offer_def stored_def demo_rifle_def)
  then show "n \<le> 40 \<Longrightarrow> can_trade demo_offer n (getPlayer (trader a b demo_player offer))"
    "n \<le> 40 \<Longrightarrow> can_trade [] n (getPlayer (trader a b demo_player offer))"
    using demo_player_ok(1) demo_player_latest l by (simp_all add: trader_can_trade in_stock_def)
  have "getLatestItemNumber (Player_new 0) \<le> 0"
    by (rule latest_le) (auto simp: Player_new_def EquippedItem_default_def ItemSerialInfo_default_def)
  then show "n \<le> 40 \<Longrightarrow> can_trade [] n (getPlayer (trader a b (Player_new 0) offer))"
    using inventory_new by (intro trader_can_trade) (simp_all add: in_stock_def Player_new_def)
qed

lemma demo_stocks: "stock_ids (getPlayer (trader a b demo_player offer)) = {#4310000#}"
  "stock_ids (getPlayer (trader a b (Player_new 0) offer)) = {#}" "ids_of demo_offer = {#4310000#}"
  by (simp_all add: stock_ids_def trader_def getPlayer_def demo_player_def addItem_def Player_new_def demo_rifle_def demo_offer_def)

theorem trade_exchanges_items_witness:
  "let w = handleTradeFinalization demo_env [1, 2] packet_new 1
      ([1 \<mapsto> trader 10 20 demo_player demo_offer, 2 \<mapsto> trader 20 10 (Player_new 0) []], []) in
    \<exists>p q. player_at w 1 = Some p \<and> player_at w 2 = Some q \<and> stock_ids p = {#} \<and> stock_ids q = {#4310000#}"
proof -
  let ?h = "[1 \<mapsto> trader 10 20 demo_player demo_offer, 2 \<mapsto> trader 20 10 (Player_new 0) []] :: mheap"
  have "confirmed [1, 2] ?h 1 (trader 10 20 demo_player demo_offer) 2 (trader 20 10 (Player_new 0) [])"
    using trader_confirmed [of ?h demo_player demo_offer "Player_new 0" "[]"] by (simp add: demo_offer_def)
  from trade_exchanges_items [OF this, of demo_env packet_new "[]"] demo_can_trade demo_stocks show ?thesis
    by (fastforce simp: Let_def traded_def demo_offer_def)
qed

theorem trade_duplicates_missing_item_witness:
  "let w = handleTradeFinalization demo_env [1, 2] packet_new 1
      ([1 \<mapsto> trader 10 20 (Player_new 0) demo_offer, 2 \<mapsto> trader 20 10 (Player_new 0) []], []) in
    \<exists>p q. player_at w 1 = Some p \<and> player_at w 2 = Some q \<and> stock_ids p + stock_ids q = {#4310000#}"
proof -
  let ?s = "trader 10 20 (Player_new 0) demo_offer"
  let ?h = "[1 \<mapsto> ?s, 2 \<mapsto> trader 20 10 (Player_new 0) []] :: mheap"
  have c: "confirmed [1, 2] ?h 1 ?s 2 (trader 20 10 (Player_new 0) [])"
    using trader_confirmed [of ?h "Player_new 0" demo_offer "Player_new 0" "[]"] by (simp add: demo_offer_def)
  let ?x = "\<lparr>tbi_itemId = it_itemId demo_rifle, tbi_itemSerialInfo = it_serialInfo demo_rifle\<rparr>"
  have "find_index (\<lambda>e. si_itemNumber (eq_serialInfo e) = 7) (replicate n (EquippedItem_default 0)) = None" for n
    by (auto simp: find_index_None EquippedItem_default_def ItemSerialInfo_default_def)
  then have "missing ?x (getPlayer ?s)"
    by (simp add: missing_def stored_def find_slot_def trader_def getPlayer_def Player_new_def demo_rifle_def)
  from trade_duplicates_missing_item [OF c _ this, of "[]" demo_env packet_new "[]"] demo_can_trade demo_stocks show ?thesis
    by (simp add: demo_offer_def)
qed

text \<open>The partner takes his rifle out of the trade again.\<close>

definition demo_removal :: packet where
  "demo_removal = setData (replicate 8 0 @ serial_bytes (it_serialInfo demo_rifle)) packet_new"

theorem trade_lock_not_binding_witness:
  "let w = handleTradeFinalization demo_env [1, 2] packet_new 1 (handleTradeItemRemoval demo_env [1, 2] demo_removal 2
      ([1 \<mapsto> trader 10 20 demo_player demo_offer, 2 \<mapsto> trader 20 10 demo_player demo_offer], [])) in
    \<exists>p q. player_at w 1 = Some p \<and> player_at w 2 = Some q \<and> stock_ids p = {#} \<and> stock_ids q = {#4310000, 4310000#}"
proof -
  let ?s = "trader 10 20 demo_player demo_offer" and ?t = "trader 20 10 demo_player demo_offer"
  let ?h = "[1 \<mapsto> ?s, 2 \<mapsto> ?t] :: mheap"
  have c: "confirmed [1, 2] ?h 1 ?s 2 ?t" "partner_of [1, 2] ?t ?h = Some 1"
    using trader_confirmed [of ?h demo_player demo_offer demo_player demo_offer] by (simp_all add: demo_offer_def)
  have si: "parse_serial demo_env 8 demo_removal = it_serialInfo demo_rifle"
    by (simp add: parse_serial_def main_parseData_def demo_removal_def demo_rifle_def ItemSerialInfo_default_def
        setData_def serial_bytes_def serial_of_bytes_def)
  have f: "findItemIdBySerialInfo (parse_serial demo_env 8 demo_removal) (getPlayer ?t) = Some 4310000"
    using demo_player_ok(3) by (simp add: si findItemIdBySerialInfo_def stored_def trader_def getPlayer_def demo_rifle_def)
  have r: "[] = p_tradedItems (removeTradedItem (parse_serial demo_env 8 demo_removal) (getPlayer ?t))"
    by (simp add: si removeTradedItem_def trader_def getPlayer_def demo_offer_def erase_at_def)
  show ?thesis
    using trade_lock_not_binding [OF c(1) _ c(2) f r, of packet_new "[]"] demo_can_trade demo_stocks
    by (fastforce simp: Let_def demo_offer_def)
qed

end
