(* ===== verification/Shop.thy ===== *)
theory Shop
  imports Requests
begin

text \<open>
  The handlers of the shop and of the items, \<open>MainServer/include/Handlers/Item\<close>: buying, renewing,
  repairing, gambling, upgrading, opening boxes and deleting. The random choices are arguments.
\<close>

section \<open>Buying\<close>

text \<open>A loop over the entries of a request that ends at the first one that is refused.\<close>

primrec refusing :: "('i \<Rightarrow> 's \<Rightarrow> 'e + 's) \<Rightarrow> 'i list \<Rightarrow> 's \<Rightarrow> 'e + 's" where
  "refusing step [] s = Inr s"
| "refusing step (i # is) s = (case step i s of Inl err \<Rightarrow> Inl err | Inr s' \<Rightarrow> refusing step is s')"

text \<open>The balances are 32-bit numbers by currency; a refusal may come with a message.\<close>

type_synonym balance = "ItemCurrencyType \<Rightarrow> u32"

definition sessionCurrencyByType :: "AccountInfo \<Rightarrow> balance" where
  "sessionCurrencyByType a t =
     (case t of ITEM_MP \<Rightarrow> ucast (ai_microPoints a) | ITEM_RT \<Rightarrow> ucast (ai_rockTotens a) | ITEM_COUPON \<Rightarrow> 0 | ITEM_COIN \<Rightarrow> ucast (ai_coins a))"

definition charge_price :: "game_db \<Rightarrow> string \<Rightarrow> u32 \<Rightarrow> balance \<times> balance \<Rightarrow> string option + balance \<times> balance" where
  "charge_price db no_price itemId = (\<lambda>(current, spent).
     case getItemPrice db itemId of
       None \<Rightarrow> Inl (Some no_price)
     | Some (t, price) \<Rightarrow>
         if current t < price then Inl None
         else Inr (current(t := current t - price), spent(t := spent t + price)))"

definition renew_step ::
  "main_env \<Rightarrow> packet \<Rightarrow> player \<Rightarrow> nat \<Rightarrow> (balance \<times> balance) \<times> ItemSerialInfo list \<times> u64 list \<Rightarrow>
     string option + (balance \<times> balance) \<times> ItemSerialInfo list \<times> u64 list" where
  "renew_step e request p idx = (\<lambda>(bill, serials, durations).
     let si = parse_serial e (idx * 8) request
     in case findItemIdBySerialInfo si p of
          None \<Rightarrow> Inl (Some ''[handleBoughtItem] error: bought item not found through serial info'')
        | Some itemId \<Rightarrow>
            if \<not> itemExistsInShop (me_game e) itemId then Inl (Some ''[handleBoughtItem] error: modified vendorinfo.cdb found'')
            else (case charge_price (me_game e) ''[handleBoughtItem] error: item cost or duration was nullopt'' itemId bill of
                    Inl err \<Rightarrow> Inl err
                  | Inr bill \<Rightarrow> Inr (bill, serials @ [si], durations @ [ucast (getItemDuration (me_game e) itemId)])))"

definition buy_step ::
  "main_env \<Rightarrow> packet \<Rightarrow> nat \<Rightarrow> (balance \<times> balance) \<times> u64 \<times> BoughtItem list \<Rightarrow>
     string option + (balance \<times> balance) \<times> u64 \<times> BoughtItem list" where
  "buy_step e request idx = (\<lambda>(bill, latest, items).
     let b = BoughtItem_new e (parse_u32 (idx * 4) request) False;
         itemId = ucast (iid_itemId (sp_itemId b))
     in if \<not> itemExistsInShop (me_game e) itemId then Inl (Some ''[handleBoughtItem] Modified vendorinfo.cdb found'')
        else (case charge_price (me_game e) ''[handleBoughtItem] Item cost not found inside cdb files'' itemId bill of
                Inl err \<Rightarrow> Inl err
              | Inr bill \<Rightarrow>
                  Inr (bill, latest + 1, items @ [b\<lparr>sp_serialInfo := (sp_serialInfo b)\<lparr>si_itemNumber := ucast (latest + 1)\<rparr>\<rparr>])))"

definition pay :: "balance \<Rightarrow> sess_state \<Rightarrow> sess_state" where
  "pay spent st =
     (let st = snd (session_setAccountMicroPoints (mp_of st - spent ITEM_MP) st)
      in snd (session_setAccountRockTotens (rt_of st - spent ITEM_RT) st))"

definition refuse :: "main_env \<Rightarrow> string option \<Rightarrow> sess_state \<Rightarrow> sess_state" where
  "refuse e msg st = (case msg of None \<Rightarrow> st | Some m \<Rightarrow> tell e m st)"

definition option_of :: "packet \<Rightarrow> nat" where
  "option_of request = unat (cmd_getOption (m_command request))"

definition handleBoughtItem :: "main_env \<Rightarrow> packet \<Rightarrow> sess_state \<Rightarrow> sess_state" where
  "handleBoughtItem e request st =
     (let bill = (sessionCurrencyByType (account_of st), \<lambda>_. 0)
      in if cmd_getMission (m_command request) = 1
         then (case refusing (renew_step e request (player_of st)) [0..<option_of request] (bill, [], []) of
                 Inl err \<Rightarrow> refuse e err st
               | Inr ((_, spent), serials, durations) \<Rightarrow>
                   (case session_prolongItems e serials durations st of (True, st) \<Rightarrow> pay spent st | (False, st) \<Rightarrow> st))
         else (case refusing (buy_step e request) [0..<option_of request] (bill, getLatestItemNumber (player_of st), []) of
                 Inl err \<Rightarrow> refuse e err st
               | Inr ((_, spent), _, items) \<Rightarrow>
                   (case session_addItems_bought e items False st of (True, st) \<Rightarrow> pay spent st | (False, st) \<Rightarrow> st)))"

definition coupon_step ::
  "main_env \<Rightarrow> packet \<Rightarrow> nat \<Rightarrow> u32 \<times> u64 \<times> BoughtItem list \<Rightarrow> string option + u32 \<times> u64 \<times> BoughtItem list" where
  "coupon_step e request idx = (\<lambda>(spent, latest, items).
     let itemId = parse_u32 (idx * 4) request; b = BoughtItem_new e itemId True
     in if \<not> itemExistsInShop (me_game e) itemId then Inl (Some ''[handleCouponBoughtItem] Modified vendorinfo.cdb found'')
        else (case getItemPrice (me_game e) itemId of
                None \<Rightarrow> Inl (Some ''[handleCouponBoughtItem] Item cost not found inside cdb files'')
              | Some (t, price) \<Rightarrow>
                  if t \<noteq> ITEM_COUPON then Inl None
                  else Inr (spent + price, latest + 1,
                    items @ [b\<lparr>sp_serialInfo := (sp_serialInfo b)\<lparr>si_itemNumber := ucast (latest + 1)\<rparr>\<rparr>])))"

definition handleCouponBoughtItem :: "main_env \<Rightarrow> packet \<Rightarrow> sess_state \<Rightarrow> sess_state" where
  "handleCouponBoughtItem e request st =
     (case refusing (coupon_step e request) [0..<option_of request] (0, getLatestItemNumber (player_of st), []) of
        Inl err \<Rightarrow> refuse e err st
      | Inr (spent, _, items) \<Rightarrow>
          (let insufficient = on_sess (sendMessage (me_crypt e) (ascii ''Insufficient coupons. Relog to see the updated coupons count'') 12)
           in case session_tryRemoveCoupons e spent st of
                (False, st) \<Rightarrow> insufficient st
              | (True, st) \<Rightarrow> (case session_addItems_bought e items True st of (True, st) \<Rightarrow> st | (False, st) \<Rightarrow> insufficient st)))"

section \<open>Repairing\<close>

definition serializeItemRepair :: "u32 \<Rightarrow> u32 \<Rightarrow> ItemSerialInfo list \<Rightarrow> bytes" where
  "serializeItemRepair newTotalRT newTotalMP serials =
     le_store 4 newTotalRT @ le_store 4 newTotalMP @ concat (map serial_bytes serials)"

text \<open>The price of one item: one micro point for every point of durability.\<close>

definition repair_step :: "main_env \<Rightarrow> ItemSerialInfo \<Rightarrow> u32 \<times> sess_state \<Rightarrow> u32 \<times> sess_state" where
  "repair_step e si = (\<lambda>(needed, st).
     case findItemIdAndDurabilityBySerialInfo si (player_of st) of
       None \<Rightarrow> (needed, tell e ''[Handlers::handleItemRepair] idAndDurability was nullopt'' st)
     | Some (itemId, durability) \<Rightarrow>
         (case getItemDurability (me_game e) itemId of
            None \<Rightarrow> (needed, tell e ''[Handlers::handleItemRepair] baseItemDurability was nullopt'' st)
          | Some base \<Rightarrow> (needed + (ucast base - durability), st)))"

definition restore_step :: "main_env \<Rightarrow> ItemSerialInfo \<Rightarrow> sess_state \<Rightarrow> sess_state" where
  "restore_step e si st =
     (case findItemIdAndDurabilityBySerialInfo si (player_of st) of
        None \<Rightarrow> st
      | Some (itemId, durability) \<Rightarrow>
          (case getItemDurability (me_game e) itemId of
             None \<Rightarrow> st
           | Some base \<Rightarrow> session_updateItemDurability (ucast (si_itemNumber si)) (ucast base) st))"

definition handleItemRepair :: "main_env \<Rightarrow> packet \<Rightarrow> sess_state \<Rightarrow> sess_state" where
  "handleItemRepair e request st =
     (let c = m_command request;
          response = setCommand (ucast (cmd_getOrder c)) (ucast (cmd_getMission c)) 1 1 (setTcpHeader (of_nat (m_id (fst st))) 2 packet_new);
          rt = rt_of st; mp = mp_of st;
          serials = map (\<lambda>i. parse_serial e (i * 8) request) [0..<option_of request];
          (needed, st) = fold (repair_step e) serials (0, st)
      in if mp < needed
         then on_sess (send (me_crypt e) (setData (serializeItemRepair rt mp [ItemSerialInfo_default (me_now e)]) response)) st
         else let st = fold (restore_step e) serials st;
                  st = snd (session_setAccountMicroPoints (mp - needed) st);
                  response = packet_setOption (of_nat (length serials)) (setData (serializeItemRepair rt (mp - needed) serials) response)
              in on_sess (send (me_crypt e) response) st)"

section \<open>Gambling\<close>

text \<open>The two tables have the candidates by item type; \<open>pick\<close> is the random index below a bound.\<close>

definition gamble_choice :: "(u32 \<times> u32 list) list \<Rightarrow> (u32 \<times> u32 list) list \<Rightarrow> (nat \<Rightarrow> nat) \<Rightarrow> u32 \<Rightarrow> u32 option" where
  "gamble_choice item_table weapon_table pick itemType =
     (case map_of item_table itemType of
        Some (i # is) \<Rightarrow> Some ((i # is) ! pick (length (i # is)))
      | _ \<Rightarrow> (case map_of weapon_table itemType of
               Some (i # is) \<Rightarrow> Some ((i # is) ! pick (length (i # is)))
             | _ \<Rightarrow> None))"

definition gambleCost :: u32 where
  "gambleCost = 50000"

definition handleGambleItem ::
  "main_env \<Rightarrow> (u32 \<times> u32 list) list \<Rightarrow> (u32 \<times> u32 list) list \<Rightarrow> (nat \<Rightarrow> nat) \<Rightarrow> packet \<Rightarrow> sess_state \<Rightarrow> sess_state" where
  "handleGambleItem e item_table weapon_table pick request st =
     (let response = setTcpHeader (tcp_getSessionId (m_header request)) 4 packet_new;
          si = parse_serial e 0 request
      in if mp_of st < gambleCost
         then on_sess (send (me_crypt e) (packet_setExtra 44 (packet_setOrder 193 response))) st
         else if state_of (fst st) \<noteq> STATE_INVENTORY then st
         else (case findItemIdBySerialInfo si (player_of st) of
           None \<Rightarrow> tell e ''[Handlers::handleGambleItem] error: foundId == nullopt, please report this issue'' st
         | Some foundId \<Rightarrow>
             (case getItemType (me_game e) foundId of
                None \<Rightarrow> tell e ''[Handlers::handleGambleItem] error: itemType == nullopt, please report this issue'' st
              | Some itemType \<Rightarrow>
                  if getItemDuration (me_game e) foundId \<noteq> 0
                  then tell e ''The gamble system can only be used with unlimited items'' st
                  else (case gamble_choice item_table weapon_table pick itemType of
                    None \<Rightarrow> tell e ''[Handlers::handleGambleItem] Error: this item cannot be gambled!'' st
                  | Some newId \<Rightarrow>
                      (case replaceItem e si newId (ascii ''Item replaced after using the gamble system ('' @ digits (unat foundId) @
                              ascii '' => '' @ digits (unat newId) @ ascii '')'') st of
                         (True, st) \<Rightarrow> sendCurrency e (snd (session_setAccountMicroPoints (mp_of st - gambleCost) st))
                       | (False, st) \<Rightarrow> tell e ''[Handlers::handleGambleItem] error while replacing the item with a new one - report this issue'' st)))))"

section \<open>Upgrading\<close>

abbreviation super_glue :: u32 where "super_glue \<equiv> 4305004"

definition energy_refund :: "u32 \<Rightarrow> bool" where
  "energy_refund itemId \<longleftrightarrow> itemId = 4305016 \<or> itemId = 4305014 \<or> itemId = 4305015"

text \<open>The items of the request: whether one of them is a refund of energy, and whether one is glue.\<close>

definition upgrade_helper :: "player \<Rightarrow> ItemSerialInfo \<Rightarrow> bool \<times> bool \<Rightarrow> ItemSerialInfo + bool \<times> bool" where
  "upgrade_helper p si = (\<lambda>(useEnergyRefund, useGlue).
     case findItemIdBySerialInfo si p of
       None \<Rightarrow> Inl si
     | Some itemId \<Rightarrow> Inr (useEnergyRefund \<or> energy_refund itemId, useGlue \<or> itemId = super_glue))"

definition upgrade_request :: "main_env \<Rightarrow> u32 \<Rightarrow> packet \<Rightarrow> sess_state \<Rightarrow> sess_state" where
  "upgrade_request e roll request st =
     (let size = length (m_data request);
          serials = map (\<lambda>i. parse_serial e (i * 8) request) [0..<size div 8];
          missing = (\<lambda>msg si. on_sess (sendMessage (me_crypt e) (ascii msg @ digits (unat (si_itemNumber si))) 1))
      in if size mod 8 \<noteq> 0 then st
         else if serials = [] then tell e ''[handleItemUpgrade] error: no items in the upgrade request.'' st
         else let si = hd serials
         in case findItemIdBySerialInfo si (player_of st) of
           None \<Rightarrow> missing ''[handleItemUpgrade] error: itemIdOpt was nullopt for first item: '' si st
         | Some itemId \<Rightarrow>
             (case upgrade_entry_of e itemId of
                None \<Rightarrow> missing ''[handleItemUpgrade] error: upgradeInfo not found for itemID '' si st
              | Some info \<Rightarrow>
                  (case refusing (upgrade_helper (player_of st)) serials (False, False) of
                     Inl si \<Rightarrow> missing ''[handleItemUpgrade] error: itemIdOpt was nullopt for item: '' si st
                   | Inr (useEnergyRefund, useGlue) \<Rightarrow>
                       (case upgradeWeapon e roll itemId si (ui_parentid info \<noteq> 0) (ucast (cmd_getMission (m_command request)))
                           (ucast (cmd_getOption (m_command request))) useEnergyRefund useGlue st of
                          (False, st) \<Rightarrow> st
                        | (True, st) \<Rightarrow>
                            fold (\<lambda>si st. snd (session_deleteItem e si
                              (ascii ''Item deleted after it was used while upgrading a weapon (Example: Super Glue item'') st)) (tl serials) st))))"

text \<open>\<open>None\<close> is the search for the base of the weapon that never ends.\<close>

definition handleItemUpgrade :: "main_env \<Rightarrow> u32 \<Rightarrow> packet \<Rightarrow> sess_state \<Rightarrow> sess_state option" where
  "handleItemUpgrade e roll request st =
     (let c = m_command request; extra = cmd_getExtra c;
          raw = main_parseData (serial_bytes (ItemSerialInfo_default (me_now e)) @ replicate 4 0) 0 request
      in if state_of (fst st) \<noteq> STATE_INVENTORY
         then Some (tell e ''Error: An item can be upgraded only while your state is STATE_INVENTORY!'' st)
         else if extra = 0
         then let usedEnergy = le_load (drop 8 raw)
              in if usedEnergy > ucast (ai_battery (account_of st)) then Some st
                 else Some (session_addEnergyToItem e (serial_of_bytes raw) usedEnergy (ucast (cmd_getOption c)) (ucast (cmd_getMission c)) st)
         else if extra = 37 \<and> cmd_getMission c < 4 then Some (upgrade_request e roll request st)
         else if extra = 53 then resetUpgrade e (parse_serial e 0 request) (parse_serial e 8 request) st
         else Some st)"

section \<open>Opening and using\<close>

definition openCashBox :: "main_env \<Rightarrow> ItemCurrencyType \<Rightarrow> u32 \<Rightarrow> u32 \<Rightarrow> sess_state \<Rightarrow> sess_state" where
  "openCashBox e ct itemId value st =
     (let (cashSet, st) =
            (case ct of
               ITEM_MP \<Rightarrow> session_setAccountMicroPoints (mp_of st + value) st
             | ITEM_RT \<Rightarrow> session_setAccountRockTotens (rt_of st + value) st
             | ITEM_COIN \<Rightarrow> session_setAccountCoins (ucast (ucast (ai_coins (account_of st)) + value)) st
             | ITEM_COUPON \<Rightarrow> (False, st));
          reply = write_own e (\<lambda>p. setData (bought_bytes (SpawnedItem_new e itemId)) (setCommand 102 1 0 1 p))
      in if ct = ITEM_COUPON
         then reply (if getTotalCoupons (player_of st) \<ge> 250
                then tell e ''Max coupon limit (250) has been reached. Open this box when you have less coupons!'' st
                else snd (spawnCouponCommon e value False st))
         else if cashSet then reply st else st)"

text \<open>The tables of \<open>initializeGeneralItemCallbacks\<close>.\<close>

definition generalItemCallbacks :: "main_env \<Rightarrow> (u32 \<times> (sess_state \<Rightarrow> sess_state)) list" where
  "generalItemCallbacks e =
     [(4303000, session_resetKillDeath), (4302000, session_resetRecord), (4305007, session_expandBattery e),
      (4305000, session_expandInventory e 10), (4305001, session_expandInventory e 20),
      (4305002, session_expandInventory e 40), (4305003, session_expandInventory e 80),
      (4305009, session_sendBattery 500), (4305005, session_sendBattery 500),
      (4305010, session_sendBattery 1000), (4305006, session_sendBattery 1000), (4305201, session_sendBattery 1000)]"

definition inMatchItemIds :: "u32 list" where
  "inMatchItemIds = [6304000, 4300300, 4300301, 4300302, 4300303, 4300304, 4300305, 4304000]"

definition mpBoxValues :: "(u32 \<times> u32) list" where
  "mpBoxValues =
     [(4400001, 100), (4400005, 500), (4400010, 1000), (4400020, 2000), (4400030, 3000), (4400035, 3500),
      (4400040, 4000), (4400050, 5000), (4400060, 6000), (4400070, 7000), (4400080, 8000), (4400090, 9000),
      (4400100, 10000), (4400200, 20000), (4400300, 30000), (4400500, 50000), (4401000, 100000),
      (4405000, 500000), (4410000, 1000000)]"

definition coinValues :: "(u32 \<times> u32) list" where
  "coinValues =
     [(4308001, 1), (4308002, 2), (4308003, 3), (4308004, 4), (4308005, 5), (4308006, 6), (4308007, 7),
      (4308008, 8), (4308009, 9), (4308010, 10), (4308011, 20), (4308012, 30), (4308013, 40), (4308014, 50),
      (4308015, 60), (4308016, 70), (4308017, 80), (4308018, 90), (4308019, 100)]"

definition couponBoxValues :: "(u32 \<times> u32) list" where
  "couponBoxValues =
     [(4305019, 1), (4305025, 1), (4305027, 2), (4305028, 3), (4305029, 4), (4305020, 5), (4305030, 6),
      (4305031, 7), (4305032, 8), (4305033, 9), (4305021, 10), (4305022, 15), (4305023, 20), (4305024, 25),
      (4305026, 30), (4305034, 40), (4305035, 50), (4305036, 100)]"

definition cashItemCallback :: "main_env \<Rightarrow> u32 \<Rightarrow> (sess_state \<Rightarrow> sess_state) option" where
  "cashItemCallback e i =
     (case map_of mpBoxValues i of
        Some v \<Rightarrow> Some (openCashBox e ITEM_MP i v)
      | None \<Rightarrow> (case map_of coinValues i of
          Some v \<Rightarrow> Some (openCashBox e ITEM_COIN i v)
        | None \<Rightarrow> map_option (openCashBox e ITEM_COUPON i) (map_of couponBoxValues i)))"

text \<open>The content of a box: items that are certain, and one of the others; \<open>pick\<close> chooses it.\<close>

definition itemSelectionAlgorithm :: "(u32 \<times> u32) list cdb \<Rightarrow> (nat \<Rightarrow> nat) \<Rightarrow> u32 \<Rightarrow> u32 list option" where
  "itemSelectionAlgorithm packages pick boxItemId =
     map_option (\<lambda>entries.
       let certain = map fst (filter (\<lambda>(i, prob). prob = 1000000) entries);
           others = map fst (filter (\<lambda>(i, prob). prob \<noteq> 1000000) entries)
       in certain @ (if others = [] then [] else [others ! pick (length others)]))
     (map_of packages boxItemId)"

definition open_step :: "main_env \<Rightarrow> ItemSerialInfo \<Rightarrow> u32 \<Rightarrow> sess_state \<times> u64 \<times> BoxItem list \<Rightarrow> sess_state \<times> u64 \<times> BoxItem list" where
  "open_step e box wonId = (\<lambda>(st, latest, items).
     case cashItemCallback e wonId of
       Some callback \<Rightarrow>
         (case session_deleteItem e box (ascii ''The item was deleted after being used (example: MP/coin/coupon items'') (callback st) of
            (removed, st) \<Rightarrow> (if removed then st else tell e ''Debug) Error while deleting opened cash item'' st, latest, items))
     | None \<Rightarrow>
         (st, latest + 1, items @ [let b = SpawnedItem_new e wonId in b\<lparr>sp_serialInfo := (sp_serialInfo b)\<lparr>si_itemNumber := ucast (latest + 1)\<rparr>\<rparr>]))"

definition handleGeneralItem :: "main_env \<Rightarrow> (u32 \<times> u32) list cdb \<Rightarrow> (nat \<Rightarrow> nat) \<Rightarrow> packet \<Rightarrow> sess_state \<Rightarrow> sess_state" where
  "handleGeneralItem e packages pick request st =
     (let box = parse_serial e 0 request; capsule = parse_serial e 8 request
      in case stored box (player_of st) of
           None \<Rightarrow> st
         | Some item \<Rightarrow>
             let itemId = ucast (iid_itemId (it_itemId item)) :: u32; si = it_serialInfo item
             in (case map_of (generalItemCallbacks e) itemId of
                   Some callback \<Rightarrow>
                     snd (session_deleteItem e si (ascii ''The item was deleted automatically after it was used (example: K/D reset item)'')
                       (on_sess (send (me_crypt e) (setCommand 102 1 1 0 request)) (callback st)))
                 | None \<Rightarrow>
                     if itemId \<in> set inMatchItemIds then snd (session_useInstantRespawn e si request st)
                     else (case itemSelectionAlgorithm packages pick itemId of
                             Some won \<Rightarrow>
                               (case fold (open_step e si) won (st, getLatestItemNumber (player_of st), []) of
                                  (st, _, items) \<Rightarrow> session_addItems_box e items box capsule (cmd_getExtra (m_command request)) st)
                           | None \<Rightarrow>
                               on_sess (sendMessage (me_crypt e)
                                 (ascii ''[handleGeneralItem] This item is not implemented yet. (ItemID: '' @ digits (unat itemId)) 1) st)))"

section \<open>Deleting\<close>

function delete_from :: "main_env \<Rightarrow> packet \<Rightarrow> nat \<Rightarrow> nat \<Rightarrow> sess_state \<Rightarrow> sess_state" where
  "delete_from e request amount i st =
     (if i < amount \<and> 4 + 8 * i + 8 \<le> length (m_data request)
      then delete_from e request amount (i + 1)
        (snd (session_deleteItem e (parse_serial e (4 + 8 * i) request) (ascii ''The item was deleted (either manually or it was expired)'') st))
      else st)"
  by pat_completeness auto
termination by (relation "measure (\<lambda>(e, request, amount, i, st). amount - i)") auto

declare delete_from.simps [simp del]

definition handleItemDelete :: "main_env \<Rightarrow> packet \<Rightarrow> sess_state \<Rightarrow> sess_state" where
  "handleItemDelete e request st = delete_from e request (unat (parse_u32 0 request)) 0 st"

text \<open>Selling, as the main server calls it: the price comes with the request.\<close>

definition handleItemRefund :: "main_env \<Rightarrow> packet \<Rightarrow> sess_state \<Rightarrow> sess_state" where
  "handleItemRefund e request st =
     (let raw = main_parseData (serial_bytes (ItemSerialInfo_default (me_now e)) @ replicate 4 0) 0 request
      in refundItem e (serial_of_bytes raw) (le_load (drop 8 raw)) st)"

end
