(* ===== verification/ShopProps.thy ===== *)
theory ShopProps
  imports Shop Stock
begin

text \<open>
  What the shop takes and gives: purchases are paid exactly, and the cases in which money or items
  are lost or come from nothing.
\<close>

section \<open>Buying\<close>

text \<open>The price of an item in one currency, and of a list of items.\<close>

definition price_in :: "game_db \<Rightarrow> ItemCurrencyType \<Rightarrow> 23 word \<Rightarrow> nat" where
  "price_in db t i = (case getItemPrice db (ucast i) of None \<Rightarrow> 0 | Some (t', n) \<Rightarrow> if t' = t then unat n else 0)"

definition cost :: "game_db \<Rightarrow> ItemCurrencyType \<Rightarrow> 23 word list \<Rightarrow> nat" where
  "cost db t ids = sum_list (map (price_in db t) ids)"

lemma cost_simps [simp]: "cost db t [] = 0" "cost db t (i # ids) = price_in db t i + cost db t ids"
  by (simp_all add: cost_def)

text \<open>The identifiers the request names; the offset of the shop is lost in the 23 bits.\<close>

definition wanted :: "packet \<Rightarrow> nat \<Rightarrow> 23 word" where
  "wanted request idx = ucast (parse_u32 (idx * 4) request)"

lemma ucast_23: "ucast ((ucast (x :: 23 word) :: u32) - 8388608) = x"
proof -
  have "uint x < 2 ^ 23" using unsigned_less [of x, where ?'a = int] by simp
  then have x: "take_bit 32 (uint x) = uint x" by (simp add: take_bit_eq_mod)
  have "take_bit 23 (uint x - 8388608) = uint x"
    using take_bit_diff [of 23 "uint x" 8388608] unsigned_less [of x, where ?'a = int] by (simp add: take_bit_eq_mod)
  moreover have "take_bit 23 (uint ((ucast x :: u32) - 8388608)) = take_bit 23 (uint x - 8388608)"
    using x by (simp add: uint_word_ariths unsigned_ucast_eq take_bit_word_eq_self take_bit_eq_mod mod_mod_cancel)
  ultimately show ?thesis by (simp add: word_uint_eq_iff unsigned_ucast_eq take_bit_word_eq_self)
qed

lemma bought_id: "iid_itemId (sp_itemId (BoughtItem_new e i b)) = ucast i"
proof -
  have "ucast (i AND 0x7FFFFF) = (ucast i :: 23 word)"
  proof -
    have m: "(0x7FFFFF :: u32) = mask 23" by (simp add: mask_eq_exp_minus_1)
    show ?thesis unfolding m by (rule bit_word_eqI) (auto simp: bit_ucast_iff bit_and_iff bit_mask_iff)
  qed
  then show ?thesis by (simp add: BoughtItem_new_def ItemId_new_def Let_def ucast_23)
qed

text \<open>Consecutive numbers after a given one.\<close>

primrec numbered :: "u64 \<Rightarrow> BoughtItem list \<Rightarrow> bool" where
  "numbered n [] \<longleftrightarrow> True"
| "numbered n (b # bs) \<longleftrightarrow> si_itemNumber (sp_serialInfo b) = ucast (n + 1) \<and> numbered (n + 1) bs"

lemma charge_price_cost:
  assumes "charge_price db msg (ucast i) (cur, spent) = Inr (cur', spent')"
  shows "unat (cur' t) + price_in db t i = unat (cur t)" "spent' t = spent t + (cur t - cur' t)"
proof -
  obtain t0 n where p: "getItemPrice db (ucast i) = Some (t0, n)" and n: "\<not> cur t0 < n"
    and r: "cur' = cur(t0 := cur t0 - n)" "spent' = spent(t0 := spent t0 + n)"
    using assms by (auto simp: charge_price_def split: option.splits if_splits)
  then show "unat (cur' t) + price_in db t i = unat (cur t)" "spent' t = spent t + (cur t - cur' t)"
    by (auto simp: price_in_def unat_sub not_less word_le_nat_alt)
qed

lemma buy_step_Inr:
  assumes "buy_step e request i ((cur, spent), latest, items) = Inr s"
  shows "\<exists>cur1 spent1. itemExistsInShop (me_game e) (ucast (wanted request i)) \<and>
    charge_price (me_game e) ''[handleBoughtItem] Item cost not found inside cdb files'' (ucast (wanted request i)) (cur, spent) = Inr (cur1, spent1) \<and>
    s = ((cur1, spent1), latest + 1, items @ [(BoughtItem_new e (parse_u32 (i * 4) request) False)
      \<lparr>sp_serialInfo := (sp_serialInfo (BoughtItem_new e (parse_u32 (i * 4) request) False))\<lparr>si_itemNumber := ucast (latest + 1)\<rparr>\<rparr>])"
  using assms by (auto simp: buy_step_def Let_def bought_id wanted_def split: if_splits sum.splits)

lemma buy_loop:
  "refusing (buy_step e request) is ((cur, spent), latest, items) = Inr ((cur', spent'), latest', items') \<Longrightarrow>
    (\<exists>bs. items' = items @ bs \<and> numbered latest bs \<and> map (\<lambda>b. iid_itemId (sp_itemId b)) bs = map (wanted request) is) \<and>
    (\<forall>i \<in> set is. itemExistsInShop (me_game e) (ucast (wanted request i)) \<and> getItemPrice (me_game e) (ucast (wanted request i)) \<noteq> None) \<and>
    unat (cur' t) + cost (me_game e) t (map (wanted request) is) = unat (cur t) \<and> spent' t = spent t + (cur t - cur' t)"
proof (induction "is" arbitrary: cur spent latest items)
  case (Cons i "is")
  let ?b = "BoughtItem_new e (parse_u32 (i * 4) request) False"
  let ?b' = "?b\<lparr>sp_serialInfo := (sp_serialInfo ?b)\<lparr>si_itemNumber := ucast (latest + 1)\<rparr>\<rparr>"
  obtain s1 where "buy_step e request i ((cur, spent), latest, items) = Inr s1"
    "refusing (buy_step e request) is s1 = Inr ((cur', spent'), latest', items')"
    using Cons.prems by (auto split: sum.splits)
  with buy_step_Inr obtain cur1 spent1 where s: "itemExistsInShop (me_game e) (ucast (wanted request i))"
    "charge_price (me_game e) ''[handleBoughtItem] Item cost not found inside cdb files'' (ucast (wanted request i)) (cur, spent) = Inr (cur1, spent1)"
    and r: "refusing (buy_step e request) is ((cur1, spent1), latest + 1, items @ [?b']) = Inr ((cur', spent'), latest', items')"
    by blast
  note IH = Cons.IH [OF r] and c = charge_price_cost [OF s(2), of t]
  from IH obtain bs where bs: "items' = (items @ [?b']) @ bs" "numbered (latest + 1) bs"
    "map (\<lambda>b. iid_itemId (sp_itemId b)) bs = map (wanted request) is" by blast
  have "items' = items @ (?b' # bs)" "numbered latest (?b' # bs)"
    "map (\<lambda>b. iid_itemId (sp_itemId b)) (?b' # bs) = map (wanted request) (i # is)" using bs by (simp_all add: bought_id wanted_def)
  moreover have "getItemPrice (me_game e) (ucast (wanted request i)) \<noteq> None"
    using s(2) by (auto simp: charge_price_def split: option.splits)
  ultimately show ?case using IH c s(1) by auto
qed simp

text \<open>Adding the bought items, and paying.\<close>

lemma addItems_stock:
  assumes "inventory_ok p" "numbered (getLatestItemNumber p) bs" "unat (getLatestItemNumber p) + length bs < 2 ^ 20"
  shows "stock_ids (addItems (map (Item_of_BoughtItem e) bs) p) = stock_ids p + mset (map (\<lambda>b. iid_itemId (sp_itemId b)) bs) \<and>
    only_stock p (addItems (map (Item_of_BoughtItem e) bs) p) \<and> inventory_ok (addItems (map (Item_of_BoughtItem e) bs) p)"
  using assms
proof (induction bs arbitrary: p)
  case (Cons b bs)
  let ?n = "getLatestItemNumber p + 1" and ?i = "Item_of_BoughtItem e b"
  have un: "unat ?n = unat (getLatestItemNumber p) + 1" using Cons.prems(3) by (simp add: unat_word_ariths)
  have "item_no ?i = ?n"
    using Cons.prems(2,3) un by (simp add: Item_of_BoughtItem_def Item_of_SpawnedItem_def word_unat_eq_iff)
  moreover have "unat (getLatestItemNumber p) + 1 < 2 ^ 20" using Cons.prems(3) by simp
  ultimately have a: "stock_ids (addItem ?i p) = add_mset (iid_itemId (it_itemId ?i)) (stock_ids p)"
    "only_stock p (addItem ?i p)" "inventory_ok (addItem ?i p)" "getLatestItemNumber (addItem ?i p) = ?n"
    using add_next [OF Cons.prems(1)] by blast+
  have "numbered (getLatestItemNumber (addItem ?i p)) bs" "unat (getLatestItemNumber (addItem ?i p)) + length bs < 2 ^ 20"
    using Cons.prems(2,3) by (simp_all add: a(4) un)
  note IH = Cons.IH [OF a(3) this]
  have "iid_itemId (it_itemId ?i) = iid_itemId (sp_itemId b)" by (simp add: Item_of_BoughtItem_def Item_of_SpawnedItem_def)
  then show ?case using IH a(1) only_stock_trans [OF a(2)] by (simp add: addItems_def)
qed (simp add: addItems_def)

abbreviation mp_owned :: "player \<Rightarrow> nat" where "mp_owned p \<equiv> unat (ai_microPoints (p_accountInfo p))"
abbreviation rt_owned :: "player \<Rightarrow> nat" where "rt_owned p \<equiv> unat (ai_rockTotens (p_accountInfo p))"

lemma pay_player:
  assumes "unat (spent ITEM_MP) \<le> mp_owned (player_of st)" "unat (spent ITEM_RT) \<le> rt_owned (player_of st)"
  shows "mp_owned (player_of (pay spent st)) = mp_owned (player_of st) - unat (spent ITEM_MP)"
    "rt_owned (player_of (pay spent st)) = rt_owned (player_of st) - unat (spent ITEM_RT)"
    "same_items (player_of st) (player_of (pay spent st))"
proof -
  have b: "mp_owned (player_of st) < 2 ^ 31" "rt_owned (player_of st) < 2 ^ 30"
    using unsigned_less [of "ai_microPoints (account_of st)", where ?'a = nat]
      unsigned_less [of "ai_rockTotens (account_of st)", where ?'a = nat] by (simp_all add: account_player)
  have l: "spent ITEM_MP \<le> mp_of st" "spent ITEM_RT \<le> rt_of st"
    using assms b by (simp_all add: word_le_nat_alt mp_of_def rt_of_def account_player)
  have d: "unat (mp_of st - spent ITEM_MP) = mp_owned (player_of st) - unat (spent ITEM_MP)"
    "unat (rt_of st - spent ITEM_RT) = rt_owned (player_of st) - unat (spent ITEM_RT)"
    using l b by (simp_all add: unat_sub mp_of_def rt_of_def account_player)
  then have s: "\<not> mp_of st - spent ITEM_MP > 0x7FFFFFFF" "\<not> rt_of st - spent ITEM_RT > 0x3FFFFFFF"
    using b by (simp_all add: word_less_nat_alt)
  let ?p = "on_account (\<lambda>a. a\<lparr>ai_microPoints := ucast (mp_of st - spent ITEM_MP)\<rparr>) (player_of st)"
  let ?st = "snd (session_setAccountMicroPoints (mp_of st - spent ITEM_MP) st)"
  have p: "player_of ?st = ?p" using s(1) by (simp add: setAccountMicroPoints_def)
  then have "rt_of ?st = rt_of st" by (simp add: rt_of_def account_player on_account_def)
  then have "player_of (pay spent st) = on_account (\<lambda>a. a\<lparr>ai_rockTotens := ucast (rt_of st - spent ITEM_RT)\<rparr>) ?p"
    using s(2) p by (simp add: pay_def Let_def session_setAccountRockTotens_def setAccountRockTotens_def run_player_def split_beta)
  then show "mp_owned (player_of (pay spent st)) = mp_owned (player_of st) - unat (spent ITEM_MP)"
    "rt_owned (player_of (pay spent st)) = rt_owned (player_of st) - unat (spent ITEM_RT)"
    "same_items (player_of st) (player_of (pay spent st))"
    using d b by (simp_all add: on_account_def same_items_def unsigned_ucast_eq take_bit_nat_eq_self)
qed

text \<open>When the shop sells: everything is on offer, has a price and can be paid, and there is room.\<close>

lemma no_coin_price: "price_in db ITEM_COIN i = 0"
  by (simp add: price_in_def getItemPrice_def split: option.split)

definition sells :: "main_env \<Rightarrow> player \<Rightarrow> 23 word list \<Rightarrow> bool" where
  "sells e p ids \<longleftrightarrow>
     ids \<noteq> [] \<and> (\<forall>i \<in> set ids. itemExistsInShop (me_game e) (ucast i) \<and> getItemPrice (me_game e) (ucast i) \<noteq> None) \<and>
     cost (me_game e) ITEM_MP ids \<le> mp_owned p \<and> cost (me_game e) ITEM_RT ids \<le> rt_owned p \<and>
     cost (me_game e) ITEM_COUPON ids = 0 \<and> hasEnoughInventorySpace (of_nat (length ids)) p"

lemma buy_succeeds:
  assumes "\<forall>i \<in> set is. itemExistsInShop (me_game e) (ucast (wanted request i)) \<and> getItemPrice (me_game e) (ucast (wanted request i)) \<noteq> None"
    and "\<And>t. cost (me_game e) t (map (wanted request) is) \<le> unat (cur t)"
  shows "\<exists>r. refusing (buy_step e request) is ((cur, spent), latest, items) = Inr r"
  using assms
proof (induction "is" arbitrary: cur spent latest items)
  case (Cons i "is")
  obtain t n where p: "getItemPrice (me_game e) (ucast (wanted request i)) = Some (t, n)" using Cons.prems(1) by auto
  let ?cur = "cur(t := cur t - n)"
  have "price_in (me_game e) t (wanted request i) = unat n" by (simp add: price_in_def p)
  then have n: "n \<le> cur t" using Cons.prems(2) [of t] by (simp add: word_le_nat_alt)
  then have c: "\<And>msg. charge_price (me_game e) msg (ucast (wanted request i)) (cur, spent) = Inr (?cur, spent(t := spent t + n))"
    by (simp add: charge_price_def p not_less)
  have "cost (me_game e) t' (map (wanted request) is) \<le> unat (?cur t')" for t'
    using Cons.prems(2) [of t'] charge_price_cost(1) [OF c, of t'] by simp
  with Cons.prems(1) have IH: "\<exists>r. refusing (buy_step e request) is ((?cur, spent(t := spent t + n)), l, bs) = Inr r" for l bs
    by (intro Cons.IH) simp_all
  show ?case using IH Cons.prems(1) c by (simp add: buy_step_def [of e request i] Let_def bought_id wanted_def [symmetric])
qed simp

lemma addItems_bought_player:
  "fst (session_addItems_bought e bs c st) = (bs \<noteq> [] \<and> hasEnoughInventorySpace (of_nat (length bs)) (player_of st))"
  "player_of (snd (session_addItems_bought e bs c st)) =
     (if bs \<noteq> [] \<and> hasEnoughInventorySpace (of_nat (length bs)) (player_of st)
      then addItems (map (Item_of_BoughtItem e) bs) (player_of st) else player_of st)"
  by (simp_all add: session_addItems_bought_def)

lemma refuse_player [simp]: "player_of (refuse e err st) = player_of st"
  by (simp add: refuse_def split: option.split)

text \<open>The loop over the request decides as \<open>sells\<close> does, up to the room.\<close>

lemma buy_loop_sells:
  fixes e request st
  defines "p \<equiv> player_of st" and "n \<equiv> option_of request"
  defines "ids \<equiv> map (wanted request) [0..<n]"
  defines "r \<equiv> refusing (buy_step e request) [0..<n] ((sessionCurrencyByType (account_of st), \<lambda>_. 0), getLatestItemNumber p, [])"
  shows "r = Inl err \<Longrightarrow> \<not> sells e p ids"
    "r = Inr ((cur', spent), l, bs) \<Longrightarrow> numbered (getLatestItemNumber p) bs \<and> map (\<lambda>b. iid_itemId (sp_itemId b)) bs = ids \<and>
       (\<forall>t. unat (spent t) = cost (me_game e) t ids) \<and>
       (sells e p ids \<longleftrightarrow> bs \<noteq> [] \<and> hasEnoughInventorySpace (of_nat (length bs)) p)"
proof -
  let ?cur = "sessionCurrencyByType (account_of st)"
  have cur: "unat (?cur ITEM_MP) = mp_owned p" "unat (?cur ITEM_RT) = rt_owned p" "?cur ITEM_COUPON = 0"
    using unsigned_less [of "ai_microPoints (account_of st)", where ?'a = nat]
      unsigned_less [of "ai_rockTotens (account_of st)", where ?'a = nat]
    by (simp_all add: sessionCurrencyByType_def account_player p_def)
  show "\<not> sells e p ids" if "r = Inl err"
  proof
    assume s: "sells e p ids"
    have "cost (me_game e) ITEM_COIN is = 0" for "is" by (induction "is") (simp_all add: no_coin_price)
    then have "cost (me_game e) t ids \<le> unat (?cur t)" for t
      using s cur by (cases t) (simp_all add: sells_def)
    then have "\<And>t. cost (me_game e) t (map (wanted request) [0..<n]) \<le> unat (?cur t)" by (simp only: ids_def)
    moreover have "\<forall>i \<in> set [0..<n]. itemExistsInShop (me_game e) (ucast (wanted request i)) \<and>
        getItemPrice (me_game e) (ucast (wanted request i)) \<noteq> None"
      using s by (simp add: sells_def ids_def)
    ultimately show False using buy_succeeds that unfolding r_def by (metis sum.distinct(1))
  qed
  show "numbered (getLatestItemNumber p) bs \<and> map (\<lambda>b. iid_itemId (sp_itemId b)) bs = ids \<and>
       (\<forall>t. unat (spent t) = cost (me_game e) t ids) \<and>
       (sells e p ids \<longleftrightarrow> bs \<noteq> [] \<and> hasEnoughInventorySpace (of_nat (length bs)) p)"
    if "r = Inr ((cur', spent), l, bs)"
  proof -
    note loop = buy_loop [OF that [unfolded r_def], folded ids_def]
    then have bs: "numbered (getLatestItemNumber p) bs" "map (\<lambda>b. iid_itemId (sp_itemId b)) bs = ids" by auto
    then have len: "length bs = length ids" "bs = [] \<longleftrightarrow> ids = []" by (metis length_map, metis map_is_Nil_conv)
    have c: "unat (cur' t) + cost (me_game e) t ids = unat (?cur t)" "spent t = ?cur t - cur' t" for t
      using loop [of t] by simp_all
    have "cur' t \<le> ?cur t" for t unfolding word_le_nat_alt using c(1) [of t] by linarith
    then have spent: "unat (spent t) = cost (me_game e) t ids" for t using c [of t] by (simp add: unat_sub)
    have "cost (me_game e) ITEM_MP ids \<le> mp_owned p" "cost (me_game e) ITEM_RT ids \<le> rt_owned p"
      "cost (me_game e) ITEM_COUPON ids = 0"
      using c(1) [of ITEM_MP] c(1) [of ITEM_RT] c(1) [of ITEM_COUPON] unfolding cur by simp_all
    moreover have "\<forall>i \<in> set ids. itemExistsInShop (me_game e) (ucast i) \<and> getItemPrice (me_game e) (ucast i) \<noteq> None"
      using loop by (auto simp: ids_def)
    ultimately show ?thesis using bs spent len by (auto simp: sells_def)
  qed
qed

section \<open>Properties\<close>

text \<open>C8: A purchase is all or nothing and paid exactly. The items of the request are bought when all
  of them are in the shop, their prices in micro points and in rock tokens do not exceed what the
  player has, none of them costs coupons, and there is room; then the stock gains exactly these items,
  the inventory stays consistent, and of each currency exactly the sum of the prices is taken.
  Otherwise nothing of the player changes.\<close>

theorem purchase_is_paid:
  assumes "cmd_getMission (m_command request) \<noteq> 1" "inventory_ok (player_of st)"
    and "unat (getLatestItemNumber (player_of st)) + option_of request < 2 ^ 20"
  shows "let p = player_of st; q = player_of (handleBoughtItem e request st);
      ids = map (wanted request) [0..<option_of request] in
    if sells e p ids
    then stock_ids q = stock_ids p + mset ids \<and> inventory_ok q \<and> slots q = slots p \<and>
      mp_owned q + cost (me_game e) ITEM_MP ids = mp_owned p \<and> rt_owned q + cost (me_game e) ITEM_RT ids = rt_owned p
    else q = p"
proof -
  let ?p = "player_of st" and ?ids = "map (wanted request) [0..<option_of request]"
  let ?r = "refusing (buy_step e request) [0..<option_of request] ((sessionCurrencyByType (account_of st), \<lambda>_. 0), getLatestItemNumber ?p, [])"
  show ?thesis
  proof (cases ?r)
    case (Inl err)
    then show ?thesis using assms(1) buy_loop_sells(1) [OF Inl] by (simp add: handleBoughtItem_def Let_def)
  next
    case (Inr x)
    obtain cur' spent l bs where x: "x = ((cur', spent), l, bs)" by (cases x) auto
    note loop = buy_loop_sells(2) [OF Inr [unfolded x]]
    obtain b st' where a: "session_addItems_bought e bs False st = (b, st')" by (metis surj_pair)
    have eq: "handleBoughtItem e request st = (if b then pay spent st' else st')"
      using assms(1) Inr by (simp add: handleBoughtItem_def Let_def x a split: bool.split)
    note f = addItems_bought_player [of e bs False st, unfolded a fst_conv snd_conv]
    show ?thesis
    proof (cases "sells e ?p ?ids")
      case False
      then have "b = False" "player_of st' = ?p" using f loop by auto
      then show ?thesis using False by (simp add: Let_def eq)
    next
      case True
      let ?q = "addItems (map (Item_of_BoughtItem e) bs) ?p"
      have b: b "player_of st' = ?q" using True f loop by auto
      have "map (\<lambda>b. iid_itemId (sp_itemId b)) bs = ?ids" using loop by blast
      then have "length bs = option_of request" by (metis length_map length_upt diff_zero)
      then have "unat (getLatestItemNumber ?p) + length bs < 2 ^ 20" using assms(3) by simp
      note i = addItems_stock [OF assms(2) conjunct1 [OF loop] this, of e]
      then have o: "slots ?q = slots ?p" "p_accountInfo ?q = p_accountInfo ?p" using only_stock_fields by blast+
      have "unat (spent ITEM_MP) \<le> mp_owned (player_of st')" "unat (spent ITEM_RT) \<le> rt_owned (player_of st')"
        using True loop by (simp_all add: b o sells_def)
      note pay = pay_player [OF this] and same = same_items_facts [OF pay_player(3) [OF this]]
      show ?thesis using True i loop by (simp add: Let_def eq b(1) pay same) (simp add: b o sells_def)
    qed
  qed
qed

text \<open>A shop with one rifle for 1000 micro points, for the witnesses.\<close>

definition shop_game :: game_db where
  "shop_game = demo_game\<lparr>cdb_items :=
     [(4310000, \<lparr>iw_buy_coupon = 0, iw_buy_cash = 0, iw_buy_point = 1000, iw_durable_value = 900, iw_immediately_set = False,
         iw_limited_time = 0, iw_type = 11, iw_stocks = 1, iw_effect_1 = 0, iw_effect_2 = 0, iw_effect_3 = 0,
         iw_tradeable = 1, iw_type_inven = 2, iw_name = [], iw_option = []\<rparr>)],
     cdb_shop := [4310000]\<rparr>"

definition shop_env :: main_env where
  "shop_env = \<lparr>me_crypt = Crypt_new [] [], me_game = shop_game, me_now = 0\<rparr>"

definition shop_request :: packet where
  "shop_request = packet_setOption 1 (setData (le_store 4 (4310000 :: u32)) packet_new)"

theorem purchase_is_paid_witness:
  "let q = player_of (handleBoughtItem shop_env shop_request (trader 10 20 (Player_new 0) [], [])) in
    stock_ids q = {#4310000#} \<and> mp_owned q = 19000"
proof -
  let ?p = "getPlayer (trader 10 20 (Player_new 0) [])"
  have r: "option_of shop_request = 1" "cmd_getMission (m_command shop_request) \<noteq> 1"
    "map (wanted shop_request) [0..<1] = [4310000]"
    by (simp_all add: shop_request_def option_of_def packet_setOption_def setData_def packet_new_def cmd_gets cmd_sets CommandHeader_default_def
        wanted_def parse_u32_def main_parseData_def)
  have f: "stock_ids ?p = {#}" "mp_owned ?p = 20000" "hasEnoughInventorySpace 1 ?p"
    by (simp_all add: stock_ids_def trader_def getPlayer_def Player_new_def hasEnoughInventorySpace_def)
  have c: "getItemPrice shop_game 4310000 = Some (ITEM_MP, 1000)" "itemExistsInShop shop_game 4310000"
    by (simp_all add: getItemPrice_def item_entry_def Cdb_getEntry_def shop_game_def itemExistsInShop_def)
  then have "sells shop_env ?p [4310000]" "cost shop_game ITEM_MP [4310000] = 1000"
    using f by (simp_all add: sells_def shop_env_def price_in_def)
  then show ?thesis
    using purchase_is_paid [of shop_request "(trader 10 20 (Player_new 0) [], [])" shop_env] r f inventory_new
    by (simp add: Let_def shop_env_def)
qed

lemma length_update: "k \<in> fst ` set al \<Longrightarrow> length (AList.update k v al) = length al"
  by (induction al) auto

lemma clear_number_empty: "si_itemNumber (eq_serialInfo w) = 0 \<Longrightarrow> clear_number w = w"
  by (cases w rule: EquippedItem.cases, cases "eq_serialInfo w" rule: ItemSerialInfo.cases) (simp add: clear_number_def)

text \<open>C29: Selling pays for nothing. A request to sell the item with the number 0, which no item has, is
  answered by the first empty slot of the worn items: the server takes it for a sold item and adds
  the amount the client names to the micro points, while the items stay as they are.\<close>

theorem refund_pays_for_nothing:
  assumes "inventory_ok (player_of st)" "si_itemNumber si = 0" "w \<in> set (slots (player_of st))" "\<not> worn w"
    and "mp_owned (player_of st) + unat mpToAdd < 2 ^ 31"
  shows "let p = player_of st; q = player_of (refundItem e si mpToAdd st) in
    p_itemsByItemNumber q = p_itemsByItemNumber p \<and> slots q = slots p \<and> mp_owned q = mp_owned p + unat mpToAdd"
proof -
  let ?p = "player_of st"
  have none: "stored si ?p = None"
    using assms(1,2) by (fastforce simp: stored_def inventory_ok_def map_of_eq_None_iff)
  have "find_slot si ?p \<noteq> None" using assms(2-4) by (auto simp: find_slot_def find_index_None worn_def)
  then obtain n where n: "find_slot si ?p = Some n" by blast
  then have "n < length (slots ?p)" "si_itemNumber (eq_serialInfo (slots ?p ! n)) = 0"
    using find_index_Some assms(2) by (auto simp: find_slot_def)
  then have "update_slot n clear_number ?p = ?p" by (simp add: update_slot_def clear_number_empty)
  then have d: "deleteItemBasic si ?p = (True, ?p)" by (simp add: deleteItemBasic_def none n)
  obtain b st1 where x: "session_deleteItemBasic si st = (b, st1)" by (metis surj_pair)
  then have st1: "b" "player_of st1 = ?p"
    using d by (auto simp: session_deleteItemBasic_def run_player_def split_beta split: bool.splits)
  have mp: "unat (ucast (ai_microPoints (p_accountInfo ?p)) + mpToAdd :: u32) = mp_owned ?p + unat mpToAdd"
    using assms(5) by (simp add: unat_word_ariths)
  have "player_of (refundItem e si mpToAdd st) =
      on_account (\<lambda>a. a\<lparr>ai_microPoints := ucast (ucast (ai_microPoints (p_accountInfo ?p)) + mpToAdd :: u32)\<rparr>) ?p"
    using st1 mp assms(5) by (simp add: refundItem_def Let_def x mp_of_def account_player setAccountMicroPoints_def word_less_nat_alt
        split: option.split)
  then show ?thesis using mp assms(5) by (simp add: Let_def on_account_def unsigned_ucast_eq take_bit_nat_eq_self)
qed

theorem refund_pays_for_nothing_witness:
  "mp_owned (player_of (refundItem demo_env (ItemSerialInfo_default 0) 7000 (trader 10 20 (Player_new 0) [], []))) = 27000"
proof -
  let ?p = "getPlayer (trader 10 20 (Player_new 0) [])"
  have w: "EquippedItem_default 0 \<in> set (slots ?p)" "\<not> worn (EquippedItem_default 0)" "mp_owned ?p = 20000"
    "si_itemNumber (ItemSerialInfo_default 0) = 0"
    by (simp_all add: trader_def getPlayer_def Player_new_def MAX_ITEMTYPE_def MAX_CHARACTERS_def EquippedItem_default_def
        ItemSerialInfo_default_def worn_def)
  show ?thesis
    using refund_pays_for_nothing [where st = "(trader 10 20 (Player_new 0) [], [])" and si = "ItemSerialInfo_default 0"
        and w = "EquippedItem_default 0" and e = demo_env and mpToAdd = 7000] inventory_new w
    by (simp add: Let_def)
qed

text \<open>C30: Coupons are taken before the room is tested. A player with enough coupons and no room pays the
  whole price in coupons and gets nothing.\<close>

theorem coupons_lost_without_room:
  assumes "refusing (coupon_step e request) [0..<option_of request] (0, getLatestItemNumber (player_of st), []) = Inr (spent, latest, items)"
    and "find_coupon (player_of st) = Some (k, coupon)" "spent < ucast (iid_stock (it_itemId coupon))"
    and "\<not> hasEnoughInventorySpace (of_nat (length items)) (player_of st)"
  shows "\<exists>rest. player_of (handleCouponBoughtItem e request st) = put_item k (set_stock rest coupon) (player_of st) \<and>
    unat rest + unat spent = unat (iid_stock (it_itemId coupon))"
proof -
  let ?p = "player_of st" and ?stock = "iid_stock (it_itemId coupon)"
  let ?rest = "ucast (ucast ?stock - spent :: u32) :: 9 word"
  let ?q = "put_item k (set_stock ?rest coupon) ?p"
  have b: "unat (ucast ?stock :: u32) = unat ?stock" "unat ?stock < 2 ^ 9"
    using unsigned_less [of ?stock, where ?'a = nat] by (simp_all add: unsigned_ucast_eq take_bit_nat_eq_self)
  then have "unat (ucast ?stock - spent :: u32) = unat ?stock - unat spent" "unat spent < unat ?stock"
    using assms(3) by (simp_all add: unat_sub word_le_nat_alt word_less_nat_alt)
  then have rest: "unat ?rest + unat spent = unat ?stock" using b(2) by (simp add: unsigned_ucast_eq take_bit_nat_eq_self)
  have r: "tryRemoveCoupons (me_now e) spent ?p = ((COUPON_ITEM_STOCKS_REDUCED_SUCCESS, ucast ?rest, it_serialInfo coupon), ?q)"
    using assms(2,3) by (auto simp: tryRemoveCoupons_def Let_def)
  obtain b1 st1 where t: "session_tryRemoveCoupons e spent st = (b1, st1)" by (metis surj_pair)
  then have st1: "b1" "player_of st1 = ?q"
    using r by (auto simp: session_tryRemoveCoupons_def run_player_def split_beta)
  have "k \<in> keys ?p" using assms(2) by (force simp: find_coupon_def find_Some_iff in_set_conv_nth)
  then have "length (p_itemsByItemNumber ?q) = length (p_itemsByItemNumber ?p)" by (simp add: put_item_def length_update)
  then have "\<not> hasEnoughInventorySpace (of_nat (length items)) (player_of st1)"
    using assms(4) by (simp add: hasEnoughInventorySpace_def st1 put_item_def)
  then have "player_of (handleCouponBoughtItem e request st) = ?q"
    using st1 addItems_bought_player [of e items True st1]
    by (simp add: handleCouponBoughtItem_def assms(1) Let_def t split_beta)
  then show ?thesis using rest by blast
qed

text \<open>A customer with ten coupons and no room, in a shop that takes five of them.\<close>

definition coupon_game :: game_db where
  "coupon_game = shop_game\<lparr>cdb_items := map (\<lambda>(i, w). (i, w\<lparr>iw_buy_coupon := 5\<rparr>)) (cdb_items shop_game)\<rparr>"

definition demo_coupon :: Item where
  "demo_coupon = demo_rifle\<lparr>it_itemId := \<lparr>iid_itemId = 1000000, iid_stock = 10\<rparr>\<rparr>"

definition full_customer :: main_session where
  "full_customer = on_player (on_account (\<lambda>a. a\<lparr>ai_inventorySpace := 1\<rparr>)) (trader 10 20 (addItem demo_coupon (Player_new 0)) [])"

theorem coupons_lost_without_room_witness:
  "\<exists>rest. player_of (handleCouponBoughtItem (shop_env\<lparr>me_game := coupon_game\<rparr>) shop_request (full_customer, [])) =
     put_item 7 (set_stock rest demo_coupon) (getPlayer full_customer) \<and> unat rest = 5"
proof -
  let ?e = "shop_env\<lparr>me_game := coupon_game\<rparr>" and ?p = "getPlayer full_customer"
  have items: "p_itemsByItemNumber ?p = [(7, demo_coupon)]" and room: "\<not> hasEnoughInventorySpace 1 ?p"
    by (simp_all add: full_customer_def trader_def getPlayer_def on_player_def on_account_def addItem_def Player_new_def
        demo_coupon_def demo_rifle_def hasEnoughInventorySpace_def)
  have r: "option_of shop_request = 1" "parse_u32 0 shop_request = 4310000"
    by (simp_all add: shop_request_def option_of_def packet_setOption_def setData_def packet_new_def cmd_gets cmd_sets
        CommandHeader_default_def parse_u32_def main_parseData_def)
  have g: "getItemPrice coupon_game 4310000 = Some (ITEM_COUPON, 5)" "itemExistsInShop coupon_game 4310000"
    by (simp_all add: getItemPrice_def item_entry_def Cdb_getEntry_def coupon_game_def shop_game_def itemExistsInShop_def)
  obtain b where "refusing (coupon_step ?e shop_request) [0..<option_of shop_request] (0, getLatestItemNumber ?p, []) =
      Inr (5, getLatestItemNumber ?p + 1, [b])"
    using r g by (simp add: coupon_step_def Let_def)
  moreover have "find_coupon ?p = Some (7, demo_coupon)" by (simp add: find_coupon_def items demo_coupon_def COUPON_ID_def)
  ultimately show ?thesis
    using coupons_lost_without_room [where e = ?e and request = shop_request and st = "(full_customer, [])" and k = 7
        and coupon = demo_coupon and spent = 5] room
    by (fastforce simp: demo_coupon_def)
qed

end
