(* ===== verification/Clans.thy ===== *)
theory Clans
  imports MainRoom
begin

text \<open>
  The parties of a clan that waits for a clan match, \<open>MainServer/include/Classes/ClanRoom.h\<close>, and
  their table by clan, \<open>MainServer/include/Classes/ClansManager.h\<close>. A party has weak pointers to its
  players, the leader at index 0. Reserved fields of the packed structures, which stay 0, are
  written out only where a structure is sent. The unordered map is an association list in
  iteration order; a pointer to a party is the position of the party in the vector of its clan.
\<close>

section \<open>Data\<close>

definition MAPS_MAX :: u16 where "MAPS_MAX = 51"
definition CLANMODES_MAX :: u16 where "CLANMODES_MAX = 20"
definition maxPartiesPerClan :: nat where "maxPartiesPerClan = 4"
definition maxClanRooms :: nat where "maxClanRooms = 30"
definition ChatExtra_HELP :: u32 where "ChatExtra_HELP = 1"
definition ChatExtra_TIP :: u32 where "ChatExtra_TIP = 12"

record PartyInfo =
  pi_clanRoomId :: u16
  pi_clanRoomNumber :: u16
  pi_numPlayers :: "4 word"
  pi_maxPlayers :: "4 word"
  pi_hasMatchStarted :: "1 word"
  pi_leaderLevel :: "7 word"
  pi_leaderName :: bytes

definition PartyInfo_bytes :: "PartyInfo \<Rightarrow> bytes" where
  "PartyInfo_bytes i =
     le_store 2 (pi_clanRoomId i) @ le_store 2 (pi_clanRoomNumber i) @
     le_store 4 (ucast (pi_numPlayers i) OR push_bit 4 (ucast (pi_maxPlayers i)) OR
       push_bit 10 (ucast (pi_hasMatchStarted i)) OR push_bit 13 (ucast (pi_leaderLevel i)) :: u32) @ pi_leaderName i"

record PartyPlayerInfo =
  ppi_uid :: UniqueId
  ppi_level :: "7 word"
  ppi_clanContribution :: "22 word"
  ppi_totalClanWins :: "23 word"
  ppi_totalClanLosses :: "23 word"
  ppi_totalClanDraws :: "14 word"
  ppi_nickname :: bytes

definition party_record_bytes :: "PartyPlayerInfo \<Rightarrow> bytes" where
  "party_record_bytes i =
     le_store 4 (ucast (ppi_level i) OR push_bit 10 (ucast (ppi_clanContribution i)) :: u32) @
     le_store 8 (ucast (ppi_totalClanWins i) OR push_bit 23 (ucast (ppi_totalClanLosses i)) OR
       push_bit 46 (ucast (ppi_totalClanDraws i)) :: u64)"

definition PartyPlayerInfo_bytes :: "PartyPlayerInfo \<Rightarrow> bytes" where
  "PartyPlayerInfo_bytes i = uid_bytes (ppi_uid i) @ party_record_bytes i @ ppi_nickname i"

text \<open>The structure for a joining player has the same fields with the name in front.\<close>

definition JoinPartyInfo_bytes :: "PartyPlayerInfo \<Rightarrow> bytes" where
  "JoinPartyInfo_bytes i = ppi_nickname i @ uid_bytes (ppi_uid i) @ party_record_bytes i"

record ClanRoomSettings =
  crs_mode :: "5 word"
  crs_playersPerTeam :: "3 word"
  crs_map :: "7 word"

definition ClanRoomSettings_bytes :: "ClanRoomSettings \<Rightarrow> bytes" where
  "ClanRoomSettings_bytes s =
     le_store 4 (ucast (crs_mode s) OR push_bit 5 (ucast (crs_playersPerTeam s)) OR push_bit 9 (ucast (crs_map s)) :: u32) @
     replicate 16 0"

text \<open>The settings as the client sends them: 4 unknown bits, the mode and the map.\<close>

definition ClanRoomSettings_of_request :: "u16 \<Rightarrow> ClanRoomSettings" where
  "ClanRoomSettings_of_request w =
     \<lparr>crs_mode = ucast (drop_bit 4 w), crs_playersPerTeam = 0, crs_map = ucast (drop_bit 9 w)\<rparr>"

record RegisteredClanInfo =
  rci_clanRoomId :: u16
  rci_clanRoomNumber :: u16
  rci_mode :: "5 word"
  rci_maxPlayers :: "5 word"
  rci_map :: "7 word"
  rci_level :: "7 word"
  rci_clanLogoFrontId :: "15 word"
  rci_clanLogoFrontIdLastBit :: "1 word"
  rci_clanLogoBackId :: u16
  rci_clanName :: bytes
  rci_leaderName :: bytes

definition RegisteredClanInfo_bytes :: "RegisteredClanInfo \<Rightarrow> bytes" where
  "RegisteredClanInfo_bytes i =
     le_store 8 (ucast (rci_clanRoomId i) OR push_bit 16 (ucast (rci_clanRoomNumber i)) OR push_bit 36 (ucast (rci_mode i)) OR
       push_bit 44 (ucast (rci_maxPlayers i)) OR push_bit 49 (ucast (rci_map i)) OR push_bit 56 (ucast (rci_level i)) OR
       push_bit 63 (ucast (rci_clanLogoFrontIdLastBit i)) :: u64) @
     le_store 4 (ucast (rci_clanLogoFrontId i) OR push_bit 15 (ucast (rci_clanLogoBackId i)) :: u32) @
     rci_clanName i @ rci_leaderName i"

type_synonym party_entry = "PartyPlayerInfo \<times> mref"

record ClanRoom =
  cr_settings :: ClanRoomSettings
  cr_partyInfo :: PartyInfo
  cr_isRegistered :: bool
  cr_waitingPlayers :: "party_entry list"
  cr_team :: u32

type_synonym party_state = "mheap \<times> ClanRoom"

section \<open>Members\<close>

definition waiting_info :: "main_session \<Rightarrow> PartyPlayerInfo" where
  "waiting_info s =
     (let a = getAccountInfo s
      in \<lparr>ppi_uid = ai_uniqueId a, ppi_level = ai_playerLevel a, ppi_clanContribution = ucast (ai_clanContribution a),
          ppi_totalClanWins = ai_clanWins a, ppi_totalClanLosses = ai_clanLosses a, ppi_totalClanDraws = ucast (ai_clanDraws a),
          ppi_nickname = ai_nickname a\<rparr>)"

definition ClanRoom_new :: "mref \<Rightarrow> main_session \<Rightarrow> u16 \<Rightarrow> ClanRoomSettings \<Rightarrow> mheap \<Rightarrow> party_state" where
  "ClanRoom_new r s clanRoomNumber settings h =
     (let a = getAccountInfo s
      in (h(r \<mapsto> session_setClanRoomNumber clanRoomNumber s),
          \<lparr>cr_settings = settings,
           cr_partyInfo = \<lparr>pi_clanRoomId = ucast (ai_clanId a), pi_clanRoomNumber = clanRoomNumber, pi_numPlayers = 1,
             pi_maxPlayers = 8, pi_hasMatchStarted = 0, pi_leaderLevel = ai_playerLevel a, pi_leaderName = ai_nickname a\<rparr>,
           cr_isRegistered = False, cr_waitingPlayers = [(waiting_info s, r)], cr_team = TEAM_ALL\<rparr>))"

definition on_party_info :: "(PartyInfo \<Rightarrow> PartyInfo) \<Rightarrow> ClanRoom \<Rightarrow> ClanRoom" where
  "on_party_info f C = C\<lparr>cr_partyInfo := f (cr_partyInfo C)\<rparr>"

definition ClanRoom_getRoomNumber :: "ClanRoom \<Rightarrow> u16" where
  "ClanRoom_getRoomNumber C = pi_clanRoomNumber (cr_partyInfo C)"

definition ClanRoom_getClanId :: "ClanRoom \<Rightarrow> u16" where
  "ClanRoom_getClanId C = pi_clanRoomId (cr_partyInfo C)"

definition ClanRoom_addPlayer :: "mref \<Rightarrow> main_session \<Rightarrow> party_state \<Rightarrow> party_state" where
  "ClanRoom_addPlayer r s = (\<lambda>(h, C).
     (h(r \<mapsto> session_setClanRoomNumber (ClanRoom_getRoomNumber C) s),
      on_party_info (\<lambda>i. i\<lparr>pi_numPlayers := pi_numPlayers i + 1\<rparr>)
        (C\<lparr>cr_waitingPlayers := cr_waitingPlayers C @ [(waiting_info s, r)]\<rparr>)))"

text \<open>The loops over the live players.\<close>

definition broadcastToWaitingPlayers :: "crypt \<Rightarrow> packet \<Rightarrow> ClanRoom \<Rightarrow> mheap \<Rightarrow> mheap" where
  "broadcastToWaitingPlayers c pkt C = for_live (\<lambda>_ _. True) (send c pkt) (cr_waitingPlayers C)"

definition broadcastMessageToWaitingPlayers :: "crypt \<Rightarrow> bytes \<Rightarrow> ClanRoom \<Rightarrow> mheap \<Rightarrow> mheap" where
  "broadcastMessageToWaitingPlayers c msg C =
     for_live (\<lambda>_ _. True) (sendMessage c msg ChatExtra_TIP) (cr_waitingPlayers C)"

definition broadcastChatMessage :: "crypt \<Rightarrow> bytes \<Rightarrow> ClanRoom \<Rightarrow> mheap \<Rightarrow> mheap" where
  "broadcastChatMessage c msg C =
     for_live (\<lambda>_ _. True) (sendMessage c msg ChatExtra_HELP) (cr_waitingPlayers C)"

definition broadcastToWaitingPlayersExceptSelf :: "crypt \<Rightarrow> packet \<Rightarrow> u16 \<Rightarrow> ClanRoom \<Rightarrow> mheap \<Rightarrow> mheap" where
  "broadcastToWaitingPlayersExceptSelf c pkt sessionId C =
     for_live (\<lambda>i _. uid_session (ppi_uid i) \<noteq> sessionId) (send c pkt) (cr_waitingPlayers C)"

definition updatePartyStatus :: "crypt \<Rightarrow> bool \<Rightarrow> party_state \<Rightarrow> party_state" where
  "updatePartyStatus c hasStarted = (\<lambda>(h, C).
     (broadcastMessageToWaitingPlayers c (ascii ''Match Started: '' @ digits (if hasStarted then 1 else 0)) C h,
      on_party_info (\<lambda>i. i\<lparr>pi_hasMatchStarted := if hasStarted then 1 else 0\<rparr>)
        (if hasStarted then C\<lparr>cr_isRegistered := False\<rparr> else C)))"

definition party_removed_packet :: packet where
  "party_removed_packet = setCommand 111 0 1 0 (setTcpHeader 0 0 packet_new)"

definition ClanRoom_removeAllPlayers :: "crypt \<Rightarrow> party_state \<Rightarrow> party_state" where
  "ClanRoom_removeAllPlayers c = (\<lambda>(h, C).
     (for_live (\<lambda>_ _. True) (\<lambda>s. session_setClanRoomNumber 0 (send c party_removed_packet s)) (cr_waitingPlayers C) h,
      on_party_info (\<lambda>i. i\<lparr>pi_numPlayers := 0\<rparr>) (C\<lparr>cr_waitingPlayers := []\<rparr>)))"

text \<open>A live player whose account has the session number.\<close>

definition waits_as :: "mheap \<Rightarrow> u32 \<Rightarrow> party_entry \<Rightarrow> bool" where
  "waits_as h sessionId e = (case h (snd e) of None \<Rightarrow> False | Some s \<Rightarrow> ucast (uid_session (uid_of s)) = sessionId)"

definition getPlayerIndex :: "u32 \<Rightarrow> party_state \<Rightarrow> nat option" where
  "getPlayerIndex sessionId = (\<lambda>(h, C). find_index (waits_as h sessionId) (cr_waitingPlayers C))"

definition getLeaderSession :: "party_state \<Rightarrow> main_session option" where
  "getLeaderSession = (\<lambda>(h, C). case cr_waitingPlayers C of [] \<Rightarrow> None | e # _ \<Rightarrow> h (snd e))"

definition isLeader :: "u16 \<Rightarrow> party_state \<Rightarrow> bool" where
  "isLeader sessionId st =
     (case getLeaderSession st of None \<Rightarrow> False | Some s \<Rightarrow> uid_session (uid_of s) = sessionId)"

definition canRegister :: "ClanRoom \<Rightarrow> bool" where
  "canRegister C \<longleftrightarrow> length (cr_waitingPlayers C) \<ge> unat (pi_maxPlayers (cr_partyInfo C))"

definition ClanRoom_isFull :: "ClanRoom \<Rightarrow> bool" where
  "ClanRoom_isFull C \<longleftrightarrow> pi_numPlayers (cr_partyInfo C) \<ge> pi_maxPlayers (cr_partyInfo C)"

section \<open>The leader\<close>

definition changeLeaderTo :: "crypt \<Rightarrow> u16 \<Rightarrow> party_state \<Rightarrow> bool \<times> party_state" where
  "changeLeaderTo c idx = (\<lambda>(h, C).
     if idx = 0 \<or> unat idx \<ge> length (cr_waitingPlayers C) then (False, h, C)
     else case h (snd (cr_waitingPlayers C ! unat idx)) of
       None \<Rightarrow> (False, broadcastMessageToWaitingPlayers c
           (ascii ''Can't change leader: selected session is no longer valid - please report this issue'') C h, C)
     | Some s \<Rightarrow>
         let h = broadcastMessageToWaitingPlayers c (ascii ''Leader changed to: '' @ name_of s) C h;
             waiting = swap_at 0 (unat idx) (cr_waitingPlayers C);
             leader = fst (waiting ! 0)
         in (True, h, on_party_info (\<lambda>i. i\<lparr>pi_leaderLevel := ppi_level leader, pi_leaderName := ppi_nickname leader\<rparr>)
               (C\<lparr>cr_waitingPlayers := waiting\<rparr>)))"

definition changeLeaderToFirstAvailable :: "crypt \<Rightarrow> party_state \<Rightarrow> (bytes + nat) \<times> party_state" where
  "changeLeaderToFirstAvailable c = (\<lambda>(h, C).
     if length (cr_waitingPlayers C) \<le> 1 then (Inr 0, h, C)
     else case find_index (\<lambda>e. h (snd e) \<noteq> None) (drop 1 (cr_waitingPlayers C)) of
       None \<Rightarrow> (Inl (ascii ''No valid leader found''), h, C)
     | Some k \<Rightarrow>
         (case changeLeaderTo c (of_nat (k + 1)) (h, C) of
            (False, st) \<Rightarrow> (Inl (ascii ''Failed to change leader to index '' @ digits (k + 1)), st)
          | (True, st) \<Rightarrow> (Inr (k + 1), st)))"

definition leader_packet :: "nat \<Rightarrow> packet" where
  "leader_packet idx = setCommand 114 0 0 (of_nat idx) (setTcpHeader 0 0 packet_new)"

text \<open>
  The result of a failed change is dereferenced; \<open>None\<close> is that undefined behaviour.
\<close>

definition changeLeaderIfLeader :: "crypt \<Rightarrow> u16 \<Rightarrow> party_state \<Rightarrow> party_state option" where
  "changeLeaderIfLeader c sessionId st =
     (if isLeader sessionId st
      then case changeLeaderToFirstAvailable c st of
             (Inl _, h, C) \<Rightarrow> None
           | (Inr idx, h, C) \<Rightarrow>
               Some (if idx \<noteq> 0 then broadcastToWaitingPlayers c (leader_packet idx) C h else h, C)
      else Some st)"

text \<open>Whether the party must be closed, or \<open>None\<close> when the player could not be removed.\<close>

definition drop_waiting :: "crypt \<Rightarrow> u32 \<Rightarrow> party_state \<Rightarrow> bool option \<times> party_state" where
  "drop_waiting c sessionId = (\<lambda>(h, C).
     case find_index (waits_as h sessionId) (cr_waitingPlayers C) of
       None \<Rightarrow> (None, broadcastMessageToWaitingPlayers c (ascii ''Player to be removed was NOT found in the room [2]'') C h, C)
     | Some i \<Rightarrow>
         let r = snd (cr_waitingPlayers C ! i);
             h = (case h r of None \<Rightarrow> h | Some s \<Rightarrow> h(r \<mapsto> session_setClanRoomNumber 0 s));
             C = C\<lparr>cr_waitingPlayers := erase_at i (cr_waitingPlayers C)\<rparr>;
             (h, C) = (if pi_numPlayers (cr_partyInfo C) \<noteq> 0
                       then (h, on_party_info (\<lambda>i. i\<lparr>pi_numPlayers := pi_numPlayers i - 1\<rparr>) C)
                       else (broadcastMessageToWaitingPlayers c (ascii ''Failed to decrement m_partyInfo.numPlayers'') C h, C))
         in if cr_waitingPlayers C = [] then (Some True, h, on_party_info (\<lambda>i. i\<lparr>pi_numPlayers := 0\<rparr>) C)
            else (Some False, h, C))"

definition ClanRoom_removePlayer :: "crypt \<Rightarrow> u16 \<Rightarrow> party_state \<Rightarrow> bool option \<times> party_state" where
  "ClanRoom_removePlayer c sessionId = (\<lambda>(h, C).
     case find_index (waits_as h (ucast sessionId)) (cr_waitingPlayers C) of
       None \<Rightarrow> (None, broadcastMessageToWaitingPlayers c (ascii ''Player to be removed was NOT found in the room [1]'') C h, C)
     | Some i \<Rightarrow>
         (case h (snd (cr_waitingPlayers C ! i)) of
            None \<Rightarrow> (None, broadcastMessageToWaitingPlayers c (ascii ''Player session expired before removal [1]'') C h, C)
          | Some s \<Rightarrow>
              let sessionToRemove = ucast (uid_session (uid_of s))
              in if isLeader sessionId (h, C)
                 then case changeLeaderToFirstAvailable c (h, C) of
                        (Inl _, h, C) \<Rightarrow>
                          (None, broadcastMessageToWaitingPlayers c (ascii ''newLeaderIdxOpt nullopt -- New leader NOT chosen'') C h, C)
                      | (Inr idx, h, C) \<Rightarrow>
                          drop_waiting c sessionToRemove
                            (if idx \<noteq> 0 then broadcastToWaitingPlayers c (leader_packet idx) C h else h, C)
                 else drop_waiting c sessionToRemove (h, C)))"

section \<open>Settings\<close>

definition ClanRoom_updateMap :: "u16 \<Rightarrow> ClanRoom \<Rightarrow> ClanRoom" where
  "ClanRoom_updateMap m C = (if m \<ge> MAPS_MAX then C else C\<lparr>cr_settings := (cr_settings C)\<lparr>crs_map := ucast m\<rparr>\<rparr>)"

definition ClanRoom_updateMode :: "u16 \<Rightarrow> ClanRoom \<Rightarrow> ClanRoom" where
  "ClanRoom_updateMode m C = (if m \<ge> CLANMODES_MAX then C else C\<lparr>cr_settings := (cr_settings C)\<lparr>crs_mode := ucast m\<rparr>\<rparr>)"

definition updatePlayersPerTeam :: "u16 \<Rightarrow> ClanRoom \<Rightarrow> ClanRoom" where
  "updatePlayersPerTeam playersPerTeam C =
     on_party_info (\<lambda>i. i\<lparr>pi_maxPlayers := ucast playersPerTeam\<rparr>)
       (C\<lparr>cr_settings := (cr_settings C)\<lparr>crs_playersPerTeam := ucast playersPerTeam\<rparr>\<rparr>)"

definition ClanRoom_getRoomSettings :: "ClanRoom \<Rightarrow> RoomSettings" where
  "ClanRoom_getRoomSettings C =
     (let s = cr_settings C
      in \<lparr>rs_time = if ucast (crs_mode s) = Clan_TeamDeathMatch then 10 else 2, rs_weaponRestriction = 7, rs_isItemOn = 0,
          rs_mode = crs_mode s, rs_isOpen = 0, rs_hasPassword = 0, rs_playersPerTeam = ucast (crs_playersPerTeam s),
          rs_map = crs_map s, rs_isObserverModeOn = 0\<rparr>)"

definition ClanRoom_getSpecificSetting :: "ClanRoom \<Rightarrow> u32" where
  "ClanRoom_getSpecificSetting C = (if ucast (crs_mode (cr_settings C)) = Clan_TeamDeathMatch then 80 else 5)"

definition switchRegistered :: "ClanRoom \<Rightarrow> ClanRoom" where
  "switchRegistered C = C\<lparr>cr_isRegistered := \<not> cr_isRegistered C\<rparr>"

definition getWaitingPlayerSessions :: "party_state \<Rightarrow> mref list" where
  "getWaitingPlayerSessions = (\<lambda>(h, C). map snd (filter (\<lambda>e. h (snd e) \<noteq> None) (cr_waitingPlayers C)))"

definition ClanRoom_getInfo :: "party_state \<Rightarrow> RegisteredClanInfo option" where
  "ClanRoom_getInfo st =
     (let C = snd st
      in case getLeaderSession st of
           None \<Rightarrow> None
         | Some s \<Rightarrow>
             (let a = getAccountInfo s; front = ai_clanLogoFrontId a
              in Some \<lparr>rci_clanRoomId = ClanRoom_getClanId C, rci_clanRoomNumber = ClanRoom_getRoomNumber C,
                   rci_mode = crs_mode (cr_settings C), rci_maxPlayers = ucast ((ucast (crs_playersPerTeam (cr_settings C)) :: u32) * 2),
                   rci_map = crs_map (cr_settings C), rci_level = ai_playerLevel a,
                   rci_clanLogoFrontId = ucast (drop_bit 1 front AND 0x7FFF), rci_clanLogoFrontIdLastBit = ucast (front AND 1),
                   rci_clanLogoBackId = ucast (ai_clanLogoBackId a), rci_clanName = ai_clanName a, rci_leaderName = ai_nickname a\<rparr>))"

text \<open>What is stored for the clan after a match, from the two scores.\<close>

definition storeStats :: "u32 \<Rightarrow> u32 \<Rightarrow> ClanRoom \<Rightarrow> u16 \<times> MatchEnd" where
  "storeStats blueScore redScore C =
     (ClanRoom_getClanId C,
      if (blueScore > redScore \<and> cr_team C = TEAM_BLUE) \<or> (redScore > blueScore \<and> cr_team C = TEAM_RED) then MATCH_WON
      else if (blueScore > redScore \<and> cr_team C = TEAM_RED) \<or> (redScore > blueScore \<and> cr_team C = TEAM_BLUE) then MATCH_LOST
      else MATCH_DRAW)"

section \<open>The table of parties\<close>

type_synonym clans = "(u16 \<times> ClanRoom list) list"

definition getRoomsFor :: "u16 \<Rightarrow> clans \<Rightarrow> ClanRoom list option" where
  "getRoomsFor clanId cm = map_of cm clanId"

definition ClansManager_addRoom :: "ClanRoom \<Rightarrow> clans \<Rightarrow> clans" where
  "ClansManager_addRoom C cm =
     (let clanId = ClanRoom_getClanId C
      in AList.update clanId ((case getRoomsFor clanId cm of None \<Rightarrow> [] | Some rooms \<Rightarrow> rooms) @ [C]) cm)"

definition exact_index :: "u16 \<Rightarrow> ClanRoom list \<Rightarrow> nat option" where
  "exact_index roomNumber = find_index (\<lambda>C. ClanRoom_getRoomNumber C = roomNumber)"

text \<open>The position and the party a pointer stands for, and writing through it.\<close>

definition getExactRoomFor :: "u16 \<Rightarrow> u16 \<Rightarrow> clans \<Rightarrow> (nat \<times> ClanRoom) option" where
  "getExactRoomFor clanId roomNumber cm =
     (case getRoomsFor clanId cm of
        None \<Rightarrow> None
      | Some rooms \<Rightarrow> map_option (\<lambda>i. (i, rooms ! i)) (exact_index roomNumber rooms))"

definition put_party :: "u16 \<Rightarrow> nat \<Rightarrow> ClanRoom \<Rightarrow> clans \<Rightarrow> clans" where
  "put_party clanId i C cm = AList.map_entry clanId (\<lambda>rooms. rooms[i := C]) cm"

definition removeExactRoom :: "crypt \<Rightarrow> u16 \<Rightarrow> u16 \<Rightarrow> mheap \<times> clans \<Rightarrow> bool \<times> mheap \<times> clans" where
  "removeExactRoom c clanId roomNumber = (\<lambda>(h, cm).
     case getExactRoomFor clanId roomNumber cm of
       None \<Rightarrow> (False, h, cm)
     | Some (i, C) \<Rightarrow>
         let h = fst (ClanRoom_removeAllPlayers c (h, C));
             rooms = erase_at i (case getRoomsFor clanId cm of None \<Rightarrow> [] | Some rooms \<Rightarrow> rooms)
         in (True, h, if rooms = [] then AList.delete clanId cm else AList.update clanId rooms cm))"

text \<open>
  The parties of a clan are tried in turn; the one the player could be removed from is erased
  when it is empty, the key of the clan stays.
\<close>

fun try_remove :: "crypt \<Rightarrow> u16 \<Rightarrow> mheap \<Rightarrow> ClanRoom list \<Rightarrow> mheap \<times> ClanRoom list" where
  "try_remove c sessionId h [] = (h, [])"
| "try_remove c sessionId h (C # rooms) =
     (case ClanRoom_removePlayer c sessionId (h, C) of
        (None, h, C) \<Rightarrow> (let (h, rooms) = try_remove c sessionId h rooms in (h, C # rooms))
      | (Some True, h, C) \<Rightarrow> (h, rooms)
      | (Some False, h, C) \<Rightarrow> (h, C # rooms))"

definition tryRemovePlayerFromParty :: "crypt \<Rightarrow> u16 \<Rightarrow> u32 \<Rightarrow> mheap \<times> clans \<Rightarrow> mheap \<times> clans" where
  "tryRemovePlayerFromParty c clanId sessionId = (\<lambda>(h, cm).
     case getRoomsFor clanId cm of
       None \<Rightarrow> (h, cm)
     | Some rooms \<Rightarrow> (let (h, rooms) = try_remove c (ucast sessionId) h rooms in (h, AList.update clanId rooms cm)))"

definition ClansManager_getTotalRooms :: "clans \<Rightarrow> nat" where
  "ClansManager_getTotalRooms cm = sum_list (map (\<lambda>(_, rooms). length rooms) cm)"

definition getAllRegisteredClans :: "mheap \<times> clans \<Rightarrow> RegisteredClanInfo list" where
  "getAllRegisteredClans = (\<lambda>(h, cm).
     concat (map (\<lambda>(_, rooms).
       List.map_filter (\<lambda>C. case ClanRoom_getInfo (h, C) of None \<Rightarrow> None | Some i \<Rightarrow> if cr_isRegistered C then Some i else None) rooms) cm))"

definition getNextAvailableRoomNumberFor :: "u16 \<Rightarrow> clans \<Rightarrow> u16 option" where
  "getNextAvailableRoomNumberFor clanId cm =
     (case getRoomsFor clanId cm of
        None \<Rightarrow> Some 1
      | Some rooms \<Rightarrow>
          map_option (\<lambda>i. of_nat (i + 1)) (find_index (\<lambda>n. exact_index (of_nat n) rooms = None) [1..<maxPartiesPerClan + 1]))"

end
