(* ===== verification/Lobby.thy ===== *)
theory Lobby
  imports Trade MainRoomMatch Clans
begin

text \<open>
  The tables the handlers of the main server share: the rooms, \<open>MainServer/src/Classes/RoomsManager.cpp\<close>,
  the sessions, \<open>MainServer/src/Network/MainSessionManager.cpp\<close>, the parties of the clans, the two
  generators of room numbers and the messages to the cast server; and the packed structures that
  describe a room to a client. The unordered maps are association lists in iteration order.
\<close>

section \<open>State\<close>

record lobby =
  lb_heap :: mheap
  lb_log :: "sched_call list"
  lb_rooms :: "(u16 \<times> main_room) list"
  lb_roomNumbers :: RoomNumberGenerator
  lb_clanNumbers :: RoomNumberGenerator
  lb_clans :: clans
  lb_byId :: "(nat \<times> mref) list"
  lb_sessions :: "mref list"
  lb_cast :: "packet list"

text \<open>
  Beside the environment of a session: what memory holds behind the terminator of a string, the
  size of the mode structures, which depends on the compiler, whether the cast server answers a
  message, the room number generator's random map and the start of the server.
\<close>

record lobby_env =
  le_main :: main_env
  le_behind :: "bytes \<Rightarrow> bytes"
  le_modeSize :: "nat \<Rightarrow> nat"
  le_castAnswers :: "packet \<Rightarrow> bool"
  le_random :: "nat \<Rightarrow> nat"
  le_serverStart :: u64
  le_nowMs :: u64
  le_serverId :: u16

abbreviation le_crypt :: "lobby_env \<Rightarrow> crypt" where
  "le_crypt e \<equiv> me_crypt (le_main e)"

definition on_world :: "(world \<Rightarrow> world) \<Rightarrow> lobby \<Rightarrow> lobby" where
  "on_world f L = (case f (lb_heap L, lb_log L) of (h, log) \<Rightarrow> L\<lparr>lb_heap := h, lb_log := log\<rparr>)"

definition lobby_session :: "mref \<Rightarrow> (sess_state \<Rightarrow> sess_state) \<Rightarrow> lobby \<Rightarrow> lobby" where
  "lobby_session r f = on_world (at_session r f)"

definition lobby_write :: "lobby_env \<Rightarrow> packet \<Rightarrow> mref \<Rightarrow> lobby \<Rightarrow> lobby" where
  "lobby_write e p r = lobby_session r (on_sess (send (le_crypt e) p))"

definition lobby_tell :: "lobby_env \<Rightarrow> bytes \<Rightarrow> mref \<Rightarrow> lobby \<Rightarrow> lobby" where
  "lobby_tell e msg r = lobby_session r (on_sess (sendMessage (le_crypt e) msg ChatExtra_HELP))"

text \<open>\<open>std::string{p}\<close> of an array: up to the first zero, which may be behind the array.\<close>

definition string_of :: "lobby_env \<Rightarrow> bytes \<Rightarrow> bytes" where
  "string_of e bs = takeWhile (\<lambda>b. b \<noteq> 0) (bs @ le_behind e bs)"

text \<open>\<open>memcpy\<close> of \<open>n\<close> bytes from the start of a string.\<close>

definition string_bytes :: "lobby_env \<Rightarrow> nat \<Rightarrow> bytes \<Rightarrow> bytes" where
  "string_bytes e n s = take n (s @ 0 # le_behind e s)"

section \<open>Structures\<close>

definition RoomPlayerInfo_bytes :: "RoomPlayerInfo \<Rightarrow> bytes" where
  "RoomPlayerInfo_bytes i =
     uid_bytes (rpi_uniqueId i) @
     le_store 4 (push_bit 7 (ucast (rpi_character i)) OR push_bit 12 (ucast (rpi_team i)) OR push_bit 15 (ucast (rpi_level i)) :: u32) @
     rpi_playerName i @
     le_store 4 (push_bit 2 (ucast (rpi_state i)) OR push_bit 6 (ucast (rpi_ping i)) :: u32) @ replicate 4 0"

definition equipment_bytes :: "u32 list \<times> u32 list \<Rightarrow> bytes" where
  "equipment_bytes = (\<lambda>(items, weapons). concat (map (le_store 4) items) @ concat (map (le_store 4) weapons) @ replicate 68 0)"

definition RoomPlayerItems_bytes :: "lobby_env \<Rightarrow> main_session \<Rightarrow> UniqueId \<Rightarrow> bytes" where
  "RoomPlayerItems_bytes e s uid =
     equipment_bytes (getEquippedItemsSeparated (env_items (le_main e)) (getPlayer s)) @ uid_bytes uid"

definition RoomLatestEnteredPlayerInfo_bytes :: "lobby_env \<Rightarrow> main_session \<Rightarrow> u32 \<Rightarrow> bytes" where
  "RoomLatestEnteredPlayerInfo_bytes e s team =
     (let a = getAccountInfo s; i = Room_createRoomPlayerInfo s team
      in uid_bytes (ai_uniqueId a) @
         le_store 4 (push_bit 7 (ucast (rpi_character i)) OR push_bit 12 (ucast (rpi_team i)) OR push_bit 15 (ucast (rpi_level i)) :: u32) @
         equipment_bytes (getEquippedItemsSeparated (env_items (le_main e)) (getPlayer s)) @ ai_nickname a @
         le_store 2 (push_bit 3 (ucast (rpi_ping i)) OR push_bit 15 1 :: u16) @ replicate 4 0)"

definition PlayerClan_bytes :: "AccountInfo \<Rightarrow> nat \<Rightarrow> bytes" where
  "PlayerClan_bytes a playerRoomIdx =
     ai_clanName a @
     le_store 8 (ucast (of_nat playerRoomIdx :: 4 word) OR push_bit 4 (ucast (ucast (ai_clanLogoFrontId a) :: 16 word)) OR
       push_bit 20 (ucast (ucast (ai_clanLogoBackId a) :: 14 word)) OR push_bit 34 (ucast (ucast (ai_clanId a) :: 27 word)) :: u64)"

text \<open>Players of a clan whose number is above 8; the index counts expired entries too.\<close>

definition getPlayersClansFrom :: "mheap \<Rightarrow> entry list \<Rightarrow> bytes list" where
  "getPlayersClansFrom h es =
     List.map_filter (\<lambda>(i, entry).
       case h (snd entry) of None \<Rightarrow> None
       | Some s \<Rightarrow> if ai_clanId (getAccountInfo s) > 8 then Some (PlayerClan_bytes (getAccountInfo s) i) else None)
     (enumerate 0 es)"

definition Room_getPlayersItems :: "lobby_env \<Rightarrow> room_state \<Rightarrow> bytes list" where
  "Room_getPlayersItems e = (\<lambda>(h, R).
     List.map_filter (\<lambda>entry. case h (snd entry) of None \<Rightarrow> None | Some s \<Rightarrow> Some (RoomPlayerItems_bytes e s (entry_uid entry))) (members R))"

record SingleRoom =
  sr_title :: bytes
  sr_roomNumber :: u16
  sr_map :: "7 word"
  sr_mode :: "5 word"
  sr_maxPlayers :: "5 word"
  sr_numPlayers :: "5 word"
  sr_matchStarted :: "1 word"
  sr_hasPassword :: "1 word"
  sr_weaponRestriction :: "4 word"
  sr_isObserverOn :: "1 word"
  sr_ping :: "9 word"

definition SingleRoom_default :: SingleRoom where
  "SingleRoom_default =
     \<lparr>sr_title = replicate 30 0, sr_roomNumber = 0, sr_map = 0, sr_mode = 0, sr_maxPlayers = 0, sr_numPlayers = 0,
      sr_matchStarted = 0, sr_hasPassword = 0, sr_weaponRestriction = 0, sr_isObserverOn = 1, sr_ping = 0\<rparr>"

definition SingleRoom_bytes :: "SingleRoom \<Rightarrow> bytes" where
  "SingleRoom_bytes i =
     sr_title i @ replicate 2 0 @ le_store 2 (sr_roomNumber i) @
     le_store 2 (2 OR push_bit 9 (ucast (sr_map i)) :: u16) @
     le_store 4 (ucast (sr_mode i) OR push_bit 5 (ucast (sr_maxPlayers i)) OR push_bit 10 (ucast (sr_numPlayers i)) OR
       push_bit 15 (ucast (sr_matchStarted i)) OR push_bit 16 (ucast (sr_hasPassword i)) OR
       push_bit 18 (ucast (sr_weaponRestriction i)) OR push_bit 22 (ucast (sr_isObserverOn i)) OR push_bit 23 (ucast (sr_ping i)) :: u32)"

abbreviation bit_of :: "bool \<Rightarrow> 1 word" where
  "bit_of b \<equiv> if b then 1 else 0"

text \<open>The first player is read without a test: \<open>None\<close> when there is none.\<close>

definition Room_getRoomInfo :: "lobby_env \<Rightarrow> room_state \<Rightarrow> SingleRoom option" where
  "Room_getRoomInfo e = (\<lambda>(h, R).
     case rm_players R of
       [] \<Rightarrow> None
     | host # _ \<Rightarrow>
         (case h (snd host) of
            None \<Rightarrow> Some SingleRoom_default
          | Some s \<Rightarrow> Some
              \<lparr>sr_title = string_bytes e 29 (rm_title R) @ [0], sr_roomNumber = rm_number R - 1, sr_map = rs_map (rm_settings R),
               sr_mode = rs_mode (rm_settings R), sr_maxPlayers = ucast (getPlayersPerTeam R),
               sr_numPlayers = of_nat (length (rm_players R)), sr_matchStarted = bit_of (rm_hasMatchStarted R),
               sr_hasPassword = bit_of (rm_password R \<noteq> []), sr_weaponRestriction = rs_weaponRestriction (rm_settings R),
               sr_isObserverOn = rs_isObserverModeOn (rm_settings R), sr_ping = ucast (p_ping (getPlayer s))\<rparr>))"

definition RoomJoin_bytes :: "lobby_env \<Rightarrow> bool \<Rightarrow> main_room \<Rightarrow> bytes" where
  "RoomJoin_bytes e isClanMatch R =
     (let s = rm_settings R
      in le_store 4 (ucast (rs_map s) OR push_bit 7 (ucast (rs_mode s)) OR push_bit 12 (ucast (ucast (getPlayersPerTeam R) :: 5 word)) OR
           push_bit 17 (ucast (bit_of (rm_hasMatchStarted R))) OR push_bit 18 (ucast (bit_of (rm_password R \<noteq> []))) OR
           push_bit 19 (ucast (rs_isOpen s)) OR push_bit 20 (ucast (rs_weaponRestriction s)) OR
           push_bit 24 (ucast (bit_of isClanMatch)) OR push_bit 25 (ucast (bit_of (rm_isTeamBalanceOn R))) OR
           push_bit 27 (ucast (rs_isObserverModeOn s)) :: u32) @
         string_bytes e 9 (rm_password R) @ replicate 6 0)"

definition RoomSettingsUpdateBase_bytes :: "RoomSettingsUpdateBase \<Rightarrow> bytes" where
  "RoomSettingsUpdateBase_bytes u =
     le_store 4 (ucast (ru_maxPlayers u) OR push_bit 5 (ucast (ru_time u)) OR push_bit 10 (ucast (ru_weaponRestriction u)) OR
       push_bit 14 (ucast (ru_isItemOn u)) OR push_bit 15 (ucast (ru_isOpen u)) OR push_bit 16 (ucast (ru_map u)) OR
       push_bit 24 (ucast (ru_specificSetting u)) OR push_bit 29 (ucast (ru_isTeamBalanceOn u)) :: u32)"

definition RoomSettingsUpdateBase_of_bytes :: "bytes \<Rightarrow> RoomSettingsUpdateBase" where
  "RoomSettingsUpdateBase_of_bytes bs =
     (let w = le_load (take 4 bs) :: u32
      in \<lparr>ru_maxPlayers = ucast w, ru_time = ucast (drop_bit 5 w), ru_weaponRestriction = ucast (drop_bit 10 w),
          ru_isItemOn = ucast (drop_bit 14 w), ru_isOpen = ucast (drop_bit 15 w), ru_map = ucast (drop_bit 16 w),
          ru_specificSetting = ucast (drop_bit 24 w), ru_isTeamBalanceOn = ucast (drop_bit 29 w)\<rparr>)"

definition RoomSettingsUpdate_bytes :: "main_room \<Rightarrow> bytes" where
  "RoomSettingsUpdate_bytes R =
     (case Room_getRoomSettingsUpdate R of
        (u, title, password) \<Rightarrow> RoomSettingsUpdateBase_bytes u @ title @ replicate 2 0 @ password @ replicate 7 0)"

text \<open>The settings of a new room, \<open>RoomSettings\<close> and the title and password after it.\<close>

definition RoomSettings_of_bytes :: "bytes \<Rightarrow> RoomSettings" where
  "RoomSettings_of_bytes bs =
     (let w = le_load (take 4 bs) :: u32
      in \<lparr>rs_time = ucast w, rs_weaponRestriction = ucast (drop_bit 5 w), rs_isItemOn = ucast (drop_bit 9 w),
          rs_mode = ucast (drop_bit 10 w), rs_isOpen = ucast (drop_bit 15 w), rs_hasPassword = ucast (drop_bit 16 w),
          rs_playersPerTeam = ucast (drop_bit 18 w), rs_map = ucast (drop_bit 22 w), rs_isObserverModeOn = ucast (drop_bit 31 w)\<rparr>)"

definition RoomSettings_bytes :: "RoomSettings \<Rightarrow> bytes" where
  "RoomSettings_bytes s =
     le_store 4 (ucast (rs_time s) OR push_bit 5 (ucast (rs_weaponRestriction s)) OR push_bit 9 (ucast (rs_isItemOn s)) OR
       push_bit 10 (ucast (rs_mode s)) OR push_bit 15 (ucast (rs_isOpen s)) OR push_bit 16 (ucast (rs_hasPassword s)) OR
       push_bit 18 (ucast (rs_playersPerTeam s)) OR push_bit 22 (ucast (rs_map s)) OR push_bit 31 (ucast (rs_isObserverModeOn s)) :: u32)"

section \<open>The table of rooms\<close>

definition getRoomByNumber :: "u16 \<Rightarrow> lobby \<Rightarrow> main_room option" where
  "getRoomByNumber n L = map_of (lb_rooms L) n"

definition put_room :: "u16 \<Rightarrow> mheap \<times> main_room \<Rightarrow> lobby \<Rightarrow> lobby" where
  "put_room n = (\<lambda>(h, R) L. L\<lparr>lb_heap := h, lb_rooms := AList.update n R (lb_rooms L)\<rparr>)"

text \<open>An operation of the room with the number, with its result.\<close>

definition at_room :: "u16 \<Rightarrow> (room_state \<Rightarrow> room_state) \<Rightarrow> lobby \<Rightarrow> lobby" where
  "at_room n f L = (case getRoomByNumber n L of None \<Rightarrow> L | Some R \<Rightarrow> put_room n (f (lb_heap L, R)) L)"

definition ask_room :: "u16 \<Rightarrow> (room_state \<Rightarrow> bool \<times> room_state) \<Rightarrow> lobby \<Rightarrow> bool \<times> lobby" where
  "ask_room n f L =
     (case getRoomByNumber n L of
        None \<Rightarrow> (False, L)
      | Some R \<Rightarrow> (case f (lb_heap L, R) of (b, st) \<Rightarrow> (b, put_room n st L)))"

definition RoomsManager_addRoom :: "main_room \<Rightarrow> lobby \<Rightarrow> lobby" where
  "RoomsManager_addRoom R L = L\<lparr>lb_rooms := AList.update (rm_number R) R (lb_rooms L)\<rparr>"

definition release_number :: "bool \<Rightarrow> u16 \<Rightarrow> lobby \<Rightarrow> lobby" where
  "release_number isClanRoom n L =
     (if isClanRoom then L\<lparr>lb_clanNumbers := snd (release n (lb_clanNumbers L))\<rparr>
      else L\<lparr>lb_roomNumbers := snd (release n (lb_roomNumbers L))\<rparr>)"

definition RoomsManager_removeRoom :: "lobby_env \<Rightarrow> u16 \<Rightarrow> u32 \<Rightarrow> lobby \<Rightarrow> lobby" where
  "RoomsManager_removeRoom e n extra L =
     (case getRoomByNumber n L of
        None \<Rightarrow> L
      | Some R \<Rightarrow>
          let L = release_number (rm_isClanRoom R) n L;
              h = fst (Room_removeAllPlayers (le_crypt e) extra (lb_heap L, R))
          in L\<lparr>lb_heap := h, lb_rooms := AList.delete n (lb_rooms L)\<rparr>)"

definition RoomsManager_getTotalRooms :: "lobby \<Rightarrow> nat" where
  "RoomsManager_getTotalRooms L = length (lb_rooms L)"

text \<open>Rooms without players are dropped on the way; their number is not released.\<close>

fun list_rooms :: "lobby_env \<Rightarrow> mheap \<Rightarrow> (u16 \<times> main_room) list \<Rightarrow> SingleRoom list \<times> mheap \<times> (u16 \<times> main_room) list" where
  "list_rooms e h [] = ([], h, [])"
| "list_rooms e h ((n, R) # rooms) =
     (if rm_players R = [] then list_rooms e (fst (Room_removeAllPlayers (le_crypt e) 1 (h, R))) rooms
      else case list_rooms e h rooms of (infos, h', rooms') \<Rightarrow>
        (if ucast (rm_number R) \<ge> clanRoomNumberStart then infos
         else (case Room_getRoomInfo e (h, R) of None \<Rightarrow> infos | Some i \<Rightarrow> i # infos),
         h', (n, R) # rooms'))"

definition getRoomsList :: "lobby_env \<Rightarrow> lobby \<Rightarrow> SingleRoom list \<times> lobby" where
  "getRoomsList e L =
     (case list_rooms e (lb_heap L) (lb_rooms L) of (infos, h, rooms) \<Rightarrow> (infos, L\<lparr>lb_heap := h, lb_rooms := rooms\<rparr>))"

definition RoomsList_bytes :: "SingleRoom list \<Rightarrow> bytes" where
  "RoomsList_bytes infos =
     (let n = of_nat (length infos) :: u16 in le_store 2 n @ le_store 2 n @ concat (map SingleRoom_bytes infos))"

definition handleRoomsList :: "lobby_env \<Rightarrow> packet \<Rightarrow> mref \<Rightarrow> lobby \<Rightarrow> lobby" where
  "handleRoomsList e request r L =
     (case getRoomsList e L of (infos, L) \<Rightarrow>
        lobby_write e (setData (RoomsList_bytes infos)
          (setCommand (packet_getOrder request) 0 37 0
             (setTcpHeader (tcp_getSessionId (m_header request)) 0 packet_new))) r L)"

section \<open>The table of sessions\<close>

text \<open>\<open>emplace\<close> keeps an entry that is there.\<close>

definition addSession :: "mref \<Rightarrow> lobby \<Rightarrow> lobby" where
  "addSession r L =
     (case lb_heap L r of
        None \<Rightarrow> L
      | Some s \<Rightarrow>
          L\<lparr>lb_byId := (if map_of (lb_byId L) (m_id s) = None then AList.update (m_id s) r (lb_byId L) else lb_byId L),
            lb_sessions := lb_sessions L @ [r]\<rparr>)"

text \<open>The loops over all sessions.\<close>

definition for_sessions :: "(main_session \<Rightarrow> bool) \<Rightarrow> (main_session \<Rightarrow> main_session) \<Rightarrow> lobby \<Rightarrow> lobby" where
  "for_sessions P f L = L\<lparr>lb_heap := for_live (\<lambda>_. P) f (map (\<lambda>r. ((), r)) (lb_sessions L)) (lb_heap L)\<rparr>"

definition sessions_broadcast :: "crypt \<Rightarrow> packet \<Rightarrow> lobby \<Rightarrow> lobby" where
  "sessions_broadcast c p = for_sessions (\<lambda>_. True) (send c p)"

definition broadcastExceptSelf :: "crypt \<Rightarrow> nat \<Rightarrow> packet \<Rightarrow> lobby \<Rightarrow> lobby" where
  "broadcastExceptSelf c self p = for_sessions (\<lambda>s. m_id s \<noteq> self) (send c p)"

definition broadcastToLobbyExceptSelf :: "crypt \<Rightarrow> nat \<Rightarrow> packet \<Rightarrow> lobby \<Rightarrow> lobby" where
  "broadcastToLobbyExceptSelf c self p = for_sessions (\<lambda>s. \<not> (self = m_id s \<or> \<not> isInLobby (getPlayer s))) (send c p)"

text \<open>\<open>at\<close> throws for a number without session: \<open>None\<close>.\<close>

definition getSessionBySessionId :: "nat \<Rightarrow> lobby \<Rightarrow> mref option" where
  "getSessionBySessionId n L = map_of (lb_byId L) n"

definition broadcastToClan :: "crypt \<Rightarrow> nat \<Rightarrow> packet \<Rightarrow> lobby \<Rightarrow> lobby option" where
  "broadcastToClan c self p L =
     (case Option.bind (getSessionBySessionId self L) (lb_heap L) of
        None \<Rightarrow> None
      | Some s \<Rightarrow>
          let clan = ai_clanId (getAccountInfo s)
          in Some (for_sessions (\<lambda>s'. self \<noteq> m_id s' \<and> clan \<ge> 8 \<and> clan = ai_clanId (getAccountInfo s')) (send c p) L))"

definition findSessionByName :: "bytes \<Rightarrow> lobby \<Rightarrow> mref option" where
  "findSessionByName nickname L =
     find (\<lambda>r. case lb_heap L r of None \<Rightarrow> False | Some s \<Rightarrow> name_of s = nickname) (lb_sessions L)"

abbreviation by_account :: "u32 \<Rightarrow> lobby \<Rightarrow> mref option" where
  "by_account aid L \<equiv> getSessionByAccountId (lb_sessions L) aid (lb_heap L)"

definition getTotalSessions :: "lobby \<Rightarrow> nat" where
  "getTotalSessions L = length (lb_byId L)"

definition sessions_sendTo :: "lobby_env \<Rightarrow> nat \<Rightarrow> packet \<Rightarrow> lobby \<Rightarrow> bool \<times> lobby" where
  "sessions_sendTo e n p L =
     (case getSessionBySessionId n L of None \<Rightarrow> (False, L) | Some r \<Rightarrow> (True, lobby_write e p r L))"

definition prepareMessage :: "bytes \<Rightarrow> packet" where
  "prepareMessage msg = setData (replicate 16 0x30 @ msg) (packet_setExtra 1 (packet_setOrder 316 packet_new))"

definition sessions_broadcastMessage :: "crypt \<Rightarrow> bytes \<Rightarrow> lobby \<Rightarrow> lobby" where
  "sessions_broadcastMessage c msg = for_sessions (\<lambda>_. True) (send c (prepareMessage msg))"

definition broadcastMessageExceptSelf :: "crypt \<Rightarrow> nat \<Rightarrow> bytes \<Rightarrow> lobby \<Rightarrow> lobby" where
  "broadcastMessageExceptSelf c self msg = for_sessions (\<lambda>s. m_id s \<noteq> self) (send c (prepareMessage msg))"

definition broadcastMessageToLobby :: "crypt \<Rightarrow> bytes \<Rightarrow> lobby \<Rightarrow> lobby" where
  "broadcastMessageToLobby c msg = for_sessions (\<lambda>s. p_roomNumber (getPlayer s) = 0) (sendMessage c msg ChatExtra_HELP)"

section \<open>Messages to the cast server\<close>

text \<open>The message is sent on a connection of its own; the result says whether the cast server answered.\<close>

definition M2C_send :: "lobby_env \<Rightarrow> packet \<Rightarrow> lobby \<Rightarrow> bool \<times> lobby" where
  "M2C_send e p L = (le_castAnswers e p, L\<lparr>lb_cast := lb_cast L @ [p]\<rparr>)"

definition M2C_packet :: "u32 \<Rightarrow> u16 \<Rightarrow> u8 \<Rightarrow> u8 \<Rightarrow> packet" where
  "M2C_packet hostSessionId order extra opt = setCommand order 0 extra opt (setTcpHeader_plain hostSessionId packet_new)"

definition M2C_sendMapId :: "lobby_env \<Rightarrow> u32 \<Rightarrow> u32 \<Rightarrow> u32 \<Rightarrow> lobby \<Rightarrow> bool \<times> lobby" where
  "M2C_sendMapId e hostSessionId mapId modeId = M2C_send e (M2C_packet hostSessionId 2 (ucast mapId) (ucast modeId))"

definition M2C_sendRoomNumber :: "lobby_env \<Rightarrow> u32 \<Rightarrow> u32 \<Rightarrow> lobby \<Rightarrow> bool \<times> lobby" where
  "M2C_sendRoomNumber e hostSessionId roomNumber = M2C_send e (M2C_packet hostSessionId 3 (ucast roomNumber) 0)"

text \<open>\<open>strncpy\<close> of at most 15 characters into an array of 16; the packed identifiers need no alignment.\<close>

definition name16 :: "bytes \<Rightarrow> bytes" where
  "name16 s = (let s = take 15 s in s @ replicate (16 - length s) 0)"

definition AssassinData_bytes :: "bool \<Rightarrow> UniqueId \<times> bytes \<Rightarrow> UniqueId \<times> bytes \<Rightarrow> bytes" where
  "AssassinData_bytes isAssassinMode red blue =
     (if isAssassinMode then 1 else 0) # uid_bytes (fst red) @ name16 (snd red) @ uid_bytes (fst blue) @ name16 (snd blue)"

definition M2C_sendAssassinModeInfo ::
  "lobby_env \<Rightarrow> bool \<Rightarrow> u32 \<Rightarrow> UniqueId \<times> bytes \<Rightarrow> UniqueId \<times> bytes \<Rightarrow> lobby \<Rightarrow> bool \<times> lobby" where
  "M2C_sendAssassinModeInfo e isAssassinMode hostSessionId blue red =
     M2C_send e (setData (AssassinData_bytes isAssassinMode red blue) (M2C_packet hostSessionId 7 0 0))"

definition M2C_sendInvisibilityCommand :: "lobby_env \<Rightarrow> u32 \<Rightarrow> u8 \<Rightarrow> lobby \<Rightarrow> lobby" where
  "M2C_sendInvisibilityCommand e sessionId kind L = snd (M2C_send e (M2C_packet sessionId 9 kind 0) L)"

end
