(* ===== verification/RoomEntry.thy ===== *)
theory RoomEntry
  imports Lobby
begin

text \<open>
  Creating and entering a room, \<open>MainServer/include/Handlers/Room\<close>: \<open>RoomCreationHandler.h\<close>,
  \<open>ClanRoomCreation.h\<close> and \<open>RoomJoinHandler.h\<close>, and \<open>handleClanRoomJoin\<close> of
  \<open>Handlers/Clan/OtherClanJoinHandler.h\<close>. A handler finds its session in the heap.
\<close>

section \<open>Creating\<close>

definition GRADE_MOD :: u32 where "GRADE_MOD = 3"

text \<open>The request: settings, title and password; the strings end at a zero.\<close>

definition complete_room_info :: "packet \<Rightarrow> bytes" where
  "complete_room_info request = main_parseData (replicate 52 0) 0 request"

definition response_to :: "u32 \<Rightarrow> packet \<Rightarrow> packet" where
  "response_to cr request = packet_setOrder (packet_getOrder request) (setTcpHeader (tcp_getSessionId (m_header request)) cr packet_new)"

text \<open>The room a request describes, without its number.\<close>

definition described_room ::
  "lobby_env \<Rightarrow> packet \<Rightarrow> main_session \<Rightarrow> mref \<Rightarrow> bool \<Rightarrow> u32 \<Rightarrow> u32 \<Rightarrow> RoomNumberGenerator \<Rightarrow> main_room \<times> RoomNumberGenerator" where
  "described_room e request s r isClanRoom team actualMap g =
     (let bs = complete_room_info request;
          (R, g) = Room_new (string_of e (drop 4 bs)) (RoomSettings_of_bytes bs) (Room_createRoomPlayerInfo s team) r isClanRoom actualMap g;
          R = (if isClanRoom \<or> Room_isModeTeamBased R then Room_updatePlayersTeamToTeamBased R else R);
          R = (if length (m_data request) \<ge> 52 then Room_setPassword (string_of e (drop 36 bs)) R else R)
      in (Room_setSpecificSetting (ucast (cmd_getExtra (m_command request))) R, g))"

definition settings_packet :: "main_room \<Rightarrow> packet \<Rightarrow> packet" where
  "settings_packet R p = setData (RoomSettingsUpdate_bytes R) (setCommand 125 0 0 (ucast (rs_mode (rm_settings R))) p)"

definition room_number_bytes :: "main_room \<Rightarrow> u16 \<Rightarrow> bytes" where
  "room_number_bytes R second = le_store 2 (rm_number R - 1) @ le_store 2 second"

text \<open>The creator enters the room and the room enters the table.\<close>

definition open_room :: "lobby_env \<Rightarrow> packet \<Rightarrow> mref \<Rightarrow> main_session \<Rightarrow> u16 \<Rightarrow> bool \<Rightarrow> main_room \<Rightarrow> lobby \<Rightarrow> lobby" where
  "open_room e response r s second tellSettings R L =
     (let L = snd (M2C_sendRoomNumber e (of_nat (m_id s)) (ucast (rm_number R)) L);
          (h, R) = Room_setStateFor (uid_of s) STATE_WAITING (lb_heap L, R);
          L = lobby_session r (on_sess (session_setRoomNumber (rm_number R))) (L\<lparr>lb_heap := h\<rparr>);
          response = setData (room_number_bytes R second) (packet_setExtra 1 response);
          L = lobby_write e response r L;
          L = (if tellSettings then lobby_write e (settings_packet R response) r L else L)
      in RoomsManager_addRoom R L)"

definition handleRoomCreation :: "lobby_env \<Rightarrow> bool \<Rightarrow> u32 \<Rightarrow> packet \<Rightarrow> mref \<Rightarrow> lobby \<Rightarrow> lobby" where
  "handleRoomCreation e isRoomCreationEnabled actualMap request r L =
     (case lb_heap L r of None \<Rightarrow> L | Some s \<Rightarrow>
       if p_roomNumber (getPlayer s) \<noteq> 0
       then lobby_tell e (ascii ''You are already in a room - If this is an error, report it'') r L
       else if \<not> isRoomCreationEnabled \<and> \<not> is_staff s
       then lobby_tell e (ascii ''Public room creation is currently disabled by the team.'') r L
       else if \<not> p_isRoomCreationEnabled (getPlayer s)
       then lobby_tell e (ascii ''You currently cannot create a new room.'') r L
       else if m_data request = [] then L
       else case described_room e request s r False TEAM_ALL actualMap (lb_roomNumbers L) of
         (R, g) \<Rightarrow>
           let L = L\<lparr>lb_roomNumbers := g\<rparr>; response = response_to 0 request
           in if RoomsManager_getTotalRooms L \<ge> maxRooms then lobby_write e (packet_setExtra 0 response) r L
              else open_room e response r s 2 (Room_isModeTeamBased R \<and> ucast (rs_mode (rm_settings R)) \<noteq> AiBattle) R L)"

definition handleRoomCreationClan :: "lobby_env \<Rightarrow> u32 \<Rightarrow> packet \<Rightarrow> mref \<Rightarrow> lobby \<Rightarrow> lobby" where
  "handleRoomCreationClan e actualMap request r L =
     (case lb_heap L r of None \<Rightarrow> L | Some s \<Rightarrow>
       case described_room e request s r True TEAM_BLUE actualMap (lb_clanNumbers L) of
         (R, g) \<Rightarrow> open_room e (response_to 0 request) r s 1 False R (L\<lparr>lb_clanNumbers := g\<rparr>))"

section \<open>What a player who enters is sent\<close>

text \<open>The handlers change one packet and send it again and again; the state is that packet and the lobby.\<close>

type_synonym reply_state = "packet \<times> lobby"

definition reply :: "lobby_env \<Rightarrow> mref \<Rightarrow> (packet \<Rightarrow> packet) \<Rightarrow> reply_state \<Rightarrow> reply_state" where
  "reply e r f = (\<lambda>(p, L). (f p, lobby_write e (f p) r L))"

definition itemsToSend :: nat where "itemsToSend = (1440 - 8) div 140"

definition reply_items :: "lobby_env \<Rightarrow> mref \<Rightarrow> bytes list \<Rightarrow> reply_state \<Rightarrow> reply_state" where
  "reply_items e r items =
     (if 8 + 140 * length items < 1440
      then reply e r (\<lambda>p. setData (concat items) (packet_setExtra 37 (packet_setOption (of_nat (length items)) p)))
      else fold (\<lambda>(i, part). reply e r (\<lambda>p.
             setData (concat part) (packet_setOption (of_nat (length part)) (packet_setExtra (if i = 0 then 37 else 0) p))))
           (enumerate (0 :: nat) (pieces (itemsToSend - 1) items)))"

definition clans_reply :: "u8 \<Rightarrow> bytes list \<Rightarrow> packet \<Rightarrow> packet" where
  "clans_reply mission records p = setData (concat records) (setCommand 409 mission 37 (of_nat (length records)) p)"

text \<open>The last piece of information depends on the mode.\<close>

definition mode_bytes :: "lobby_env \<Rightarrow> nat \<Rightarrow> u64 \<Rightarrow> bytes" where
  "mode_bytes e bits w = take (le_modeSize e bits) (le_store 8 w)"

definition mode_of :: "main_room \<Rightarrow> u32" where
  "mode_of R = ucast (rs_mode (rm_settings R))"

definition reply_mode :: "lobby_env \<Rightarrow> mref \<Rightarrow> main_room \<Rightarrow> reply_state \<Rightarrow> reply_state" where
  "reply_mode e r R st =
     (let s = rm_settings R; mode = mode_of R;
          state = (if rm_hasMatchStarted R then 3 else 0) :: u64;
          time = ucast (rs_time s) :: u64; weapons = ucast (rs_weaponRestriction s) :: u64;
          st = (setCommand 309 0 0 (ucast mode) (fst st), snd st)
      in if mode \<in> {FreeForAll, ArmsRace, SquareMode}
         then reply e r (setData (mode_bytes e 17
                (time OR push_bit 5 (ucast (ucast (rm_specificSetting R) :: 5 word)) OR push_bit 11 state OR push_bit 13 weapons))) st
         else if mode = Scrimmage
         then reply e r (setData (mode_bytes e 56 (push_bit 45 state OR push_bit 47 time OR push_bit 52 weapons))) st
         else if mode \<in> {TeamDeathMatch, ItemMatch, CloseCombat, SuperItemMatch, SniperMode, AiBattle, Clan_CaptureTheBattery,
                         CaptureTheBattery, Clan_TeamDeathMatch, Clan_Elimination, Elimination, ZombieMode}
         then reply e r (setData (mode_bytes e 36
                (push_bit 16 (ucast (rm_specificSetting R)) OR push_bit 24 state OR push_bit 26 (ucast (rs_isItemOn s)) OR
                 push_bit 27 time OR push_bit 32 weapons))) st
         else if mode \<in> {BombBattle, Clan_BombBattle, BossBattle}
         then reply e r (\<lambda>p. setData (RoomSettingsUpdate_bytes R)
                (packet_setOption (ucast mode) (packet_setExtra 0 (packet_setMission 0 (packet_setOrder 125 p))))) st
         else st)"

definition password_refused :: "lobby_env \<Rightarrow> bytes \<Rightarrow> bool \<Rightarrow> main_room \<Rightarrow> bool" where
  "password_refused e password hasInputtedPassword R \<longleftrightarrow>
     hasInputtedPassword \<and> rs_hasPassword (rm_settings R) \<noteq> 0 \<and> rm_password R \<noteq> string_of e password"

text \<open>The room as it is, its players and their items.\<close>

definition reply_room :: "lobby_env \<Rightarrow> mref \<Rightarrow> bool \<Rightarrow> u8 \<Rightarrow> SingleRoom \<Rightarrow> main_room \<Rightarrow> reply_state \<Rightarrow> reply_state" where
  "reply_room e r isClanMatch opt info R st =
     (let h = lb_heap (snd st);
          players = Room_getAllPlayers (h, R);
          st = reply e r (\<lambda>p. setData (RoomJoin_bytes e isClanMatch R)
                 (setCommand 139 (ucast (sr_hasPassword info)) (ucast (sr_roomNumber info)) opt p)) st;
          st = reply e r (\<lambda>p. setData (concat (map RoomPlayerInfo_bytes players))
                 (setCommand 406 (ucast (sr_hasPassword info)) 37 (of_nat (length players)) p)) st
      in reply_items e r (Room_getPlayersItems e (h, R)) (packet_setOrder 303 (fst st), snd st))"

section \<open>Joining\<close>

text \<open>The number is that of the room minus 1; the rest of the request is the password.\<close>

record RoomInfo =
  ri_roomNumber :: u16
  ri_password :: bytes

definition RoomInfo_of_request :: "packet \<Rightarrow> RoomInfo" where
  "RoomInfo_of_request request =
     (let bs = main_parseData ([0, 0, 2, 0] @ replicate 9 0) 0 request
      in \<lparr>ri_roomNumber = le_load (take 2 bs), ri_password = drop 4 bs\<rparr>)"

definition disconnection_packet :: "main_session \<Rightarrow> packet" where
  "disconnection_packet s = setCommand 73 0 27 0 (setTcpHeader (of_nat (m_id s)) 4 packet_new)"

definition entered_packet :: "lobby_env \<Rightarrow> main_session \<Rightarrow> u32 \<Rightarrow> u8 \<Rightarrow> packet \<Rightarrow> packet" where
  "entered_packet e s team opt p = setData (RoomLatestEnteredPlayerInfo_bytes e s team) (setCommand 421 0 0 opt p)"

text \<open>What the room is told, and the new entry.\<close>

definition enter_room :: "lobby_env \<Rightarrow> u16 \<Rightarrow> mref \<Rightarrow> main_session \<Rightarrow> bool \<Rightarrow> bool \<Rightarrow> reply_state \<Rightarrow> lobby" where
  "enter_room e n r s joinedAsObserver joinInvisible = (\<lambda>(p, L).
     at_room n (\<lambda>(h, R).
       let a = getAccountInfo s; obs = joinedAsObserver \<or> joinInvisible;
           team = (if obs then TEAM_OBSERVER else if Room_isModeTeamBased R then Room_calculateNewPlayerTeam R else TEAM_ALL);
           p = entered_packet e s team 1 p;
           h = Room_broadcastToRoomExceptSelf (le_crypt e) p (ai_uniqueId a) R h;
           i = (if joinedAsObserver then length (rm_observerPlayers R) else length (rm_players R));
           h = (if ai_clanId a > 8
                then Room_broadcastToRoomExceptSelf (le_crypt e)
                       (clans_reply (if joinedAsObserver then 1 else 0) [PlayerClan_bytes a i] p) (ai_uniqueId a) R h
                else h)
       in if obs then Room_addObserverPlayer (Some r) (h, R) else Room_addPlayer (Some r) team (h, R)) L)"

definition announce_modes :: "lobby_env \<Rightarrow> u16 \<Rightarrow> mref \<Rightarrow> lobby \<Rightarrow> lobby" where
  "announce_modes e n r L =
     (case getRoomByNumber n L of None \<Rightarrow> L | Some R \<Rightarrow>
        if Room_isAssassinMode R
        then lobby_session r (on_sess (sendMessage (le_crypt e) (ascii ''Assassin mode is ENABLED'') ChatExtra_TIP)) L
        else if rm_isCsdMode R
        then lobby_session r (on_sess (sendMessage (le_crypt e) (ascii ''CSD mode is ENABLED'') ChatExtra_TIP)) L
        else L)"

text \<open>The answers of \<open>RoomJoinExtra\<close> for a room that may not be entered.\<close>

definition join_refusal :: "lobby_env \<Rightarrow> bool \<Rightarrow> RoomInfo \<Rightarrow> bool \<Rightarrow> bool \<Rightarrow> main_session \<Rightarrow> main_room \<Rightarrow> u8 option" where
  "join_refusal e checkPassword info hasInputtedPassword joinInvisible s R =
     (let a = getAccountInfo s
      in if checkPassword then Some 0xE
         else if \<not> (ucast (ai_playerGrade a) \<ge> GRADE_MOD \<and> rm_password R \<noteq> []) \<and>
                 (rs_hasPassword (rm_settings R) \<noteq> 0 \<and> \<not> hasInputtedPassword \<or>
                  password_refused e (ri_password info) hasInputtedPassword R)
         then Some 0x2C
         else if \<not> joinInvisible \<and> Room_isRoomFullObserverExcluded R \<and>
                 (Room_isObserverFull R \<or> rs_isObserverModeOn (rm_settings R) = 0)
         then Some 8
         else if \<not> joinInvisible \<and> Room_wasPreviouslyKicked (ai_accountID a) R then Some 0x2A
         else None)"

text \<open>\<open>Inl\<close>: the room has no player, and its first one is read.\<close>

definition join_admitted ::
  "lobby_env \<Rightarrow> u16 \<Rightarrow> packet \<Rightarrow> packet \<Rightarrow> mref \<Rightarrow> main_session \<Rightarrow> bool \<Rightarrow> main_room \<Rightarrow> lobby \<Rightarrow> mem_error + lobby" where
  "join_admitted e n request response r s joinInvisible R L =
     (case Room_getRoomInfo e (lb_heap L, R) of
        None \<Rightarrow> Inl OutOfBounds
      | Some info \<Rightarrow>
          let joinedAsObserver = (\<not> joinInvisible \<and> Room_isRoomFullObserverExcluded R);
              h = lb_heap L;
              st = reply_room e r False 8 info R (response, L);
              st = reply e r (clans_reply 0 (getPlayersClansFrom h (rm_players R))) st;
              st = reply e r (clans_reply 1 (getPlayersClansFrom h (rm_observerPlayers R))) st;
              st = reply e r (\<lambda>p. setData [] (setCommand (packet_getOrder request) 0
                     (if joinedAsObserver \<or> joinInvisible then 0 else 1) 0 p)) st;
              st = reply_mode e r R st
          in Inr (announce_modes e n r (enter_room e n r s joinedAsObserver joinInvisible st)))"

definition handleRoomJoin ::
  "lobby_env \<Rightarrow> main_fields on_close \<Rightarrow> packet \<Rightarrow> mref \<Rightarrow> bool \<Rightarrow> RoomInfo option \<Rightarrow> bool \<Rightarrow> lobby \<Rightarrow> mem_error + lobby" where
  "handleRoomJoin e cb request r checkPassword followed joinInvisible L =
     (case lb_heap L r of None \<Rightarrow> Inr L | Some s \<Rightarrow>
       if p_roomNumber (getPlayer s) \<noteq> 0
       then Inr (lobby_tell e (ascii ''Error: you are already inside a room (room number: '' @ digits (unat (p_roomNumber (getPlayer s))) @
              ascii '', cannot join another room!'') r L)
       else let info = (case followed of Some i \<Rightarrow> i | None \<Rightarrow> RoomInfo_of_request request);
                n = ri_roomNumber info + 1;
                response = response_to 0 request
            in (case getRoomByNumber n L of
                  None \<Rightarrow> Inr (lobby_write e (packet_setExtra 6 response) r L)
                | Some R \<Rightarrow>
                    if mode_of R = AiBattle \<and> \<not> joinInvisible
                    then Inr (lobby_tell e (ascii ''Error: cannot join AI battle mode room'') r L)
                    else if Room_playerExists (of_nat (m_id s)) (lb_heap L, R)
                    then Inr (lobby_session r (on_sess (closeSocket cb)) (lobby_write e (disconnection_packet s) r L))
                    else (case join_refusal e checkPassword info (length (m_data request) = 20) joinInvisible s R of
                            Some extra \<Rightarrow> Inr (lobby_write e (packet_setExtra extra response) r L)
                          | None \<Rightarrow> join_admitted e n request response r s joinInvisible R L)))"

section \<open>Joining the room of a clan match\<close>

text \<open>The team is given; a player who is in the room already, or in another one, is not refused.\<close>

definition enter_clan_room :: "lobby_env \<Rightarrow> u16 \<Rightarrow> mref \<Rightarrow> main_session \<Rightarrow> u32 \<Rightarrow> nat \<Rightarrow> reply_state \<Rightarrow> lobby" where
  "enter_clan_room e n r s team playerCount = (\<lambda>(p, L).
     at_room n (\<lambda>(h, R).
       let a = getAccountInfo s;
           p = entered_packet e s team 0 p;
           h = Room_broadcastToRoom (le_crypt e) p R h;
           h = (if ai_clanId a > 8
                then Room_broadcastToRoomExceptSelf (le_crypt e) (clans_reply 0 [PlayerClan_bytes a playerCount] p) (ai_uniqueId a) R h
                else h)
       in Room_addPlayer (Some r) (ucast (ucast team :: 3 word)) (h, R)) L)"

definition handleClanRoomJoin :: "lobby_env \<Rightarrow> packet \<Rightarrow> mref \<Rightarrow> u32 \<Rightarrow> lobby \<Rightarrow> mem_error + lobby" where
  "handleClanRoomJoin e request r team L =
     (case lb_heap L r of None \<Rightarrow> Inr L | Some s \<Rightarrow>
       let info = RoomInfo_of_request request; n = ri_roomNumber info + 1; response = response_to 0 request
       in (case getRoomByNumber n L of
             None \<Rightarrow> Inr (lobby_write e (packet_setExtra 6 response) r L)
           | Some R \<Rightarrow>
               if password_refused e (ri_password info) (length (m_data request) = 20) R
               then Inr (lobby_write e (packet_setExtra 0x2C response) r L)
               else (case Room_getRoomInfo e (lb_heap L, R) of
                       None \<Rightarrow> Inl OutOfBounds
                     | Some single \<Rightarrow>
                         let h = lb_heap L;
                             st = reply_room e r True 18 single R (response, L);
                             st = reply e r (clans_reply 0 (getPlayersClansFrom h (rm_players R))) st;
                             st = reply e r (\<lambda>p. setData [] (setCommand (packet_getOrder request) 0 1 0 p)) st;
                             st = reply_mode e r R st
                         in Inr (enter_clan_room e n r s team (length (Room_getAllPlayers (h, R))) st))))"

end
