(* ===== verification/Parties.thy ===== *)
theory Parties
  imports RoomEntry
begin

text \<open>
  The handlers of the parties, \<open>MainServer/include/Handlers/Clan\<close>, and of leaving a room,
  \<open>Handlers/Room/RoomLeaveHandler.h\<close> and \<open>MatchLeaveHandler.h\<close>. A handler that follows a pointer to
  a party that is gone, or reads the first player of an empty room, is \<open>Inl OutOfBounds\<close>.
\<close>

section \<open>Parties in the lobby\<close>

definition party_of :: "u32 \<Rightarrow> u16 \<Rightarrow> lobby \<Rightarrow> ClanRoom option" where
  "party_of clanId n L = map_option snd (getExactRoomFor (ucast clanId) n (lb_clans L))"

definition ask_party :: "u32 \<Rightarrow> u16 \<Rightarrow> (party_state \<Rightarrow> 'a \<times> party_state) \<Rightarrow> 'a \<Rightarrow> lobby \<Rightarrow> 'a \<times> lobby" where
  "ask_party clanId n f missing L =
     (case getExactRoomFor (ucast clanId) n (lb_clans L) of
        None \<Rightarrow> (missing, L)
      | Some (i, C) \<Rightarrow>
          (case f (lb_heap L, C) of
             (x, h, C) \<Rightarrow> (x, L\<lparr>lb_heap := h, lb_clans := put_party (ucast clanId) i C (lb_clans L)\<rparr>)))"

definition at_party :: "u32 \<Rightarrow> u16 \<Rightarrow> (party_state \<Rightarrow> party_state) \<Rightarrow> lobby \<Rightarrow> lobby" where
  "at_party clanId n f L = snd (ask_party clanId n (\<lambda>st. ((), f st)) () L)"

definition to_party :: "(ClanRoom \<Rightarrow> mheap \<Rightarrow> mheap) \<Rightarrow> party_state \<Rightarrow> party_state" where
  "to_party f = (\<lambda>(h, C). (f C h, C))"

definition close_party :: "lobby_env \<Rightarrow> u32 \<Rightarrow> u16 \<Rightarrow> lobby \<Rightarrow> lobby" where
  "close_party e clanId n L =
     (case removeExactRoom (le_crypt e) (ucast clanId) n (lb_heap L, lb_clans L) of
        (_, h, cm) \<Rightarrow> L\<lparr>lb_heap := h, lb_clans := cm\<rparr>)"

abbreviation clan_of :: "main_session \<Rightarrow> u32" where
  "clan_of s \<equiv> ai_clanId (getAccountInfo s)"

abbreviation party_no :: "main_session \<Rightarrow> u16" where
  "party_no s \<equiv> p_clanRoomNumber (getPlayer s)"

abbreviation room_no :: "main_session \<Rightarrow> u16" where
  "room_no s \<equiv> p_roomNumber (getPlayer s)"

definition leads :: "main_session \<Rightarrow> ClanRoom \<Rightarrow> lobby \<Rightarrow> bool" where
  "leads s C L \<longleftrightarrow> isLeader (uid_session (uid_of s)) (lb_heap L, C)"

definition same_request :: "packet \<Rightarrow> packet" where
  "same_request request = setTcpHeader (tcp_getSessionId (m_header request)) 0 request"

definition lobby_tip :: "lobby_env \<Rightarrow> bytes \<Rightarrow> mref \<Rightarrow> lobby \<Rightarrow> lobby" where
  "lobby_tip e msg r = lobby_session r (on_sess (sendMessage (le_crypt e) msg ChatExtra_TIP))"

definition with_session :: "mref \<Rightarrow> (main_session \<Rightarrow> lobby \<Rightarrow> lobby) \<Rightarrow> lobby \<Rightarrow> lobby" where
  "with_session r f L = (case lb_heap L r of None \<Rightarrow> L | Some s \<Rightarrow> f s L)"

section \<open>Creating, listing and changing a party\<close>

definition handlePartyCreation :: "lobby_env \<Rightarrow> packet \<Rightarrow> mref \<Rightarrow> lobby \<Rightarrow> lobby" where
  "handlePartyCreation e request r = with_session r (\<lambda>s L.
     let settings = ClanRoomSettings_of_request (le_load (take 2 (main_parseData (replicate 4 0) 0 request)));
         response = same_request request
     in (case getNextAvailableRoomNumberFor (ucast (clan_of s)) (lb_clans L) of
           Some n \<Rightarrow>
             let L = lobby_tip e (ascii ''Created party room number: '' @ digits (unat n)) r L
             in with_session r (\<lambda>s L.
                  case ClanRoom_new r s n settings (lb_heap L) of
                    (h, C) \<Rightarrow> lobby_write e
                      (setData (le_store 2 (ClanRoom_getClanId C) @ le_store 2 (ClanRoom_getRoomNumber C)) (packet_setExtra 1 response)) r
                      (L\<lparr>lb_heap := h, lb_clans := ClansManager_addRoom C (lb_clans L)\<rparr>)) L
         | None \<Rightarrow>
             lobby_write e (packet_setExtra 6 response) r
               (lobby_tell e (ascii ''Error: Only 4 simultaneous clan matches per clan are allowed'') r L)))"

definition handlePartyList :: "lobby_env \<Rightarrow> packet \<Rightarrow> mref \<Rightarrow> lobby \<Rightarrow> lobby" where
  "handlePartyList e request r = with_session r (\<lambda>s L.
     case getRoomsFor (ucast (clan_of s)) (lb_clans L) of
       None \<Rightarrow> L
     | Some rooms \<Rightarrow>
         lobby_write e (setData (concat (map (\<lambda>C. PartyInfo_bytes (cr_partyInfo C)) rooms))
           (packet_setOption (of_nat (length rooms)) (packet_setExtra 37 (same_request request)))) r L)"

definition handlePartySettings :: "lobby_env \<Rightarrow> nat \<Rightarrow> packet \<Rightarrow> mref \<Rightarrow> lobby \<Rightarrow> lobby" where
  "handlePartySettings e orderId request r = with_session r (\<lambda>s L.
     case party_of (clan_of s) (party_no s) L of
       None \<Rightarrow> L
     | Some C \<Rightarrow>
         if \<not> leads s C L then L
         else let opt = ucast (cmd_getOption (m_command request)) :: u16
              in if orderId = 116
                 then at_party (clan_of s) (party_no s) (\<lambda>(h, C).
                        let C = ClanRoom_updateMode (ucast (cmd_getExtra (m_command request))) (ClanRoom_updateMap opt C)
                        in (broadcastToWaitingPlayers (le_crypt e) request C h, C)) L
                 else if orderId = 117
                 then at_party (clan_of s) (party_no s) (\<lambda>(h, C).
                        let C = updatePlayersPerTeam opt C
                        in (broadcastToWaitingPlayers (le_crypt e) (packet_setExtra 1 request) C h, C)) L
                 else L)"

definition handlePartyLeaderChange :: "lobby_env \<Rightarrow> packet \<Rightarrow> mref \<Rightarrow> lobby \<Rightarrow> lobby" where
  "handlePartyLeaderChange e request r = with_session r (\<lambda>s L.
     case party_of (clan_of s) (party_no s) L of
       None \<Rightarrow> lobby_write e (packet_setExtra 2 request) r L
     | Some C \<Rightarrow>
         if \<not> leads s C L then lobby_write e (packet_setExtra 16 request) r L
         else case ask_party (clan_of s) (party_no s) (changeLeaderTo (le_crypt e) (ucast (cmd_getOption (m_command request)))) False L of
           (False, L) \<Rightarrow> lobby_write e (packet_setExtra 13 request) r L
         | (True, L) \<Rightarrow>
             at_party (clan_of s) (party_no s) (to_party (broadcastToWaitingPlayers (le_crypt e) (packet_setExtra 1 request))) L)"

definition handleClanRegister :: "lobby_env \<Rightarrow> nat \<Rightarrow> packet \<Rightarrow> mref \<Rightarrow> lobby \<Rightarrow> lobby" where
  "handleClanRegister e orderId request r = with_session r (\<lambda>s L.
     let response = same_request request
     in if length (getAllRegisteredClans (lb_heap L, lb_clans L)) \<ge> maxClanRooms
        then lobby_tell e (ascii ''[INFO] Cannot register since there are already 30 registered clans, which is the current maximum'') r L
        else case party_of (clan_of s) (party_no s) L of
          None \<Rightarrow> L
        | Some C \<Rightarrow>
            if \<not> leads s C L
            then lobby_tell e (ascii ''Error: Cannot register a clan if you're not the leader. If you think that this is a bug, make sure to report it'') r L
            else if \<not> canRegister C then lobby_write e (packet_setExtra 45 response) r L
            else if orderId = 115
            then (if cmd_getExtra (m_command request) = 45
                  then lobby_write e (setData (ai_nickname (getAccountInfo s)) (packet_setExtra 44 response)) r L
                  else L)
            else if orderId = 120
            then lobby_write e (packet_setExtra (if cr_isRegistered C then 45 else 44) response) r
                   (at_party (clan_of s) (party_no s) (\<lambda>(h, C). (h, switchRegistered C)) L)
            else L)"

definition handleActiveClansList :: "lobby_env \<Rightarrow> nat \<Rightarrow> packet \<Rightarrow> mref \<Rightarrow> lobby \<Rightarrow> lobby" where
  "handleActiveClansList e orderId request r = with_session r (\<lambda>s L.
     let to_members = (\<lambda>p. at_party (clan_of s) (party_no s) (to_party (broadcastToWaitingPlayers (le_crypt e) p)) L)
     in if orderId = 112 then to_members (setData [] (packet_setExtra 6 request))
        else if orderId = 113
        then let registered = getAllRegisteredClans (lb_heap L, lb_clans L)
             in to_members (setData (concat (map RegisteredClanInfo_bytes registered))
                  (packet_setOption (of_nat (length registered)) (packet_setExtra 37 request)))
        else L)"

section \<open>Joining a party\<close>

definition RoomInfo_bytes :: "u16 \<Rightarrow> u16 \<Rightarrow> bytes" where
  "RoomInfo_bytes roomNumber unknown = le_store 2 roomNumber @ le_store 2 unknown @ replicate 9 0"

text \<open>The member tests nothing but the clan, so a player who is in the party is taken in again.\<close>

definition join_party :: "lobby_env \<Rightarrow> packet \<Rightarrow> mref \<Rightarrow> main_session \<Rightarrow> u16 \<Rightarrow> lobby \<Rightarrow> packet \<times> lobby" where
  "join_party e request r s n L =
     (case party_of (clan_of s) n L of
        None \<Rightarrow> (same_request request, L)
      | Some C \<Rightarrow>
          let st = reply e r (\<lambda>p. setData (concat (map (\<lambda>w. PartyPlayerInfo_bytes (fst w)) (cr_waitingPlayers C)))
                     (setCommand 417 0 37 (of_nat (length (cr_waitingPlayers C))) p)) (same_request request, L);
              st = reply e r (\<lambda>p. setData (ClanRoomSettings_bytes (cr_settings C)) (setCommand 416 0 0 0 p)) st;
              st = reply e r (\<lambda>p. setData [] (setCommand (packet_getOrder request) 0 1 0 p)) st;
              p = setData (JoinPartyInfo_bytes (waiting_info s)) (setCommand 418 0 0 0 (fst st));
              L = at_party (clan_of s) n
                    (to_party (broadcastToWaitingPlayersExceptSelf (le_crypt e) p (uid_session (uid_of s)))) (snd st)
          in (p, with_session r (\<lambda>s. at_party (clan_of s) n (ClanRoom_addPlayer r s)) L))"

definition handlePartyJoin :: "lobby_env \<Rightarrow> packet \<Rightarrow> mref \<Rightarrow> lobby \<Rightarrow> mem_error + lobby" where
  "handlePartyJoin e request r L =
     (case lb_heap L r of None \<Rightarrow> Inr L | Some s \<Rightarrow>
       let response = same_request request;
           bs = main_parseData (replicate 13 0) 0 request;
           clanId = le_load (take 2 bs) :: u16; n = le_load (take 2 (drop 2 bs)) :: u16;
           refuse = (\<lambda>extra L. Inr (lobby_write e (packet_setExtra extra response) r L))
       in if ucast clanId \<noteq> clan_of s then refuse 43 L
          else case party_of (clan_of s) n L of
            None \<Rightarrow> Inr (lobby_write e (setData [] (packet_setExtra 6 response)) r L)
          | Some C \<Rightarrow>
              let L = lobby_tip e (ascii ''Joined party room number: '' @ digits (unat n)) r L
              in (case getLeaderSession (lb_heap L, C) of
                    None \<Rightarrow> refuse 43 (lobby_tell e (ascii ''Server error: Leader's session was not found. If this issue persists, please report it to the team.'') r L)
                  | Some leader \<Rightarrow>
                      if pi_hasMatchStarted (cr_partyInfo C) \<noteq> 0 then refuse 5 L
                      else if ClanRoom_isFull C then refuse 7 L
                      else case join_party e request r s n L of
                        (p, L) \<Rightarrow>
                          if ucast (room_no leader) \<ge> clanRoomNumberStart
                          then handleClanRoomJoin e (setData (RoomInfo_bytes (room_no leader - 1) 1) (setCommand 140 0 0 0 p)) r (cr_team C) L
                          else Inr L))"

section \<open>Leaving a party\<close>

text \<open>Both parties of a clan match and its room are removed.\<close>

definition handleClanRoomError :: "lobby_env \<Rightarrow> main_session \<Rightarrow> u16 \<Rightarrow> u16 \<Rightarrow> u32 \<Rightarrow> bytes \<Rightarrow> lobby \<Rightarrow> lobby" where
  "handleClanRoomError e s roomNumber clanRoomNumber clanId msg L =
     (let L = close_party e clanId clanRoomNumber
                (at_party clanId clanRoomNumber (to_party (broadcastChatMessage (le_crypt e) msg)) L)
      in (case getRoomByNumber roomNumber L of
            None \<Rightarrow> L
          | Some R \<Rightarrow>
              let L = L\<lparr>lb_heap := Room_broadcastMessage (le_crypt e) msg R (lb_heap L)\<rparr>;
                  L = (case first_live (\<lambda>t. clan_of t \<noteq> clan_of s) (members R) (lb_heap L) of
                         None \<Rightarrow> L
                       | Some t \<Rightarrow> close_party e (clan_of t) (party_no t) L)
              in RoomsManager_removeRoom e roomNumber 1 L))"

definition handlePartyRoomLeave :: "lobby_env \<Rightarrow> packet \<Rightarrow> mref \<Rightarrow> bool \<Rightarrow> lobby \<Rightarrow> lobby" where
  "handlePartyRoomLeave e request r isLeaderLeaving = with_session r (\<lambda>s L.
     let response = packet_setExtra 1 (same_request request);
         clanId = clan_of s; n = party_no s; c = le_crypt e; self = uid_session (uid_of s)
     in (case party_of clanId n L of
           None \<Rightarrow> lobby_write e (setData [] (packet_setExtra 43 response)) r L
         | Some C \<Rightarrow>
             let targetPlayerIndex = getPlayerIndex (ucast self) (lb_heap L, C)
             in (case ask_party clanId n (ClanRoom_removePlayer c self) None L of
                   (None, L) \<Rightarrow> handleClanRoomError e s (room_no s) n clanId
                     (ascii ''[handlePartyRoomLeave] An unexpected error occurred and the party was removed.'') L
                 | (Some True, L) \<Rightarrow> close_party e clanId n (lobby_write e response r L)
                 | (Some False, L) \<Rightarrow>
                     let L = lobby_write e response r L;
                         registered = (case party_of clanId n L of None \<Rightarrow> False | Some C \<Rightarrow> cr_isRegistered C);
                         response = (if registered then setCommand 120 0 45 0 response else response);
                         L = (if registered
                              then at_party clanId n (\<lambda>(h, C). (broadcastToWaitingPlayers c response C h, switchRegistered C)) L
                              else L)
                     in if getRoomByNumber (room_no s) L \<noteq> None
                        then with_session r (\<lambda>s L. snd (ask_room (room_no s) (Room_removePlayer c s 27) L)) L
                        else if \<not> isLeaderLeaving
                        then at_party clanId n (to_party (broadcastToWaitingPlayersExceptSelf c
                               (setData (uid_bytes (uid_of s))
                                 (setCommand 419 0 0 (case targetPlayerIndex of None \<Rightarrow> 0 | Some i \<Rightarrow> of_nat i) response)) self)) L
                        else L)))"

text \<open>
  The leader ends a clan match: the room is closed and the other members of each party leave it
  and join it again.
\<close>

definition rejoin_member :: "lobby_env \<Rightarrow> u32 \<Rightarrow> u16 \<Rightarrow> mref \<Rightarrow> lobby \<Rightarrow> mem_error + lobby" where
  "rejoin_member e clanId n r L =
     (case party_of clanId n L of
        None \<Rightarrow> Inl OutOfBounds
      | Some C \<Rightarrow>
          (case lb_heap L r of
             None \<Rightarrow> Inr L
           | Some s \<Rightarrow>
               if isLeader (of_nat (m_id s)) (lb_heap L, C) then Inr L
               else handlePartyJoin e
                      (setData (le_store 2 (ucast clanId :: u16) @ le_store 2 n @ replicate 9 0)
                        (setCommand 110 0 0 0 (setCommand 111 0 0 0 packet_new))) r
                      (handlePartyRoomLeave e (setCommand 111 0 0 0 packet_new) r True L)))"

definition end_party_match :: "lobby_env \<Rightarrow> packet \<Rightarrow> u32 \<times> u16 \<Rightarrow> lobby \<Rightarrow> mem_error + lobby" where
  "end_party_match e response = (\<lambda>(clanId, n) L.
     case party_of clanId n L of
       None \<Rightarrow> Inr L
     | Some _ \<Rightarrow>
         let L = at_party clanId n (\<lambda>st. to_party (broadcastToWaitingPlayers (le_crypt e) response) (updatePartyStatus (le_crypt e) False st)) L;
             waiting = (case party_of clanId n L of None \<Rightarrow> [] | Some C \<Rightarrow> getWaitingPlayerSessions (lb_heap L, C))
         in for_each (rejoin_member e clanId n) waiting L)"

definition handleClanRoomLeave :: "lobby_env \<Rightarrow> packet \<Rightarrow> mref \<Rightarrow> lobby \<Rightarrow> mem_error + lobby" where
  "handleClanRoomLeave e request r L =
     (case lb_heap L r of None \<Rightarrow> Inr L | Some s \<Rightarrow>
       let response = setData [] (packet_setExtra 1 (same_request request));
           refuse = (\<lambda>msg extra. Inr (lobby_write e (packet_setExtra extra response) r (lobby_tell e (ascii msg) r L)))
       in (case party_of (clan_of s) (party_no s) L of
             None \<Rightarrow> refuse ''Server error: failed to retrieve clan room info in HandleClanRoomLeave. Please report this issue'' 28
           | Some C \<Rightarrow>
               if \<not> leads s C L
               then refuse ''Server error: the server received a host-only packet from a non-host client. Please report this issue'' 16
               else case getRoomByNumber (room_no s) L of
                 None \<Rightarrow> refuse ''Server error: failed to retrieve clan-match room information. Please report this issue'' 28
               | Some R \<Rightarrow>
                   let parties = fold (\<lambda>entry ps. case lb_heap L (snd entry) of None \<Rightarrow> ps | Some t \<Rightarrow> AList.update (clan_of t) (party_no t) ps)
                                   (members R) []
                   in for_each (end_party_match e response) parties (RoomsManager_removeRoom e (room_no s) 27 L)))"

section \<open>Leaving a room\<close>

definition Room_getAccountInfoFor :: "UniqueId \<Rightarrow> room_state \<Rightarrow> AccountInfo" where
  "Room_getAccountInfoFor uid = (\<lambda>(h, R).
     let account = (\<lambda>entry. case h (snd entry) of None \<Rightarrow> AccountInfo_default | Some s \<Rightarrow> getAccountInfo s)
     in (case findPlayer (ucast (uid_session uid)) (h, R) of
           Some i \<Rightarrow> account (rm_players R ! i)
         | None \<Rightarrow> (case findObserverPlayer (ucast (uid_session uid)) (h, R) of
                      Some i \<Rightarrow> account (rm_observerPlayers R ! i) | None \<Rightarrow> AccountInfo_default)))"

definition account_name :: "AccountInfo \<Rightarrow> bytes" where
  "account_name a = takeWhile (\<lambda>b. b \<noteq> 0) (ai_nickname a)"

text \<open>Who leaves while there is a vote about them is kicked; the answer of the kick is not used.\<close>

definition flee_votekick :: "lobby_env \<Rightarrow> UniqueId \<Rightarrow> bytes \<Rightarrow> room_state \<Rightarrow> room_state" where
  "flee_votekick e uid msg = (\<lambda>(h, R).
     let name = account_name (Room_getAccountInfoFor uid (h, R));
         (h, R) = snd (Room_votekickPlayer (le_crypt e) uid (h, R));
         R = Room_resetVotekick R
     in (Room_broadcastMessage (le_crypt e) (ascii ''['' @ name @ msg) R h, R))"

definition kick_from_room :: "lobby_env \<Rightarrow> u16 \<Rightarrow> main_room \<Rightarrow> mref \<Rightarrow> mref \<Rightarrow> lobby \<Rightarrow> lobby" where
  "kick_from_room e n R r t L =
     (case lb_heap L t of None \<Rightarrow> L | Some target \<Rightarrow>
        if is_staff target then lobby_tell e (ascii ''Error: Cannot kick an user with grade >= MOD'') r L
        else if rm_hasMatchStarted R then L
        else let L = at_room n (\<lambda>(h, R). (h, Room_addKickedPlayer (ai_accountID (getAccountInfo target)) (name_of target) R)) L;
                 L = lobby_tell e (ascii ''You have been kicked by the host'') t L
             in with_session t (\<lambda>target L. snd (ask_room n (Room_removePlayer (le_crypt e) target 0x2A) L)) L)"

definition leave_normally :: "lobby_env \<Rightarrow> u16 \<Rightarrow> mref \<Rightarrow> u32 \<Rightarrow> lobby \<Rightarrow> lobby" where
  "leave_normally e n r extra = with_session r (\<lambda>s L.
     case getRoomByNumber n L of
       None \<Rightarrow> L
     | Some R \<Rightarrow>
         if rm_votekickTargetUid R = uid_of s
         then at_room n (flee_votekick e (uid_of s) (ascii ''] was kicked after attempting to leaving during a votekick.'')) L
         else case ask_room n (Room_removePlayer (le_crypt e) s extra) L of
           (True, L) \<Rightarrow>
             RoomsManager_removeRoom e (case getRoomByNumber n L of None \<Rightarrow> n | Some R \<Rightarrow> rm_number R) 1 L
         | (False, L) \<Rightarrow> L)"

definition handleRoomLeave :: "lobby_env \<Rightarrow> packet \<Rightarrow> mref \<Rightarrow> UniqueId \<Rightarrow> lobby \<Rightarrow> lobby" where
  "handleRoomLeave e request r uid = with_session r (\<lambda>s L.
     let n = room_no s
     in (case getRoomByNumber n L of
           None \<Rightarrow> lobby_write e (setCommand (packet_getOrder request) 0 0 0 (setTcpHeader (tcp_getSessionId (m_header request)) 0 packet_new)) r L
         | Some R \<Rightarrow>
             (case (getSessionBySessionId (unat (uid_session uid)) L, cmd_getExtra (m_command request) = 28) of
                (Some t, True) \<Rightarrow> kick_from_room e n R r t L
              | _ \<Rightarrow>
                  (case party_of (clan_of s) (party_no s) L of
                     None \<Rightarrow> leave_normally e n r 1 L
                   | Some _ \<Rightarrow>
                       let L = lobby_write e (setData [] (setCommand 111 0 0 0 (setTcpHeader (of_nat (m_id s)) 0 packet_new))) r L
                       in (case ask_party (clan_of s) (party_no s) (ClanRoom_removePlayer (le_crypt e) (uid_session (uid_of s))) None L of
                             (Some True, L) \<Rightarrow> close_party e (clan_of s) (party_no s) L
                           | (Some False, L) \<Rightarrow> leave_normally e n r 27 L
                           | (None, L) \<Rightarrow> handleClanRoomError e s n (party_no s) (clan_of s)
                               (ascii ''[handleRoomLeave] An unexpected error occurred and the party was removed.'') L)))))"

section \<open>Leaving a match\<close>

text \<open>The penalty: an item, or up to 120 points.\<close>

definition leave_penalty :: "lobby_env \<Rightarrow> packet \<Rightarrow> main_room \<Rightarrow> mref \<Rightarrow> lobby \<Rightarrow> lobby" where
  "leave_penalty e request R r = with_session r (\<lambda>s L.
     if cmd_getExtra (m_command request) = 28
     then lobby_session r (\<lambda>st. snd (session_useNoPenalty (le_main e)
            (parse_serial (le_main e) (unat (of_nat (length (m_data request)) - 8 :: u32)) request) request st)) L
     else if (case Room_getTeamForSession (of_nat (m_id s)) R of None \<Rightarrow> 0 | Some t \<Rightarrow> t) \<noteq> TEAM_OBSERVER
     then lobby_session r (\<lambda>st. sendCurrency (le_main e)
            (snd (session_setAccountMicroPoints (if mp_of st \<le> 120 then 0 else mp_of st - 120) st))) L
     else L)"

text \<open>The party of a host who leaves; the flag says whether to go on.\<close>

definition host_leaves_party :: "lobby_env \<Rightarrow> main_session \<Rightarrow> u16 \<Rightarrow> lobby \<Rightarrow> bool \<times> lobby" where
  "host_leaves_party e s n L =
     (if party_of (clan_of s) (party_no s) L = None then (True, L)
      else case ask_party (clan_of s) (party_no s) (ClanRoom_removePlayer (le_crypt e) (uid_session (uid_of s))) None L of
        (Some True, L) \<Rightarrow> (True, close_party e (clan_of s) (party_no s) L)
      | (Some False, L) \<Rightarrow> (True, L)
      | (None, L) \<Rightarrow> (False, handleClanRoomError e s n (party_no s) (clan_of s)
          (ascii ''[handleMatchLeave] An unexpected error occurred and the party was removed.'') L))"

definition member_leaves_party :: "lobby_env \<Rightarrow> main_session \<Rightarrow> lobby \<Rightarrow> mem_error + lobby" where
  "member_leaves_party e s L =
     (case getExactRoomFor (ucast (clan_of s)) (party_no s) (lb_clans L) of
        None \<Rightarrow> Inr L
      | Some (i, C) \<Rightarrow>
          (case changeLeaderIfLeader (le_crypt e) (uid_session (uid_of s)) (lb_heap L, C) of
             None \<Rightarrow> Inl OutOfBounds
           | Some (h, C) \<Rightarrow> Inr (L\<lparr>lb_heap := h, lb_clans := put_party (ucast (clan_of s)) i C (lb_clans L)\<rparr>)))"

definition leave_match :: "lobby_env \<Rightarrow> packet \<Rightarrow> u16 \<Rightarrow> main_session \<Rightarrow> lobby \<Rightarrow> mem_error + lobby" where
  "leave_match e request n s L =
     (case getRoomByNumber n L of
        None \<Rightarrow> Inr L
      | Some R \<Rightarrow>
          if Room_isHost (uid_of s) R
          then (case host_leaves_party e s (rm_number R) L of
                  (False, L) \<Rightarrow> Inr L
                | (True, L) \<Rightarrow>
                    (case ask_room n (Room_removeHostFromMatch (le_crypt e) 1) L of
                       (True, L) \<Rightarrow> Inr (RoomsManager_removeRoom e (rm_number R) 1 L)
                     | (False, L) \<Rightarrow> Inr L))
          else and_then (member_leaves_party e s L) (\<lambda>L.
                 Inr (at_room n (\<lambda>(h, R).
                   Room_setStateFor (uid_of s) STATE_WAITING
                     (Room_broadcastToRoom (le_crypt e)
                        (setData (uid_bytes (uid_of s)) (setCommand (packet_getOrder request) 0 0 0
                           (setTcpHeader (tcp_getSessionId (m_header request)) 0 packet_new))) R h, R)) L)))"

definition handleMatchLeave :: "lobby_env \<Rightarrow> packet \<Rightarrow> mref \<Rightarrow> lobby \<Rightarrow> mem_error + lobby" where
  "handleMatchLeave e request r L =
     (case lb_heap L r of None \<Rightarrow> Inr L | Some s \<Rightarrow>
       let n = room_no s
       in (case getRoomByNumber n L of
             None \<Rightarrow> Inr L
           | Some R \<Rightarrow>
               if rm_votekickTargetUid R = uid_of s
               then Inr (at_room n (flee_votekick e (uid_of s)
                      (ascii ''] was kicked after attempting to leave the room during a votekick.'')) L)
               else leave_match e request n s (leave_penalty e request R r L)))"

section \<open>A match between two clans\<close>

definition clan_match_request :: "lobby_env \<Rightarrow> ClanRoom \<Rightarrow> main_session \<Rightarrow> packet" where
  "clan_match_request e C leader =
     setData (RoomSettings_bytes (ClanRoom_getRoomSettings C) @ string_bytes e 30 [] @ replicate 2 0 @ string_bytes e 9 [] @ replicate 7 0)
       (setCommand 138 0 (ucast (ClanRoom_getSpecificSetting C)) 0 (setTcpHeader (of_nat (m_id leader)) 0 packet_new))"

definition set_party_team :: "u32 \<Rightarrow> party_state \<Rightarrow> party_state" where
  "set_party_team team = (\<lambda>(h, C). (h, C\<lparr>cr_team := team\<rparr>))"

definition join_members :: "lobby_env \<Rightarrow> packet \<Rightarrow> u32 \<Rightarrow> nat option \<Rightarrow> ClanRoom \<Rightarrow> lobby \<Rightarrow> mem_error + lobby" where
  "join_members e request team skipped C L =
     for_each (\<lambda>r L. case lb_heap L r of None \<Rightarrow> Inr L
                     | Some s \<Rightarrow> if skipped = Some (m_id s) then Inr L else handleClanRoomJoin e request r team L)
       (getWaitingPlayerSessions (lb_heap L, C)) L"

definition start_clan_match ::
  "lobby_env \<Rightarrow> u32 \<Rightarrow> packet \<Rightarrow> mref \<Rightarrow> main_session \<Rightarrow> u32 \<Rightarrow> u16 \<Rightarrow> ClanRoom \<Rightarrow> mref \<Rightarrow> main_session \<Rightarrow> ClanRoom \<Rightarrow> lobby \<Rightarrow> mem_error + lobby" where
  "start_clan_match e actualMap response r s targetClan targetNumber target lr leader self L =
     (let L = handleRoomCreationClan e actualMap (clan_match_request e target leader) lr L;
          roomNumber = (case lb_heap L lr of None \<Rightarrow> 0 | Some l \<Rightarrow> room_no l);
          request = setData (RoomInfo_bytes (roomNumber - 1) 2) (setCommand 140 0 0 0 response)
      in if getRoomByNumber roomNumber L = None
         then Inr (lobby_write e (packet_setExtra 6 request) r
                (lobby_tell e (ascii ''Server error: target leader session was not found. Please report this issue if it persists'') r L))
         else and_then (join_members e request TEAM_BLUE (Some (m_id leader)) target L) (\<lambda>L.
              and_then (join_members e request TEAM_RED None self
                         (at_party targetClan targetNumber (\<lambda>(h, C). (h, switchRegistered (C\<lparr>cr_team := TEAM_BLUE\<rparr>))) L)) (\<lambda>L.
              Inr (at_party (clan_of s) (party_no s) (set_party_team TEAM_RED) L))))"

definition handleOtherClanJoin :: "lobby_env \<Rightarrow> u32 \<Rightarrow> packet \<Rightarrow> mref \<Rightarrow> lobby \<Rightarrow> mem_error + lobby" where
  "handleOtherClanJoin e actualMap request r L =
     (case lb_heap L r of None \<Rightarrow> Inr L | Some s \<Rightarrow>
       let bs = main_parseData (replicate 13 0) 0 request;
           targetClan = ucast (le_load (take 2 bs) :: u16) :: u32; targetNumber = le_load (take 2 (drop 2 bs)) :: u16;
           response = same_request request;
           refuse = (\<lambda>extra. Inr (lobby_write e (packet_setExtra extra response) r L))
       in (case (party_of targetClan targetNumber L, party_of (clan_of s) (party_no s) L) of
             (_, None) \<Rightarrow> Inr L
           | (None, Some _) \<Rightarrow> Inl OutOfBounds
           | (Some target, Some self) \<Rightarrow>
               if ucast (ClanRoom_getClanId target) = clan_of s then refuse 1
               else if \<not> cr_isRegistered target then refuse 5
               else if length (cr_waitingPlayers target) > length (cr_waitingPlayers self) then refuse 35
               else case cr_waitingPlayers target of
                 [] \<Rightarrow> refuse 6
               | (_, lr) # _ \<Rightarrow>
                   (case lb_heap L lr of
                      None \<Rightarrow> refuse 6
                    | Some leader \<Rightarrow> start_clan_match e actualMap response r s targetClan targetNumber target lr leader self L)))"

end
