(* ===== verification/Social.thy ===== *)
theory Social
  imports Lobby
begin

text \<open>
  What a session does beside items and rooms, \<open>MainServer/src/Network/MainSession.cpp\<close>: mail and gifts,
  friends and blocked players, lists sent in several packets, bans and mutes, event missions and the
  statistics after a match; and the handlers of mail, friends and blocking in
  \<open>MainServer/include/Handlers/Player\<close>. What the database answers is an argument.
\<close>

section \<open>Lists of records\<close>

text \<open>Changing the packet of the session without sending it.\<close>

definition own_set :: "(packet \<Rightarrow> packet) \<Rightarrow> sess_state \<Rightarrow> sess_state" where
  "own_set f = on_sess (on_packet f)"

definition own_head :: "sess_state \<Rightarrow> sess_state" where
  "own_head st = own_set (own_header st) st"

definition sendEmptyPacket :: "main_env \<Rightarrow> u16 \<Rightarrow> u8 \<Rightarrow> sess_state \<Rightarrow> sess_state" where
  "sendEmptyPacket e order mission =
     write_own e (\<lambda>p. setData [] (packet_setExtra 6 (packet_setMission mission (packet_setOrder order p))))"

text \<open>The records of one type have one size.\<close>

definition numItemsPerPacket :: "nat \<Rightarrow> nat" where
  "numItemsPerPacket sz = (1440 - 8) div sz"

definition separate_packet :: "nat \<times> bytes list \<Rightarrow> packet \<Rightarrow> packet" where
  "separate_packet = (\<lambda>(i, part) p.
     packet_setOption (of_nat (length part)) (setData (concat part) (packet_setExtra (if i = 0 then 37 else 0) p)))"

definition sendSeparatePackets :: "main_env \<Rightarrow> nat \<Rightarrow> bytes list \<Rightarrow> sess_state \<Rightarrow> sess_state" where
  "sendSeparatePackets e sz records =
     fold (\<lambda>part. write_own e (separate_packet part)) (enumerate 0 (pieces (numItemsPerPacket sz - 1) records))"

section \<open>Mail\<close>

definition Mailbox_bytes :: "Mailbox \<Rightarrow> bytes" where
  "Mailbox_bytes m =
     le_store 4 (mb_accountId m) @ le_store 4 (mb_timestamp m) @ le_store 4 (mb_hasBeenRead m) @ mb_nickname m @ mb_message m"

definition Giftbox_bytes :: "Giftbox \<Rightarrow> bytes" where
  "Giftbox_bytes g =
     le_store 4 (gb_accountId g) @ le_store 4 (gb_timestamp g) @ le_store 4 (gb_id g) @ le_store 4 (gb_id g) @ le_store 4 (gb_id g) @
     gb_nickname g @ gb_message g"

definition maxMailbox :: nat where "maxMailbox = 100"

definition session_addMailboxReceived :: "Mailbox \<Rightarrow> sess_state \<Rightarrow> sess_state" where
  "session_addMailboxReceived m st =
     schedule (\<lambda>a. Sched_storeMailbox m a False) (on_sess (on_player (addMailboxReceived m)) st)"

definition session_addMailboxSent :: "Mailbox \<Rightarrow> sess_state \<Rightarrow> sess_state" where
  "session_addMailboxSent m st =
     schedule (\<lambda>a. Sched_storeMailbox m a True) (on_sess (on_player (addMailboxSent m)) st)"

definition session_addGiftboxReceived :: "Giftbox \<Rightarrow> sess_state \<Rightarrow> sess_state" where
  "session_addGiftboxReceived g st =
     schedule (\<lambda>a. Sched_storeGiftbox g a) (on_sess (on_player (addGiftboxReceived g)) st)"

text \<open>\<open>res\<close> is the answer of the database; the function ends without a result when the message was stored.\<close>

definition MAILBOX_DB_ERROR :: u8 where "MAILBOX_DB_ERROR = 54"

definition sendOfflineMailbox :: "main_env \<Rightarrow> u8 \<Rightarrow> Mailbox \<Rightarrow> sess_state \<Rightarrow> sess_state" where
  "sendOfflineMailbox e res m st =
     (let st = own_set (\<lambda>p. setData [] (packet_setOrder 104 p)) (own_head st)
      in if length (p_mailboxSent (player_of st)) > maxMailbox then write_own e (packet_setExtra 17) st
         else let st = (case st of (s, log) \<Rightarrow> (s, log @ [Sched_storeOfflineMailbox m (ai_nickname (getAccountInfo s))]))
              in if res = 0 then session_addMailboxSent (m\<lparr>mb_accountId := ai_accountID (account_of st)\<rparr>) st
                 else if res = MAILBOX_DB_ERROR then tell e ''[Session::sendOfflineMailbox] error: database error'' st
                 else write_own e (packet_setExtra res) st)"

definition refuse_mail :: "main_env \<Rightarrow> u8 \<Rightarrow> mref \<Rightarrow> world \<Rightarrow> bool \<times> world" where
  "refuse_mail e extra r w = (False, at_session r (write_own e (packet_setExtra extra)) w)"

definition sendOnlineMailbox :: "main_env \<Rightarrow> Mailbox \<Rightarrow> mref \<Rightarrow> mref \<Rightarrow> world \<Rightarrow> bool \<times> world" where
  "sendOnlineMailbox e m r t w =
     (let w = at_session r (\<lambda>st. own_set (\<lambda>p. setData [] (packet_setOrder 104 p)) (own_head st)) w
      in (case (fst w r, fst w t) of
            (Some s, Some s') \<Rightarrow>
              if length (p_mailboxSent (getPlayer s)) > maxMailbox then refuse_mail e 17 r w
              else if length (p_mailboxReceived (getPlayer s')) > maxMailbox then refuse_mail e 8 r w
              else if hasBlocked (aid_of s) (getPlayer s') then refuse_mail e 42 r w
              else let f = (\<lambda>p. setData [] (packet_setExtra 46 p));
                       w = at_session r (own_set f) w;
                       w = at_session t (session_addMailboxReceived m) (write_to e (f (mf_packet (sess_app s))) t w)
                   in (True, at_session r (session_addMailboxSent
                         (m\<lparr>mb_accountId := aid_of s, mb_nickname := ai_nickname (getAccountInfo s')\<rparr>)) w)
          | _ \<Rightarrow> (False, w)))"

definition session_deleteMailbox :: "main_env \<Rightarrow> bool \<Rightarrow> u32 \<Rightarrow> sess_state \<Rightarrow> bool \<times> sess_state" where
  "session_deleteMailbox e received timestamp st =
     (case run_player (if received then deleteReceivedMailbox timestamp else deleteSentMailbox timestamp) st of
        (True, st) \<Rightarrow> (True, schedule (\<lambda>a. Sched_deleteMailbox timestamp a (\<not> received)) st)
      | (False, st) \<Rightarrow> (False, tell e (if received then ''[Session::deleteReceivedMailbox] Error while deleting received mailbox''
                                       else ''[Session::deleteSentMailbox] Error while deleting sent mailbox'') st))"

definition session_setReceivedGiftboxes :: "main_env \<Rightarrow> (bytes \<Rightarrow> bytes) \<Rightarrow> Giftbox list \<Rightarrow> sess_state \<Rightarrow> sess_state" where
  "session_setReceivedGiftboxes e behind gs st =
     (let st = on_sess (on_player (setReceivedGiftboxes gs)) st; team = ascii ''Team''
      in if gs = [] then st
         else write_own e (\<lambda>p. setData (take 16 (team @ 0 # behind team)) (setCommand 64 0 46 0 p)) (own_head st))"

definition sendUnreadMailboxes :: "main_env \<Rightarrow> sess_state \<Rightarrow> sess_state" where
  "sendUnreadMailboxes e st =
     fold (\<lambda>m. write_own e (setData (Mailbox_bytes m)))
       (filter (\<lambda>m. mb_hasBeenRead m = 0) (p_mailboxReceived (player_of st)))
       (own_set (setCommand 104 0 46 0) (own_head st))"

text \<open>A list in one packet or several, and a packet that ends it.\<close>

definition send_list :: "main_env \<Rightarrow> nat \<Rightarrow> bytes list \<Rightarrow> sess_state \<Rightarrow> sess_state" where
  "send_list e sz records st =
     write_own e (\<lambda>p. setData [] (packet_setExtra 51 p))
       (if length records * sz < 1440
        then write_own e (\<lambda>p. setData (concat records) (packet_setExtra 37 p)) st
        else sendSeparatePackets e sz records st)"

definition displayMailboxes :: "main_env \<Rightarrow> u8 \<Rightarrow> sess_state \<Rightarrow> sess_state" where
  "displayMailboxes e mailboxType st =
     (let ms = (if mailboxType = 0 then p_mailboxReceived (player_of st) else p_mailboxSent (player_of st));
          st = own_set (setCommand 106 mailboxType 0 (of_nat (length ms))) (own_head st)
      in if ms = [] then sendEmptyPacket e 106 mailboxType st else send_list e 284 (map Mailbox_bytes ms) st)"

definition displayGiftboxes :: "main_env \<Rightarrow> u8 \<Rightarrow> sess_state \<Rightarrow> sess_state" where
  "displayGiftboxes e mailboxType st =
     (let st = own_head st
      in if mailboxType = 1 then sendEmptyPacket e 67 mailboxType st
         else let gs = p_giftboxReceived (player_of st);
                  st = own_set (setCommand 67 mailboxType 0 (of_nat (length gs))) st
              in if gs = [] then sendEmptyPacket e 67 0 st else send_list e 292 (map Giftbox_bytes gs) st)"

text \<open>The description is copied into 256 bytes without a test of its length.\<close>

definition receiveGift :: "main_env \<Rightarrow> u32 \<Rightarrow> bytes \<Rightarrow> sess_state \<Rightarrow> mem_error + bool \<times> sess_state" where
  "receiveGift e itemId giftDescription st =
     (if length (p_mailboxReceived (player_of st)) > maxMailbox then Inr (False, st)
      else if length giftDescription > 256 then Inl OutOfBounds
      else Inr (True, session_addGiftboxReceived
             \<lparr>gb_accountId = ai_accountID (account_of st), gb_timestamp = me_now e, gb_id = itemId,
              gb_nickname = ascii ''Team'' @ replicate 12 0, gb_message = giftDescription @ replicate (256 - length giftDescription) 0\<rparr>
             (write_own e (\<lambda>p. setData [] (setCommand 64 0 46 0 p)) st)))"

definition session_deleteGiftbox :: "u32 \<Rightarrow> sess_state \<Rightarrow> sess_state" where
  "session_deleteGiftbox timestamp st =
     schedule (\<lambda>a. Sched_deleteReceivedGiftbox a timestamp) (on_sess (on_player (deleteGiftbox timestamp)) st)"

section \<open>Friends and blocked players\<close>

definition Friend_bytes :: "Friend \<Rightarrow> bytes" where
  "Friend_bytes f = uid_bytes (fr_targetUniqueId f) @ le_store 4 (fr_targetAccountId f) @ fr_targetNickname f"

definition session_addFriend :: "Friend \<Rightarrow> sess_state \<Rightarrow> sess_state" where
  "session_addFriend f st = schedule (\<lambda>a. Sched_addFriend a (fr_targetAccountId f)) (on_sess (on_player (addOfflineFriend f)) st)"

text \<open>\<open>result\<close> is the answer of the database: 43 for an error, 0 for a stored request.\<close>

definition handleOfflineFriendRequest :: "main_env \<Rightarrow> u8 \<Rightarrow> bytes \<Rightarrow> sess_state \<Rightarrow> sess_state" where
  "handleOfflineFriendRequest e result nickname st =
     (let st = schedule (\<lambda>a. Sched_addPendingFriendRequest a nickname) st
      in if result \<noteq> 43 \<and> result \<noteq> 0
         then write_own e (\<lambda>p. packet_setExtra result (if result = 7 then packet_setMission 1 p else p)) st
         else st)"

definition handleOnlineFriendRequest :: "main_env \<Rightarrow> mref \<Rightarrow> mref \<Rightarrow> world \<Rightarrow> world" where
  "handleOnlineFriendRequest e r t w =
     (case (fst w r, fst w t) of
        (Some s, Some s') \<Rightarrow>
          if aid_of s' = aid_of s then tell_to e ''You cannot send a friend request to yourself!'' r w
          else if length (p_friends (getPlayer s')) \<ge> maxFriends
          then at_session r (write_own e (\<lambda>p. packet_setMission 1 (packet_setExtra 7 p))) w
          else if hasBlocked (aid_of s) (getPlayer s') then at_session r (write_own e (packet_setExtra 42)) w
          else let f = \<lparr>fr_targetUniqueId = uid_of s, fr_targetAccountId = aid_of s, fr_targetNickname = ai_nickname (getAccountInfo s)\<rparr>;
                   g = (\<lambda>p. setData (Friend_bytes f) (packet_setExtra 28 p))
               in write_to e (g (mf_packet (sess_app s))) t (at_session r (own_set g) w)
      | _ \<Rightarrow> w)"

definition sendFriendRequest :: "main_env \<Rightarrow> u8 \<Rightarrow> mref option \<Rightarrow> bytes \<Rightarrow> mref \<Rightarrow> world \<Rightarrow> world" where
  "sendFriendRequest e result target nickname r w =
     (let w = at_session r (\<lambda>st. own_set (\<lambda>p. setData [] (setCommand 61 0 0 0 p)) (own_head st)) w
      in (case fst w r of
            None \<Rightarrow> w
          | Some s \<Rightarrow>
              if length (p_friends (getPlayer s)) \<ge> maxFriends
              then at_session r (write_own e (\<lambda>p. packet_setExtra 7 (packet_setMission 0 p))) w
              else (case target of
                      None \<Rightarrow> at_session r (handleOfflineFriendRequest e result nickname) w
                    | Some t \<Rightarrow> handleOnlineFriendRequest e r t w)))"

text \<open>24 bytes of the request are sent back, whatever its size.\<close>

definition acceptFriendRequest :: "main_env \<Rightarrow> mref option \<Rightarrow> Friend \<Rightarrow> bytes \<Rightarrow> mref \<Rightarrow> world \<Rightarrow> mem_error + world" where
  "acceptFriendRequest e sender target data r w =
     (if length data < 24 then Inl OutOfBounds
      else let w = at_session r (\<lambda>st. own_set (\<lambda>p. setData (take 24 data) (setCommand 61 0 1 0 p)) (own_head st)) w
           in Inr (case sender of
                None \<Rightarrow> at_session r (\<lambda>st. write_own e id (session_addFriend target st)) w
              | Some t \<Rightarrow>
                  (case (fst w r, fst w t) of
                     (Some s, Some s') \<Rightarrow>
                       let w = at_session r (on_sess (on_player (\<lambda>p. snd (addOnlineFriend (Some (t, getAccountInfo s')) p)))) w;
                           w = at_session t (on_sess (on_player (\<lambda>p. snd (addOnlineFriend (Some (r, getAccountInfo s)) p)))) w
                       in at_session r (\<lambda>st. write_own e id (schedule (\<lambda>a. Sched_addFriend a (aid_of s')) st)) w
                   | _ \<Rightarrow> w)))"

definition sendFriendList :: "main_env \<Rightarrow> Friend list \<Rightarrow> u32 \<Rightarrow> sess_state \<Rightarrow> sess_state" where
  "sendFriendList e pendingRequests serverId st =
     (let st = own_head st;
          st = (if pendingRequests = [] then st
                else fold (\<lambda>f. write_own e (setData (Friend_bytes (f\<lparr>fr_targetUniqueId := UniqueId_make 0 serverId 0\<rparr>)))) pendingRequests
                       (own_set (setCommand 61 0 28 2) st));
          friends = getFriendlist (player_of st)
      in write_own e (\<lambda>p. setData (concat (map Friend_bytes friends)) (setCommand 63 0 37 (of_nat (length friends)) p)) st)"

definition logFriend :: "main_env \<Rightarrow> u8 \<Rightarrow> u32 \<Rightarrow> sess_state \<Rightarrow> sess_state" where
  "logFriend e logType targetAccountId st =
     write_own e (\<lambda>p. setData (le_store 4 targetAccountId) (setCommand 85 0 53 logType p)) (own_head st)"

definition updateFriendSession :: "mref \<Rightarrow> main_session \<Rightarrow> bool \<Rightarrow> main_session \<Rightarrow> main_session" where
  "updateFriendSession t target remove =
     on_player (updateFriend
       \<lparr>fr_targetUniqueId = (if remove then UniqueId_default else uid_of target), fr_targetAccountId = aid_of target,
        fr_targetNickname = ai_nickname (getAccountInfo target)\<rparr> (Some t) remove)"

definition session_deleteFriend :: "u32 \<Rightarrow> bool \<Rightarrow> sess_state \<Rightarrow> sess_state" where
  "session_deleteFriend targetAccountId persist st =
     (let st = snd (run_player (deleteFriend targetAccountId) st)
      in if persist then schedule (\<lambda>a. Sched_removeFriend a targetAccountId) st else st)"

definition ChatExtra_INFO :: u32 where "ChatExtra_INFO = 10"

definition session_blockAccount :: "main_env \<Rightarrow> u32 \<Rightarrow> bytes \<Rightarrow> sess_state \<Rightarrow> bool \<times> sess_state" where
  "session_blockAccount e accountId nickname st =
     (case run_player (blockAccount accountId nickname) st of
        (True, st) \<Rightarrow> (True, schedule (\<lambda>a. Sched_blockPlayer a accountId)
                         (write_own e (\<lambda>p. setData [] (setCommand 52 0 1 0 p)) (own_head st)))
      | (False, st) \<Rightarrow> (False, on_sess (sendMessage (me_crypt e) (ascii ''Maximum block list reached (30)'') ChatExtra_INFO) st))"

definition session_unblockAccount :: "main_env \<Rightarrow> u32 \<Rightarrow> sess_state \<Rightarrow> sess_state" where
  "session_unblockAccount e accountId st =
     (case run_player (unblockAccount accountId) st of (ok, st) \<Rightarrow>
        let st = (if ok then schedule (\<lambda>a. Sched_unblockPlayer a accountId) st else st)
        in write_own e (\<lambda>p. setData [] (setCommand 53 0 (if ok then 1 else 0) 0 p)) (own_head st))"

definition sendBlockedPlayers :: "main_env \<Rightarrow> sess_state \<Rightarrow> sess_state" where
  "sendBlockedPlayers e st =
     (let bs = p_blockedAccounts (player_of st)
      in write_own e (\<lambda>p. setData (concat (map (\<lambda>b. le_store 4 (bp_targetAccountId b) @ bp_targetNickname b) bs))
           (setCommand 54 0 37 (of_nat (length bs)) p)) (own_head st))"

section \<open>Other players\<close>

text \<open>The sizes of the two records depend on the compiler.\<close>

definition bounded_name :: "bytes \<Rightarrow> bytes" where
  "bounded_name s = (let t = takeWhile (\<lambda>b. b \<noteq> 0) (take 15 s) in t @ replicate (16 - length t) 0)"

definition lobby_record :: "(nat \<Rightarrow> nat) \<Rightarrow> AccountInfo \<Rightarrow> bytes" where
  "lobby_record sizes a =
     bounded_name (ai_nickname a) @ uid_bytes (ai_uniqueId a) @
     take (sizes 37) (le_store 8 (ucast (ai_clanLogoFrontId a) OR push_bit 16 (ucast (ai_clanLogoBackId a)) OR
       push_bit 30 (ucast (ai_playerLevel a)) :: u64))"

definition clan_record :: "(nat \<Rightarrow> nat) \<Rightarrow> AccountInfo \<Rightarrow> bytes" where
  "clan_record sizes a =
     bounded_name (ai_nickname a) @ uid_bytes (ai_uniqueId a) @ take (sizes 7) (le_store 2 (ucast (ai_playerLevel a) :: u16)) @ replicate 2 0"

definition sendLobbyList :: "main_env \<Rightarrow> (nat \<Rightarrow> nat) \<Rightarrow> main_session list \<Rightarrow> sess_state \<Rightarrow> sess_state" where
  "sendLobbyList e sizes allSessions st =
     (let st = own_set (setCommand 84 0 0 (of_nat (length allSessions))) (own_head st);
          records = map (\<lambda>s. lobby_record sizes (getAccountInfo s))
            (filter (\<lambda>s. m_id s \<noteq> m_id (fst st) \<and> isInLobby (getPlayer s)) allSessions);
          sz = 20 + sizes 37
      in if length allSessions \<le> 1 then sendEmptyPacket e 84 0 st
         else if length records * sz < 1440
         then write_own e (\<lambda>p. setData (concat records) (packet_setExtra 37 p)) st
         else sendSeparatePackets e sz records st)"

definition sendClanList :: "main_env \<Rightarrow> (nat \<Rightarrow> nat) \<Rightarrow> main_session list \<Rightarrow> sess_state \<Rightarrow> sess_state" where
  "sendClanList e sizes allSessions st =
     (let st = own_head st;
          records = map (\<lambda>s. clan_record sizes (getAccountInfo s))
            (filter (\<lambda>s. m_id s \<noteq> m_id (fst st) \<and> ai_clanId (getAccountInfo s) = ai_clanId (account_of st)) allSessions)
      in if length allSessions \<le> 1 then sendEmptyPacket e 57 0 st
         else write_own e (\<lambda>p. setData (concat records) (setCommand 57 0 37 (of_nat (length records)) p)) st)"

section \<open>Bans, mutes and names\<close>

text \<open>\<open>until\<close> is the formatted end of the ban; \<open>dbOk\<close> the answer of the database.\<close>

definition schedule_named :: "(bytes \<Rightarrow> sched_call) \<Rightarrow> sess_state \<Rightarrow> sess_state" where
  "schedule_named call = (\<lambda>(s, log). (s, log @ [call (name_of s)]))"

definition banAccount :: "main_env \<Rightarrow> bytes \<Rightarrow> bytes \<Rightarrow> bool \<Rightarrow> bool \<Rightarrow> sess_state \<Rightarrow> bool \<times> sess_state" where
  "banAccount e until reason isMatchBan dbOk st =
     (let st = (if isMatchBan then on_sess (\<lambda>s. s\<lparr>sess_app := sess_app s\<lparr>mf_hasBeenMatchBanned := True\<rparr>\<rparr>) st else st);
          st = schedule_named (\<lambda>name. Sched_updateSuspension name until reason 3) st
      in if \<not> dbOk then (False, st)
         else (True, if isMatchBan then st else write_own e (\<lambda>p. setData [] (setCommand 73 0 1 0 p)) st))"

definition muteAccount :: "bytes \<Rightarrow> bytes \<Rightarrow> bytes \<Rightarrow> bool \<Rightarrow> sess_state \<Rightarrow> bool \<times> sess_state" where
  "muteAccount until reason mutedBy dbOk st =
     (let st = schedule_named (\<lambda>name. Sched_updateMute name until reason mutedBy 3) st
      in if dbOk then (True, on_sess (on_player (mute reason mutedBy until)) st) else (False, st))"

definition unmuteAccount :: "bool \<Rightarrow> sess_state \<Rightarrow> bool \<times> sess_state" where
  "unmuteAccount dbOk st = (dbOk, schedule_named Sched_unmuteAccount (on_sess (on_player unmute) st))"

definition disableRoomCreation :: "bytes \<Rightarrow> bool \<Rightarrow> sess_state \<Rightarrow> bool \<times> sess_state" where
  "disableRoomCreation until dbOk st =
     (let st = schedule_named (\<lambda>name. Sched_updateRoomCreationDisabledUntil name until) st
      in if dbOk then (True, on_sess (on_player (setRoomCreation False)) st) else (False, st))"

definition enableRoomCreation :: "bool \<Rightarrow> sess_state \<Rightarrow> bool \<times> sess_state" where
  "enableRoomCreation dbOk st =
     (dbOk, schedule_named Sched_resetRoomCreationDisabledUntil (on_sess (on_player (setRoomCreation True)) st))"

definition disableVotekick :: "bytes \<Rightarrow> bool \<Rightarrow> sess_state \<Rightarrow> bool \<times> sess_state" where
  "disableVotekick until dbOk st =
     (let st = schedule_named (\<lambda>name. Sched_updateVotekickDisabledUntil name until) st
      in if dbOk then (True, on_sess (on_player (setVotekick False)) st) else (False, st))"

definition enableVotekick :: "bool \<Rightarrow> sess_state \<Rightarrow> bool \<times> sess_state" where
  "enableVotekick dbOk st =
     (dbOk, schedule_named Sched_resetVotekickDisabledUntil (on_sess (on_player (setVotekick True)) st))"

definition setMute :: "bool \<Rightarrow> bytes \<Rightarrow> bytes \<Rightarrow> bytes \<Rightarrow> sess_state \<Rightarrow> sess_state" where
  "setMute isMuted reason mutedBy mutedUntil =
     on_sess (on_player (if isMuted then mute reason mutedBy mutedUntil else unmute))"

text \<open>The name is copied with its terminator into the 16 bytes of the account.\<close>

definition session_setPlayerName :: "main_env \<Rightarrow> bytes \<Rightarrow> bool \<Rightarrow> sess_state \<Rightarrow> bool \<times> sess_state" where
  "session_setPlayerName e playerName changed st =
     (if length playerName \<ge> 16 then (False, tell e ''error: the nickname cannot have more than 16 characters'' st)
      else let st = schedule (\<lambda>a. Sched_updatePlayerName a playerName) st
           in if \<not> changed then (False, tell e ''error: there's already a player with this nickname'' st)
              else (True, on_sess (on_player (setPlayerName playerName)) st))"

definition session_addLuckyPoints :: "u32 \<Rightarrow> sess_state \<Rightarrow> sess_state" where
  "session_addLuckyPoints points st =
     (let st = on_sess (on_player (addLuckyPoints points)) st
      in schedule (\<lambda>a. Sched_updatePlayerLuckyPoints a (ucast (ai_luckyPoints (account_of st)))) st)"

definition session_setLuckyPoints :: "u32 \<Rightarrow> sess_state \<Rightarrow> sess_state" where
  "session_setLuckyPoints points st =
     (let st = on_sess (on_player (setLuckyPoints points)) st
      in schedule (\<lambda>a. Sched_updatePlayerLuckyPoints a (ucast (ai_luckyPoints (account_of st)))) st)"

definition session_addItems :: "Item list \<Rightarrow> sess_state \<Rightarrow> sess_state" where
  "session_addItems items st = schedule (\<lambda>a. Sched_addPlayerItems a items) (on_sess (on_player (addItems items)) st)"

section \<open>Event missions\<close>

definition eventMissionTotal :: u32 where "eventMissionTotal = 51"
definition totalEventMissions :: nat where "totalEventMissions = 5"

abbreviation missions_of :: "sess_state \<Rightarrow> (u32 \<times> u32) list" where
  "missions_of st \<equiv> mf_eventMissions (sess_app (fst st))"

definition set_missions :: "(u32 \<times> u32) list \<Rightarrow> sess_state \<Rightarrow> sess_state" where
  "set_missions ms = on_sess (\<lambda>s. s\<lparr>sess_app := sess_app s\<lparr>mf_eventMissions := ms\<rparr>\<rparr>)"

definition mission_point :: "u32 \<Rightarrow> bytes" where
  "mission_point i = le_store 4 (i AND 0xFF)"

text \<open>Every point of every mission is told to the client again.\<close>

definition setEventMissions :: "main_env \<Rightarrow> (u32 \<times> u32) list \<Rightarrow> sess_state \<Rightarrow> sess_state" where
  "setEventMissions e active st =
     (if length active > totalEventMissions then tell e ''setEventMissions - error: activeEventIds.size() > 5'' st
      else let c = me_crypt e;
               st = (if active = [] then st
                     else on_sess (send c (setData (concat (map (\<lambda>(i, _). le_store 4 i) active))
                            (setCommand 167 1 0 (of_nat (length active)) packet_new))) st);
               p = setCommand 168 1 2 0 (setTcpHeader (of_nat (m_id (fst st))) 0 packet_new);
               st = fold (\<lambda>(i, progress). fold (\<lambda>_. on_sess (send c (setData (mission_point i) p))) [0..<unat progress]) active st
           in set_missions active st)"

definition sendEventMission :: "main_env \<Rightarrow> u32 \<Rightarrow> sess_state \<Rightarrow> sess_state" where
  "sendEventMission e index st =
     (case map_of (missions_of st) index of
        None \<Rightarrow> st
      | Some points_ \<Rightarrow>
          if points_ < eventMissionTotal
          then let st = on_sess (sendMessage (me_crypt e) (ascii ''Obtained one point for event mission idx: '' @ digits (unat index)) 1) st;
                   ms = AList.update index (points_ + 1) (missions_of st);
                   st = write_own e (\<lambda>p. setData (mission_point index) (setCommand 168 1 2 0 p)) (own_head (set_missions ms st))
               in schedule (\<lambda>a. Sched_savePlayerMissions a ms) st
          else on_sess (sendMessage (me_crypt e)
                 (ascii ''[sendEventMission] server error: currentTotal < Common::Constants::eventMissionTotal [with currentTotal: '' @
                  digits (unat points_) @ ascii '']'' @ ascii '', eventMissionIndex: '' @ digits (unat index)) 1) st)"

text \<open>The points of the session are left as they are.\<close>

definition sendEventMissionReward :: "main_env \<Rightarrow> u32 \<Rightarrow> sess_state \<Rightarrow> sess_state" where
  "sendEventMissionReward e eventIndex st =
     (if eventIndex = 0 \<or> unat eventIndex > totalEventMissions then st
      else if map_of (missions_of st) eventIndex \<noteq> Some (eventMissionTotal - 1)
      then tell e ''[sendEventMissionReward] server error: you don't have exactly 50 points to obtain this reward'' st
      else case getEventMissionRewardFor (me_game e) eventIndex of
        None \<Rightarrow> tell e ''[sendEventMissionReward] server error: reward id not found for the given event id - please report this issue'' st
      | Some rewardId \<Rightarrow>
          (case spawnItemCommand e rewardId (ascii ''Item spawned automatically - event mission rewards'') st of
             (False, st) \<Rightarrow> tell e ''[sendEventMissionReward] server error: failed to spawn item - please report this issue'' st
           | (True, st) \<Rightarrow>
               let st = on_sess (send (me_crypt e) (setData (le_store 4 eventIndex)
                          (setCommand 168 0 8 0 (setTcpHeader (of_nat (m_id (fst st))) 0 packet_new)))) st;
                   st = schedule (\<lambda>a. Sched_updatePlayerMissionProgress a eventIndex eventMissionTotal) st;
                   st = snd (spawnCouponCommon e 5 True (sendRt e 5000 st));
                   st = snd (spawnItemCommand e 4811300 (ascii ''Item spawned automatically - event mission rewards'') st)
               in on_sess (sendMessage (me_crypt e) (ascii ''You obtained 5'000 RT, 5 coupons and a Boss Battle ticket!'') 12) st))"

section \<open>After a match\<close>

record ScoreboardResponse =
  sb_meleeKills :: u8
  sb_rifleKills :: u8
  sb_shotgunKills :: u8
  sb_sniperKills :: u8
  sb_mgKills :: u8
  sb_bazookaKills :: u8
  sb_grenadeKills :: u8
  sb_probablyKillStreak :: u8
  sb_totalKills :: u8
  sb_deaths :: u8
  sb_headshots :: u8
  sb_assists :: u8
  sb_newTotalMP :: u32
  sb_newTotalEXP :: u32
  sb_newTotalClanContribution :: u32

definition add_match :: "ScoreboardResponse \<Rightarrow> u32 \<Rightarrow> bool \<Rightarrow> AccountInfo \<Rightarrow> AccountInfo" where
  "add_match b totalPlaytimeSeconds isZombieMode a =
     (let a = (if isZombieMode
               then a\<lparr>ai_zombieKills := ai_zombieKills a + ucast (sb_totalKills b div 3), ai_infected := ai_infected a + ucast (sb_meleeKills b)\<rparr>
               else a\<lparr>ai_meleeKills := ai_meleeKills a + ucast (sb_meleeKills b), ai_totalKills := ai_totalKills a + ucast (sb_totalKills b)\<rparr>)
      in a\<lparr>ai_playtime := ai_playtime a + totalPlaytimeSeconds, ai_rifleKills := ai_rifleKills a + ucast (sb_rifleKills b),
           ai_shotgunKills := ai_shotgunKills a + ucast (sb_shotgunKills b), ai_sniperKills := ai_sniperKills a + ucast (sb_sniperKills b),
           ai_microgunKills := ai_microgunKills a + ucast (sb_mgKills b), ai_bazookaKills := ai_bazookaKills a + ucast (sb_bazookaKills b),
           ai_grenadeKills := ai_grenadeKills a + ucast (sb_grenadeKills b),
           ai_killstreak := (if ai_killstreak a < sb_probablyKillStreak b then sb_probablyKillStreak b else ai_killstreak a),
           ai_deaths := ai_deaths a + ucast (sb_deaths b), ai_headshots := ai_headshots a + ucast (sb_headshots b),
           ai_experience := sb_newTotalEXP b, ai_microPoints := ucast (sb_newTotalMP b)\<rparr>)"

definition add_result :: "MatchEnd \<Rightarrow> AccountInfo \<Rightarrow> AccountInfo" where
  "add_result r a =
     (case r of
        MATCH_WON \<Rightarrow> a\<lparr>ai_wins := ai_wins a + 1\<rparr>
      | MATCH_LOST \<Rightarrow> a\<lparr>ai_losses := ai_losses a + 1\<rparr>
      | MATCH_DRAW \<Rightarrow> a\<lparr>ai_draws := ai_draws a + 1\<rparr>
      | MATCH_DO_NOTHING \<Rightarrow> a)"

definition add_clan_match :: "ScoreboardResponse \<Rightarrow> MatchEnd \<Rightarrow> AccountInfo \<Rightarrow> AccountInfo" where
  "add_clan_match b r a =
     (let a = (case r of
                 MATCH_WON \<Rightarrow> a\<lparr>ai_clanWins := ai_clanWins a + 1\<rparr>
               | MATCH_LOST \<Rightarrow> a\<lparr>ai_clanLosses := ai_clanLosses a + 1\<rparr>
               | MATCH_DRAW \<Rightarrow> a\<lparr>ai_clanDraws := ai_clanDraws a + 1\<rparr>
               | MATCH_DO_NOTHING \<Rightarrow> a)
      in a\<lparr>ai_clanKills := ai_clanKills a + ucast (sb_totalKills b), ai_clanDeaths := ai_clanDeaths a + ucast (sb_deaths b),
           ai_clanAssists := ai_clanAssists a + ucast (sb_assists b), ai_clanContribution := ucast (sb_newTotalClanContribution b)\<rparr>)"

definition storeEndMatchStats :: "u32 \<Rightarrow> ScoreboardResponse \<Rightarrow> MatchEnd \<Rightarrow> bool \<Rightarrow> bool \<Rightarrow> bool \<Rightarrow> sess_state \<Rightarrow> sess_state" where
  "storeEndMatchStats totalPlaytimeSeconds b matchEnd hasLeveledUp isZombieMode isClanMatch st =
     (let a0 = account_of st;
          a = add_result matchEnd (add_match b totalPlaytimeSeconds isZombieMode a0);
          st = (if isClanMatch
                then (case st of (s, log) \<Rightarrow> (s, log @ [Sched_updateClanContribution (ai_clanId a0)
                        (sb_newTotalClanContribution b - ucast (ai_clanContribution a0))]))
                else st);
          a = (if isClanMatch then add_clan_match b matchEnd a else a);
          a = (if hasLeveledUp then a\<lparr>ai_playerLevel := ai_playerLevel a + 1\<rparr> else a);
          st = schedule (\<lambda>i. Sched_updatePlayerStats i a) (on_sess (on_player (setAccountInfo a)) st);
          st = on_sess (on_player storeBatteryObtainedInMatch) st
      in schedule (\<lambda>i. Sched_updateBattery i (ucast (ai_battery (account_of st)))) st)"

section \<open>The handlers\<close>

text \<open>The nickname in the request is read up to its zero.\<close>

definition named_session :: "mref list \<Rightarrow> bytes \<Rightarrow> mheap \<Rightarrow> mref option" where
  "named_session sessions nickname h =
     find (\<lambda>r. case h r of None \<Rightarrow> False | Some s \<Rightarrow> name_of s = nickname) sessions"

definition handleGeneralFriendRequests :: "main_env \<Rightarrow> mref list \<Rightarrow> u8 \<Rightarrow> packet \<Rightarrow> mref \<Rightarrow> world \<Rightarrow> mem_error + world" where
  "handleGeneralFriendRequests e sessions result request r w =
     (if cmd_getExtra (m_command request) = 28 \<and> cmd_getOption (m_command request) = 2
      then and_then (c_string (m_data request)) (\<lambda>nickname.
             Inr (sendFriendRequest e result (named_session sessions nickname (fst w)) nickname r w))
      else if cmd_getExtra (m_command request) = 30
      then let accountId = parse_u32 4 request
           in if length (m_data request) < 24 then Inl OutOfBounds
              else acceptFriendRequest e (getSessionByAccountId sessions accountId (fst w))
                     \<lparr>fr_targetUniqueId = UniqueId_default, fr_targetAccountId = accountId,
                      fr_targetNickname = take 16 (drop 8 (m_data request))\<rparr> (m_data request) r w
      else Inr w)"

definition handleFriendDeletion :: "mref list \<Rightarrow> u32 \<Rightarrow> mref \<Rightarrow> world \<Rightarrow> world" where
  "handleFriendDeletion sessions aid r w =
     (let w = at_session r (session_deleteFriend aid True) w
      in (case (fst w r, getSessionByAccountId sessions aid (fst w)) of
            (Some s, Some t) \<Rightarrow> at_session t (session_deleteFriend (aid_of s) False) w
          | _ \<Rightarrow> w))"

text \<open>\<open>dbOk\<close> is the account the database finds for a player who is not online.\<close>

definition handlePlayerBlock :: "main_env \<Rightarrow> mref list \<Rightarrow> u32 option \<Rightarrow> bytes \<Rightarrow> packet \<Rightarrow> mref \<Rightarrow> world \<Rightarrow> world" where
  "handlePlayerBlock e sessions dbOk name request r = (\<lambda>(h, log).
     case h r of None \<Rightarrow> (h, log) | Some s \<Rightarrow>
       if cmd_getOption (m_command request) \<noteq> 2 then (h, log)
       else case named_session sessions (takeWhile (\<lambda>b. b \<noteq> 0) name) h of
         Some t \<Rightarrow> (case h t of None \<Rightarrow> (h, log) | Some s' \<Rightarrow>
           if is_staff s' then tell_to e ''Cannot block a staff member!'' r (h, log)
           else let (ok, s1, log) = session_blockAccount e (aid_of s') name (s, log); h = h(r \<mapsto> s1)
                in if ok \<and> isFriend (aid_of s') (getPlayer s1)
                   then at_session t (session_deleteFriend (aid_of s) False) (at_session r (session_deleteFriend (aid_of s') True) (h, log))
                   else (h, log))
       | None \<Rightarrow>
           let log = log @ [Sched_blockPlayerByNickname (aid_of s) (takeWhile (\<lambda>b. b \<noteq> 0) name)];
               not_found = (\<lambda>w. at_session r (on_sess (sendMessage (me_crypt e)
                 (ascii ''(Block Info) Player not found or the target user is a team member'') ChatExtra_INFO)) w)
           in (case dbOk of
                 None \<Rightarrow> not_found (h, log)
               | Some aid \<Rightarrow>
                   let (ok, s1, log) = session_blockAccount e aid name (s, log); h = h(r \<mapsto> s1)
                   in if ok \<and> isFriend aid (getPlayer s1) then at_session r (session_deleteFriend aid True) (h, log)
                      else not_found (h, log)))"

definition handleReadMailbox :: "main_env \<Rightarrow> u32 \<Rightarrow> packet \<Rightarrow> sess_state \<Rightarrow> sess_state" where
  "handleReadMailbox e timestamp request st =
     (if cmd_getExtra (m_command request) = 53
      then on_sess (send (me_crypt e) request) (schedule (\<lambda>a. Sched_updateReadMailbox a timestamp) st)
      else st)"

text \<open>The size of the copy is that of the request, less the name, as an unsigned number.\<close>

definition copied_message :: "packet \<Rightarrow> bytes \<Rightarrow> mem_error + bytes" where
  "copied_message request msg =
     (let n = length (m_data request)
      in if n < 16 \<or> n - 16 > 256 then Inl OutOfBounds
         else Inr (take (n - 16) msg @ replicate (256 - (n - 16)) 0))"

definition handleMailboxCommunication :: "main_env \<Rightarrow> mref list \<Rightarrow> u8 \<Rightarrow> packet \<Rightarrow> mref \<Rightarrow> world \<Rightarrow> mem_error + world" where
  "handleMailboxCommunication e sessions res request r w =
     (case fst w r of
        None \<Rightarrow> Inr w
      | Some s \<Rightarrow>
          if p_isMuted (getPlayer s) \<or> cmd_getOption (m_command request) \<noteq> 2 then Inr w
          else let bs = main_parseData (replicate 272 0) 0 request; nickname = take 16 bs
               in and_then (copied_message request (drop 16 bs)) (\<lambda>msg. Inr
                    (case named_session sessions (takeWhile (\<lambda>b. b \<noteq> 0) nickname) (fst w) of
                       None \<Rightarrow> at_session r (sendOfflineMailbox e res
                         \<lparr>mb_accountId = 0, mb_timestamp = me_now e, mb_hasBeenRead = 0, mb_nickname = nickname, mb_message = msg\<rparr>) w
                     | Some t \<Rightarrow>
                         (case fst w t of
                            None \<Rightarrow> w
                          | Some s' \<Rightarrow> snd (sendOnlineMailbox e
                              \<lparr>mb_accountId = aid_of s', mb_timestamp = me_now e, mb_hasBeenRead = 0,
                               mb_nickname = ai_nickname (getAccountInfo s), mb_message = msg\<rparr> r t w)))))"

text \<open>The gifts are opened one by one; the client says how many there are.\<close>

definition gift_step :: "main_env \<Rightarrow> u32 \<Rightarrow> packet \<Rightarrow> nat \<Rightarrow> u64 \<times> packet \<times> sess_state \<Rightarrow> u64 \<times> packet \<times> sess_state" where
  "gift_step e serverId request i = (\<lambda>(latest, response, st).
     let timestamp = parse_u32 (unat (8 * (of_nat i + 1) :: u32)) request
     in (case getGiftbox timestamp (player_of st) of
           None \<Rightarrow> (latest, response, tell e ''[handleMailboxGiftSend] error: mailbox with given timestamp not found'' st)
         | Some g \<Rightarrow>
             let latest = latest + 1;
                 itemId = ItemId_new (env_items e) (gb_id g);
                 si = \<lparr>si_itemNumber = ucast latest, si_serverId = ucast serverId, si_unknown = 0, si_itemOrigin = 8,
                       si_itemCreationDate = me_now e\<rparr>;
                 expires = expiration e (ucast (iid_itemId itemId)) (me_now e);
                 sp = \<lparr>sp_itemId = itemId, sp_expirationDate = expires, sp_serialInfo = si\<rparr>;
                 item = (Item_of_SpawnedItem e sp)\<lparr>it_serialInfo := si\<rparr>
             in (case session_addItem e item False st of
                   (True, st) \<Rightarrow>
                     let st = logItemInfo (serial_no si) (ucast (iid_itemId itemId)) expires
                                (ascii ''This item was received through the giftbox system'') st;
                         response = setData (le_store 4 (gb_accountId g) @ le_store 4 (gb_timestamp g) @ bought_bytes sp) response
                     in (latest, response, session_deleteGiftbox timestamp (on_sess (send (me_crypt e) response) st))
                 | (False, st) \<Rightarrow>
                     (latest, response, tell e ''Your inventory is full. Delete an item before opening the gift box'' st))))"

definition handleMailboxGiftSend :: "main_env \<Rightarrow> u32 \<Rightarrow> packet \<Rightarrow> sess_state \<Rightarrow> sess_state" where
  "handleMailboxGiftSend e serverId request st =
     (if cmd_getExtra (m_command request) = 53
      then snd (snd (fold (gift_step e serverId request) [0..<unat (parse_u32 0 request)]
             (getLatestItemNumber (player_of st), request, st)))
      else st)"

end
