(* ===== verification/RoomHandlers.thy ===== *)
theory RoomHandlers
  imports Parties Social
begin

text \<open>
  The handlers of a room's settings, votes and matches, \<open>MainServer/include/Handlers/Room\<close>:
  \<open>RoomChangeHostHandler.h\<close>, \<open>SimpleSettingHandler.h\<close>, \<open>IngameBatteryHandler.h\<close>, \<open>RoomInviteJoin.h\<close>,
  \<open>RoomMiscHandler.h\<close>, \<open>RoomStartHandler.h\<close> and \<open>EliminationNextRoundHandler.h\<close>. A handler that reads
  behind its request is \<open>Inl OutOfBounds\<close>.
\<close>

section \<open>The room of a session\<close>

definition in_room :: "mref \<Rightarrow> (main_session \<Rightarrow> main_room \<Rightarrow> lobby \<Rightarrow> lobby) \<Rightarrow> lobby \<Rightarrow> lobby" where
  "in_room r f = with_session r (\<lambda>s L. case getRoomByNumber (room_no s) L of None \<Rightarrow> L | Some R \<Rightarrow> f s R L)"

definition try_in_room :: "mref \<Rightarrow> (main_session \<Rightarrow> main_room \<Rightarrow> lobby \<Rightarrow> mem_error + lobby) \<Rightarrow> lobby \<Rightarrow> mem_error + lobby" where
  "try_in_room r f L =
     (case lb_heap L r of None \<Rightarrow> Inr L
      | Some s \<Rightarrow> (case getRoomByNumber (room_no s) L of None \<Rightarrow> Inr L | Some R \<Rightarrow> f s R L))"

definition to_room :: "lobby_env \<Rightarrow> u16 \<Rightarrow> packet \<Rightarrow> lobby \<Rightarrow> lobby" where
  "to_room e n p = at_room n (\<lambda>(h, R). (Room_broadcastToRoom (le_crypt e) p R h, R))"

definition to_others :: "lobby_env \<Rightarrow> u16 \<Rightarrow> UniqueId \<Rightarrow> packet \<Rightarrow> lobby \<Rightarrow> lobby" where
  "to_others e n uid p = at_room n (\<lambda>(h, R). (Room_broadcastToRoomExceptSelf (le_crypt e) p uid R h, R))"

definition tell_room :: "lobby_env \<Rightarrow> u16 \<Rightarrow> bytes \<Rightarrow> lobby \<Rightarrow> lobby" where
  "tell_room e n msg = at_room n (\<lambda>(h, R). (Room_broadcastMessage (le_crypt e) msg R h, R))"

definition change_room :: "u16 \<Rightarrow> (main_room \<Rightarrow> main_room) \<Rightarrow> lobby \<Rightarrow> lobby" where
  "change_room n f = at_room n (\<lambda>(h, R). (h, f R))"

abbreviation large_response :: "packet \<Rightarrow> packet" where
  "large_response request \<equiv> setTcpHeader (tcp_getSessionId (m_header request)) 4 packet_new"

section \<open>Host and settings\<close>

definition handleHostChange :: "lobby_env \<Rightarrow> packet \<Rightarrow> mref \<Rightarrow> lobby \<Rightarrow> lobby" where
  "handleHostChange e request r = in_room r (\<lambda>s R L.
     let opt = cmd_getOption (m_command request);
         response = setCommand (packet_getOrder request) 0 1 (ucast opt) (large_response request)
     in if \<not> Room_isHost (uid_of s) R then lobby_write e (packet_setExtra 0x10 response) r L
        else case ask_room (room_no s) (\<lambda>(h, R). case Room_changeHost (unat opt) R of (b, R) \<Rightarrow> (b, h, R)) L of
          (False, L) \<Rightarrow> lobby_write e (packet_setExtra 0xD response) r L
        | (True, L) \<Rightarrow> to_room e (room_no s) request L)"

datatype RoomSetting =
  SETTING_MAP | SETTING_PLAYERS_PER_TEAM | SETTING_TIME | SETTING_SPECIFIC | SETTING_SWITCH RoomSimpleSetting

definition handleSimpleRoomSetting :: "lobby_env \<Rightarrow> RoomSetting \<Rightarrow> packet \<Rightarrow> mref \<Rightarrow> lobby \<Rightarrow> lobby" where
  "handleSimpleRoomSetting e setting request r = in_room r (\<lambda>s R L.
     let n = room_no s; opt = cmd_getOption (m_command request); extra = cmd_getExtra (m_command request);
         response = setCommand (packet_getOrder request) (ucast (cmd_getMission (m_command request))) 0 (ucast opt) (large_response request)
     in if mode_of R = AiBattle then lobby_tell e (ascii ''Cannot change settings in AI battle, please create a new room'') r L
        else if \<not> Room_isHost (uid_of s) R then L
        else case setting of
          SETTING_MAP \<Rightarrow>
            to_room e n (setData (m_data request) (packet_setExtra (ucast extra) response)) (change_room n (Room_updateMap (ucast extra)) L)
        | SETTING_PLAYERS_PER_TEAM \<Rightarrow> to_room e n response (change_room n (Room_setPlayersPerTeam (ucast (opt div 2))) L)
        | SETTING_TIME \<Rightarrow> to_room e n response (change_room n (Room_setTime (ucast opt)) L)
        | SETTING_SPECIFIC \<Rightarrow> to_room e n response (change_room n (Room_setSpecificSetting (ucast opt)) L)
        | SETTING_SWITCH SETTING_TEAMBALANCE \<Rightarrow> L
        | SETTING_SWITCH b \<Rightarrow> to_room e n response (at_room n (Room_switchSimpleSetting (le_crypt e) b) L))"

text \<open>\<open>draw\<close> is the index the weighted distribution chooses.\<close>

definition batteryValues :: "u32 list" where "batteryValues = [0, 30, 50, 100]"

definition handleBattery :: "lobby_env \<Rightarrow> nat \<Rightarrow> packet \<Rightarrow> mref \<Rightarrow> UniqueId \<Rightarrow> lobby \<Rightarrow> lobby" where
  "handleBattery e draw request r targetUniqueId = in_room r (\<lambda>s R L.
     let selected = batteryValues ! draw
     in if selected = 0 then L
        else case Room_getPlayer targetUniqueId (lb_heap L, R) of
          None \<Rightarrow> L
        | Some t \<Rightarrow> with_session t (\<lambda>target L.
            lobby_session t (on_sess (on_player (addBatteryObtainedInMatch selected)))
              (lobby_write e (setData (le_store 4 selected) (setCommand (packet_getOrder request) 0 1 (ucast selected)
                 (setTcpHeader (of_nat (m_id target)) 4 packet_new))) t L)) L)"

section \<open>Invitations\<close>

definition RoomInfo_default :: "u16 \<Rightarrow> RoomInfo" where
  "RoomInfo_default n = \<lparr>ri_roomNumber = n, ri_password = replicate 9 0\<rparr>"

definition RoomInviteFollow_bytes :: "lobby_env \<Rightarrow> main_session \<Rightarrow> main_room \<Rightarrow> bytes" where
  "RoomInviteFollow_bytes e s R =
     (let pwd = (if rs_hasPassword (rm_settings R) \<noteq> 0 then take 13 (rm_password R) else [])
      in le_store 2 (le_serverId e) @ le_store 2 (1 :: u16) @ take 15 (ai_nickname (getAccountInfo s)) @ [0] @
         le_store 2 (room_no s - 1) @ le_store 2 (2 :: u16) @ string_bytes e 31 (rm_title R) @ [0] @
         pwd @ replicate (14 - length pwd) 0)"

definition join_friend :: "lobby_env \<Rightarrow> main_fields on_close \<Rightarrow> packet \<Rightarrow> mref \<Rightarrow> main_session \<Rightarrow> lobby \<Rightarrow> mem_error + lobby" where
  "join_friend e cb request r s L =
     (let refuse = (\<lambda>msg. Inr (lobby_tell e (ascii msg) r L)) in
      case Option.bind (by_account (parse_u32 0 request) L) (lb_heap L) of
        None \<Rightarrow> refuse ''The friend you're trying to join went offline.''
      | Some t \<Rightarrow>
          let n = room_no t in
          if n = 0 then refuse ''This friend is currently not inside a room.''
          else if \<not> isInLobby (getPlayer s) then refuse ''You can only join a friend's room while being in the lobby!''
          else if n = room_no s then refuse ''You cannot join this friend as you're already in their room.''
          else if ucast n \<ge> clanRoomNumberStart then refuse ''The target user is in a clan room''
          else case getRoomByNumber n L of
            None \<Rightarrow> refuse ''Room not found.''
          | Some R \<Rightarrow>
              handleRoomJoin e cb (setData (RoomInfo_bytes (n - 1) 2) (setCommand 140 0 0 0 request)) r (rm_password R \<noteq> [])
                (Some (RoomInfo_default (n - 1))) False L)"

definition invite_friend :: "lobby_env \<Rightarrow> packet \<Rightarrow> mref \<Rightarrow> main_session \<Rightarrow> lobby \<Rightarrow> mem_error + lobby" where
  "invite_friend e request r s L =
     (if length (m_data request) < 16 then Inl OutOfBounds
      else Inr (case findSessionByName (string_of e (take 16 (m_data request))) L of
        None \<Rightarrow> lobby_tell e (ascii ''The player you invited is offline.'') r L
      | Some t \<Rightarrow> with_session t (\<lambda>target L.
          let tell = (\<lambda>msg. lobby_tell e (ascii msg) r L) in
          if room_no s = 0 \<or> ucast (room_no s) \<ge> clanRoomNumberStart then tell ''You must be in a normal room to invite someone!''
          else if \<not> isInLobby (getPlayer target) then tell ''This player is currently not in the lobby.''
          else if room_no target = room_no s then tell ''The player you are trying to invite is already in your room.''
          else if hasBlocked (aid_of s) (getPlayer target) then tell ''The player you are trying to invite has blocked you.''
          else case getRoomByNumber (room_no s) L of
            None \<Rightarrow> tell ''You must be in a room to invite a player.''
          | Some R \<Rightarrow> lobby_write e (setData (RoomInviteFollow_bytes e s R) (setCommand 319 0 0 0 request)) t L) L))"

definition handleJoinAndInvites :: "lobby_env \<Rightarrow> main_fields on_close \<Rightarrow> packet \<Rightarrow> mref \<Rightarrow> lobby \<Rightarrow> mem_error + lobby" where
  "handleJoinAndInvites e cb request r L =
     (case lb_heap L r of None \<Rightarrow> Inr L | Some s \<Rightarrow>
       if cmd_getExtra (m_command request) = 28 then join_friend e cb request r s L
       else if cmd_getExtra (m_command request) = 0 \<and> cmd_getOption (m_command request) = 2 then invite_friend e request r s L
       else Inr L)"

section \<open>Votekicks\<close>

definition VotekickResponse_bytes :: "UniqueId \<Rightarrow> UniqueId \<Rightarrow> u32 \<Rightarrow> u32 \<Rightarrow> bytes" where
  "VotekickResponse_bytes target self reason time = uid_bytes target @ uid_bytes self @ le_store 4 reason @ le_store 4 time"

definition uid_of_data :: "u32 \<Rightarrow> UniqueId" where
  "uid_of_data d = \<lparr>uid_session = ucast d, uid_server = ucast (drop_bit 16 d), uid_unknown = ucast (drop_bit 31 d)\<rparr>"

abbreviation uid_of_request :: "packet \<Rightarrow> UniqueId" where
  "uid_of_request request \<equiv> uid_of_data (parse_u32 0 request)"

text \<open>One vote per player and match costs 100 points; the request is answered with an error otherwise.\<close>

definition start_votekick :: "lobby_env \<Rightarrow> packet \<Rightarrow> mref \<Rightarrow> main_session \<Rightarrow> main_room \<Rightarrow> lobby \<Rightarrow> lobby" where
  "start_votekick e request r s R L =
     (let uid = uid_of_request request; reason = parse_u32 4 request; n = room_no s;
          refuse = (\<lambda>extra L. lobby_write e (setData [] (packet_setExtra extra request)) r L)
      in case Option.bind (Room_getPlayer uid (lb_heap L, R)) (lb_heap L) of
           None \<Rightarrow> refuse 13 L
         | Some target \<Rightarrow>
             if is_staff target then lobby_tell e (ascii ''Cannot votekick a staff member!'') r L
             else if \<not> p_isVotekickEnabled (getPlayer s)
             then lobby_tell e (ascii ''Your votekicking permissions are currently disabled.'') r L
             else if ai_microPoints (getAccountInfo s) < 100 then lobby_tell e (ascii ''Not enough micro points for a votekick!'') r L
             else case ask_room n (\<lambda>(h, R). case Room_startVotekick uid (name_of target) reason (aid_of s) R of (b, R) \<Rightarrow> (b, h, R)) L of
               (False, L) \<Rightarrow> refuse 8 L
             | (True, L) \<Rightarrow>
                 let time = ucast (le_nowMs e - le_serverStart e + 30000) div 10;
                     L = to_room e n (setData (VotekickResponse_bytes uid (uid_of s) reason time)
                           (setCommand (packet_getOrder request) 0 28 1 request)) L
                 in lobby_session r (\<lambda>st. snd (session_setAccountMicroPoints (mp_of st - 100) st)) L)"

text \<open>Any member may ask for the result, at any time.\<close>

definition votekick_result :: "lobby_env \<Rightarrow> u16 \<Rightarrow> lobby \<Rightarrow> lobby" where
  "votekick_result e n = at_room n (\<lambda>(h, R).
     let target = rm_votekickTargetUid R;
         ((yes, name), R) = Room_getVotekickResultDetails R;
         inMatch = Room_getTotalPlayersInMatch R;
         no = (if unat yes \<le> inMatch then of_nat (inMatch - unat yes) else 0) :: u32;
         counts = ascii '' [Yes: '' @ digits (unat yes) @ ascii '', No: '' @ digits (unat no) @ ascii '']''
     in if yes > no
        then (case snd (Room_votekickPlayer (le_crypt e) target (h, R)) of
                (h, R) \<Rightarrow> (Room_broadcastMessage (le_crypt e) (name @ ascii '' has been votekicked.'' @ counts) R h, R))
        else (Room_broadcastMessage (le_crypt e) (name @ ascii '' 's votekick has not passed.'' @ counts) R h, R))"

section \<open>The settings window, passwords and teams\<close>

definition clear_team_balance :: "bytes \<Rightarrow> bytes" where
  "clear_team_balance bs = le_store 4 (le_load (take 4 bs) AND NOT (push_bit 29 1) :: u32) @ drop 4 bs"

text \<open>
  The size of the request says which structure it is; title and password are read as strings, up to
  the first zero from where they start.
\<close>

definition updated_room :: "lobby_env \<Rightarrow> packet \<Rightarrow> main_room \<Rightarrow> main_room option" where
  "updated_room e request R =
     (let d = m_data request;
          R = Room_updateRoomSettings (RoomSettingsUpdateBase_of_bytes d) (ucast (cmd_getOption (m_command request))) R
      in if length d = 4 then Some R
         else if length d = 36 then Some (Room_updateTitle (string_of e (drop 4 d)) R)
         else if length d = 20 then Some (Room_updatePassword (string_of e (drop 4 d)) R)
         else if length d = 52 then Some (Room_updateTitle (string_of e (drop 4 d)) (Room_updatePassword (string_of e (drop 36 d)) R))
         else None)"

definition mode_changed :: "lobby_env \<Rightarrow> packet \<Rightarrow> mref \<Rightarrow> u16 \<Rightarrow> main_room \<Rightarrow> main_room \<Rightarrow> lobby \<Rightarrow> lobby" where
  "mode_changed e request r n before after L =
     (if mode_of before = mode_of after then L
      else if \<not> Room_isModeTeamBased before \<and> Room_isModeTeamBased after
      then change_room n Room_updatePlayersTeamToTeamBased (lobby_write e (settings_packet after request) r L)
      else if Room_isModeTeamBased before \<and> \<not> Room_isModeTeamBased after
      then change_room n Room_updatePlayersTeamToNonTeamBased L
      else L)"

text \<open>The password is cleared before the host is asked for.\<close>

definition change_settings :: "lobby_env \<Rightarrow> packet \<Rightarrow> mref \<Rightarrow> main_session \<Rightarrow> lobby \<Rightarrow> lobby" where
  "change_settings e request r s L =
     (let n = room_no s;
          L = (if packet_getOrder request \<in> {129, 126} \<and> cmd_getMission (m_command request) = 0
               then change_room n (Room_updatePassword []) L else L)
      in case getRoomByNumber n L of
           None \<Rightarrow> L
         | Some R \<Rightarrow>
             (case updated_room e request R of
                None \<Rightarrow> L
              | Some R' \<Rightarrow>
                  if \<not> Room_isHost (uid_of s) R then L
                  else mode_changed e request r n R R'
                         (to_room e n (setData (clear_team_balance (m_data request)) request) (change_room n (\<lambda>_. R') L))))"

definition handleRoomMiscellaneous :: "lobby_env \<Rightarrow> packet \<Rightarrow> mref \<Rightarrow> lobby \<Rightarrow> mem_error + lobby" where
  "handleRoomMiscellaneous e request r = try_in_room r (\<lambda>s R L.
     let n = room_no s; extra = cmd_getExtra (m_command request); mission = cmd_getMission (m_command request);
         order = packet_getOrder request; isHost = Room_isHost (uid_of s) R
     in if mode_of R = AiBattle
        then Inr (lobby_tell e (ascii ''Cannot change settings in AI battle, please create a new room'') r L)
        else if order = 125 \<and> extra = 28 then Inr (start_votekick e request r s R L)
        else if order = 125 \<and> extra = 29 then Inr (change_room n Room_votekickVoteYes L)
        else if order = 125 \<and> extra = 42 then Inr (votekick_result e n L)
        else if mission = 2 \<and> extra = 18
        then (if \<not> isHost then Inr L
              else if length (m_data request) < 9 then Inl OutOfBounds
              else Inr (to_room e n request (change_room n (Room_updatePassword (string_of e (take 9 (m_data request)))) L)))
        else if mission = 3
        then (if \<not> isHost then Inr L else Inr (to_room e n request (change_room n (Room_updatePassword []) L)))
        else case (if order = 159 then ask_room n (Room_changePlayerTeam (uid_of s) (cmd_getOption (m_command request))) L else (False, L)) of
               (True, L) \<Rightarrow> Inr (to_room e n (setData (uid_bytes (uid_of s)) (packet_setExtra 1 (packet_setOrder 313 request))) L)
             | (False, L) \<Rightarrow> Inr (change_settings e request r s L))"

section \<open>The start of a match\<close>

definition ask_session :: "mref \<Rightarrow> (sess_state \<Rightarrow> bool \<times> sess_state) \<Rightarrow> lobby \<Rightarrow> bool \<times> lobby" where
  "ask_session r f L =
     (case lb_heap L r of
        None \<Rightarrow> (False, L)
      | Some s \<Rightarrow> (case f (s, lb_log L) of (b, s, log) \<Rightarrow> (b, L\<lparr>lb_heap := (lb_heap L)(r \<mapsto> s), lb_log := log\<rparr>)))"

text \<open>The message about a player goes to the first player of the room.\<close>

definition checkWeapons :: "lobby_env \<Rightarrow> (sess_state \<Rightarrow> bool \<times> sess_state) \<Rightarrow> string \<Rightarrow> main_room \<Rightarrow> lobby \<Rightarrow> bool \<times> lobby" where
  "checkWeapons e pred failMessage R L =
     (case rm_players R of
        [] \<Rightarrow> (False, L)
      | host # _ \<Rightarrow>
          if lb_heap L (snd host) = None then (False, L)
          else fold (\<lambda>en (ret, L).
                 case lb_heap L (snd en) of
                   None \<Rightarrow> (ret, L)
                 | Some s \<Rightarrow>
                     if ucast (rpi_state (fst en)) = STATE_READY
                     then (case ask_session (snd en) pred L of
                             (True, L) \<Rightarrow> (ret, L)
                           | (False, L) \<Rightarrow> (False, lobby_tell e (ascii ''(error) Player '' @ account_name (getAccountInfo s) @
                                               ascii ('' '' @ failMessage)) (snd host) L))
                     else (ret, L)) (rm_players R) (True, L))"

definition Room_isEveryoneCsd :: "lobby_env \<Rightarrow> main_room \<Rightarrow> lobby \<Rightarrow> bool \<times> lobby" where
  "Room_isEveryoneCsd e = checkWeapons e (hasCsdItems (le_main e)) ''is not CSD''"

definition Room_isEveryoneBasic :: "lobby_env \<Rightarrow> main_room \<Rightarrow> lobby \<Rightarrow> bool \<times> lobby" where
  "Room_isEveryoneBasic e = checkWeapons e (hasBasicItems (le_main e)) ''doesn't have basic weapons''"

text \<open>The parties of a room, by clan and number: of its first player in one and of the first in one of another clan.\<close>

type_synonym party_key = "u32 \<times> u16"

definition party_key_of :: "lobby \<Rightarrow> entry \<Rightarrow> party_key option" where
  "party_key_of L en =
     (case lb_heap L (snd en) of
        None \<Rightarrow> None
      | Some s \<Rightarrow> (case party_of (clan_of s) (party_no s) L of None \<Rightarrow> None | Some _ \<Rightarrow> Some (clan_of s, party_no s)))"

definition getPartyRooms :: "main_room \<Rightarrow> lobby \<Rightarrow> party_key option \<times> party_key option" where
  "getPartyRooms R L =
     (let keys = List.map_filter (party_key_of L) (Room_getAllPlayersWithSessions (lb_heap L, R))
      in case keys of
           [] \<Rightarrow> (None, None)
         | k # _ \<Rightarrow> (Some k, find (\<lambda>k'. fst k' \<noteq> fst k) keys))"

definition PlayerTeamInfo_bytes :: "PlayerTeamInfo \<Rightarrow> bytes" where
  "PlayerTeamInfo_bytes i =
     uid_bytes (pti_uid i) @ le_store 4 (pti_team i) @ take 16 (pti_nickname i @ replicate 16 0)"

definition M2C_sendPlayerTeamInfoBatch :: "lobby_env \<Rightarrow> u32 \<Rightarrow> PlayerTeamInfo list \<Rightarrow> lobby \<Rightarrow> bool \<times> lobby" where
  "M2C_sendPlayerTeamInfoBatch e hostSessionId infos =
     M2C_send e (setData (concat (map PlayerTeamInfo_bytes infos)) (M2C_packet hostSessionId 8 0 0))"

definition start_room :: "lobby_env \<Rightarrow> u16 \<Rightarrow> lobby \<Rightarrow> mem_error + lobby" where
  "start_room e n L =
     (case getRoomByNumber n L of
        None \<Rightarrow> Inr L
      | Some R \<Rightarrow>
          map_sum id (\<lambda>(st, batch).
            let L = put_room n st L
            in if batch = [] then L
               else case rm_players R of
                      [] \<Rightarrow> L
                    | host # _ \<Rightarrow> with_session (snd host) (\<lambda>s L. snd (M2C_sendPlayerTeamInfoBatch e (of_nat (m_id s)) batch L)) L)
            (Room_startMatch (le_nowMs e) (lb_heap L, R)))"

definition send_assassins :: "lobby_env \<Rightarrow> bool \<Rightarrow> u32 \<Rightarrow> main_room \<Rightarrow> lobby \<Rightarrow> bool option \<times> lobby" where
  "send_assassins e fromReadyPlayers hostId R L =
     (case (Room_getRandomAssassinFrom (le_random e) TEAM_BLUE fromReadyPlayers (lb_heap L, R),
            Room_getRandomAssassinFrom (le_random e) TEAM_RED fromReadyPlayers (lb_heap L, R)) of
        (Some blue, Some red) \<Rightarrow> (case M2C_sendAssassinModeInfo e True hostId blue red L of (b, L) \<Rightarrow> (Some b, L))
      | _ \<Rightarrow> (None, L))"

text \<open>What has to be right before the host can start: \<open>Inl\<close> the end of the handler, \<open>Inr\<close> to go on.\<close>

definition assassins_at_start :: "lobby_env \<Rightarrow> mref \<Rightarrow> u32 \<Rightarrow> main_room \<Rightarrow> lobby \<Rightarrow> bool \<times> lobby" where
  "assassins_at_start e r hostId R L =
     (if Room_isAssassinMode R
      then case send_assassins e True hostId R L of
             (Some True, L) \<Rightarrow> (True, L)
           | (Some False, L) \<Rightarrow>
               (False, lobby_tell e (ascii ''[Main::HandleRoomStart] Failed to send IPC data for Assassin mode! Please report this issue.'') r L)
           | (None, L) \<Rightarrow>
               (False, lobby_tell e (ascii ''[Main::HandleRoomStart] Failed to get random blue or red assassin for Assassin Mode. Please report this issue'') r L)
      else (True, snd (M2C_sendAssassinModeInfo e False hostId (UniqueId_default, []) (UniqueId_default, []) L)))"

definition parties_at_start :: "lobby_env \<Rightarrow> mref \<Rightarrow> u16 \<Rightarrow> main_room \<Rightarrow> lobby \<Rightarrow> bool \<times> lobby" where
  "parties_at_start e r n R L =
     (if ucast n < clanRoomNumberStart then (True, L)
      else let (first, second) = getPartyRooms R L;
               update = (\<lambda>k L. case k of None \<Rightarrow> L | Some (clanId, p) \<Rightarrow> at_party clanId p (updatePartyStatus (le_crypt e) True) L)
           in if first = None \<and> second = None
              then (False, lobby_tell e (ascii ''[Main::HandleRoomStart] error while retrieving either clan room!'') r L)
              else (True, update second (update first L)))"

definition host_starts :: "lobby_env \<Rightarrow> mref \<Rightarrow> main_session \<Rightarrow> main_room \<Rightarrow> lobby \<Rightarrow> mem_error + bool \<times> lobby" where
  "host_starts e r s R L =
     (let n = room_no s; hostId = ucast (uid_session (uid_of s)) in
      if mode_of R = BossBattle \<and> length (Room_getAllPlayers (lb_heap L, R)) > 4
      then Inr (False, lobby_tell e (ascii ''Error: Boss battle can only be started when there are 4 players (or less)'') r L)
      else case (if rm_isCsdMode R then Room_isEveryoneCsd e R L else (True, L)) of
        (False, L) \<Rightarrow> Inr (False, L)
      | (True, L) \<Rightarrow>
          let R = Room_generateMapIfRandom (getRandomMapForMode (me_game (le_main e)) (le_random e) (mode_of R)) R;
              L = change_room n (\<lambda>_. R) L
          in case M2C_sendMapId e hostId (Room_getActualMap R) (mode_of R) L of
               (False, L) \<Rightarrow> Inr (False, lobby_tell e (ascii ''[Main::HandleRoomStart] internal server error (IPC)!'') r L)
             | (True, L) \<Rightarrow>
                 (case assassins_at_start e r hostId R L of
                    (False, L) \<Rightarrow> Inr (False, L)
                  | (True, L) \<Rightarrow>
                      (case parties_at_start e r n R L of
                         (False, L) \<Rightarrow> Inr (False, L)
                       | (True, L) \<Rightarrow>
                           (case (if mode_of R = BossBattle then ask_session r (removeBossBattleTicket (le_main e)) L else (True, L)) of
                              (False, L) \<Rightarrow> Inr (False, lobby_tell e
                                 (ascii ''[Handlers::handleRoomStart] Could not find boss battle ticket - if this is an error, report it'') r L)
                            | (True, L) \<Rightarrow> map_sum id (\<lambda>L. (True, L)) (start_room e n L)))))"

text \<open>A player who is not the host enters the match that is going on; the pair says whether to go on.\<close>

definition player_starts :: "lobby_env \<Rightarrow> mref \<Rightarrow> main_session \<Rightarrow> main_room \<Rightarrow> lobby \<Rightarrow> bool \<times> lobby" where
  "player_starts e r s R L =
     (if \<not> rm_hasMatchStarted R then (True, L)
      else let L = at_room (room_no s) (Room_setStateFor (uid_of s) STATE_NORMAL)
                     (lobby_session r (on_sess (setBossBattleRespawns 3)) L)
           in case Room_getTeamForSession (ucast (uid_session (uid_of s))) R of
                None \<Rightarrow> (False, L)
              | Some team \<Rightarrow>
                  (True, snd (M2C_sendPlayerTeamInfoBatch e (of_nat (m_id s))
                     [\<lparr>pti_uid = uid_of s, pti_team = team, pti_nickname = ai_nickname (getAccountInfo s)\<rparr>] L)))"

definition announce_start :: "lobby_env \<Rightarrow> packet \<Rightarrow> mref \<Rightarrow> main_session \<Rightarrow> lobby \<Rightarrow> lobby" where
  "announce_start e request r s L =
     (let L = lobby_session r (on_sess (setMatchStartTime (le_nowMs e))) L; n = room_no s
      in case getRoomByNumber n L of
           None \<Rightarrow> L
         | Some R \<Rightarrow> to_room e n (setData (uid_bytes (uid_of s))
                       (setCommand (packet_getOrder request) 0 38 (ucast (Room_getActualMap R)) (large_response request))) L)"

definition announce_tick :: "lobby_env \<Rightarrow> packet \<Rightarrow> mref \<Rightarrow> main_session \<Rightarrow> main_room \<Rightarrow> lobby \<Rightarrow> lobby" where
  "announce_tick e request r s R =
     (if Room_isHost (uid_of s) R
      then to_room e (room_no s) (setData (le_store 8 (le_nowMs e - le_serverStart e)) (setCommand 258 0 1 0 (large_response request)))
      else let response = setData (uid_bytes (uid_of s)) (setCommand 415 0 1 0 (large_response request))
           in if mf_isInvisible (sess_app s) then lobby_write e response r else to_room e (room_no s) response)"

definition handleRoomStart :: "lobby_env \<Rightarrow> main_fields on_close \<Rightarrow> packet \<Rightarrow> mref \<Rightarrow> lobby \<Rightarrow> mem_error + lobby" where
  "handleRoomStart e cb request r L =
     (let extra = cmd_getExtra (m_command request)
      in if extra = 6 then Inr (lobby_session r (on_sess (setMatchStartTime (le_nowMs e))) L)
         else try_in_room r (\<lambda>s R L.
           if mf_hasBeenMatchBanned (sess_app s) then Inr (lobby_session r (on_sess (closeSocket cb)) L)
           else if extra = 38
           then (case (if rm_isCsdMode R then ask_session r (hasCsdItems (le_main e)) L else (True, L)) of
                   (False, L) \<Rightarrow> Inr (lobby_tell e (ascii ''Error: This room requires CSD equipment.'') r L)
                 | (True, L) \<Rightarrow>
                     map_sum id (\<lambda>(goOn, L). if goOn then announce_start e request r s L else L)
                       (if Room_isHost (uid_of s) R then host_starts e r s R L else Inr (player_starts e r s R L)))
           else if extra = 41 then Inr (announce_tick e request r s R L)
           else Inr L) L)"

definition handleRoomStartInvisible :: "lobby_env \<Rightarrow> packet \<Rightarrow> mref \<Rightarrow> lobby \<Rightarrow> bool \<times> lobby" where
  "handleRoomStartInvisible e request r L =
     (case lb_heap L r of None \<Rightarrow> (False, L) | Some s \<Rightarrow>
        case getRoomByNumber (room_no s) L of
          None \<Rightarrow> (False, lobby_tell e (ascii ''Error: not in a room'') r L)
        | Some R \<Rightarrow>
            if cmd_getExtra (m_command request) \<noteq> 38 then (True, L)
            else if Room_isHost (uid_of s) R then (False, lobby_tell e (ascii ''Error: use this command when you are not the host'') r L)
            else (True, announce_start e request r s
                    (if rm_hasMatchStarted R then at_room (room_no s) (Room_setStateFor (uid_of s) STATE_NORMAL) L else L)))"

end
