(* ===== verification/MatchEnd.thy ===== *)
theory MatchEnd
  imports RoomHandlers
begin

text \<open>
  Rounds and the end of a match, \<open>MainServer/include/Handlers/Room/EliminationNextRoundHandler.h\<close>, with
  \<open>Room::storeEndMatchStatsFor\<close>. \<open>Inl\<close> also stands for the exception of \<open>reserve\<close>, which nobody
  catches. Dividing a number below \<open>2 ^ 53\<close> by 1.3 in floating point and cutting the result off is
  dividing ten times the number by 13.
\<close>

section \<open>Rounds\<close>

definition handle_unknown :: "lobby_env \<Rightarrow> packet \<Rightarrow> mref \<Rightarrow> lobby \<Rightarrow> lobby" where
  "handle_unknown e request r = in_room r (\<lambda>s R. to_room e (room_no s) request)"

definition handleEliminationNextRound :: "lobby_env \<Rightarrow> packet \<Rightarrow> mref \<Rightarrow> lobby \<Rightarrow> lobby" where
  "handleEliminationNextRound e request r = in_room r (\<lambda>s R L.
     let n = room_no s in
     if \<not> Room_isHost (uid_of s) R then L
     else let L = to_others e n (uid_of s) request L
          in if \<not> Room_isAssassinMode R then L
             else case send_assassins e False (ucast (uid_session (uid_of s))) R L of
                    (Some True, L) \<Rightarrow> L
                  | (Some False, L) \<Rightarrow> tell_room e n
                      (ascii ''[Main::handleEliminationNextRound] Failed to send IPC data for Assassin mode! Please report this issue.'') L
                  | (None, L) \<Rightarrow> tell_room e n
                      (ascii ''[Main::handleEliminationNextRound] Failed to get random blue or red assassin for Assassin Mode. Please report this issue'') L)"

definition handleEliminationNextRound2 :: "lobby_env \<Rightarrow> packet \<Rightarrow> mref \<Rightarrow> lobby \<Rightarrow> lobby" where
  "handleEliminationNextRound2 e request r = in_room r (\<lambda>s R L.
     if Room_isHost (uid_of s) R then to_others e (room_no s) (uid_of s) (packet_setExtra 1 request) L else L)"

section \<open>Boss battles\<close>

definition GoldPveBox :: u32 where "GoldPveBox = 4801012"
definition SilverPveBox :: u32 where "SilverPveBox = 4801013"
definition BronzePveBox :: u32 where "BronzePveBox = 4801014"

text \<open>\<open>draw k\<close> is the \<open>k\<close>-th number from 0 to 2. The rewards are of the players who are in the match.\<close>

definition takes_part :: "mheap \<Rightarrow> entry \<Rightarrow> bool" where
  "takes_part h en \<longleftrightarrow> team_of en \<noteq> TEAM_OBSERVER \<and> (case h (snd en) of None \<Rightarrow> False | Some s \<Rightarrow> in_match s)"

definition boss_rewards :: "(nat \<Rightarrow> nat) \<Rightarrow> room_state \<Rightarrow> (UniqueId \<times> u32) list" where
  "boss_rewards draw = (\<lambda>(h, R).
     let uids = List.map_filter (\<lambda>en. map_option uid_of (h (snd en))) (filter (takes_part h) (Room_getAllPlayersWithSessions (h, R)))
     in zip uids (map (\<lambda>k. case draw k of 0 \<Rightarrow> GoldPveBox | Suc 0 \<Rightarrow> SilverPveBox | _ \<Rightarrow> BronzePveBox) [0..<length uids]))"

definition boss_self :: "lobby_env \<Rightarrow> packet \<Rightarrow> bool \<Rightarrow> (UniqueId \<times> u32) list \<Rightarrow> entry \<Rightarrow> lobby \<Rightarrow> lobby" where
  "boss_self e response isFarm rewards en = with_session (snd en) (\<lambda>s L.
     let reward = (case find (\<lambda>p. fst p = uid_of s) rewards of Some p \<Rightarrow> snd p | None \<Rightarrow> 0);
         L = lobby_write e (setData (le_store 4 (ucast (ai_microPoints (getAccountInfo s)) :: u32) @
               le_store 4 (ai_experience (getAccountInfo s)) @ le_store 4 reward)
               (packet_setExtra (if isFarm then 6 else 1) response)) (snd en) L
     in if reward \<noteq> 0 \<and> \<not> isFarm
        then lobby_tell e (ascii ''You obtained 2'000 RT and a Boss Battle reward!'') (snd en)
               (lobby_session (snd en) (\<lambda>st. sendRt (le_main e) 2000
                  (snd (spawnItemCommand (le_main e) reward
                    (ascii ''Boss Battle reward spawned automatically after completing the boss battle mode'') st))) L)
        else L)"

definition boss_others :: "lobby_env \<Rightarrow> packet \<Rightarrow> (UniqueId \<times> u32) list \<Rightarrow> entry \<Rightarrow> lobby \<Rightarrow> lobby" where
  "boss_others e response rewards en = with_session (snd en) (\<lambda>s L.
     let others = filter (\<lambda>p. fst p \<noteq> uid_of s) rewards
     in lobby_write e (setData (le_store 4 (of_nat (length others) :: u32) @
          concat (map (\<lambda>(uid, box). uid_bytes uid @ le_store 4 box) others)) (packet_setExtra 41 response)) (snd en) L)"

text \<open>With no player in the match the capacity is one less than none, unless nobody is told.\<close>

definition handleBossBattleEnding :: "lobby_env \<Rightarrow> (nat \<Rightarrow> nat) \<Rightarrow> main_room \<Rightarrow> packet \<Rightarrow> bool \<Rightarrow> lobby \<Rightarrow> mem_error + lobby" where
  "handleBossBattleEnding e draw R response isFarm L =
     (let d = m_data response;
          isFarm = (isFarm \<or> (if length d > 8 then d ! 8 = 5 else True));
          entries = Room_getAllPlayersWithSessions (lb_heap L, R);
          rewards = boss_rewards draw (lb_heap L, R);
          L = fold (\<lambda>en. boss_self e response isFarm rewards en) (filter (takes_part (lb_heap L)) entries) L;
          told = filter (\<lambda>en. team_of en \<noteq> TEAM_OBSERVER) entries
      in if isFarm then Inr L
         else if rewards = [] \<and> told \<noteq> [] then Inl OutOfBounds
         else Inr (fold (boss_others e response rewards) told L))"

section \<open>Single wave\<close>

definition singlewaveEasyBox :: u32 where "singlewaveEasyBox = 5337005"
definition singlewaveHardBox :: u32 where "singlewaveHardBox = 5337006"

definition wave_reward :: "main_env \<Rightarrow> u64 \<Rightarrow> u32 \<Rightarrow> packet \<times> sess_state \<Rightarrow> packet \<times> sess_state" where
  "wave_reward e now box = (\<lambda>(response, st).
     let b = BoughtItem_new e box False;
         b = b\<lparr>sp_serialInfo := (sp_serialInfo b)\<lparr>si_itemNumber := number_after_latest st\<rparr>\<rparr>
     in (setData (bought_bytes b) response,
         on_sess (setMatchStartTime now) (snd (session_addItem e (Item_of_BoughtItem e b) False st))))"

definition single_wave :: "main_env \<Rightarrow> u64 \<Rightarrow> packet \<Rightarrow> sess_state \<Rightarrow> sess_state" where
  "single_wave e now request st =
     (let kind = parse_u32 0 request; score = parse_u32 4 request; stage = parse_u32 8 request;
          played = now - mf_matchStartTime (sess_app (fst st))
      in if kind \<noteq> 1 \<and> kind \<noteq> 2 then completeTutorial e st
         else let response = setCommand 66 0 17 2 request;
                  (response, st) =
                    (if \<not> hasEnoughInventorySpace 1 (player_of st) then (response, st)
                     else if kind = 1
                     then (if stage = 10 \<and> played \<ge> 180000 then wave_reward e now singlewaveEasyBox (response, st) else (response, st))
                     else case (if stage = 20 \<and> played \<ge> 420000 then wave_reward e now singlewaveHardBox (response, st)
                                else (response, st)) of
                            (response, st) \<Rightarrow> (response, updateSingleWaveScore score stage st))
              in on_sess (send (me_crypt e) response) st)"

section \<open>What is stored for a player\<close>

record EventMissionInfo =
  em_startDate :: u32
  em_endDate :: u32

definition match_result :: "main_room \<Rightarrow> u32 \<Rightarrow> u32 \<Rightarrow> u32 \<Rightarrow> MatchEnd" where
  "match_result R team blueScore redScore =
     (if mode_of R \<in> {ZombieMode, FreeForAll, BossBattle, ArmsRace, SquareMode, AiBattle} then MATCH_DO_NOTHING
      else if redScore = blueScore then MATCH_DRAW
      else if blueScore > redScore \<and> team = TEAM_BLUE \<or> redScore > blueScore \<and> team = TEAM_RED then MATCH_WON
      else MATCH_LOST)"

definition match_seconds :: "u64 \<Rightarrow> main_session \<Rightarrow> u32" where
  "match_seconds now s =
     (let started = mf_matchStartTime (sess_app s); seconds = ucast ((now - started) div 1000)
      in if started = 0 \<or> seconds > 7200 then 0 else seconds)"

definition mission_points :: "u32 \<Rightarrow> ScoreboardResponse \<Rightarrow> u32 list" where
  "mission_points mode b =
     (if mode = ZombieMode \<and> sb_totalKills b div 3 \<ge> 1 then [1] else []) @
     (if mode = ZombieMode \<and> sb_meleeKills b \<ge> 2 then [2] else []) @
     (if sb_headshots b \<ge> 2 then [3] else []) @
     (if sb_totalKills b \<ge> 15 then [4] else []) @
     (if sb_mgKills b \<ge> 5 then [5] else [])"

definition Room_storeEndMatchStatsFor ::
  "lobby_env \<Rightarrow> EventMissionInfo \<Rightarrow> UniqueId \<Rightarrow> ScoreboardResponse \<Rightarrow> u32 \<Rightarrow> u32 \<Rightarrow> bool \<Rightarrow> main_room \<Rightarrow> lobby \<Rightarrow> lobby" where
  "Room_storeEndMatchStatsFor e mission uid b blueScore redScore hasLeveledUp R L =
     (case find (\<lambda>en. lb_heap L (snd en) \<noteq> None \<and> entry_uid en = uid) (rm_players R) of
        None \<Rightarrow> L
      | Some en \<Rightarrow> lobby_session (snd en) (\<lambda>st.
          let st = storeEndMatchStats (match_seconds (le_nowMs e) (fst st)) b (match_result R (team_of en) blueScore redScore)
                     hasLeveledUp (mode_of R = ZombieMode) (ucast (p_roomNumber (player_of st)) \<ge> clanRoomNumberStart) st
          in if em_startDate mission \<le> me_now (le_main e) \<and> me_now (le_main e) \<le> em_endDate mission
             then fold (sendEventMission (le_main e)) (mission_points (mode_of R) b) st else st) L)"

section \<open>What a match is worth\<close>

record ExpMpBonusInfo =
  xb_endDate :: u32
  xb_expBonusPercent :: u32
  xb_mpBonusPercent :: u32

record CdbGradeInfo =
  gr_exp :: u32
  gr_reward_point :: u32

definition matchBaseExp :: u64 where "matchBaseExp = 80"
definition matchBaseMp :: u64 where "matchBaseMp = 150"
definition maxExpAndMpPerMatch :: u32 where "maxExpAndMpPerMatch = 4000"
definition clanBaseContribution :: u32 where "clanBaseContribution = 100"
definition goldLevelBox :: u32 where "goldLevelBox = 5336571"
definition silverLevelBox :: u32 where "silverLevelBox = 5336570"
definition bronzeLevelBox :: u32 where "bronzeLevelBox = 5336569"

definition ScoreboardResponse_of_bytes :: "bytes \<Rightarrow> ScoreboardResponse" where
  "ScoreboardResponse_of_bytes d =
     \<lparr>sb_meleeKills = d ! 0, sb_rifleKills = d ! 1, sb_shotgunKills = d ! 2, sb_sniperKills = d ! 3, sb_mgKills = d ! 4,
      sb_bazookaKills = d ! 5, sb_grenadeKills = d ! 6, sb_probablyKillStreak = d ! 7, sb_totalKills = d ! 8, sb_deaths = d ! 9,
      sb_headshots = d ! 10, sb_assists = d ! 11, sb_newTotalMP = 0, sb_newTotalEXP = 0, sb_newTotalClanContribution = 0\<rparr>"

definition ScoreboardResponse_bytes :: "ScoreboardResponse \<Rightarrow> bytes" where
  "ScoreboardResponse_bytes b =
     [sb_meleeKills b, sb_rifleKills b, sb_shotgunKills b, sb_sniperKills b, sb_mgKills b, sb_bazookaKills b, sb_grenadeKills b,
      sb_probablyKillStreak b, sb_totalKills b, sb_deaths b, sb_headshots b, sb_assists b] @ le_store 4 (1 :: u32) @
     le_store 4 (sb_newTotalMP b) @ le_store 4 (sb_newTotalEXP b) @ le_store 4 (sb_newTotalClanContribution b)"

definition item_bonuses :: "main_env \<Rightarrow> player \<Rightarrow> u32 \<times> u32" where
  "item_bonuses e p =
     fold (\<lambda>q (x, m). if si_itemNumber (eq_serialInfo q) = 0 then (x, m)
             else case getExpAndMpEnhancementFor (me_game e) (ucast (eq_id q)) of (x', m') \<Rightarrow> (x + x', m + m'))
       (getEquippedItemsFor (ucast (ai_latestSelectedCharacter (p_accountInfo p))) p) (0, 0)"

definition elapsedMinutes :: "u64 \<Rightarrow> u64 \<Rightarrow> u64" where
  "elapsedMinutes now started = min ((now - started) div 1000 div 60) 15"

definition match_gain :: "bool \<Rightarrow> u64 \<Rightarrow> u64 \<Rightarrow> ScoreboardResponse \<Rightarrow> u64" where
  "match_gain isFarm base minutes b =
     (if isFarm then 0 else (ucast (sb_totalKills b) * 15 + ucast (sb_deaths b) * 5 + base) * 2 + minutes * 80)"

definition final_gain :: "u32 \<Rightarrow> bool \<Rightarrow> u32 \<Rightarrow> u32 \<Rightarrow> u64 \<Rightarrow> u32" where
  "final_gain mode duringEvent itemPercent eventPercent gained =
     (let final = gained + gained * ucast itemPercent div 100;
          withEvent = (if mode = FreeForAll then ucast (final * 10 div 13) else ucast final);
          withEvent = (if duringEvent then withEvent + ucast (final * ucast eventPercent div 100) else withEvent)
      in min withEvent maxExpAndMpPerMatch)"

text \<open>
  The scoreboard entry of one player; the level-up box depends on the level that is left.
\<close>

definition level_box :: "u32 \<Rightarrow> u32" where
  "level_box level = (if level mod 10 = 0 then goldLevelBox else if level mod 5 = 0 then silverLevelBox else bronzeLevelBox)"

definition clan_contribution :: "AccountInfo \<Rightarrow> ScoreboardResponse \<Rightarrow> u32" where
  "clan_contribution a b =
     ucast (ai_clanContribution a) + min (clanBaseContribution + ucast (sb_totalKills b) * 6) maxExpAndMpPerMatch"

text \<open>The new total and whether it has wrapped around.\<close>

definition new_total :: "bool \<Rightarrow> u32 \<Rightarrow> u32 \<Rightarrow> bool \<times> u32" where
  "new_total isFarm gained old = (if \<not> isFarm \<and> gained + old < old then (True, old + 200) else (False, old + gained))"

definition level_up ::
  "lobby_env \<Rightarrow> EventMissionInfo \<Rightarrow> u16 \<Rightarrow> UniqueId \<Rightarrow> u32 \<Rightarrow> u32 \<times> u32 \<Rightarrow> CdbGradeInfo \<Rightarrow> packet \<Rightarrow> main_room \<Rightarrow> mref \<Rightarrow>
   ScoreboardResponse \<Rightarrow> lobby \<Rightarrow> ScoreboardResponse \<times> lobby" where
  "level_up e mission n uid level scores grade response R t b L =
     (let L = lobby_tip e (ascii ''You obtained a reward box!'') t L;
          L = to_others e n uid (setData (uid_bytes uid) (setCommand 311 0 1 (ucast (level + 1)) response)) L;
          L = lobby_session t (\<lambda>st. snd (spawnItemCommand (le_main e) (level_box level)
                (ascii ''Item spawned automatically (Level-up reward item)'') st)) L;
          b = b\<lparr>sb_newTotalMP := sb_newTotalMP b + gr_reward_point grade\<rparr>;
          L = Room_storeEndMatchStatsFor e mission uid b (fst scores) (snd scores) True R L;
          rt = 2000 * (level div 5)
      in (b, if level \<ge> 5 \<and> level mod 5 = 0
             then lobby_tell e (ascii ''You obtained '' @ digits (unat rt) @ ascii '' RockTokens and 5 coupons!'') t
                    (lobby_session t (\<lambda>st. snd (spawnCouponCommon (le_main e) 5 True (sendRt (le_main e) rt st))) L)
             else L))"

record match_rules =
  mr_isFarm :: bool
  mr_grades :: "CdbGradeInfo cdb"
  mr_bonus :: ExpMpBonusInfo
  mr_mission :: EventMissionInfo

definition reward_player ::
  "lobby_env \<Rightarrow> match_rules \<Rightarrow> u16 \<Rightarrow> u32 \<times> u32 \<Rightarrow> packet \<Rightarrow> main_room \<Rightarrow> mref \<Rightarrow> main_session \<Rightarrow> UniqueId \<Rightarrow> ScoreboardResponse \<Rightarrow> lobby \<Rightarrow> lobby" where
  "reward_player e rules n scores request R t s uid b L =
     (let a = getAccountInfo s; isFarm = mr_isFarm rules; x = mr_bonus rules; mode = mode_of R;
          b = (if ucast n \<ge> clanRoomNumberStart then b\<lparr>sb_newTotalClanContribution := clan_contribution a b\<rparr> else b);
          (itemExp, itemMp) = item_bonuses (le_main e) (getPlayer s);
          minutes = elapsedMinutes (le_nowMs e) (mf_matchStartTime (sess_app s));
          duringEvent = (me_now (le_main e) \<le> xb_endDate x);
          clampedExp = final_gain mode duringEvent itemExp (xb_expBonusPercent x) (match_gain isFarm matchBaseExp minutes b);
          clampedMp = final_gain mode duringEvent itemMp (xb_mpBonusPercent x) (match_gain isFarm matchBaseMp minutes b);
          (badExp, totalExp) = new_total isFarm clampedExp (ai_experience a);
          (badMp, totalMp) = new_total isFarm clampedMp (ucast (ai_microPoints a));
          L = (if badExp then lobby_tell e (ascii ''[Handlers::handleEliminationNextRound] error: negative experience detected'') t L else L);
          L = (if badMp then lobby_tell e (ascii ''[Handlers::handleEliminationNextRound] error: negative MP detected'') t L else L);
          b = b\<lparr>sb_newTotalEXP := totalExp, sb_newTotalMP := totalMp\<rparr>;
          (b, L) =
            (case Cdb_getEntry (ucast (ai_playerLevel a) + 1) (mr_grades rules) of
               Some g \<Rightarrow>
                 if \<not> isFarm \<and> sb_newTotalEXP b \<ge> gr_exp g
                 then level_up e (mr_mission rules) n uid (ucast (ai_playerLevel a)) scores g request R t b L
                 else (b, if isFarm then L else Room_storeEndMatchStatsFor e (mr_mission rules) uid b (fst scores) (snd scores) False R L)
             | None \<Rightarrow>
                 (b, if isFarm then L else Room_storeEndMatchStatsFor e (mr_mission rules) uid b (fst scores) (snd scores) False R L));
          L = lobby_write e (setData (ScoreboardResponse_bytes b)
                (setCommand (packet_getOrder request) 3 (if isFarm then 6 else 1) 0 request)) t L
      in if isFarm then L
         else lobby_session t (\<lambda>st.
                let st = sendRt (le_main e) (clampedMp div 3) st
                in if mode \<noteq> SquareMode \<and> mode \<noteq> AiBattle
                   then session_reduceDurability (le_main e) (ucast (rs_weaponRestriction (rm_settings R))) st else st) L)"

definition score_entry :: "lobby_env \<Rightarrow> match_rules \<Rightarrow> u16 \<Rightarrow> u32 \<times> u32 \<Rightarrow> packet \<Rightarrow> nat \<Rightarrow> lobby \<Rightarrow> lobby" where
  "score_entry e rules n scores request i L =
     (let d = main_parseData (replicate 20 0) (20 * i + 4) request;
          uid = uid_of_data (le_load (drop 16 d))
      in case getRoomByNumber n L of
           None \<Rightarrow> L
         | Some R \<Rightarrow>
             (case Room_getPlayer uid (lb_heap L, R) of
                None \<Rightarrow> L
              | Some t \<Rightarrow> with_session t (\<lambda>s. reward_player e rules n scores request R t s uid (ScoreboardResponse_of_bytes d)) L))"

text \<open>The result of the first party is stored once more for the second.\<close>

definition store_party :: "lobby_env \<Rightarrow> u32 \<times> u32 \<Rightarrow> party_key \<Rightarrow> party_key \<Rightarrow> lobby \<Rightarrow> lobby" where
  "store_party e scores ended kept L =
     (let L = at_party (fst ended) (snd ended) (updatePartyStatus (le_crypt e) False) L
      in case party_of (fst kept) (snd kept) L of
           None \<Rightarrow> L
         | Some C \<Rightarrow> (case storeStats (fst scores) (snd scores) C of
                         (clanId, result) \<Rightarrow> L\<lparr>lb_log := lb_log L @ [Sched_updateClanStats clanId result]\<rparr>))"

definition store_parties :: "lobby_env \<Rightarrow> u32 \<times> u32 \<Rightarrow> mref \<Rightarrow> main_room \<Rightarrow> lobby \<Rightarrow> lobby" where
  "store_parties e scores r R L =
     (case getPartyRooms R L of
        (None, _) \<Rightarrow> lobby_tell e (ascii ''[Main::Handlers::handleMatchEnding] error while retrieving either clan room!'') r L
      | (Some first, None) \<Rightarrow> store_party e scores first first L
      | (Some first, Some second) \<Rightarrow> store_party e scores second first (store_party e scores first first L))"

definition is_farm :: "u64 \<Rightarrow> main_room \<Rightarrow> bool" where
  "is_farm now R \<longleftrightarrow>
     now > rm_matchStartTime R \<and> now - rm_matchStartTime R < 80000 \<or> mode_of R = SquareMode \<or> mode_of R = AiBattle"

definition handleMatchEnding ::
  "lobby_env \<Rightarrow> (nat \<Rightarrow> nat) \<Rightarrow> CdbGradeInfo cdb \<Rightarrow> ExpMpBonusInfo \<Rightarrow> EventMissionInfo \<Rightarrow> packet \<Rightarrow> mref \<Rightarrow> lobby \<Rightarrow> mem_error + lobby" where
  "handleMatchEnding e draw grades bonus mission request r L =
     (if cmd_getExtra (m_command request) = 6 then Inr (lobby_session r (single_wave (le_main e) (le_nowMs e) request) L)
      else try_in_room r (\<lambda>s R L.
        if \<not> Room_isHost (uid_of s) R then Inr L
        else let n = room_no s; header = parse_u32 0 request;
                 scores = (drop_bit 8 header AND 0xFF, header AND 0xFF);
                 L = (if ucast n \<ge> clanRoomNumberStart then store_parties e scores r R L else L);
                 isFarm = is_farm (le_nowMs e) R;
                 L = to_others e n (uid_of s) request L
             in if mode_of R = BossBattle
                then map_sum id (at_room n Room_endMatch) (handleBossBattleEnding e draw R request isFarm L)
                else Inr (fold (score_entry e \<lparr>mr_isFarm = isFarm, mr_grades = grades, mr_bonus = bonus, mr_mission = mission\<rparr>
                       n scores request) [0..<unat (cmd_getOption (m_command request))] (at_room n Room_endMatch L))) L)"

end
