(* ===== verification/PartyProps.thy ===== *)
theory PartyProps
  imports Parties MainRoomHost
begin

text \<open>
  The invariant of a party, \<open>ClanRoom.h\<close>, on every run of the operations the handlers call, and the
  numbers of the parties of a clan.
\<close>

section \<open>The invariant\<close>

definition party_ids :: "ClanRoom \<Rightarrow> u16 list" where
  "party_ids C = map (\<lambda>e. uid_session (ppi_uid (fst e))) (cr_waitingPlayers C)"

text \<open>The announced number of players and leader are those of the list, whose live members are who they joined as.\<close>

definition leader_shown :: "ClanRoom \<Rightarrow> bool" where
  "leader_shown C \<longleftrightarrow>
     pi_leaderLevel (cr_partyInfo C) = ppi_level (fst (hd (cr_waitingPlayers C))) \<and>
     pi_leaderName (cr_partyInfo C) = ppi_nickname (fst (hd (cr_waitingPlayers C)))"

definition party_ok :: "party_state \<Rightarrow> bool" where
  "party_ok = (\<lambda>(h, C).
     cr_waitingPlayers C \<noteq> [] \<and> unat (pi_numPlayers (cr_partyInfo C)) = length (cr_waitingPlayers C) \<and>
     leader_shown C \<and> distinct (party_ids C) \<and>
     (\<forall>e \<in> set (cr_waitingPlayers C). \<forall>s. h (snd e) = Some s \<longrightarrow> uid_of s = ppi_uid (fst e)))"

text \<open>What other handlers do to the sessions meanwhile: members may go offline, the rest keep their number.\<close>

definition elsewhere :: "ClanRoom \<Rightarrow> mheap \<Rightarrow> mheap \<Rightarrow> bool" where
  "elsewhere C h h' \<longleftrightarrow>
     (\<forall>e \<in> set (cr_waitingPlayers C). \<forall>s'. h' (snd e) = Some s' \<longrightarrow> (\<exists>s. h (snd e) = Some s \<and> uid_of s' = uid_of s))"

lemma elsewhere_ok: "party_ok (h, C) \<Longrightarrow> elsewhere C h h' \<Longrightarrow> party_ok (h', C)"
  by (fastforce simp: party_ok_def elsewhere_def)

lemma live_uid: "party_ok (h, C) \<Longrightarrow> e \<in> set (cr_waitingPlayers C) \<Longrightarrow> h (snd e) = Some s \<Longrightarrow> ppi_uid (fst e) = uid_of s"
  by (auto simp: party_ok_def)

lemma kept_elsewhere: "(\<And>r. map_option uid_of (h' r) = map_option uid_of (h r)) \<Longrightarrow> elsewhere C h h'"
  unfolding elsewhere_def
proof (intro ballI allI impI)
  fix e s' assume kept: "\<And>r. map_option uid_of (h' r) = map_option uid_of (h r)" and "h' (snd e) = Some s'"
  then have "map_option uid_of (h (snd e)) = Some (uid_of s')" using kept [of "snd e"] by simp
  then show "\<exists>s. h (snd e) = Some s \<and> uid_of s' = uid_of s" by auto
qed

lemma clan_number_uid [simp]: "getAccountInfo (session_setClanRoomNumber n s) = getAccountInfo s"
  by (simp add: session_setClanRoomNumber_def getAccountInfo_def setClanRoomNumber_def)

lemma messages_keep [simp]:
  "map_option uid_of (broadcastMessageToWaitingPlayers c msg D h r) = map_option uid_of (h r)"
  "map_option uid_of (broadcastToWaitingPlayers c p D h r) = map_option uid_of (h r)"
  by (simp_all add: broadcastMessageToWaitingPlayers_def broadcastToWaitingPlayers_def for_live_keeps)

lemma message_ok [intro]:
  assumes "party_ok (h, C)"
  shows "party_ok (broadcastMessageToWaitingPlayers c msg D h, C)" "party_ok (broadcastToWaitingPlayers c p D h, C)"
  by (rule elsewhere_ok [OF assms]; rule kept_elsewhere; simp)+

text \<open>Changes of the other fields.\<close>

lemma party_ok_cong:
  assumes "party_ok (h, C)" "cr_waitingPlayers C' = cr_waitingPlayers C"
    and "pi_numPlayers (cr_partyInfo C') = pi_numPlayers (cr_partyInfo C)"
    and "pi_leaderLevel (cr_partyInfo C') = pi_leaderLevel (cr_partyInfo C)"
    and "pi_leaderName (cr_partyInfo C') = pi_leaderName (cr_partyInfo C)"
  shows "party_ok (h, C')"
  using assms by (simp add: party_ok_def leader_shown_def party_ids_def)

lemma new_ok: "h r = Some s \<Longrightarrow> party_ok (ClanRoom_new r s n settings h)"
  by (simp add: ClanRoom_new_def party_ok_def Let_def leader_shown_def party_ids_def waiting_info_def)

lemma status_ok: "party_ok st \<Longrightarrow> party_ok (updatePartyStatus c b st)"
  by (cases st) (auto simp: updatePartyStatus_def on_party_info_def intro!: party_ok_cong [OF message_ok(1)])

section \<open>Joining\<close>

lemma add_ok:
  assumes "party_ok (h, C)" "h r = Some s" "\<not> ClanRoom_isFull C" "uid_session (uid_of s) \<notin> set (party_ids C)"
  shows "party_ok (ClanRoom_addPlayer r s (h, C))"
proof -
  let ?i = "cr_partyInfo C"
  have "Suc (unat (pi_numPlayers ?i)) \<le> unat (pi_maxPlayers ?i)"
    using assms(3) by (simp add: ClanRoom_isFull_def word_less_nat_alt not_le Suc_le_eq)
  also have "\<dots> < 16" by (rule order_less_le_trans [OF unsigned_less]) simp
  finally have "unat (pi_numPlayers ?i + 1) = Suc (unat (pi_numPlayers ?i))"
    by (simp add: unat_word_ariths)
  moreover have "uid_of t = ppi_uid (fst e)"
    if "e \<in> set (cr_waitingPlayers C)" "snd e = r" "t = s" for e t
    using that assms(1,2) by (auto simp: party_ok_def)
  ultimately show ?thesis
    using assms by (auto simp: ClanRoom_addPlayer_def party_ok_def on_party_info_def leader_shown_def party_ids_def
        waiting_info_def Let_def)
qed

section \<open>The leader\<close>

lemma hd_swap: "0 < i \<Longrightarrow> i < length xs \<Longrightarrow> hd (swap_at 0 i xs) = xs ! i"
  by (cases xs) (auto simp: swap_at_def hd_conv_nth nth_list_update split: nat.splits)

lemma set_swap: "i < length xs \<Longrightarrow> j < length xs \<Longrightarrow> set (swap_at i j xs) = set xs"
  using mset_swap_at mset_eq_setD by metis

lemma changeLeader_ok:
  assumes "party_ok (h, C)" "changeLeaderTo c i (h, C) = (b, h', C')"
  shows "party_ok (h', C')" "\<And>r. map_option uid_of (h' r) = map_option uid_of (h r)"
    and "cr_waitingPlayers C' = (if b then swap_at 0 (unat i) (cr_waitingPlayers C) else cr_waitingPlayers C)"
    and "b \<Longrightarrow> 0 < unat i \<and> unat i < length (cr_waitingPlayers C)"
proof -
  let ?ws = "cr_waitingPlayers C" and ?n = "unat i"
  consider (out) "i = 0 \<or> ?n \<ge> length ?ws" | (dead) "i \<noteq> 0" "?n < length ?ws" "h (snd (?ws ! ?n)) = None"
    | (live) s where "i \<noteq> 0" "?n < length ?ws" "h (snd (?ws ! ?n)) = Some s"
    by (metis not_le option.exhaust)
  then have "party_ok (h', C') \<and> (\<forall>r. map_option uid_of (h' r) = map_option uid_of (h r)) \<and>
     cr_waitingPlayers C' = (if b then swap_at 0 ?n ?ws else ?ws) \<and> (b \<longrightarrow> 0 < ?n \<and> ?n < length ?ws)"
  proof cases
    case out
    with assms show ?thesis by (auto simp: changeLeaderTo_def)
  next
    case dead
    then show ?thesis using assms by (auto simp: changeLeaderTo_def)
  next
    case live
    let ?C = "on_party_info (\<lambda>p. p\<lparr>pi_leaderLevel := ppi_level (fst (swap_at 0 ?n ?ws ! 0)),
        pi_leaderName := ppi_nickname (fst (swap_at 0 ?n ?ws ! 0))\<rparr>) (C\<lparr>cr_waitingPlayers := swap_at 0 ?n ?ws\<rparr>)"
    have n: "0 < ?n" using live(1) by (simp add: unat_gt_0)
    then have len: "0 < length ?ws" using live(2) by linarith
    have eq: "b" "h' = broadcastMessageToWaitingPlayers c (ascii ''Leader changed to: '' @ name_of s) C h" "C' = ?C"
      using assms(2) live by (auto simp: changeLeaderTo_def Let_def)
    have "mset (party_ids ?C) = mset (party_ids C)"
      unfolding mset_map party_ids_def on_party_info_def by (simp add: mset_swap_at [OF len live(2)])
    then have "distinct (party_ids ?C)" using assms(1) mset_eq_imp_distinct_iff by (auto simp: party_ok_def)
    then have "party_ok (h, ?C)" using assms(1) len set_swap [OF len live(2)]
      by (auto simp: party_ok_def leader_shown_def on_party_info_def hd_conv_nth simp flip: length_greater_0_conv)
    then have "party_ok (h', C')" unfolding eq by blast
    then show ?thesis using eq n live(2) by (simp add: on_party_info_def)
  qed
  then show "party_ok (h', C')" "\<And>r. map_option uid_of (h' r) = map_option uid_of (h r)"
    "cr_waitingPlayers C' = (if b then swap_at 0 ?n ?ws else ?ws)" "b \<Longrightarrow> 0 < ?n \<and> ?n < length ?ws"
    by blast+
qed

section \<open>Leaving\<close>

lemma waits_as_id: "party_ok (h, C) \<Longrightarrow> e \<in> set (cr_waitingPlayers C) \<Longrightarrow> waits_as h n e \<longleftrightarrow> h (snd e) \<noteq> None \<and> ucast (uid_session (ppi_uid (fst e))) = n"
  by (auto simp: waits_as_def party_ok_def split: option.splits)

lemma ucast_session: "(ucast (a :: u16) :: u32) = ucast b \<longleftrightarrow> a = b"
proof -
  have "unat (ucast x :: u32) = unat x" for x :: u16
    using unsigned_less [of x, where 'a = nat] by (simp add: unsigned_ucast_eq take_bit_nat_eq_self)
  then show ?thesis by (metis word_unat_eq_iff)
qed

lemma erase_map: "map f (erase_at i xs) = erase_at i (map f xs)"
  by (simp add: erase_at_def take_map drop_map)

lemma erase_distinct: "distinct xs \<Longrightarrow> distinct (erase_at i xs)"
  by (auto simp: erase_at_def set_take_disj_set_drop_if_distinct)

text \<open>An entry other than the first goes, with its number.\<close>

lemma erase_ok:
  assumes "party_ok (h, C)" "0 < i" "i < length (cr_waitingPlayers C)"
  shows "party_ok (h, on_party_info (\<lambda>p. p\<lparr>pi_numPlayers := pi_numPlayers p - 1\<rparr>) (C\<lparr>cr_waitingPlayers := erase_at i (cr_waitingPlayers C)\<rparr>))"
proof -
  let ?ws = "cr_waitingPlayers C" and ?C = "on_party_info (\<lambda>p. p\<lparr>pi_numPlayers := pi_numPlayers p - 1\<rparr>) (C\<lparr>cr_waitingPlayers := erase_at i (cr_waitingPlayers C)\<rparr>)"
  have ne: "erase_at i ?ws \<noteq> []" "hd (erase_at i ?ws) = hd ?ws"
    using assms(2,3) by (cases ?ws; cases i; auto simp: erase_at_def)+
  have num: "unat (pi_numPlayers (cr_partyInfo C)) = length ?ws" using assms(1) by (simp add: party_ok_def)
  then have "unat (pi_numPlayers (cr_partyInfo C) - 1) = length ?ws - 1"
    using assms(3) by (simp add: unat_sub word_le_nat_alt)
  moreover have "distinct (party_ids ?C)"
    using assms(1) by (simp add: party_ok_def party_ids_def on_party_info_def erase_map erase_distinct)
  ultimately show ?thesis using assms ne set_erase_at_subset [of i ?ws]
    by (auto simp: party_ok_def leader_shown_def on_party_info_def)
qed

lemma find_waiting:
  assumes "party_ok (h, C)" "i < length (cr_waitingPlayers C)" "h (snd (cr_waitingPlayers C ! i)) = Some s"
  shows "find_index (waits_as h (ucast (uid_session (uid_of s)))) (cr_waitingPlayers C) = Some i"
proof -
  let ?ws = "cr_waitingPlayers C" and ?P = "waits_as h (ucast (uid_session (uid_of s)))"
  have at: "?P (?ws ! i)" using assms(3) by (simp add: waits_as_def)
  then obtain j where j: "find_index ?P ?ws = Some j" using assms(2) by (meson find_index_None nth_mem option.exhaust)
  then have "j < length ?ws" "?P (?ws ! j)" by (auto dest: find_index_Some)
  then have "uid_session (ppi_uid (fst (?ws ! j))) = uid_session (ppi_uid (fst (?ws ! i)))"
    using at assms(1,2) by (metis waits_as_id nth_mem ucast_session)
  then have "party_ids C ! j = party_ids C ! i" using \<open>j < length ?ws\<close> assms(2) by (simp add: party_ids_def)
  then have "j = i" using assms(1,2) \<open>j < length ?ws\<close> nth_eq_iff_index_eq [of "party_ids C" j i]
    by (simp add: party_ok_def party_ids_def)
  with j show ?thesis by simp
qed

lemma drop_ok:
  assumes "party_ok (h, C)" "0 < i" "i < length (cr_waitingPlayers C)" "h (snd (cr_waitingPlayers C ! i)) = Some s"
    and "drop_waiting c (ucast (uid_session (uid_of s))) (h, C) = (b, h', C')"
  shows "b = Some False" "party_ok (h', C')" "cr_waitingPlayers C' = erase_at i (cr_waitingPlayers C)"
proof -
  let ?ws = "cr_waitingPlayers C" and ?h = "h(snd (cr_waitingPlayers C ! i) \<mapsto> session_setClanRoomNumber 0 s)"
    and ?C = "on_party_info (\<lambda>p. p\<lparr>pi_numPlayers := pi_numPlayers p - 1\<rparr>) (C\<lparr>cr_waitingPlayers := erase_at i (cr_waitingPlayers C)\<rparr>)"
  have "unat (pi_numPlayers (cr_partyInfo C)) = length ?ws" using assms(1) by (simp add: party_ok_def)
  then have "pi_numPlayers (cr_partyInfo C) \<noteq> 0" using assms(3) by (metis not_less_zero unsigned_0)
  moreover have "erase_at i ?ws \<noteq> []" using assms(2,3) by (auto simp: erase_at_def)
  ultimately have eq: "b = Some False" "h' = ?h" "C' = ?C"
    using assms(4,5) find_waiting [OF assms(1,3,4)] by (auto simp: drop_waiting_def Let_def on_party_info_def)
  have "party_ok (?h, C)"
    by (rule elsewhere_ok [OF assms(1)], rule kept_elsewhere) (simp add: assms(4))
  then show "b = Some False" "party_ok (h', C')" "cr_waitingPlayers C' = erase_at i ?ws"
    unfolding eq using erase_ok [OF _ assms(2,3)] by (simp_all add: on_party_info_def)
qed

lemma erased_id:
  assumes "i < length (cr_waitingPlayers C)" "cr_waitingPlayers C' = erase_at i (cr_waitingPlayers C)"
  shows "mset (party_ids C) = add_mset (uid_session (ppi_uid (fst (cr_waitingPlayers C ! i)))) (mset (party_ids C'))"
  using mset_erase_at [of i "party_ids C"] assms by (simp add: party_ids_def erase_map)

text \<open>A leader who goes hands over to the first live player behind him and takes that player's place before he is erased.\<close>

lemma leader_leaves:
  assumes ok: "party_ok (h, C)" and s: "h (snd (cr_waitingPlayers C ! 0)) = Some s"
    and more: "1 < length (cr_waitingPlayers C)"
    and "ClanRoom_removePlayer c (uid_session (uid_of s)) (h, C) = (b, h', C')"
  shows "b = None \<and> party_ok (h', C') \<and> cr_waitingPlayers C' = cr_waitingPlayers C \<or>
     b = Some False \<and> party_ok (h', C') \<and> mset (party_ids C) = add_mset (uid_session (uid_of s)) (mset (party_ids C'))"
proof -
  let ?ws = "cr_waitingPlayers C" and ?n = "uid_session (uid_of s)"
  have ne: "?ws \<noteq> []" "0 < length ?ws" using more by auto
  have f: "find_index (waits_as h (ucast ?n)) ?ws = Some 0" by (rule find_waiting [OF ok ne(2) s])
  have lead: "isLeader ?n (h, C)" using ne(1) s by (cases ?ws) (simp_all add: isLeader_def getLeaderSession_def)
  have uid0: "ppi_uid (fst (?ws ! 0)) = uid_of s" by (rule live_uid [OF ok nth_mem [OF ne(2)] s])
  have small: "length ?ws < 16"
    using ok unsigned_less [of "pi_numPlayers (cr_partyInfo C)", where 'a = nat] by (simp add: party_ok_def)
  consider (none) e where "changeLeaderToFirstAvailable c (h, C) = (Inl e, h, C)"
    | (fail) e h1 C1 k where "changeLeaderToFirstAvailable c (h, C) = (Inl e, h1, C1)" "changeLeaderTo c (of_nat (k + 1)) (h, C) = (False, h1, C1)"
    | (moved) k h1 C1 where "changeLeaderToFirstAvailable c (h, C) = (Inr (k + 1), h1, C1)" "changeLeaderTo c (of_nat (k + 1)) (h, C) = (True, h1, C1)"
       "k < length ?ws - 1"
  proof (cases "find_index (\<lambda>e. h (snd e) \<noteq> None) (drop 1 ?ws)")
    case None
    then show ?thesis using more by (intro none) (simp add: changeLeaderToFirstAvailable_def)
  next
    case (Some k)
    obtain b1 h1 C1 where ch: "changeLeaderTo c (of_nat (k + 1)) (h, C) = (b1, h1, C1)" by (metis surj_pair)
    have "k < length ?ws - 1" using find_index_Some [OF Some] by simp
    then show ?thesis using fail moved ch Some more by (cases b1) (auto simp: changeLeaderToFirstAvailable_def simp del: of_nat_add of_nat_Suc)
  qed
  then show ?thesis
  proof cases
    case none
    then show ?thesis using assms(4) f s lead ok by (auto simp: ClanRoom_removePlayer_def)
  next
    case fail
    from changeLeader_ok [OF ok fail(2)] show ?thesis using assms(4) f s lead fail(1) by (auto simp: ClanRoom_removePlayer_def)
  next
    case moved
    note ch = changeLeader_ok [OF ok moved(2)]
    have k: "unat (of_nat (k + 1) :: u16) = k + 1" using moved(3) small
      by (simp only: unsigned_of_nat) (simp add: take_bit_nat_eq_self)
    let ?h = "broadcastToWaitingPlayers c (leader_packet (k + 1)) C1 h1"
    have ws1: "cr_waitingPlayers C1 = swap_at 0 (k + 1) ?ws" "k + 1 < length ?ws" using ch(3,4) k moved(3) by auto
    then have at: "cr_waitingPlayers C1 ! (k + 1) = ?ws ! 0" "k + 1 < length (cr_waitingPlayers C1)" by (simp_all add: swap_at_def)
    have "map_option uid_of (?h (snd (?ws ! 0))) = Some (uid_of s)" using ch(2) s by simp
    then obtain s' where "?h (snd (?ws ! 0)) = Some s'" "uid_of s' = uid_of s" unfolding map_option_eq_Some by blast
    then have s': "?h (snd (cr_waitingPlayers C1 ! (k + 1))) = Some s'" "uid_of s' = uid_of s" unfolding at by blast+
    have rem: "drop_waiting c (ucast (uid_session (uid_of s'))) (?h, C1) = (b, h', C')"
      using assms(4) f s lead moved(1) s'(2) by (simp add: ClanRoom_removePlayer_def)
    have "party_ok (?h, C1)" by (rule message_ok) (rule ch(1))
    note d = drop_ok [OF this _ at(2) s'(1) rem]
    have "mset (party_ids C1) = mset (party_ids C)"
      unfolding party_ids_def ws1(1) mset_map by (simp only: mset_swap_at [OF ne(2) ws1(2)])
    then show ?thesis using d erased_id [OF at(2) d(3)] at(1) uid0 by simp
  qed
qed

lemma remove_ok:
  assumes ok: "party_ok (h, C)" and rem: "ClanRoom_removePlayer c n (h, C) = (b, h', C')" and kept: "b \<noteq> Some True"
  shows "party_ok (h', C')"
    and "b = None \<Longrightarrow> cr_waitingPlayers C' = cr_waitingPlayers C"
    and "b = Some False \<Longrightarrow> mset (party_ids C) = add_mset n (mset (party_ids C'))"
proof -
  let ?ws = "cr_waitingPlayers C"
  have "party_ok (h', C') \<and> (b = None \<longrightarrow> cr_waitingPlayers C' = ?ws) \<and>
      (b = Some False \<longrightarrow> mset (party_ids C) = add_mset n (mset (party_ids C')))"
  proof (cases "find_index (waits_as h (ucast n)) ?ws")
    case None
    then show ?thesis using rem ok by (auto simp: ClanRoom_removePlayer_def)
  next
    case (Some i)
    then have i: "i < length ?ws" "waits_as h (ucast n) (?ws ! i)" by (auto dest: find_index_Some)
    then obtain s where s: "h (snd (?ws ! i)) = Some s" "n = uid_session (uid_of s)"
      by (auto simp: waits_as_def ucast_session split: option.splits)
    have uid: "ppi_uid (fst (?ws ! i)) = uid_of s" by (rule live_uid [OF ok nth_mem [OF i(1)] s(1)])
    show ?thesis
    proof (cases "i = 0")
      case False
      have "\<not> isLeader n (h, C)"
      proof
        assume "isLeader n (h, C)"
        then have "waits_as h (ucast n) (?ws ! 0)"
          by (auto simp: isLeader_def getLeaderSession_def waits_as_def split: list.splits option.splits)
        with Some False show False by (auto dest: find_index_Some)
      qed
      then have "drop_waiting c (ucast (uid_session (uid_of s))) (h, C) = (b, h', C')"
        using rem Some s by (simp add: ClanRoom_removePlayer_def)
      note d = drop_ok [OF ok _ i(1) s(1) this]
      show ?thesis using d erased_id [OF i(1) d(3)] False s(2) uid by simp
    next
      case True
      show ?thesis
      proof (cases "1 < length ?ws")
        case more: True
        have s0: "h (snd (?ws ! 0)) = Some s" using s(1) True by simp
        show ?thesis using leader_leaves [OF ok s0 more] rem s(2) by auto
      next
        case False
        then have one: "?ws = [?ws ! 0]" using i(1) True by (cases ?ws) (auto simp: not_less_eq)
        then have "b = Some True"
          using rem s Some True
          by (auto simp: ClanRoom_removePlayer_def changeLeaderToFirstAvailable_def drop_waiting_def Let_def erase_at_def
              isLeader_def getLeaderSession_def on_party_info_def split: list.splits if_splits)
        then show ?thesis using kept by simp
      qed
    qed
  qed
  then show "party_ok (h', C')" "b = None \<Longrightarrow> cr_waitingPlayers C' = ?ws"
    "b = Some False \<Longrightarrow> mset (party_ids C) = add_mset n (mset (party_ids C'))" by blast+
qed

section \<open>Runs\<close>

text \<open>
  The life of a party that is open: its creation, players of other numbers who join while it is not
  full, players who leave, changes of the leader, the settings and the match, and what happens to the
  sessions elsewhere. That nobody joins a party he waits in already is a condition of the run: clients
  do not offer it, and \<open>handlePartyJoin\<close> does not test it.
\<close>

inductive party_run :: "crypt \<Rightarrow> party_state \<Rightarrow> bool" for c where
  created: "h r = Some s \<Longrightarrow> party_run c (ClanRoom_new r s n settings h)"
| joined: "party_run c (h, C) \<Longrightarrow> h r = Some s \<Longrightarrow> \<not> ClanRoom_isFull C \<Longrightarrow> uid_session (uid_of s) \<notin> set (party_ids C) \<Longrightarrow>
    party_run c (ClanRoom_addPlayer r s (h, C))"
| left: "party_run c st \<Longrightarrow> ClanRoom_removePlayer c n st = (b, st') \<Longrightarrow> b \<noteq> Some True \<Longrightarrow> party_run c st'"
| leader: "party_run c st \<Longrightarrow> party_run c (snd (changeLeaderTo c i st))"
| status: "party_run c st \<Longrightarrow> party_run c (updatePartyStatus c b st)"
| mapped: "party_run c (h, C) \<Longrightarrow> party_run c (h, ClanRoom_updateMap m C)"
| mode: "party_run c (h, C) \<Longrightarrow> party_run c (h, ClanRoom_updateMode m C)"
| team_size: "party_run c (h, C) \<Longrightarrow> party_run c (h, updatePlayersPerTeam m C)"
| registered: "party_run c (h, C) \<Longrightarrow> party_run c (h, switchRegistered C)"
| others: "party_run c (h, C) \<Longrightarrow> elsewhere C h h' \<Longrightarrow> party_run c (h', C)"

lemma run_ok: "party_run c st \<Longrightarrow> party_ok st"
proof (induction rule: party_run.induct)
  case (left st n b st')
  then show ?case using remove_ok(1) by (metis surj_pair)
next
  case (leader st i)
  then show ?case using changeLeader_ok(1) by (metis surj_pair snd_conv)
qed (auto simp: new_ok add_ok status_ok elsewhere_ok ClanRoom_updateMap_def ClanRoom_updateMode_def updatePlayersPerTeam_def
    switchRegistered_def on_party_info_def elim: party_ok_cong)


definition demo_party :: party_state where
  "demo_party = (case ClanRoom_new 1 (demo_main 10 50 STATE_WAITING) 3 (ClanRoomSettings_of_request 0) (demo_sessions STATE_WAITING) of
     (h, C) \<Rightarrow> ClanRoom_addPlayer 2 (demo_main 20 40 STATE_WAITING) (h, C))"

lemma demo_party_run: "party_run c demo_party"
proof -
  let ?p = "ClanRoom_new 1 (demo_main 10 50 STATE_WAITING) 3 (ClanRoomSettings_of_request 0) (demo_sessions STATE_WAITING)"
    and ?s = "demo_main 20 40 STATE_WAITING"
  have run: "party_run c (fst ?p, snd ?p)" by (simp add: created)
  have "fst ?p 2 = Some ?s" "\<not> ClanRoom_isFull (snd ?p)" "uid_session (uid_of ?s) \<notin> set (party_ids (snd ?p))"
    by (simp_all add: ClanRoom_new_def Let_def ClanRoom_isFull_def party_ids_def waiting_info_def UniqueId_make_def word_le_nat_alt)
  then have "party_run c (ClanRoom_addPlayer 2 ?s (fst ?p, snd ?p))" by (rule joined [OF run])
  then show ?thesis by (simp add: demo_party_def case_prod_beta)
qed

lemma demo_party_ids: "party_ids (snd demo_party) = [10, 20]"
  by (simp add: demo_party_def ClanRoom_new_def Let_def ClanRoom_addPlayer_def on_party_info_def party_ids_def waiting_info_def UniqueId_make_def)


section \<open>Numbers of parties\<close>

text \<open>A clan that is known gets the smallest number from 1 to 4 that none of its parties has.\<close>

lemma free_party_number:
  assumes "getRoomsFor clanId cm = Some rooms"
  defines "N \<equiv> ClanRoom_getRoomNumber ` set rooms"
  shows "getNextAvailableRoomNumberFor clanId cm =
    (if 1 \<notin> N then Some 1 else if 2 \<notin> N then Some 2 else if 3 \<notin> N then Some 3 else if 4 \<notin> N then Some 4 else None)"
proof -
  have "exact_index n rooms = None \<longleftrightarrow> n \<notin> N" for n
    by (auto simp: exact_index_def find_index_None N_def)
  moreover have "[1..<maxPartiesPerClan + 1] = [1, 2, 3, 4]" by (simp add: maxPartiesPerClan_def upt_rec)
  ultimately show ?thesis using assms(1) by (simp add: getNextAvailableRoomNumberFor_def)
qed

end
