(* ===== verification/HandlerProps.thy ===== *)
theory HandlerProps
  imports MatchEnd PartyProps Stock
begin

text \<open>
  Properties of the handlers: lists sent in several packets, votekicks, the password of a room and what
  a match is worth.
\<close>

section \<open>The room under a number\<close>

lemma put_room_simps [simp]:
  "getRoomByNumber n (put_room n (h, R) L) = Some R" "lb_heap (put_room n (h, R) L) = h"
  by (simp_all add: put_room_def getRoomByNumber_def update_conv')

lemma change_room_at:
  assumes "getRoomByNumber n L = Some R"
  shows "getRoomByNumber n (change_room n f L) = Some (f R)" "lb_heap (change_room n f L) = lb_heap L"
  using assms by (simp_all add: change_room_def at_room_def)

section \<open>A lobby for the examples\<close>

definition demo_lobby_env :: lobby_env where
  "demo_lobby_env = \<lparr>le_main = demo_env, le_behind = \<lambda>_. [], le_modeSize = \<lambda>_. 0, le_castAnswers = \<lambda>_. True,
     le_random = \<lambda>_. 0, le_serverStart = 0, le_nowMs = 0, le_serverId = 1\<rparr>"

definition demo_lobby :: "main_room \<Rightarrow> lobby" where
  "demo_lobby R = \<lparr>lb_heap = demo_sessions STATE_NORMAL, lb_log = [], lb_rooms = [(0, R)],
     lb_roomNumbers = RoomNumberGenerator_new Room 600, lb_clanNumbers = RoomNumberGenerator_new Clan 600, lb_clans = [],
     lb_byId = [(10, 1), (20, 2), (30, 3)], lb_sessions = [1, 2, 3], lb_cast = []\<rparr>"

definition demo_vote_room :: main_room where
  "demo_vote_room = demo_main_room\<lparr>rm_votekickTargetUid := UniqueId_make 20 1 0,
     rm_players := [((fst (demo_entry 10 50 STATE_NORMAL TEAM_BLUE 1))\<lparr>rpi_state := ucast STATE_NORMAL\<rparr>, 1),
       demo_entry 20 40 STATE_WAITING TEAM_RED 2]\<rparr>"

definition demo_command :: "u16 \<Rightarrow> u8 \<Rightarrow> u8 \<Rightarrow> packet" where
  "demo_command order mission extra = setCommand order mission extra 0 packet_new"

lemma demo_lobby_simps [simp]:
  "lb_heap (demo_lobby R) = demo_sessions STATE_NORMAL" "getRoomByNumber 0 (demo_lobby R) = Some R"
  "room_no (demo_main i p st) = 0"
  by (simp_all add: demo_lobby_def getRoomByNumber_def demo_main_def getPlayer_def Player_new_def)

lemma demo_modes: "mode_of demo_main_room = 0" "mode_of demo_vote_room = 0"
  by (simp_all add: mode_of_def demo_vote_room_def demo_main_room_def Room_new_def Let_def demo_settings_def case_prod_beta)

section \<open>Votekicks\<close>

definition is_command :: "u16 \<Rightarrow> u32 \<Rightarrow> u32 \<Rightarrow> packet \<Rightarrow> bool" where
  "is_command order mission extra p \<longleftrightarrow>
     packet_getOrder p = order \<and> cmd_getMission (m_command p) = mission \<and> cmd_getExtra (m_command p) = extra"

lemma vote_step:
  assumes "lb_heap L r = Some s" "getRoomByNumber (room_no s) L = Some R" "mode_of R \<noteq> AiBattle" "is_command 125 m 29 vote"
  shows "handleRoomMiscellaneous e vote r L = Inr (change_room (room_no s) Room_votekickVoteYes L)"
  using assms by (simp add: handleRoomMiscellaneous_def try_in_room_def is_command_def Let_def)

definition voted :: "main_room \<Rightarrow> nat \<Rightarrow> main_room" where
  "voted R k = R\<lparr>rm_votekickYesses := rm_votekickYesses R + of_nat k\<rparr>"

lemma voted_simps [simp]:
  "voted R 0 = R" "Room_votekickVoteYes (voted R k) = voted R (Suc k)" "mode_of (voted R k) = mode_of R"
  "Room_votekickVoteYes R = voted R (Suc 0)" "voted (voted R (Suc 0)) k = voted R (Suc k)"
  by (simp_all add: voted_def Room_votekickVoteYes_def mode_of_def)

lemma votes:
  assumes "lb_heap L r = Some s" "getRoomByNumber (room_no s) L = Some R" "mode_of R \<noteq> AiBattle" "is_command 125 m 29 vote"
  shows "\<exists>L'. for_each (\<lambda>_. handleRoomMiscellaneous e vote r) (replicate k x) L = Inr L' \<and>
    getRoomByNumber (room_no s) L' = Some (voted R k) \<and> lb_heap L' = lb_heap L"
  using assms(1-3)
proof (induction k arbitrary: L R)
  case (Suc k)
  let ?L = "change_room (room_no s) Room_votekickVoteYes L"
  note at = change_room_at [OF Suc.prems(2), of Room_votekickVoteYes]
  have "\<exists>L'. for_each (\<lambda>_. handleRoomMiscellaneous e vote r) (replicate k x) ?L = Inr L' \<and>
      getRoomByNumber (room_no s) L' = Some (voted (voted R (Suc 0)) k) \<and> lb_heap L' = lb_heap ?L"
    using Suc.prems at by (intro Suc.IH) simp_all
  then show ?case using vote_step [OF Suc.prems assms(4)] at(2) by simp
qed simp

lemma kick_session_effect:
  assumes "\<not> is_staff t"
  shows "Room_wasPreviouslyKicked (ai_accountID (getAccountInfo t)) (snd (snd (kick_session c x (Some t) (h, R))))"
proof -
  let ?R = "R\<lparr>rm_kickedPlayerAccountIds := rm_kickedPlayerAccountIds R @ [(ai_accountID (getAccountInfo t), name_of t)]\<rparr>"
  have "rm_kickedPlayerAccountIds (snd (snd (Room_kickPlayerImpl c t x (h, ?R)))) =
      rm_kickedPlayerAccountIds R @ [(ai_accountID (getAccountInfo t), name_of t)]" by simp
  then show ?thesis using assms by (simp add: kick_session_def Room_wasPreviouslyKicked_def)
qed



section \<open>The password of a room\<close>

text \<open>
  C0: Any member can take the password off. The settings message clears it before the host is asked
  for, so that it works for who is not the host and changes nothing else; the message meant for it
  does nothing for such a member.
\<close>

theorem guest_clears_password:
  assumes "lb_heap L r = Some s" "getRoomByNumber (room_no s) L = Some R" "mode_of R \<noteq> AiBattle"
    and "\<not> Room_isHost (uid_of s) R" "is_command order 0 x settings" "order = 129 \<or> order = 126"
    and "is_command 126 3 y removal"
  shows "\<exists>L'. handleRoomMiscellaneous e settings r L = Inr L' \<and> lb_heap L' = lb_heap L \<and>
      getRoomByNumber (room_no s) L' = Some (Room_updatePassword [] R) \<and> rm_password (Room_updatePassword [] R) = [] \<and>
      handleRoomMiscellaneous e removal r L = Inr L"
proof -
  let ?n = "room_no s" and ?L = "change_room (room_no s) (Room_updatePassword []) L"
  have host: "\<not> Room_isHost (uid_of s) (Room_updatePassword [] R)"
    using assms(4) by (simp add: Room_isHost_def Room_updatePassword_def)
  have "handleRoomMiscellaneous e settings r L = Inr (change_settings e settings r s L)"
    using assms(1-3,5,6) by (auto simp: handleRoomMiscellaneous_def try_in_room_def is_command_def Let_def)
  also have "change_settings e settings r s L = ?L"
    using assms(5,6) host change_room_at(1) [OF assms(2), of "Room_updatePassword []"]
    by (auto simp: change_settings_def is_command_def Let_def split: option.split)
  finally have "handleRoomMiscellaneous e settings r L = Inr ?L" .
  moreover have "handleRoomMiscellaneous e removal r L = Inr L"
    using assms(1-4,7) by (simp add: handleRoomMiscellaneous_def try_in_room_def is_command_def Let_def)
  ultimately show ?thesis
    using change_room_at [OF assms(2), of "Room_updatePassword []"] by (simp add: Room_updatePassword_def)
qed

theorem guest_clears_password_witness:
  "\<exists>L'. handleRoomMiscellaneous demo_lobby_env (demo_command 129 0 0) 2 (demo_lobby demo_main_room) = Inr L' \<and>
     getRoomByNumber 0 L' = Some (Room_updatePassword [] demo_main_room)"
proof -
  have host: "\<not> Room_isHost (uid_of (demo_main 20 40 STATE_WAITING)) demo_main_room"
    by (simp add: Room_isHost_def UniqueId_make_def)
  have c: "is_command 129 0 0 (demo_command 129 0 0)" "is_command 126 3 0 (demo_command 126 3 0)"
    by code_simp+
  show ?thesis
    using guest_clears_password [of "demo_lobby demo_main_room" 2 "demo_main 20 40 STATE_WAITING" demo_main_room 129 0 "demo_command 129 0 0" 0 "demo_command 126 3 0" demo_lobby_env]
      host c by (auto simp: demo_modes AiBattle_def)
qed

section \<open>What a match is worth\<close>

lemma unat_u8_u64: "unat (ucast (x :: u8) :: u64) = unat x"
  using unsigned_less [of x, where 'a = nat] by (simp add: unsigned_ucast_eq take_bit_nat_eq_self)

lemma minutes_value: "unat (elapsedMinutes now started) = min (unat (now - started) div 60000) 15"
proof -
  have "unat ((now - started) div 1000 div 60) = unat (now - started) div 60000"
    by (simp add: unat_div div_mult2_eq [symmetric])
  then show ?thesis by (simp add: elapsedMinutes_def min_def word_le_nat_alt)
qed

definition worth :: "nat \<Rightarrow> nat \<Rightarrow> ScoreboardResponse \<Rightarrow> nat" where
  "worth base minutes b = (unat (sb_totalKills b) * 15 + unat (sb_deaths b) * 5 + base) * 2 + minutes * 80"

lemma match_gain_value:
  assumes "unat base \<le> 150" "unat minutes \<le> 15"
  shows "unat (match_gain False base minutes b) = worth (unat base) (unat minutes) b" "worth (unat base) (unat minutes) b \<le> 11700"
proof -
  have k: "unat (sb_totalKills b) \<le> 255" "unat (sb_deaths b) \<le> 255"
    using unsigned_less [of "sb_totalKills b", where 'a = nat] unsigned_less [of "sb_deaths b", where 'a = nat] by simp_all
  show "worth (unat base) (unat minutes) b \<le> 11700" using assms k by (simp add: worth_def)
  show "unat (match_gain False base minutes b) = worth (unat base) (unat minutes) b"
    using assms k by (simp add: match_gain_def worth_def unat_word_ariths unat_u8_u64)
qed

abbreviation match_reward :: "u32 \<Rightarrow> bool \<Rightarrow> u64 \<Rightarrow> u64 \<Rightarrow> ScoreboardResponse \<Rightarrow> bool \<Rightarrow> u32 \<Rightarrow> u32 \<Rightarrow> u32" where
  "match_reward mode isFarm base played b duringEvent items event \<equiv>
     final_gain mode duringEvent items event (match_gain isFarm base (elapsedMinutes played 0) b)"

text \<open>C38: 
  C0: A match that counts is worth exactly what its kills, its deaths and at most a quarter of an hour
  are worth, divided by 1.3 in a free-for-all and cut at 4000, with no wrap-around on the way; a match that
  does not count is worth nothing, and no bonus of items or events lifts a match above 4000. While the
  total stays 4000 below its maximum it grows by exactly that.
\<close>

theorem match_worth:
  assumes "base = matchBaseExp \<or> base = matchBaseMp"
  shows "(let n = worth (unat base) (min (unat played div 60000) 15) b
      in unat (match_reward mode isFarm base played b False 0 p) =
        (if isFarm then 0 else min (if mode = FreeForAll then n * 10 div 13 else n) 4000)) \<and>
    (let g = match_reward mode isFarm base played b ev i p
     in unat g \<le> 4000 \<and> (isFarm \<longrightarrow> g = 0) \<and>
      (unat old + 4000 < 2 ^ 32 \<longrightarrow> new_total isFarm g old = (False, old + g) \<and> unat (old + g) = unat old + unat g))"
proof -
  let ?gain = "match_reward mode isFarm base played b" and ?n = "worth (unat base) (min (unat played div 60000) 15) b"
  have base: "unat base \<le> 150" using assms(1) by (auto simp: matchBaseExp_def matchBaseMp_def)
  have m: "unat (elapsedMinutes played 0) \<le> 15" by (simp add: minutes_value)
  let ?g = "match_gain False base (elapsedMinutes played 0) b"
  note v = match_gain_value [OF base m, of b]
  have n: "unat ?g = ?n" "?n \<le> 11700" using v by (simp_all add: minutes_value)
  have cut: "unat (min w maxExpAndMpPerMatch) = min (unat w) 4000" for w :: u32
    by (simp add: min_def maxExpAndMpPerMatch_def word_le_nat_alt)
  have low: "unat (ucast w :: u32) = unat w" if "unat w < 2 ^ 32" for w :: u64
    using that by (simp add: unsigned_ucast_eq take_bit_nat_eq_self)
  have tenth: "unat (?g * 10 div 13) = ?n * 10 div 13" using n by (simp add: unat_div unat_word_ariths)
  have le: "unat (?gain ev i p) \<le> 4000" for ev i p by (simp add: final_gain_def Let_def cut)
  have farm: "isFarm \<longrightarrow> ?gain ev i p = 0" for ev i p
    by (auto simp: final_gain_def match_gain_def Let_def min_def maxExpAndMpPerMatch_def)
  have "unat (?gain False 0 p) = (if isFarm then 0 else min (if mode = FreeForAll then ?n * 10 div 13 else ?n) 4000)"
  proof (cases isFarm)
    case False
    have "unat (ucast ?g :: u32) = ?n" "unat (ucast (?g * 10 div 13) :: u32) = ?n * 10 div 13"
      using n tenth le_less_trans [OF div_le_dividend, of "?n * 10" "2 ^ 32" 13] by (simp_all add: low)
    then show ?thesis using False by (simp add: final_gain_def Let_def cut)
  qed (use farm in simp)
  moreover have "new_total isFarm (?gain ev i p) old = (False, old + ?gain ev i p) \<and>
       unat (old + ?gain ev i p) = unat old + unat (?gain ev i p)" if "unat old + 4000 < 2 ^ 32"
  proof -
    have "unat (old + ?gain ev i p) = unat old + unat (?gain ev i p)"
      using that le [of ev i p] by (simp add: unat_word_ariths)
    then show ?thesis by (auto simp: new_total_def word_less_nat_alt add.commute)
  qed
  ultimately show ?thesis using le farm by (simp add: Let_def)
qed

theorem match_worth_witness:
  "unat (final_gain FreeForAll False 0 0 (match_gain False matchBaseExp (elapsedMinutes 600000 0)
     (ScoreboardResponse_of_bytes [0, 0, 0, 0, 0, 0, 0, 0, 20, 10, 0, 0]))) = 1276"
  using match_worth [of matchBaseExp, where mode = FreeForAll and played = 600000 and isFarm = False and p = 0 and
     b = "ScoreboardResponse_of_bytes [0, 0, 0, 0, 0, 0, 0, 0, 20, 10, 0, 0]"]
  by (simp add: worth_def ScoreboardResponse_of_bytes_def matchBaseExp_def)

section \<open>Lists in several packets\<close>

text \<open>The bytes of a packet on the connection of a session.\<close>

definition wire :: "crypt \<Rightarrow> main_session \<Rightarrow> packet \<Rightarrow> bytes" where
  "wire c s p = take (unat (getFullSize p)) (generateOutgoingPacket c (UserKey (m_crypt s)) (isUsed (m_crypt s)) p)"

lemma write_own_sent:
  "fst (write_own e f st) = (let p = f (mf_packet (sess_app (fst st))); s = on_packet f (fst st)
     in if m_isOpen (fst st) then s\<lparr>m_written := m_written (fst st) @ [wire (me_crypt e) (fst st) p]\<rparr> else s)"
  by (cases st) (simp add: write_own_def on_sess_def send_own_def send_def asyncWrite_def wire_def Let_def on_packet_def)

lemma wire_cong: "m_crypt s = m_crypt s' \<Longrightarrow> wire c s = wire c s'"
  by (simp add: wire_def fun_eq_iff)

lemma write_own_open:
  assumes "m_isOpen (fst st)"
  shows "m_written (fst (write_own e f st)) = m_written (fst st) @ [wire (me_crypt e) (fst st) (f (mf_packet (sess_app (fst st))))]"
    and "m_isOpen (fst (write_own e f st))" "m_crypt (fst (write_own e f st)) = m_crypt (fst st)"
    and "mf_packet (sess_app (fst (write_own e f st))) = f (mf_packet (sess_app (fst st)))"
  using assms by (simp_all add: write_own_sent Let_def on_packet_def)

text \<open>The packets of the pieces: each is made of the one before.\<close>

primrec piece_packets :: "packet \<Rightarrow> nat \<Rightarrow> bytes list list \<Rightarrow> packet list" where
  "piece_packets p k [] = []"
| "piece_packets p k (part # parts) = (let q = separate_packet (k, part) p in q # piece_packets q (k + 1) parts)"

lemma pieces_written:
  assumes "m_isOpen (fst st)"
  shows "m_written (fst (fold (\<lambda>part. write_own e (separate_packet part)) (enumerate k parts) st)) =
     m_written (fst st) @ map (wire (me_crypt e) (fst st)) (piece_packets (mf_packet (sess_app (fst st))) k parts)"
  using assms
proof (induction parts arbitrary: k st)
  case (Cons part parts)
  note w = write_own_open [OF Cons.prems, of e "separate_packet (k, part)"]
  show ?case using Cons.IH [OF w(2), of "Suc k"] w(1,4) wire_cong [OF w(3)] by (simp add: Let_def)
qed simp

lemma separate_packet_simps:
  "m_data (separate_packet (k, part) p) = concat part"
  "cmd_getOption (m_command (separate_packet (k, part) p)) = ucast (of_nat (length part) :: u8) mod 256"
  "cmd_getExtra (m_command (separate_packet (k, part) p)) = (if k = 0 then 37 else 0)"
  by (simp_all add: separate_packet_def packet_setOption_def packet_setExtra_def setData_def)

lemma piece_packets_simps:
  "map m_data (piece_packets p k parts) = map concat parts" "length (piece_packets p k parts) = length parts"
  by (induction parts arbitrary: p k) (simp_all add: Let_def separate_packet_simps)

lemma piece_packets_nth:
  "i < length parts \<Longrightarrow> \<exists>q. piece_packets p k parts ! i = separate_packet (k + i, parts ! i) q"
proof (induction parts arbitrary: p k i)
  case (Cons part parts)
  show ?case
  proof (cases i)
    case 0
    then show ?thesis by (auto simp: Let_def)
  next
    case (Suc j)
    have "\<exists>q. piece_packets (separate_packet (k, part) p) (k + 1) parts ! j = separate_packet (k + 1 + j, parts ! j) q"
      using Cons.prems Suc by (intro Cons.IH) simp
    then show ?thesis by (simp add: Suc Let_def)
  qed
qed simp

lemma length_concat_same: "\<forall>x \<in> set xs. length x = n \<Longrightarrow> length (concat xs) = length xs * n"
  by (induction xs) simp_all

lemma concat_map_concat: "concat (map concat xs) = concat (concat xs)"
  by (induction xs) simp_all

lemma set_pieces: "part \<in> set (pieces k xs) \<Longrightarrow> set part \<subseteq> set xs"
  using concat_pieces [of k xs] by (metis set_concat UN_upper)

text \<open>C37: 
  C0: A list of records is sent whole: the payloads of its packets in order are the records in order, every
  packet has at least one record and fits into 1432 bytes, says how many records it has, and the first of
  them, and only that one, is marked as the beginning.
\<close>

theorem list_is_sent_whole:
  assumes "6 \<le> sz" "sz \<le> 1432" "\<forall>x \<in> set records. length x = sz" "m_isOpen (fst st)"
  shows "\<exists>ps. m_written (fst (sendSeparatePackets e sz records st)) = m_written (fst st) @ map (wire (me_crypt e) (fst st)) ps \<and>
    concat (map m_data ps) = concat records \<and>
    (\<forall>i < length ps. 0 < length (m_data (ps ! i)) \<and> length (m_data (ps ! i)) \<le> 1432 \<and>
       length (m_data (ps ! i)) = unat (cmd_getOption (m_command (ps ! i))) * sz \<and>
       cmd_getExtra (m_command (ps ! i)) = (if i = 0 then 37 else 0))"
proof -
  let ?n = "numItemsPerPacket sz" and ?parts = "pieces (numItemsPerPacket sz - 1) records"
  let ?ps = "piece_packets (mf_packet (sess_app (fst st))) 0 ?parts"
  have n: "0 < ?n" "?n * sz \<le> 1432" using assms(1,2) by (simp_all add: numItemsPerPacket_def div_greater_zero_iff)
  then have "?n * 6 \<le> 1432" using assms(1) by (meson le_trans mult_le_mono2)
  then have n': "?n < 256" by simp
  have part: "length p \<le> ?n" "0 < length p" "length (concat p) = length p * sz" if "p \<in> set ?parts" for p
  proof -
    show "length p \<le> ?n" "0 < length p" using pieces_length [OF that] n(1) by simp_all
    show "length (concat p) = length p * sz" using set_pieces [OF that] assms(3) by (intro length_concat_same) blast
  qed
  have "0 < length (m_data (?ps ! i)) \<and> length (m_data (?ps ! i)) \<le> 1432 \<and>
       length (m_data (?ps ! i)) = unat (cmd_getOption (m_command (?ps ! i))) * sz \<and>
       cmd_getExtra (m_command (?ps ! i)) = (if i = 0 then 37 else 0)" if "i < length ?ps" for i
  proof -
    have i: "i < length ?parts" using that by (simp add: piece_packets_simps)
    then obtain q where q: "?ps ! i = separate_packet (i, ?parts ! i) q" using piece_packets_nth [OF i, of "mf_packet (sess_app (fst st))" 0] by auto
    note p = part [OF nth_mem [OF i]]
    have "unat (ucast (of_nat (length (?parts ! i)) :: u8) mod 256 :: u32) = length (?parts ! i)"
      using p(1) n' by (simp add: unat_mod unsigned_ucast_eq unsigned_of_nat take_bit_nat_eq_self)
    moreover have "length (?parts ! i) * sz \<le> 1432" using p(1) n(2) by (meson le_trans mult_le_mono1)
    moreover have "0 < length (?parts ! i) * sz" using p(2) assms(1) by simp
    ultimately show ?thesis unfolding q separate_packet_simps p(3) by simp
  qed
  moreover have "concat (map m_data ?ps) = concat records"
    by (simp only: piece_packets_simps(1) concat_map_concat concat_pieces)
  ultimately show ?thesis
    using pieces_written [OF assms(4), of e 0 ?parts] unfolding sendSeparatePackets_def by blast
qed

theorem list_is_sent_whole_witness:
  "\<exists>ps. m_written (fst (sendSeparatePackets demo_env 24 (replicate 60 (replicate 24 7)) (demo_main 10 50 STATE_WAITING, []))) =
      m_written (demo_main 10 50 STATE_WAITING) @ map (wire (me_crypt demo_env) (demo_main 10 50 STATE_WAITING)) ps \<and>
    concat (map m_data ps) = concat (replicate 60 (replicate 24 7))"
proof -
  have "m_isOpen (fst (demo_main 10 50 STATE_WAITING, []))" by (simp add: demo_main_def)
  then show ?thesis
    using list_is_sent_whole [of 24 "replicate 60 (replicate 24 7)" "(demo_main 10 50 STATE_WAITING, [])" demo_env] by auto
qed

section \<open>The end of a boss battle\<close>

text \<open>The host's message reaches the handler of the end of a boss battle with the entries of the room unchanged.\<close>

lemma boss_rewards_none:
  "\<forall>en \<in> set (members R). \<not> takes_part h en \<Longrightarrow> boss_rewards draw (h, R) = []"
proof -
  assume none: "\<forall>en \<in> set (members R). \<not> takes_part h en"
  have "filter (takes_part h) (Room_getAllPlayersWithSessions (h, R)) = []"
    using none by (auto simp: Room_getAllPlayersWithSessions_def filter_empty_conv)
  then show ?thesis by (simp add: boss_rewards_def map_filter_simps)
qed

lemma others_keep:
  "lb_heap (to_others e n u p L) r' = None \<longleftrightarrow> lb_heap L r' = None"
  "map_option in_match (lb_heap (to_others e n u p L) r') = map_option in_match (lb_heap L r')"
  by (simp_all add: to_others_def at_room_def Room_broadcastToRoomExceptSelf_def for_live_dom for_live_keeps player_isInMatch_def
      Let_def split: option.split)

lemma others_takes_part: "takes_part (lb_heap (to_others e n u p L)) en \<longleftrightarrow> takes_part (lb_heap L) en"
  using others_keep(2) [of e n u p L "snd en"] by (auto simp: takes_part_def split: option.splits)

lemma boss_ending_without_players:
  assumes "8 < length (m_data request)" "m_data request ! 8 \<noteq> 5" "\<forall>en \<in> set (members R). \<not> takes_part (lb_heap L) en"
    and "en \<in> set (members R)" "lb_heap L (snd en) \<noteq> None" "team_of en \<noteq> TEAM_OBSERVER"
  shows "handleBossBattleEnding e draw R request False L = Inl OutOfBounds"
proof -
  have "filter (takes_part (lb_heap L)) (Room_getAllPlayersWithSessions (lb_heap L, R)) = []"
    using assms(3) by (auto simp: Room_getAllPlayersWithSessions_def filter_empty_conv)
  moreover have "filter (\<lambda>en. team_of en \<noteq> TEAM_OBSERVER) (Room_getAllPlayersWithSessions (lb_heap L, R)) \<noteq> []"
    using assms(4-6) by (auto simp: Room_getAllPlayersWithSessions_def filter_empty_conv)
  ultimately show ?thesis
    using assms(1,2) boss_rewards_none [OF assms(3)] by (simp add: handleBossBattleEnding_def Let_def)
qed

text \<open>
  C0: A host who sends the end of a boss battle when nobody is in the match ends the server: with a payload
  that is not marked as a loss, at least 80 seconds after the start, room for one reward less than none is
  reserved, and nobody catches the exception.
\<close>

theorem boss_ending_throws:
  assumes "lb_heap L r = Some s" "getRoomByNumber (room_no s) L = Some R" "mode_of R = BossBattle"
    and "Room_isHost (uid_of s) R" "ucast (room_no s) < clanRoomNumberStart" "cmd_getExtra (m_command request) \<noteq> 6"
    and "8 < length (m_data request)" "m_data request ! 8 \<noteq> 5"
    and "unat (rm_matchStartTime R) + 80000 \<le> unat (le_nowMs e)"
    and "\<forall>en \<in> set (members R). \<not> takes_part (lb_heap L) en"
    and "en \<in> set (members R)" "lb_heap L (snd en) \<noteq> None" "team_of en \<noteq> TEAM_OBSERVER"
  shows "handleMatchEnding e draw grades bonus mission request r L = Inl OutOfBounds"
proof -
  let ?L = "to_others e (room_no s) (uid_of s) request L"
  have "rm_matchStartTime R \<le> le_nowMs e" using assms(9) by (simp add: word_le_nat_alt)
  then have "unat (le_nowMs e - rm_matchStartTime R) \<ge> 80000" using assms(9) by (simp add: unat_sub)
  then have "\<not> le_nowMs e - rm_matchStartTime R < 80000" by (simp add: word_less_nat_alt)
  then have farm: "\<not> is_farm (le_nowMs e) R"
    using assms(3) by (simp add: is_farm_def BossBattle_def SquareMode_def AiBattle_def)
  have n: "\<not> clanRoomNumberStart \<le> ucast (room_no s)" using assms(5) by (simp add: not_le)
  have "handleBossBattleEnding e draw R request False ?L = Inl OutOfBounds"
    using assms(7,8,10,11,12,13) by (intro boss_ending_without_players [where en = en]) (simp_all add: others_takes_part others_keep(1))
  then show ?thesis
    using assms(1-4,6) n farm by (simp add: handleMatchEnding_def try_in_room_def Let_def)
qed

definition demo_boss_room :: main_room where
  "demo_boss_room = demo_main_room\<lparr>rm_settings := demo_settings\<lparr>rs_mode := ucast BossBattle\<rparr>\<rparr>"

theorem boss_ending_throws_witness:
  "handleMatchEnding (demo_lobby_env\<lparr>le_nowMs := 100000\<rparr>) (\<lambda>_. 0) [] \<lparr>xb_endDate = 0, xb_expBonusPercent = 0, xb_mpBonusPercent = 0\<rparr>
     \<lparr>em_startDate = 0, em_endDate = 0\<rparr> (setData (replicate 12 0) packet_new) 1
     ((demo_lobby demo_boss_room)\<lparr>lb_heap := demo_sessions STATE_WAITING\<rparr>) = Inl OutOfBounds"
proof -
  let ?L = "(demo_lobby demo_boss_room)\<lparr>lb_heap := demo_sessions STATE_WAITING\<rparr>" and ?s = "demo_main 10 50 STATE_WAITING"
    and ?p = "setData (replicate 12 0) packet_new" and ?en = "demo_entry 20 40 STATE_WAITING TEAM_RED 2"
  have room: "getRoomByNumber (room_no ?s) ?L = Some demo_boss_room" "mode_of demo_boss_room = BossBattle"
    "Room_isHost (uid_of ?s) demo_boss_room" "unat (rm_matchStartTime demo_boss_room) = 0"
    by (simp_all add: getRoomByNumber_def demo_lobby_def demo_boss_room_def mode_of_def BossBattle_def Room_isHost_def)
      (simp_all add: demo_main_room_def Room_new_def Let_def case_prod_beta)
  have packet: "cmd_getExtra (m_command ?p) \<noteq> 6" "8 < length (m_data ?p)" "m_data ?p ! 8 \<noteq> 5"
    by code_simp+
  have members: "set (members demo_boss_room) = {demo_entry 10 50 STATE_WAITING TEAM_BLUE 1, ?en, demo_entry 30 20 STATE_WAITING TEAM_OBSERVER 3}"
    by (simp add: demo_boss_room_def insert_commute)
  have en: "?en \<in> set (members demo_boss_room)" "team_of ?en \<noteq> TEAM_OBSERVER"
    unfolding members by simp (simp only: demo_entry_simps, simp add: teams)
  have idle: "\<forall>en \<in> set (members demo_boss_room). \<not> takes_part (lb_heap ?L) en"
    unfolding members by (simp add: takes_part_def player_isInMatch_def states)
  have clan: "ucast (room_no ?s) < clanRoomNumberStart" by (simp add: clanRoomNumberStart_def)
  show ?thesis
    by (rule boss_ending_throws [OF _ room(1,2,3) clan packet _ idle en(1) _ en(2)]) (simp_all add: room(4))
qed

end
