(* ===== verification/Spec2Isabelle.thy ===== *)
theory Spec2Isabelle
  imports SessionStream AntiCheat CastManager RoomNumbers MainRoomHost TradeProps ShopProps
    HandlerProps
begin

text \<open>
  The servers of MicrovoltsEmulator: three C++ programs that speak a binary protocol over TCP.
  A client first logs in at the auth server, then plays on the main server (lobby, inventory,
  rooms, trades) and has its matches relayed by the cast server. This development models the core
  they share and the state they keep, and proves what makes each part correct. All numbers keep
  their width, every early return and every unchecked index is a branch of the model (\<open>Inl\<close> or
  \<open>None\<close>), and every definition is executable.

  The shared core (src/Common)
  \<^item> \<open>Prelude\<close>: machine words, bytes in memory order, the list operations (swap with the back and pop,
    erase at an index) the code uses, and the collections of rewrite rules.
  \<^item> \<open>Crypt\<close> (Cryptography/Crypt): key set-up, RC5 on 16- and 32-bit words and RC6, as loops over the
    buffers. The array of the set-up that is read before it is written is a parameter. Decryption
    inverts encryption, the encryptions permute the buffers, the key set-up is a function of the key.
  \<^item> \<open>Protocol\<close> (Protocol/TcpHeader, CommandHeader): the bit-field headers; they are lossless.
  \<^item> \<open>Packet\<close> (Network/Packet.h): parsing and serialising; round trips and the bounds of the parser.
  \<^item> \<open>SessionIds\<close> (Network/SessionIdManager.h): the locale \<open>id_allocator\<close> states what a supply of numbers
    promises; its consequence for all runs is proved once and interpreted here and in \<open>RoomNumbers\<close>.
  \<^item> \<open>SessionStream\<close> (Network/Session, the \<open>onPacket\<close> of the auth and the cast server): the receive
    loop is a \<open>partial_function (option)\<close> whose divergence is \<open>None\<close>; it is proved equal to a total
    function that cuts the byte stream, so termination and the exact frames follow. Also the greeting,
    the admission of announced addresses and closing.
  \<^item> \<open>AntiCheat\<close> (Common/AntiCheat): the two checkers refine detectors with the full history (by the
    locale of a simulation), and the worker handles the events in order.

  The cast server (src/CastServer)
  \<^item> \<open>CastRoom\<close> (Classes/Room): rooms with weak pointers into a heap of sessions; membership,
    broadcasts, respawning, batching of positions.
  \<^item> \<open>CastManager\<close> (Classes/RoomsManager, Network/SessionsManager, handlers): the step relation of the
    server's events and the invariant of every reachable state.

  The main server (src/MainServer)
  \<^item> \<open>Enums\<close>, \<open>Player\<close>, \<open>Inventory\<close> (Classes/Player, Structures): the account, social lists, mail,
    trades and the items. The constant database is a record of functions (a parameter), calls to the
    database scheduler are appended to a log.
  \<^item> \<open>RoomNumbers\<close> (Classes/RoomNumberManager.h): the supply of room numbers.
  \<^item> \<open>MainSession\<close> (Network/MainSession): the player and the match fields of a session; the loops of a
    room over its live members are one combinator, whose effect on every session is proved once.
  \<^item> \<open>MainRoom\<close>, \<open>MainRoomMatch\<close> (Classes/Room): the room with its players and observers, the host at
    index 0, broadcasts, leaving, kicking and the change of host; matches, votekicks, teams, settings.
  \<^item> \<open>MainRoomInv\<close>, \<open>MainRoomHost\<close>: the invariant of every state a room can reach, and what
    leaving, kicking, electing a host, chatting and balancing teams do.

  \<^item> \<open>ConstantDb\<close> (Common/ConstantDatabase/Cdb.h, MainServer/Detail): the tables of the game, read from
    their files, and the queries; what a file means, and when the search for the base of a weapon ends.
  \<^item> \<open>ItemSession\<close> (Network/MainSession.cpp): the operations of a session on items and money, with their
    replies and database calls; each refines an operation of the player, and \<open>item_db_of\<close> fills the
    parameter of \<open>Inventory\<close>.
  \<^item> \<open>Requests\<close> (Detail/Utilities.h): reading the payload of a request. \<open>Stock\<close>: the items of a player as a
    multiset of kinds, and what adding and deleting do to it; trades and the shop rest on it.
  \<^item> \<open>Trade\<close>, \<open>TradeProps\<close> (Handlers/Trade): the handlers of a trade on the sessions of both players;
    what an exchange moves, and the two ways in which it does not.
  \<^item> \<open>Shop\<close>, \<open>ShopProps\<close> (Handlers/Item): buying, renewing, repairing, gambling, upgrading, boxes and
    deleting; a purchase is paid exactly, and two requests for which it is not.

  This theory composes the parts: what one end serialises reaches the callbacks of the other.

  Fuel and bounds: no definition has fuel. The receive loop and the search for the base of a weapon,
  the loops that may run forever, are partial, and the theorems say when they return.

  Not modelled: SQL and HTTP, the configuration, logging, chat commands and the handlers that only
  combine modelled operations with replies, the position and weapon handlers of the cast server,
  tools and vendored code.
\<close>

section \<open>From the sender's packets to the receiver's callbacks\<close>

text \<open>What a callback is trusted with: it leaves buffer, keys and the open flag alone.\<close>

definition callback_ok :: "(packet \<Rightarrow> 'a session \<Rightarrow> 'a session) \<Rightarrow> bool" where
  "callback_ok f \<longleftrightarrow> (\<forall>p s r. f p (s\<lparr>m_reader := r\<rparr>) = f p s\<lparr>m_reader := r\<rparr>) \<and>
     (\<forall>p s. m_crypt (f p s) = m_crypt s \<and> m_isOpen (f p s) = m_isOpen s)"

definition dispatch :: "'a callbacks \<Rightarrow> packet \<Rightarrow> 'a session \<Rightarrow> 'a session" where
  "dispatch callbacks p s = (case callbacks (packet_getOrder p) of None \<Rightarrow> s | Some f \<Rightarrow> f p s)"

lemma dispatch_ok:
  assumes "\<And>n f. callbacks n = Some f \<Longrightarrow> callback_ok f"
  shows "callback_ok (dispatch callbacks)"
  using assms by (auto simp: callback_ok_def dispatch_def split: option.split)

lemma callback_ok_reader: "callback_ok f \<Longrightarrow> m_reader (f p s) = m_reader s"
proof -
  assume "callback_ok f"
  then have "m_reader (f p (s\<lparr>m_reader := r\<rparr>)) = r" for r
    by (simp add: callback_ok_def)
  from this [of "m_reader s"] show ?thesis by simp
qed

lemma reader_empty: "m_reader s = [] \<Longrightarrow> s\<lparr>m_reader := []\<rparr> = s"
  by (cases s) simp

text \<open>A serialised packet is a whole packet for the receive loop.\<close>

lemma whole_generated:
  assumes "sized p" "length (m_data p) < 1442" "crypt_wf c" "crypt_wf c'" "isUsed c = isUsed c'"
  shows "whole_packet (KeySetup 0 c) True (generateOutgoingPacket c' key True p)"
proof -
  have K: "KeySetup 0 c' = KeySetup 0 c" using assms by (metis KeySetup_indep)
  have "take 4 (generateOutgoingPacket c' key True p) = RC5Encrypt32 (KeySetup 0 c) (tcp_bytes (m_header p))"
    by (simp add: generateOutgoingPacket_def Let_def K)
  then show ?thesis
    using assms(1,2) by (simp add: whole_packet_def front_header_def sized_def)
qed

lemma whole_generated_plain:
  assumes "sized p" "length (m_data p) < 1442"
  shows "whole_packet K False (generateOutgoingPacket_plain p)"
  using assms by (simp add: whole_packet_def front_header_def sized_def generateOutgoingPacket_plain_def)

lemma fold_parsed:
  assumes "\<And>p. p \<in> set ps \<Longrightarrow> parse (gen p) = p"
  shows "fold (\<lambda>d. g (parse d)) (map gen ps) = fold g ps"
  using assms by (induction ps) (auto simp: comp_def)

text \<open>A callback for the examples, which records the packets.\<close>

definition record_packet :: "packet list callbacks" where
  "record_packet n = Some (\<lambda>p s. s\<lparr>sess_app := sess_app s @ [p]\<rparr>)"

lemma record_packet_ok: "record_packet n = Some f \<Longrightarrow> callback_ok f"
  by (auto simp: record_packet_def callback_ok_def)

text \<open>C2: End to end, encrypted. What a client serialises with the key of the connection, however
  the network cuts it into pieces, reaches the callbacks of the auth server as the very packets
  that were sent, in order, with nothing left in the buffer - for every sequence of packets with
  fewer than 1442 payload bytes and an encryption type in use, whose orders have callbacks.\<close>

theorem encrypted_end_to_end:
  assumes "crypt_wf c" "crypt_wf c'" "isUsed c = isUsed c'"
    and "isUsed (m_crypt s)" "UserKey (m_crypt s) = key" "m_isOpen s" "m_reader s = []"
    and "\<And>p. p \<in> set ps \<Longrightarrow> sized p \<and> tcp_getCrypt (m_header p) \<le> 4 \<and> length (m_data p) < 1442 \<and>
           callbacks (packet_getOrder p) \<noteq> None"
    and "\<And>n f. callbacks n = Some f \<Longrightarrow> callback_ok f"
    and "concat chunks = concat (map (generateOutgoingPacket c' key True) ps)"
  shows "onReads c (auth_onPacket c callbacks) cb chunks s = Some (Inr (fold (dispatch callbacks) ps s))"
proof -
  let ?gen = "generateOutgoingPacket c' key True"
  let ?parse = "\<lambda>d. projr (processIncomingPacket c d (of_nat (length d)) key packet_new)"
  let ?h = "\<lambda>d. dispatch callbacks (?parse d)"
  have ok: "callback_ok (dispatch callbacks)" using dispatch_ok assms(9) by blast
  have proc: "processIncomingPacket c (?gen p) (of_nat (length (?gen p))) key packet_new = Inr p" if "p \<in> set ps" for p
  proof -
    have "4 \<le> unat (of_nat (length (?gen p)) :: u16)"
      using assms(8) [OF that] by (simp add: unsigned_of_nat take_bit_nat_eq_self del: of_nat_add)
    then show ?thesis
      using process_generated [where rest = "[]" and p = p and c = c and c' = c' and key = key] assms(1-3) assms(8) [OF that]
      by simp
  qed
  have "onReads c (auth_onPacket c callbacks) cb chunks s = Some (Inr (fold ?h (map ?gen ps) s\<lparr>m_reader := []\<rparr>))"
  proof (rule reads_whole_packets [where I = "\<lambda>s. isUsed (m_crypt s) \<and> UserKey (m_crypt s) = key"])
    show "buffer_blind ?h" using ok by (simp add: buffer_blind_def callback_ok_def)
    show "m_isOpen (?h d s) = m_isOpen s" for d s using ok by (simp add: callback_ok_def)
    show "auth_onPacket c callbacks d s = Inr (?h d s)"
      if d: "d \<in> set (map ?gen ps)" and I: "isUsed (m_crypt s) \<and> UserKey (m_crypt s) = key" for d s
    proof -
      obtain p where p: "p \<in> set ps" "d = ?gen p" using d by auto
      then obtain f where "callbacks (packet_getOrder p) = Some f" using assms(8) by blast
      then show ?thesis
        unfolding auth_onPacket_def dispatch_def p(2) conjunct2 [OF I] proc [OF p(1)] by simp
    qed
    show "isUsed (m_crypt (?h d s\<lparr>m_reader := r\<rparr>)) \<and> UserKey (m_crypt (?h d s\<lparr>m_reader := r\<rparr>)) = key"
      if "isUsed (m_crypt s) \<and> UserKey (m_crypt s) = key" for d s r
      using that ok by (simp add: callback_ok_def)
    show "\<forall>f \<in> set (map ?gen ps). whole_packet (KeySetup 0 c) (isUsed (m_crypt s)) f"
      using whole_generated [OF _ _ assms(1-3)] assms(4,8) by auto
  qed (use assms in \<open>simp_all add: unfinished_def\<close>)
  moreover have "fold ?h (map ?gen ps) s = fold (dispatch callbacks) ps s"
    using fold_parsed [of ps ?parse ?gen "dispatch callbacks"] proc by simp
  moreover have "m_reader (fold (dispatch callbacks) ps s) = []"
    using assms(7) by (induction ps arbitrary: s) (simp_all add: callback_ok_reader [OF ok])
  ultimately show ?thesis by (simp add: reader_empty)
qed

theorem encrypted_end_to_end_witness:
  "let c = Crypt_new (replicate 26 1) (replicate 84 1); p = setTcpHeader 1 4 (packet_new\<lparr>m_data := [1, 2, 3]\<rparr>);
       s = demo_session True []\<lparr>m_crypt := Crypt_new [] []\<lparr>UserKey := 42\<rparr>\<rparr>;
       g = generateOutgoingPacket c 42 True p @ generateOutgoingPacket c 42 True p
   in onReads c (auth_onPacket c record_packet) None [take 5 g, drop 5 g] s =
      Some (Inr (fold (dispatch record_packet) [p, p] s))"
  unfolding Let_def
  by (rule encrypted_end_to_end [where c' = "Crypt_new (replicate 26 1) (replicate 84 1)" and key = 42])
    (auto simp: Crypt_new_def crypt_wf_def demo_session_def packet_new_def record_packet_ok
      intro!: sized_setTcpHeader, auto simp: record_packet_def setTcpHeader_def tcp_initialize_def)

text \<open>End to end, in plain. Between the servers and on the cast connections the same holds
  for the unencrypted packets and the callbacks of the cast server.\<close>

theorem plain_end_to_end:
  assumes "\<not> isUsed (m_crypt s)" "m_isOpen s" "m_reader s = []"
    and "\<And>p. p \<in> set ps \<Longrightarrow> sized p \<and> length (m_data p) < 1442 \<and> callbacks (packet_getOrder p) \<noteq> None"
    and "\<And>n f. callbacks n = Some f \<Longrightarrow> callback_ok f"
    and "concat chunks = concat (map generateOutgoingPacket_plain ps)"
  shows "onReads c (cast_onPacket callbacks) cb chunks s = Some (Inr (fold (dispatch callbacks) ps s))"
proof -
  let ?parse = "\<lambda>d. projr (processIncomingPacket_plain d (of_nat (length d)) packet_new)"
  let ?h = "\<lambda>d. dispatch callbacks (?parse d)"
  have ok: "callback_ok (dispatch callbacks)" using dispatch_ok assms(5) by blast
  have proc: "processIncomingPacket_plain (generateOutgoingPacket_plain p)
      (of_nat (length (generateOutgoingPacket_plain p))) packet_new = Inr p" if "p \<in> set ps" for p
  proof -
    have "4 \<le> unat (of_nat (length (generateOutgoingPacket_plain p)) :: u16)"
      using assms(4) [OF that] by (simp add: unsigned_of_nat take_bit_nat_eq_self del: of_nat_add)
    then show ?thesis
      using process_generated_plain [where rest = "[]" and p = p] assms(4) [OF that] by simp
  qed
  have "onReads c (cast_onPacket callbacks) cb chunks s =
      Some (Inr (fold ?h (map generateOutgoingPacket_plain ps) s\<lparr>m_reader := []\<rparr>))"
  proof (rule reads_whole_packets [where I = "\<lambda>_. True"])
    show "buffer_blind ?h" using ok by (simp add: buffer_blind_def callback_ok_def)
    show "m_isOpen (?h d s) = m_isOpen s" for d s using ok by (simp add: callback_ok_def)
    show "cast_onPacket callbacks d s = Inr (?h d s)" if d: "d \<in> set (map generateOutgoingPacket_plain ps)" for d s
    proof -
      obtain p where p: "p \<in> set ps" "d = generateOutgoingPacket_plain p" using d by auto
      then obtain f where "callbacks (packet_getOrder p) = Some f" using assms(4) by blast
      then show ?thesis
        unfolding cast_onPacket_def dispatch_def p(2) proc [OF p(1)] by simp
    qed
    show "\<forall>f \<in> set (map generateOutgoingPacket_plain ps). whole_packet (KeySetup 0 c) (isUsed (m_crypt s)) f"
      using whole_generated_plain assms(1,4) by auto
  qed (use assms in \<open>simp_all add: unfinished_def\<close>)
  moreover have "fold ?h (map generateOutgoingPacket_plain ps) s = fold (dispatch callbacks) ps s"
    using fold_parsed [of ps ?parse generateOutgoingPacket_plain "dispatch callbacks"] proc by simp
  moreover have "m_reader (fold (dispatch callbacks) ps s) = []"
    using assms(3) by (induction ps arbitrary: s) (simp_all add: callback_ok_reader [OF ok])
  ultimately show ?thesis by (simp add: reader_empty)
qed

theorem plain_end_to_end_witness:
  "let p = setTcpHeader_plain 1 (packet_new\<lparr>m_data := [1, 2, 3]\<rparr>); s = demo_session False [];
       g = generateOutgoingPacket_plain p @ generateOutgoingPacket_plain p
   in onReads (Crypt_new [] []) (cast_onPacket record_packet) None [take 5 g, drop 5 g] s =
      Some (Inr (fold (dispatch record_packet) [p, p] s))"
  unfolding Let_def
  by (rule plain_end_to_end)
    (auto simp: demo_session_def packet_new_def record_packet_ok setTcpHeader_plain_def sized_def
      tcp_initialize_def record_packet_def)

end
